theory Spec2Isabelle
  imports Main "HOL-Library.Word"
begin

unbundle bit_operations_syntax

section \<open>Data model of the OV5640 driver (src/ov5640.c)\<close>

type_synonym u8 = "8 word"
type_synonym u16 = "16 word"
type_synonym u32 = "32 word"

text \<open>
  \<^verbatim>\<open>int32_t\<close> values (status codes, levels) are 32-bit words; where the source compares
  them as signed numbers the model reads them with \<open>sint\<close>.
\<close>

type_synonym i32 = "32 word"

subsection \<open>The header ov5640.h / ov5640_reg.h\<close>

text \<open>
  The driver includes \<^verbatim>\<open>ov5640.h\<close>, which is not among the sources. Every macro of that
  header the modelled functions use is therefore a parameter: the integer macros are the
  fields of the record below, and the register-address macros (\<^verbatim>\<open>OV5640_SDE_CTRL8\<close>,
  \<^verbatim>\<open>OV5640_POLARITY_CTRL\<close>, ...) are looked up by name through \<open>REG\<close>.
  \<open>pdMS_TO_TICKS\<close> is the FreeRTOS macro of that name.
\<close>

record ov5640_h =
  OV5640_OK :: i32
  OV5640_ERROR :: i32
  OV5640_R160x120 :: u32
  OV5640_R320x240 :: u32
  OV5640_R480x272 :: u32
  OV5640_R640x480 :: u32
  OV5640_R800x480 :: u32
  OV5640_RGB565 :: u32
  OV5640_YUV422 :: u32
  OV5640_RGB888 :: u32
  OV5640_Y8 :: u32
  OV5640_JPEG :: u32
  OV5640_POLARITY_PCLK_LOW :: u32
  OV5640_POLARITY_PCLK_HIGH :: u32
  OV5640_POLARITY_HREF_LOW :: u32
  OV5640_POLARITY_HREF_HIGH :: u32
  OV5640_POLARITY_VSYNC_LOW :: u32
  OV5640_POLARITY_VSYNC_HIGH :: u32
  OV5640_MIRROR_FLIP_NONE :: u32
  OV5640_FLIP :: u32
  OV5640_MIRROR :: u32
  OV5640_MIRROR_FLIP :: u32
  SERIAL_MODE :: u32
  pdMS_TO_TICKS :: "u32 \<Rightarrow> u32"
  REG :: "string \<Rightarrow> u16"

subsection \<open>The bus and its log\<close>

text \<open>
  The bus is the caller's: \<^verbatim>\<open>OV5640_IO_t\<close> holds function pointers. In the model the bus
  has a state of an arbitrary type \<open>'b\<close> and each capability maps the state before the
  call to a status and the state after it. Every call site of the driver passes a buffer
  of length 1, so a buffer is one byte: \<open>WriteReg\<close> receives the byte, \<open>ReadReg\<close>
  receives the byte the buffer held before the call and returns the byte it holds after
  it (a read that fails may leave the buffer as it was). \<open>Init\<close> and \<open>DeInit\<close> may be
  null pointers.
\<close>

record 'b OV5640_IO_t =
  Init :: "('b \<Rightarrow> i32 \<times> 'b) option"
  DeInit :: "('b \<Rightarrow> i32 \<times> 'b) option"
  Address :: u16
  WriteReg :: "'b \<Rightarrow> u16 \<Rightarrow> u16 \<Rightarrow> u8 \<Rightarrow> i32 \<times> 'b"
  ReadReg :: "'b \<Rightarrow> u16 \<Rightarrow> u16 \<Rightarrow> u8 \<Rightarrow> i32 \<times> u8 \<times> 'b"
  GetTick :: "'b \<Rightarrow> u32 \<times> 'b"

text \<open>
  The handle \<^verbatim>\<open>OV5640_Object_t\<close>. Its declaration is in the missing header; the fields are
  the ones the source reads and writes. The four tuning codes are bytes (they are OR-ed
  into the \<^verbatim>\<open>uint8_t tmp\<close> that is written to the sensor). The \<^verbatim>\<open>Ctx\<close> member only
  holds the two wrappers below and a pointer back to the handle, so it has no field here.
\<close>

record 'b OV5640_Object_t =
  IO :: "'b OV5640_IO_t"
  IsInitialized :: u8
  Mode :: u32
  VirtualChannelID :: u32
  bright :: u8
  saturation :: u8
  contrast :: u8
  huedegree :: u8

text \<open>
  The log lists the register accesses in the order the driver made them, with the device
  address, the register and, for a write, the byte: a counting stub for "how many writes
  were issued, to which register, with which byte".
\<close>

datatype bus_event =
  BusWrite u16 u16 u8
  | BusRead u16 u16

record 'b world =
  bus :: 'b
  log :: "bus_event list"

fun is_write :: "bus_event \<Rightarrow> bool" where
  "is_write (BusWrite a r v) = True"
| "is_write e = False"

fun is_read :: "bus_event \<Rightarrow> bool" where
  "is_read (BusRead a r) = True"
| "is_read e = False"

definition OV5640_ReadRegWrap ::
  "'b OV5640_Object_t \<Rightarrow> u16 \<Rightarrow> u8 \<Rightarrow> 'b world \<Rightarrow> i32 \<times> u8 \<times> 'b world" where
  "OV5640_ReadRegWrap pObj Reg pData w =
     (case ReadReg (IO pObj) (bus w) (Address (IO pObj)) Reg pData of
        (ret, data, b) \<Rightarrow>
          (ret, data, \<lparr>bus = b, log = log w @ [BusRead (Address (IO pObj)) Reg]\<rparr>))"

definition OV5640_WriteRegWrap ::
  "'b OV5640_Object_t \<Rightarrow> u16 \<Rightarrow> u8 \<Rightarrow> 'b world \<Rightarrow> i32 \<times> 'b world" where
  "OV5640_WriteRegWrap pObj Reg pData w =
     (case WriteReg (IO pObj) (bus w) (Address (IO pObj)) Reg pData of
        (ret, b) \<Rightarrow>
          (ret, \<lparr>bus = b, log = log w @ [BusWrite (Address (IO pObj)) Reg pData]\<rparr>))"

text \<open>
  Modelled from the spec: \<^verbatim>\<open>ov5640_read_reg\<close> and \<^verbatim>\<open>ov5640_write_reg\<close> are defined in
  \<^verbatim>\<open>ov5640_reg.c\<close>, which is not among the sources. The spec says that the driver issues
  "single-byte register writes over the injected bus interface" through the "function-pointer
  table ... set once at registration"; \<^verbatim>\<open>OV5640_RegisterBusIO\<close> sets the context's pointers
  to the two wrappers above, so a register access through the context is one call of the
  wrapper.
\<close>

definition ov5640_read_reg ::
  "'b OV5640_Object_t \<Rightarrow> u16 \<Rightarrow> u8 \<Rightarrow> 'b world \<Rightarrow> i32 \<times> u8 \<times> 'b world" where
  "ov5640_read_reg pObj reg data w = OV5640_ReadRegWrap pObj reg data w"

definition ov5640_write_reg ::
  "'b OV5640_Object_t \<Rightarrow> u16 \<Rightarrow> u8 \<Rightarrow> 'b world \<Rightarrow> i32 \<times> 'b world" where
  "ov5640_write_reg pObj reg data w = OV5640_WriteRegWrap pObj reg data w"

section \<open>Registration\<close>

text \<open>
  \<^verbatim>\<open>OV5640_RegisterBusIO\<close> copies the six members of \<^verbatim>\<open>*pIO\<close>, seeds the four tuning codes
  and calls the bus's \<^verbatim>\<open>Init\<close> when that pointer is not null.
\<close>

definition OV5640_RegisterBusIO ::
  "ov5640_h \<Rightarrow> 'b OV5640_Object_t option \<Rightarrow> 'b OV5640_IO_t \<Rightarrow> 'b world
     \<Rightarrow> i32 \<times> 'b OV5640_Object_t option \<times> 'b world" where
  "OV5640_RegisterBusIO H pObj pIO w =
     (case pObj of
        None \<Rightarrow> (OV5640_ERROR H, None, w)
      | Some obj \<Rightarrow>
          (let obj' = obj\<lparr>IO := pIO, bright := 0x01, saturation := 0x41,
                            contrast := 0x41, huedegree := 0x32\<rparr>
           in case Init (IO obj') of
                Some init \<Rightarrow> (case init (bus w) of (ret, b) \<Rightarrow> (ret, Some obj', w\<lparr>bus := b\<rparr>))
              | None \<Rightarrow> (OV5640_ERROR H, Some obj', w)))"

section \<open>Polarities\<close>

text \<open>
  \<^verbatim>\<open>OV5640_SetPolarities\<close>. The handle may be a null pointer (\<open>None\<close>). In
  \<^verbatim>\<open>tmp = (uint8_t)(PclkPolarity << 5U) | (HrefPolarity << 1U) | VsyncPolarity\<close> the cast
  binds to the first operand only; the assignment to \<^verbatim>\<open>uint8_t tmp\<close> truncates the whole.
\<close>

definition OV5640_SetPolarities ::
  "ov5640_h \<Rightarrow> 'b OV5640_Object_t option \<Rightarrow> u32 \<Rightarrow> u32 \<Rightarrow> u32 \<Rightarrow> 'b world \<Rightarrow> i32 \<times> 'b world" where
  "OV5640_SetPolarities H pObj PclkPolarity HrefPolarity VsyncPolarity w =
     (case pObj of
        None \<Rightarrow> (OV5640_ERROR H, w)
      | Some obj \<Rightarrow>
          if (PclkPolarity \<noteq> OV5640_POLARITY_PCLK_LOW H \<and> PclkPolarity \<noteq> OV5640_POLARITY_PCLK_HIGH H)
             \<or> (HrefPolarity \<noteq> OV5640_POLARITY_HREF_LOW H \<and> HrefPolarity \<noteq> OV5640_POLARITY_HREF_HIGH H)
             \<or> (VsyncPolarity \<noteq> OV5640_POLARITY_VSYNC_LOW H \<and> VsyncPolarity \<noteq> OV5640_POLARITY_VSYNC_HIGH H)
          then (OV5640_ERROR H, w)
          else
            (let tmp = (ucast ((ucast ((ucast (push_bit 5 PclkPolarity)) :: u8) :: u32)
                               OR push_bit 1 HrefPolarity OR VsyncPolarity) :: u8)
             in case ov5640_write_reg obj (REG H ''OV5640_POLARITY_CTRL'') tmp w of
                  (r, w') \<Rightarrow> if r \<noteq> OV5640_OK H then (OV5640_ERROR H, w') else (OV5640_OK H, w')))"

text \<open>The three arguments are each one of the two values accepted for their axis.\<close>

definition polarities_accepted :: "ov5640_h \<Rightarrow> u32 \<Rightarrow> u32 \<Rightarrow> u32 \<Rightarrow> bool" where
  "polarities_accepted H p h v \<longleftrightarrow>
     (p = OV5640_POLARITY_PCLK_LOW H \<or> p = OV5640_POLARITY_PCLK_HIGH H)
   \<and> (h = OV5640_POLARITY_HREF_LOW H \<or> h = OV5640_POLARITY_HREF_HIGH H)
   \<and> (v = OV5640_POLARITY_VSYNC_LOW H \<or> v = OV5640_POLARITY_VSYNC_HIGH H)"

section \<open>Non-blocking autofocus commands\<close>

definition OV5640_Focus_Send_Single :: "ov5640_h \<Rightarrow> 'b OV5640_Object_t \<Rightarrow> 'b world \<Rightarrow> i32 \<times> 'b world" where
  "OV5640_Focus_Send_Single H pObj w =
     (case ov5640_write_reg pObj 0x3022 0x03 w of
        (r, w1) \<Rightarrow> (OV5640_OK H, w1))"

definition OV5640_Focus_Send_Constant_IDLE :: "ov5640_h \<Rightarrow> 'b OV5640_Object_t \<Rightarrow> 'b world \<Rightarrow> i32 \<times> 'b world" where
  "OV5640_Focus_Send_Constant_IDLE H pObj w =
     (case ov5640_write_reg pObj 0x3023 0x01 w of
        (r1, w1) \<Rightarrow>
          (case ov5640_write_reg pObj 0x3022 0x08 w1 of
             (r2, w2) \<Rightarrow> (OV5640_OK H, w2)))"

definition OV5640_Focus_Send_Constant_Focus :: "ov5640_h \<Rightarrow> 'b OV5640_Object_t \<Rightarrow> 'b world \<Rightarrow> i32 \<times> 'b world" where
  "OV5640_Focus_Send_Constant_Focus H pObj w =
     (case ov5640_write_reg pObj 0x3023 0x01 w of
        (r1, w1) \<Rightarrow>
          (case ov5640_write_reg pObj 0x3022 0x04 w1 of
             (r2, w2) \<Rightarrow> (OV5640_OK H, w2)))"

section \<open>Image tuning\<close>

text \<open>
  A C array subscript. Reading outside the array is undefined behaviour: the model makes
  it a fault instead of a value, so that a function whose subscript is out of range
  returns \<open>Inl (OutOfBounds, w)\<close> with the world at the moment of the access.
\<close>

datatype fault = OutOfBounds

definition in_bounds :: "'a list \<Rightarrow> int \<Rightarrow> bool" where
  "in_bounds tbl idx \<longleftrightarrow> 0 \<le> idx \<and> idx < int (length tbl)"

definition subscript :: "'a list \<Rightarrow> int \<Rightarrow> 'a option" where
  "subscript tbl idx = (if in_bounds tbl idx then Some (tbl ! nat idx) else None)"

definition brightness_level :: "u8 list" where
  "brightness_level = [0x40, 0x30, 0x20, 0x10, 0x00, 0x10, 0x20, 0x30, 0x40]"

definition saturation_level :: "u8 list" where
  "saturation_level = [0x00, 0x10, 0x20, 0x30, 0x40, 0x50, 0x60, 0x70, 0x80]"

definition contrast_level :: "u8 list" where
  "contrast_level = [0x10, 0x14, 0x18, 0x1C, 0x20, 0x24, 0x28, 0x2C, 0x30]"

definition hue_degree_ctrl1 :: "u8 list" where
  "hue_degree_ctrl1 = [0x80, 0x6F, 0x40, 0x00, 0x40, 0x6F, 0x80, 0x6F, 0x40, 0x00, 0x40, 0x6F]"

definition hue_degree_ctrl2 :: "u8 list" where
  "hue_degree_ctrl2 = [0x00, 0x40, 0x6F, 0x80, 0x6F, 0x40, 0x00, 0x40, 0x6F, 0x80, 0x6F, 0x40]"

definition hue_degree_ctrl8 :: "u8 list" where
  "hue_degree_ctrl8 = [0x32, 0x32, 0x32, 0x02, 0x02, 0x02, 0x01, 0x01, 0x01, 0x31, 0x31, 0x31]"

text \<open>The composite byte \<^verbatim>\<open>pObj->contrast | pObj->bright | pObj->huedegree | pObj->saturation\<close>.\<close>

definition composite :: "'b OV5640_Object_t \<Rightarrow> u8" where
  "composite pObj = contrast pObj OR bright pObj OR huedegree pObj OR saturation pObj"

type_synonym 'b tuning_result = "(fault \<times> 'b world) + (i32 \<times> 'b OV5640_Object_t \<times> 'b world)"

text \<open>
  \<^verbatim>\<open>OV5640_SetBrightness\<close>. The source is a row of \<^verbatim>\<open>if (ret == OV5640_OK)\<close> blocks; a block
  that is skipped leaves \<^verbatim>\<open>ret\<close> as it is and so are all the later ones, hence the nesting.
\<close>

definition OV5640_SetBrightness :: "ov5640_h \<Rightarrow> 'b OV5640_Object_t \<Rightarrow> i32 \<Rightarrow> 'b world \<Rightarrow> 'b tuning_result" where
  "OV5640_SetBrightness H pObj Level w =
     (case ov5640_write_reg pObj (REG H ''OV5640_ISP_CONTROL01'') 0xFF w of
        (ret1, w1) \<Rightarrow>
          if ret1 \<noteq> OV5640_OK H then Inr (ret1, pObj, w1)
          else
            (case subscript brightness_level (sint Level + 4) of
               None \<Rightarrow> Inl (OutOfBounds, w1)
             | Some tmp \<Rightarrow>
                 (case ov5640_write_reg pObj (REG H ''OV5640_SDE_CTRL7'') tmp w1 of
                    (ret2, w2) \<Rightarrow>
                      if ret2 \<noteq> OV5640_OK H then Inr (ret2, pObj, w2)
                      else
                        (case ov5640_write_reg pObj (REG H ''OV5640_SDE_CTRL0'') 0x07 w2 of
                           (ret3, w3) \<Rightarrow>
                             if ret3 \<noteq> OV5640_OK H then Inr (ret3, pObj, w3)
                             else if sint Level < 0 then
                               (let pObj' = pObj\<lparr>bright := 0x01\<rparr>
                                in case ov5640_write_reg pObj' (REG H ''OV5640_SDE_CTRL8'') (composite pObj') w3 of
                                     (r4, w4) \<Rightarrow>
                                       Inr (if r4 \<noteq> OV5640_OK H then OV5640_ERROR H else ret3, pObj', w4))
                             else
                               (let pObj' = pObj\<lparr>bright := 0x09\<rparr>
                                in case ov5640_write_reg pObj' (REG H ''OV5640_SDE_CTRL8'') (composite pObj') w3 of
                                     (r4, w4) \<Rightarrow>
                                       Inr (if r4 \<noteq> OV5640_OK H then OV5640_ERROR H else ret3, pObj', w4))))))"

text \<open>The closing \<^verbatim>\<open>if (ret != OV5640_OK) ret = OV5640_ERROR\<close> of the other three setters.\<close>

definition as_status :: "ov5640_h \<Rightarrow> i32 \<Rightarrow> i32" where
  "as_status H ret = (if ret \<noteq> OV5640_OK H then OV5640_ERROR H else ret)"

definition OV5640_SetSaturation :: "ov5640_h \<Rightarrow> 'b OV5640_Object_t \<Rightarrow> i32 \<Rightarrow> 'b world \<Rightarrow> 'b tuning_result" where
  "OV5640_SetSaturation H pObj Level w =
     (case ov5640_write_reg pObj (REG H ''OV5640_ISP_CONTROL01'') 0xFF w of
        (ret1, w1) \<Rightarrow>
          if ret1 \<noteq> OV5640_OK H then Inr (as_status H ret1, pObj, w1)
          else
            (case subscript saturation_level (sint Level + 4) of
               None \<Rightarrow> Inl (OutOfBounds, w1)
             | Some tmp \<Rightarrow>
                 (case ov5640_write_reg pObj (REG H ''OV5640_SDE_CTRL3'') tmp w1 of
                    (ret2, w2) \<Rightarrow>
                      if ret2 \<noteq> OV5640_OK H then Inr (as_status H ret2, pObj, w2)
                      else
                        (case ov5640_write_reg pObj (REG H ''OV5640_SDE_CTRL4'') tmp w2 of
                           (ret3, w3) \<Rightarrow>
                             if ret3 \<noteq> OV5640_OK H then Inr (as_status H ret3, pObj, w3)
                             else
                               (case ov5640_write_reg pObj (REG H ''OV5640_SDE_CTRL0'') 0x07 w3 of
                                  (ret4, w4) \<Rightarrow>
                                    if ret4 \<noteq> OV5640_OK H then Inr (as_status H ret4, pObj, w4)
                                    else
                                      (let pObj' = pObj\<lparr>saturation := 0x41\<rparr>
                                       in case ov5640_write_reg pObj' (REG H ''OV5640_SDE_CTRL8'') (composite pObj') w4 of
                                            (ret5, w5) \<Rightarrow> Inr (as_status H ret5, pObj', w5)))))))"

definition OV5640_SetContrast :: "ov5640_h \<Rightarrow> 'b OV5640_Object_t \<Rightarrow> i32 \<Rightarrow> 'b world \<Rightarrow> 'b tuning_result" where
  "OV5640_SetContrast H pObj Level w =
     (case ov5640_write_reg pObj (REG H ''OV5640_ISP_CONTROL01'') 0xFF w of
        (ret1, w1) \<Rightarrow>
          if ret1 \<noteq> OV5640_OK H then Inr (as_status H ret1, pObj, w1)
          else
            (case ov5640_write_reg pObj (REG H ''OV5640_SDE_CTRL0'') 0x07 w1 of
               (ret2, w2) \<Rightarrow>
                 if ret2 \<noteq> OV5640_OK H then Inr (as_status H ret2, pObj, w2)
                 else
                   (case subscript contrast_level (sint Level + 4) of
                      None \<Rightarrow> Inl (OutOfBounds, w2)
                    | Some tmp \<Rightarrow>
                        (case ov5640_write_reg pObj (REG H ''OV5640_SDE_CTRL6'') tmp w2 of
                           (ret3, w3) \<Rightarrow>
                             if ret3 \<noteq> OV5640_OK H then Inr (as_status H ret3, pObj, w3)
                             else
                               (case ov5640_write_reg pObj (REG H ''OV5640_SDE_CTRL5'') tmp w3 of
                                  (ret4, w4) \<Rightarrow>
                                    if ret4 \<noteq> OV5640_OK H then Inr (as_status H ret4, pObj, w4)
                                    else
                                      (let pObj' = pObj\<lparr>contrast := 0x41\<rparr>
                                       in case ov5640_write_reg pObj' (REG H ''OV5640_SDE_CTRL8'') (composite pObj') w4 of
                                            (ret5, w5) \<Rightarrow> Inr (as_status H ret5, pObj', w5)))))))"

definition OV5640_SetHueDegree :: "ov5640_h \<Rightarrow> 'b OV5640_Object_t \<Rightarrow> i32 \<Rightarrow> 'b world \<Rightarrow> 'b tuning_result" where
  "OV5640_SetHueDegree H pObj Degree w =
     (case ov5640_write_reg pObj (REG H ''OV5640_ISP_CONTROL01'') 0xFF w of
        (ret1, w1) \<Rightarrow>
          if ret1 \<noteq> OV5640_OK H then Inr (as_status H ret1, pObj, w1)
          else
            (case ov5640_write_reg pObj (REG H ''OV5640_SDE_CTRL0'') 0x07 w1 of
               (ret2, w2) \<Rightarrow>
                 if ret2 \<noteq> OV5640_OK H then Inr (as_status H ret2, pObj, w2)
                 else
                   (case subscript hue_degree_ctrl1 (sint Degree + 6) of
                      None \<Rightarrow> Inl (OutOfBounds, w2)
                    | Some tmp1 \<Rightarrow>
                        (case ov5640_write_reg pObj (REG H ''OV5640_SDE_CTRL1'') tmp1 w2 of
                           (ret3, w3) \<Rightarrow>
                             if ret3 \<noteq> OV5640_OK H then Inr (as_status H ret3, pObj, w3)
                             else
                               (case subscript hue_degree_ctrl2 (sint Degree + 6) of
                                  None \<Rightarrow> Inl (OutOfBounds, w3)
                                | Some tmp2 \<Rightarrow>
                                    (case ov5640_write_reg pObj (REG H ''OV5640_SDE_CTRL2'') tmp2 w3 of
                                       (ret4, w4) \<Rightarrow>
                                         if ret4 \<noteq> OV5640_OK H then Inr (as_status H ret4, pObj, w4)
                                         else
                                           (case subscript hue_degree_ctrl8 (sint Degree + 6) of
                                              None \<Rightarrow> Inl (OutOfBounds, w4)
                                            | Some code \<Rightarrow>
                                                (let pObj' = pObj\<lparr>huedegree := code\<rparr>
                                                 in case ov5640_write_reg pObj' (REG H ''OV5640_SDE_CTRL8'') (composite pObj') w4 of
                                                      (ret5, w5) \<Rightarrow> Inr (as_status H ret5, pObj', w5)))))))))"

text \<open>
  The last register access in the log is the write of the OR of the handle's four codes to
  \<^verbatim>\<open>OV5640_SDE_CTRL8\<close>.
\<close>

definition wrote_composite :: "ov5640_h \<Rightarrow> 'b OV5640_Object_t \<Rightarrow> 'b world \<Rightarrow> bool" where
  "wrote_composite H pObj w \<longleftrightarrow>
     log w \<noteq> [] \<and>
     last (log w) =
       BusWrite (Address (IO pObj)) (REG H ''OV5640_SDE_CTRL8'')
         (contrast pObj OR bright pObj OR huedegree pObj OR saturation pObj)"

section \<open>Mirror and flip\<close>

text \<open>
  \<^verbatim>\<open>OV5640_MirrorFlipConfig\<close>. \<^verbatim>\<open>tmp3821\<close> is not initialised in the source; the model starts
  it from 0, as \<^verbatim>\<open>tmp3820\<close>. The \<^verbatim>\<open>switch\<close> is the chain of its cases in the source's order.
\<close>

definition write_reg20_reg21 ::
  "ov5640_h \<Rightarrow> 'b OV5640_Object_t \<Rightarrow> u8 \<Rightarrow> u8 \<Rightarrow> 'b world \<Rightarrow> i32 \<times> 'b world" where
  "write_reg20_reg21 H pObj tmp3820 tmp3821 w =
     (case ov5640_write_reg pObj (REG H ''OV5640_TIMING_TC_REG20'') tmp3820 w of
        (r1, w1) \<Rightarrow>
          if r1 \<noteq> OV5640_OK H then (OV5640_ERROR H, w1)
          else
            (case ov5640_write_reg pObj (REG H ''OV5640_TIMING_TC_REG21'') tmp3821 w1 of
               (r2, w2) \<Rightarrow> if r2 \<noteq> OV5640_OK H then (OV5640_ERROR H, w2) else (OV5640_OK H, w2)))"

definition OV5640_MirrorFlipConfig :: "ov5640_h \<Rightarrow> 'b OV5640_Object_t \<Rightarrow> u32 \<Rightarrow> 'b world \<Rightarrow> i32 \<times> 'b world" where
  "OV5640_MirrorFlipConfig H pObj Config w =
     (case ov5640_read_reg pObj (REG H ''OV5640_TIMING_TC_REG20'') 0 w of
        (r1, v3820, w1) \<Rightarrow>
          if r1 \<noteq> OV5640_OK H then (OV5640_ERROR H, w1)
          else
            (let tmp3820 = v3820 AND 0xF9
             in case ov5640_read_reg pObj (REG H ''OV5640_TIMING_TC_REG21'') 0 w1 of
                  (r2, v3821, w2) \<Rightarrow>
                    if r2 \<noteq> OV5640_OK H then (OV5640_ERROR H, w2)
                    else
                      (let tmp3821 = v3821 AND 0xF9
                       in if Config = OV5640_MIRROR H then
                            write_reg20_reg21 H pObj tmp3820 (tmp3821 OR 0x06) w2
                          else if Config = OV5640_FLIP H then
                            write_reg20_reg21 H pObj (tmp3820 OR 0x06) tmp3821 w2
                          else if Config = OV5640_MIRROR_FLIP H then
                            write_reg20_reg21 H pObj (tmp3820 OR 0x06) (tmp3821 OR 0x06) w2
                          else
                            write_reg20_reg21 H pObj tmp3820 tmp3821 w2)))"

text \<open>
  The bytes the four cases write back, as functions of the bytes read: bits 2:1 are
  cleared, and set again in register 0x3820 for flip and in register 0x3821 for mirror.
\<close>

definition mirror_flip_reg20 :: "ov5640_h \<Rightarrow> u32 \<Rightarrow> u8 \<Rightarrow> u8" where
  "mirror_flip_reg20 H Config v3820 =
     (if Config = OV5640_MIRROR H then v3820 AND 0xF9
      else if Config = OV5640_FLIP H then (v3820 AND 0xF9) OR 0x06
      else if Config = OV5640_MIRROR_FLIP H then (v3820 AND 0xF9) OR 0x06
      else v3820 AND 0xF9)"

definition mirror_flip_reg21 :: "ov5640_h \<Rightarrow> u32 \<Rightarrow> u8 \<Rightarrow> u8" where
  "mirror_flip_reg21 H Config v3821 =
     (if Config = OV5640_MIRROR H then (v3821 AND 0xF9) OR 0x06
      else if Config = OV5640_FLIP H then v3821 AND 0xF9
      else if Config = OV5640_MIRROR_FLIP H then (v3821 AND 0xF9) OR 0x06
      else v3821 AND 0xF9)"

section \<open>Register tables and the loops that apply them\<close>

text \<open>
  A register table is a \<^verbatim>\<open>uint16_t [][2]\<close>: rows of an address and a value; the value is cast
  to \<^verbatim>\<open>uint8_t\<close> when it is written. The source applies tables with three kinds of loop.

  The first kind (\<^verbatim>\<open>OV5640_Init\<close>, \<^verbatim>\<open>OV5640_SetResolution\<close>) visits every row but writes
  only while \<^verbatim>\<open>ret != OV5640_ERROR\<close>:
  \<^verbatim>\<open>for (...) { if (ret != OV5640_ERROR) { tmp = ...; if (write(...) != OV5640_OK) ret = OV5640_ERROR; } }\<close>
\<close>

type_synonym reg_tbl = "(u16 \<times> u16) list"

text \<open>The writes of a whole table to the device at \<open>a\<close>: one per row, in the order of the rows.\<close>

definition table_writes :: "u16 \<Rightarrow> reg_tbl \<Rightarrow> bus_event list" where
  "table_writes a tbl = map (\<lambda>row. BusWrite a (fst row) (ucast (snd row))) tbl"

fun write_tbl_guarded ::
  "ov5640_h \<Rightarrow> 'b OV5640_Object_t \<Rightarrow> reg_tbl \<Rightarrow> i32 \<times> 'b world \<Rightarrow> i32 \<times> 'b world" where
  "write_tbl_guarded H pObj [] (ret, w) = (ret, w)"
| "write_tbl_guarded H pObj (row # rows) (ret, w) =
     (if ret \<noteq> OV5640_ERROR H then
        (case ov5640_write_reg pObj (fst row) (ucast (snd row)) w of
           (r, w1) \<Rightarrow>
             if r \<noteq> OV5640_OK H then write_tbl_guarded H pObj rows (OV5640_ERROR H, w1)
             else write_tbl_guarded H pObj rows (ret, w1))
      else write_tbl_guarded H pObj rows (ret, w))"

text \<open>
  The second kind (\<^verbatim>\<open>OV5640_EnableDVPMode\<close>, \<^verbatim>\<open>OV5640_EnableMIPIMode\<close>) leaves the loop at
  the first failure:
  \<^verbatim>\<open>for (...) { tmp = ...; if (write(...) != OV5640_OK) { ret = OV5640_ERROR; break; } }\<close>
\<close>

fun write_tbl_break ::
  "ov5640_h \<Rightarrow> 'b OV5640_Object_t \<Rightarrow> reg_tbl \<Rightarrow> i32 \<times> 'b world \<Rightarrow> i32 \<times> 'b world" where
  "write_tbl_break H pObj [] (ret, w) = (ret, w)"
| "write_tbl_break H pObj (row # rows) (ret, w) =
     (case ov5640_write_reg pObj (fst row) (ucast (snd row)) w of
        (r, w1) \<Rightarrow>
          if r \<noteq> OV5640_OK H then (OV5640_ERROR H, w1)
          else write_tbl_break H pObj rows (ret, w1))"

text \<open>
  The third kind (\<^verbatim>\<open>OV5640_OutSize_Set\<close>, \<^verbatim>\<open>OV5640_ImageWin_Set\<close>, \<^verbatim>\<open>OV5640_JPEG_Mode\<close>,
  \<^verbatim>\<open>OV5640_RGB565_Mode\<close>) has neither the test of \<^verbatim>\<open>ret\<close> nor a \<^verbatim>\<open>break\<close>:
  \<^verbatim>\<open>for (...) { tmp = ...; if (write(...) != OV5640_OK) ret = OV5640_ERROR; }\<close>
\<close>

fun write_tbl_all ::
  "ov5640_h \<Rightarrow> 'b OV5640_Object_t \<Rightarrow> reg_tbl \<Rightarrow> i32 \<times> 'b world \<Rightarrow> i32 \<times> 'b world" where
  "write_tbl_all H pObj [] (ret, w) = (ret, w)"
| "write_tbl_all H pObj (row # rows) (ret, w) =
     (case ov5640_write_reg pObj (fst row) (ucast (snd row)) w of
        (r, w1) \<Rightarrow>
          if r \<noteq> OV5640_OK H then write_tbl_all H pObj rows (OV5640_ERROR H, w1)
          else write_tbl_all H pObj rows (ret, w1))"

subsection \<open>Delay\<close>

text \<open>
  \<^verbatim>\<open>OV5640_Delay\<close> waits until the bus tick has advanced by \<^verbatim>\<open>Delay\<close>:
  \<^verbatim>\<open>tickstart = GetTick(); while ((GetTick() - tickstart) < Delay) { }\<close>.
  With a tick that does not advance the loop never ends; the result \<open>None\<close> stands for
  that. The subtraction is that of \<^verbatim>\<open>uint32_t\<close>.
\<close>

partial_function (option) Delay_wait ::
  "'b OV5640_Object_t \<Rightarrow> u32 \<Rightarrow> u32 \<Rightarrow> 'b world \<Rightarrow> 'b world option" where
  "Delay_wait pObj tickstart Delay w =
     (case GetTick (IO pObj) (bus w) of
        (t, b) \<Rightarrow>
          if t - tickstart < Delay then Delay_wait pObj tickstart Delay (w\<lparr>bus := b\<rparr>)
          else Some (w\<lparr>bus := b\<rparr>))"

definition OV5640_Delay ::
  "ov5640_h \<Rightarrow> 'b OV5640_Object_t \<Rightarrow> u32 \<Rightarrow> 'b world \<Rightarrow> (i32 \<times> 'b world) option" where
  "OV5640_Delay H pObj Delay w =
     (case GetTick (IO pObj) (bus w) of
        (tickstart, b) \<Rightarrow>
          (case Delay_wait pObj tickstart Delay (w\<lparr>bus := b\<rparr>) of
             None \<Rightarrow> None
           | Some w' \<Rightarrow> Some (OV5640_OK H, w')))"

section \<open>Pixel format\<close>

text \<open>
  The loops of \<^verbatim>\<open>OV5640_SetPixelFormat\<close> are of the first kind, with a delay of 1 ms after
  each successful write. They leave the last value written in \<^verbatim>\<open>tmp\<close>, which is the buffer
  of the reads that follow for JPEG; \<^verbatim>\<open>tmp\<close> is not initialised and starts from 0 here.
\<close>

fun write_tbl_guarded_delay ::
  "ov5640_h \<Rightarrow> 'b OV5640_Object_t \<Rightarrow> reg_tbl \<Rightarrow> i32 \<times> u8 \<times> 'b world \<Rightarrow> (i32 \<times> u8 \<times> 'b world) option" where
  "write_tbl_guarded_delay H pObj [] (ret, tmp, w) = Some (ret, tmp, w)"
| "write_tbl_guarded_delay H pObj (row # rows) (ret, tmp, w) =
     (if ret \<noteq> OV5640_ERROR H then
        (case ov5640_write_reg pObj (fst row) (ucast (snd row)) w of
           (r, w1) \<Rightarrow>
             if r \<noteq> OV5640_OK H then
               write_tbl_guarded_delay H pObj rows (OV5640_ERROR H, ucast (snd row), w1)
             else
               (case OV5640_Delay H pObj 1 w1 of
                  None \<Rightarrow> None
                | Some (d, w2) \<Rightarrow> write_tbl_guarded_delay H pObj rows (ret, ucast (snd row), w2)))
      else write_tbl_guarded_delay H pObj rows (ret, tmp, w))"

definition OV5640_PF_RGB565 :: "ov5640_h \<Rightarrow> (u16 \<times> u16) list" where
  "OV5640_PF_RGB565 H =
     [(REG H ''OV5640_FORMAT_CTRL00'', 0x6F),
      (REG H ''OV5640_FORMAT_MUX_CTRL'', 0x01)]"

definition OV5640_PF_YUV422 :: "ov5640_h \<Rightarrow> (u16 \<times> u16) list" where
  "OV5640_PF_YUV422 H =
     [(REG H ''OV5640_FORMAT_CTRL00'', 0x30),
      (REG H ''OV5640_FORMAT_MUX_CTRL'', 0x00)]"

definition OV5640_PF_RGB888 :: "ov5640_h \<Rightarrow> (u16 \<times> u16) list" where
  "OV5640_PF_RGB888 H =
     [(REG H ''OV5640_FORMAT_CTRL00'', 0x23),
      (REG H ''OV5640_FORMAT_MUX_CTRL'', 0x01)]"

definition OV5640_PF_Y8 :: "ov5640_h \<Rightarrow> (u16 \<times> u16) list" where
  "OV5640_PF_Y8 H =
     [(REG H ''OV5640_FORMAT_CTRL00'', 0x10),
      (REG H ''OV5640_FORMAT_MUX_CTRL'', 0x00)]"

definition OV5640_PF_JPEG :: "ov5640_h \<Rightarrow> (u16 \<times> u16) list" where
  "OV5640_PF_JPEG H =
     [(REG H ''OV5640_FORMAT_CTRL00'', 0x30),
      (REG H ''OV5640_FORMAT_MUX_CTRL'', 0x00)]"

text \<open>The three read-modify-write patches of the JPEG case.\<close>

definition jpeg_patches ::
  "ov5640_h \<Rightarrow> 'b OV5640_Object_t \<Rightarrow> i32 \<times> u8 \<times> 'b world \<Rightarrow> i32 \<times> 'b world" where
  "jpeg_patches H pObj s =
     (case s of
        (ret, tmp, w) \<Rightarrow>
          (case ov5640_read_reg pObj (REG H ''OV5640_TIMING_TC_REG21'') tmp w of
             (r1, t1, w1) \<Rightarrow>
               if r1 \<noteq> OV5640_OK H then (OV5640_ERROR H, w1)
               else
                 (case ov5640_write_reg pObj (REG H ''OV5640_TIMING_TC_REG21'') (t1 OR 0x20) w1 of
                    (r2, w2) \<Rightarrow>
                      if r2 \<noteq> OV5640_OK H then (OV5640_ERROR H, w2)
                      else
                        (case ov5640_read_reg pObj (REG H ''OV5640_SYSREM_RESET02'') (t1 OR 0x20) w2 of
                           (r3, t3, w3) \<Rightarrow>
                             if r3 \<noteq> OV5640_OK H then (OV5640_ERROR H, w3)
                             else
                               (case ov5640_write_reg pObj (REG H ''OV5640_SYSREM_RESET02'') (t3 AND 0xE3) w3 of
                                  (r4, w4) \<Rightarrow>
                                    if r4 \<noteq> OV5640_OK H then (OV5640_ERROR H, w4)
                                    else
                                      (case ov5640_read_reg pObj (REG H ''OV5640_CLOCK_ENABLE02'') (t3 AND 0xE3) w4 of
                                         (r5, t5, w5) \<Rightarrow>
                                           if r5 \<noteq> OV5640_OK H then (OV5640_ERROR H, w5)
                                           else
                                             (case ov5640_write_reg pObj (REG H ''OV5640_CLOCK_ENABLE02'') (t5 OR 0x28) w5 of
                                                (r6, w6) \<Rightarrow>
                                                  if r6 \<noteq> OV5640_OK H then (OV5640_ERROR H, w6)
                                                  else (ret, w6))))))))"

definition OV5640_SetPixelFormat ::
  "ov5640_h \<Rightarrow> 'b OV5640_Object_t \<Rightarrow> u32 \<Rightarrow> 'b world \<Rightarrow> (i32 \<times> 'b world) option" where
  "OV5640_SetPixelFormat H pObj PixelFormat w =
     (if PixelFormat \<noteq> OV5640_RGB565 H \<and> PixelFormat \<noteq> OV5640_YUV422 H
         \<and> PixelFormat \<noteq> OV5640_RGB888 H \<and> PixelFormat \<noteq> OV5640_Y8 H
         \<and> PixelFormat \<noteq> OV5640_JPEG H
      then Some (OV5640_ERROR H, w)
      else
        (case write_tbl_guarded_delay H pObj
                (if PixelFormat = OV5640_YUV422 H then OV5640_PF_YUV422 H
                 else if PixelFormat = OV5640_RGB888 H then OV5640_PF_RGB888 H
                 else if PixelFormat = OV5640_Y8 H then OV5640_PF_Y8 H
                 else if PixelFormat = OV5640_JPEG H then OV5640_PF_JPEG H
                 else OV5640_PF_RGB565 H)
                (OV5640_OK H, 0, w) of
           None \<Rightarrow> None
         | Some (ret, tmp, w1) \<Rightarrow>
             if PixelFormat = OV5640_JPEG H then Some (jpeg_patches H pObj (ret, tmp, w1))
             else Some (ret, w1)))"

section \<open>Resolution\<close>

definition OV5640_WVGA :: "ov5640_h \<Rightarrow> (u16 \<times> u16) list" where
  "OV5640_WVGA H =
     [(REG H ''OV5640_TIMING_DVPHO_HIGH'', 0x03),
      (REG H ''OV5640_TIMING_DVPHO_LOW'', 0x20),
      (REG H ''OV5640_TIMING_DVPVO_HIGH'', 0x01),
      (REG H ''OV5640_TIMING_DVPVO_LOW'', 0xE0)]"

definition OV5640_VGA :: "ov5640_h \<Rightarrow> (u16 \<times> u16) list" where
  "OV5640_VGA H =
     [(REG H ''OV5640_TIMING_DVPHO_HIGH'', 0x02),
      (REG H ''OV5640_TIMING_DVPHO_LOW'', 0x80),
      (REG H ''OV5640_TIMING_DVPVO_HIGH'', 0x01),
      (REG H ''OV5640_TIMING_DVPVO_LOW'', 0xE0)]"

definition OV5640_480x272 :: "ov5640_h \<Rightarrow> (u16 \<times> u16) list" where
  "OV5640_480x272 H =
     [(REG H ''OV5640_TIMING_DVPHO_HIGH'', 0x01),
      (REG H ''OV5640_TIMING_DVPHO_LOW'', 0xE0),
      (REG H ''OV5640_TIMING_DVPVO_HIGH'', 0x01),
      (REG H ''OV5640_TIMING_DVPVO_LOW'', 0x10)]"

definition OV5640_QVGA :: "ov5640_h \<Rightarrow> (u16 \<times> u16) list" where
  "OV5640_QVGA H =
     [(REG H ''OV5640_TIMING_DVPHO_HIGH'', 0x01),
      (REG H ''OV5640_TIMING_DVPHO_LOW'', 0x40),
      (REG H ''OV5640_TIMING_DVPVO_HIGH'', 0x00),
      (REG H ''OV5640_TIMING_DVPVO_LOW'', 0xF0)]"

definition OV5640_QQVGA :: "ov5640_h \<Rightarrow> (u16 \<times> u16) list" where
  "OV5640_QQVGA H =
     [(REG H ''OV5640_TIMING_DVPHO_HIGH'', 0x00),
      (REG H ''OV5640_TIMING_DVPHO_LOW'', 0xA0),
      (REG H ''OV5640_TIMING_DVPVO_HIGH'', 0x00),
      (REG H ''OV5640_TIMING_DVPVO_LOW'', 0x78)]"

definition OV5640_SetResolution ::
  "ov5640_h \<Rightarrow> 'b OV5640_Object_t \<Rightarrow> u32 \<Rightarrow> 'b world \<Rightarrow> i32 \<times> 'b world" where
  "OV5640_SetResolution H pObj Resolution w =
     (if Resolution > OV5640_R800x480 H then (OV5640_ERROR H, w)
      else if Resolution = OV5640_R160x120 H then
        write_tbl_guarded H pObj (OV5640_QQVGA H) (OV5640_OK H, w)
      else if Resolution = OV5640_R320x240 H then
        write_tbl_guarded H pObj (OV5640_QVGA H) (OV5640_OK H, w)
      else if Resolution = OV5640_R480x272 H then
        write_tbl_guarded H pObj (OV5640_480x272 H) (OV5640_OK H, w)
      else if Resolution = OV5640_R640x480 H then
        write_tbl_guarded H pObj (OV5640_VGA H) (OV5640_OK H, w)
      else if Resolution = OV5640_R800x480 H then
        write_tbl_guarded H pObj (OV5640_WVGA H) (OV5640_OK H, w)
      else (OV5640_ERROR H, w))"

section \<open>Parallel and serial output\<close>

definition EnableDVPMode_regs :: "ov5640_h \<Rightarrow> (u16 \<times> u16) list" where
  "EnableDVPMode_regs H =
     [(REG H ''OV5640_PAD_OUTPUT_ENABLE01'', 0xFF),
      (REG H ''OV5640_PAD_OUTPUT_ENABLE02'', 0xF3),
      (0x302E, 0x00),
      (0x471C, 0x50),
      (REG H ''OV5640_MIPI_CONTROL00'', 0x58),
      (REG H ''OV5640_SC_PLL_CONTRL0'', 0x18),
      (REG H ''OV5640_SC_PLL_CONTRL1'', 0x41),
      (REG H ''OV5640_SC_PLL_CONTRL2'', 0x60),
      (REG H ''OV5640_SC_PLL_CONTRL3'', 0x13),
      (REG H ''OV5640_SYSTEM_ROOT_DIVIDER'', 0x01)]"

definition EnableMIPIMode_regs :: "ov5640_h \<Rightarrow> (u16 \<times> u16) list" where
  "EnableMIPIMode_regs H =
     [(REG H ''OV5640_PAD_OUTPUT_ENABLE01'', 0x00),
      (REG H ''OV5640_PAD_OUTPUT_ENABLE02'', 0x00),
      (0x302E, 0x08),
      (REG H ''OV5640_PCLK_PERIOD'', 0x23),
      (REG H ''OV5640_SC_PLL_CONTRL0'', 0x18),
      (REG H ''OV5640_SC_PLL_CONTRL1'', 0x12),
      (REG H ''OV5640_SC_PLL_CONTRL2'', 0x1C),
      (REG H ''OV5640_SC_PLL_CONTRL3'', 0x13),
      (REG H ''OV5640_SYSTEM_ROOT_DIVIDER'', 0x01),
      (0x4814, 0x2A),
      (REG H ''OV5640_MIPI_CTRL00'', 0x24),
      (REG H ''OV5640_PAD_OUTPUT_VALUE00'', 0x70),
      (REG H ''OV5640_MIPI_CONTROL00'', 0x45),
      (REG H ''OV5640_FRAME_CTRL02'', 0x00)]"

definition OV5640_EnableDVPMode ::
  "ov5640_h \<Rightarrow> 'b OV5640_Object_t \<Rightarrow> 'b world \<Rightarrow> i32 \<times> 'b world" where
  "OV5640_EnableDVPMode H pObj w = write_tbl_break H pObj (EnableDVPMode_regs H) (OV5640_OK H, w)"

definition OV5640_EnableMIPIMode ::
  "ov5640_h \<Rightarrow> 'b OV5640_Object_t \<Rightarrow> 'b world \<Rightarrow> i32 \<times> 'b world" where
  "OV5640_EnableMIPIMode H pObj w = write_tbl_break H pObj (EnableMIPIMode_regs H) (OV5640_OK H, w)"

text \<open>
  \<^verbatim>\<open>OV5640_SetMIPIVirtualChannel\<close>: \<^verbatim>\<open>tmp &= ~(3 << 6); tmp |= (vchannel << 6);\<close> on an
  uninitialised \<^verbatim>\<open>uint8_t tmp\<close> (0 here) that the read fills.
\<close>

definition OV5640_SetMIPIVirtualChannel ::
  "ov5640_h \<Rightarrow> 'b OV5640_Object_t \<Rightarrow> u32 \<Rightarrow> 'b world \<Rightarrow> i32 \<times> 'b world" where
  "OV5640_SetMIPIVirtualChannel H pObj vchannel w =
     (case ov5640_read_reg pObj 0x4814 0 w of
        (r1, tmp, w1) \<Rightarrow>
          if r1 \<noteq> OV5640_OK H then (OV5640_ERROR H, w1)
          else
            (case ov5640_write_reg pObj 0x4814
                    (ucast ((ucast (tmp AND 0x3F) :: u32) OR push_bit 6 vchannel)) w1 of
               (r2, w2) \<Rightarrow> if r2 \<noteq> OV5640_OK H then (OV5640_ERROR H, w2) else (OV5640_OK H, w2)))"

section \<open>Initialisation\<close>

definition OV5640_Common :: "ov5640_h \<Rightarrow> (u16 \<times> u16) list" where
  "OV5640_Common H =
     [(REG H ''OV5640_SCCB_SYSTEM_CTRL1'', 0x11),
      (REG H ''OV5640_SYSTEM_CTROL0'', 0x82),
      (REG H ''OV5640_SCCB_SYSTEM_CTRL1'', 0x03),
      (0x3630, 0x36),
      (0x3631, 0x0E),
      (0x3632, 0xE2),
      (0x3633, 0x12),
      (0x3621, 0xE0),
      (0x3704, 0xA0),
      (0x3703, 0x5A),
      (0x3715, 0x78),
      (0x3717, 0x01),
      (0x370B, 0x60),
      (0x3705, 0x1A),
      (0x3905, 0x02),
      (0x3906, 0x10),
      (0x3901, 0x0A),
      (0x3731, 0x12),
      (0x3600, 0x08),
      (0x3601, 0x33),
      (0x302D, 0x60),
      (0x3620, 0x52),
      (0x371B, 0x20),
      (0x471C, 0x50),
      (REG H ''OV5640_AEC_CTRL13'', 0x43),
      (REG H ''OV5640_AEC_GAIN_CEILING_HIGH'', 0x00),
      (REG H ''OV5640_AEC_GAIN_CEILING_LOW'', 0xF8),
      (0x3635, 0x13),
      (0x3636, 0x03),
      (0x3634, 0x40),
      (0x3622, 0x01),
      (REG H ''OV5640_5060HZ_CTRL01'', 0x34),
      (REG H ''OV5640_5060HZ_CTRL04'', 0x28),
      (REG H ''OV5640_5060HZ_CTRL05'', 0x98),
      (REG H ''OV5640_LIGHTMETER1_TH_HIGH'', 0x00),
      (REG H ''OV5640_LIGHTMETER1_TH_LOW'', 0x00),
      (REG H ''OV5640_LIGHTMETER2_TH_HIGH'', 0x01),
      (REG H ''OV5640_LIGHTMETER2_TH_LOW'', 0x2C),
      (REG H ''OV5640_SAMPLE_NUMBER_HIGH'', 0x9C),
      (REG H ''OV5640_SAMPLE_NUMBER_LOW'', 0x40),
      (REG H ''OV5640_TIMING_TC_REG20'', 0x06),
      (REG H ''OV5640_TIMING_TC_REG21'', 0x00),
      (REG H ''OV5640_TIMING_X_INC'', 0x31),
      (REG H ''OV5640_TIMING_Y_INC'', 0x31),
      (REG H ''OV5640_TIMING_HS_HIGH'', 0x00),
      (REG H ''OV5640_TIMING_HS_LOW'', 0x00),
      (REG H ''OV5640_TIMING_VS_HIGH'', 0x00),
      (REG H ''OV5640_TIMING_VS_LOW'', 0x04),
      (REG H ''OV5640_TIMING_HW_HIGH'', 0x0A),
      (REG H ''OV5640_TIMING_HW_LOW'', 0x3F),
      (REG H ''OV5640_TIMING_VH_HIGH'', 0x07),
      (REG H ''OV5640_TIMING_VH_LOW'', 0x9B),
      (REG H ''OV5640_TIMING_DVPHO_HIGH'', 0x03),
      (REG H ''OV5640_TIMING_DVPHO_LOW'', 0x20),
      (REG H ''OV5640_TIMING_DVPVO_HIGH'', 0x02),
      (REG H ''OV5640_TIMING_DVPVO_LOW'', 0x58),
      (REG H ''OV5640_TIMING_HTS_HIGH'', 0x07),
      (REG H ''OV5640_TIMING_HTS_LOW'', 0x90),
      (REG H ''OV5640_TIMING_VTS_HIGH'', 0x04),
      (REG H ''OV5640_TIMING_VTS_LOW'', 0x40),
      (REG H ''OV5640_TIMING_HOFFSET_HIGH'', 0x00),
      (REG H ''OV5640_TIMING_HOFFSET_LOW'', 0x10),
      (REG H ''OV5640_TIMING_VOFFSET_HIGH'', 0x00),
      (REG H ''OV5640_TIMING_VOFFSET_LOW'', 0x06),
      (0x3618, 0x00),
      (0x3612, 0x29),
      (0x3708, 0x64),
      (0x3709, 0x52),
      (0x370C, 0x03),
      (REG H ''OV5640_AEC_CTRL02'', 0x03),
      (REG H ''OV5640_AEC_CTRL03'', 0xD8),
      (REG H ''OV5640_AEC_B50_STEP_HIGH'', 0x01),
      (REG H ''OV5640_AEC_B50_STEP_LOW'', 0x27),
      (REG H ''OV5640_AEC_B60_STEP_HIGH'', 0x00),
      (REG H ''OV5640_AEC_B60_STEP_LOW'', 0xF6),
      (REG H ''OV5640_AEC_CTRL0E'', 0x03),
      (REG H ''OV5640_AEC_CTRL0D'', 0x04),
      (REG H ''OV5640_AEC_MAX_EXPO_HIGH'', 0x03),
      (REG H ''OV5640_AEC_MAX_EXPO_LOW'', 0xD8),
      (REG H ''OV5640_BLC_CTRL01'', 0x02),
      (REG H ''OV5640_BLC_CTRL04'', 0x02),
      (REG H ''OV5640_SYSREM_RESET00'', 0x00),
      (REG H ''OV5640_SYSREM_RESET02'', 0x1C),
      (REG H ''OV5640_CLOCK_ENABLE00'', 0xFF),
      (REG H ''OV5640_CLOCK_ENABLE02'', 0xC3),
      (REG H ''OV5640_MIPI_CONTROL00'', 0x58),
      (0x302E, 0x00),
      (REG H ''OV5640_POLARITY_CTRL'', 0x22),
      (REG H ''OV5640_FORMAT_CTRL00'', 0x6F),
      (REG H ''OV5640_FORMAT_MUX_CTRL'', 0x01),
      (REG H ''OV5640_JPG_MODE_SELECT'', 0x03),
      (REG H ''OV5640_JPEG_CTRL07'', 0x04),
      (0x440E, 0x00),
      (0x460B, 0x35),
      (0x460C, 0x23),
      (REG H ''OV5640_PCLK_PERIOD'', 0x22),
      (0x3824, 0x02),
      (REG H ''OV5640_ISP_CONTROL00'', 0xA7),
      (REG H ''OV5640_ISP_CONTROL01'', 0xA3),
      (REG H ''OV5640_AWB_CTRL00'', 0xFF),
      (REG H ''OV5640_AWB_CTRL01'', 0xF2),
      (REG H ''OV5640_AWB_CTRL02'', 0x00),
      (REG H ''OV5640_AWB_CTRL03'', 0x14),
      (REG H ''OV5640_AWB_CTRL04'', 0x25),
      (REG H ''OV5640_AWB_CTRL05'', 0x24),
      (REG H ''OV5640_AWB_CTRL06'', 0x09),
      (REG H ''OV5640_AWB_CTRL07'', 0x09),
      (REG H ''OV5640_AWB_CTRL08'', 0x09),
      (REG H ''OV5640_AWB_CTRL09'', 0x75),
      (REG H ''OV5640_AWB_CTRL10'', 0x54),
      (REG H ''OV5640_AWB_CTRL11'', 0xE0),
      (REG H ''OV5640_AWB_CTRL12'', 0xB2),
      (REG H ''OV5640_AWB_CTRL13'', 0x42),
      (REG H ''OV5640_AWB_CTRL14'', 0x3D),
      (REG H ''OV5640_AWB_CTRL15'', 0x56),
      (REG H ''OV5640_AWB_CTRL16'', 0x46),
      (REG H ''OV5640_AWB_CTRL17'', 0xF8),
      (REG H ''OV5640_AWB_CTRL18'', 0x04),
      (REG H ''OV5640_AWB_CTRL19'', 0x70),
      (REG H ''OV5640_AWB_CTRL20'', 0xF0),
      (REG H ''OV5640_AWB_CTRL21'', 0xF0),
      (REG H ''OV5640_AWB_CTRL22'', 0x03),
      (REG H ''OV5640_AWB_CTRL23'', 0x01),
      (REG H ''OV5640_AWB_CTRL24'', 0x04),
      (REG H ''OV5640_AWB_CTRL25'', 0x12),
      (REG H ''OV5640_AWB_CTRL26'', 0x04),
      (REG H ''OV5640_AWB_CTRL27'', 0x00),
      (REG H ''OV5640_AWB_CTRL28'', 0x06),
      (REG H ''OV5640_AWB_CTRL29'', 0x82),
      (REG H ''OV5640_AWB_CTRL30'', 0x38),
      (REG H ''OV5640_CMX1'', 0x1E),
      (REG H ''OV5640_CMX2'', 0x5B),
      (REG H ''OV5640_CMX3'', 0x08),
      (REG H ''OV5640_CMX4'', 0x0A),
      (REG H ''OV5640_CMX5'', 0x7E),
      (REG H ''OV5640_CMX6'', 0x88),
      (REG H ''OV5640_CMX7'', 0x7C),
      (REG H ''OV5640_CMX8'', 0x6C),
      (REG H ''OV5640_CMX9'', 0x10),
      (REG H ''OV5640_CMXSIGN_HIGH'', 0x01),
      (REG H ''OV5640_CMXSIGN_LOW'', 0x98),
      (REG H ''OV5640_CIP_SHARPENMT_TH1'', 0x08),
      (REG H ''OV5640_CIP_SHARPENMT_TH2'', 0x30),
      (REG H ''OV5640_CIP_SHARPENMT_OFFSET1'', 0x10),
      (REG H ''OV5640_CIP_SHARPENMT_OFFSET2'', 0x00),
      (REG H ''OV5640_CIP_DNS_TH1'', 0x08),
      (REG H ''OV5640_CIP_DNS_TH2'', 0x30),
      (REG H ''OV5640_CIP_DNS_OFFSET1'', 0x08),
      (REG H ''OV5640_CIP_DNS_OFFSET2'', 0x16),
      (REG H ''OV5640_CIP_CTRL'', 0x08),
      (REG H ''OV5640_CIP_SHARPENTH_TH1'', 0x30),
      (REG H ''OV5640_CIP_SHARPENTH_TH2'', 0x04),
      (REG H ''OV5640_CIP_SHARPENTH_OFFSET1'', 0x06),
      (REG H ''OV5640_GAMMA_CTRL00'', 0x01),
      (REG H ''OV5640_GAMMA_YST00'', 0x08),
      (REG H ''OV5640_GAMMA_YST01'', 0x14),
      (REG H ''OV5640_GAMMA_YST02'', 0x28),
      (REG H ''OV5640_GAMMA_YST03'', 0x51),
      (REG H ''OV5640_GAMMA_YST04'', 0x65),
      (REG H ''OV5640_GAMMA_YST05'', 0x71),
      (REG H ''OV5640_GAMMA_YST06'', 0x7D),
      (REG H ''OV5640_GAMMA_YST07'', 0x87),
      (REG H ''OV5640_GAMMA_YST08'', 0x91),
      (REG H ''OV5640_GAMMA_YST09'', 0x9A),
      (REG H ''OV5640_GAMMA_YST0A'', 0xAA),
      (REG H ''OV5640_GAMMA_YST0B'', 0xB8),
      (REG H ''OV5640_GAMMA_YST0C'', 0xCD),
      (REG H ''OV5640_GAMMA_YST0D'', 0xDD),
      (REG H ''OV5640_GAMMA_YST0E'', 0xEA),
      (REG H ''OV5640_GAMMA_YST0F'', 0x1D),
      (REG H ''OV5640_SDE_CTRL0'', 0x02),
      (REG H ''OV5640_SDE_CTRL3'', 0x40),
      (REG H ''OV5640_SDE_CTRL4'', 0x10),
      (REG H ''OV5640_SDE_CTRL9'', 0x10),
      (REG H ''OV5640_SDE_CTRL10'', 0x00),
      (REG H ''OV5640_SDE_CTRL11'', 0xF8),
      (REG H ''OV5640_GMTRX00'', 0x23),
      (REG H ''OV5640_GMTRX01'', 0x14),
      (REG H ''OV5640_GMTRX02'', 0x0F),
      (REG H ''OV5640_GMTRX03'', 0x0F),
      (REG H ''OV5640_GMTRX04'', 0x12),
      (REG H ''OV5640_GMTRX05'', 0x26),
      (REG H ''OV5640_GMTRX10'', 0x0C),
      (REG H ''OV5640_GMTRX11'', 0x08),
      (REG H ''OV5640_GMTRX12'', 0x05),
      (REG H ''OV5640_GMTRX13'', 0x05),
      (REG H ''OV5640_GMTRX14'', 0x08),
      (REG H ''OV5640_GMTRX15'', 0x0D),
      (REG H ''OV5640_GMTRX20'', 0x08),
      (REG H ''OV5640_GMTRX21'', 0x03),
      (REG H ''OV5640_GMTRX22'', 0x00),
      (REG H ''OV5640_GMTRX23'', 0x00),
      (REG H ''OV5640_GMTRX24'', 0x03),
      (REG H ''OV5640_GMTRX25'', 0x09),
      (REG H ''OV5640_GMTRX30'', 0x07),
      (REG H ''OV5640_GMTRX31'', 0x03),
      (REG H ''OV5640_GMTRX32'', 0x00),
      (REG H ''OV5640_GMTRX33'', 0x01),
      (REG H ''OV5640_GMTRX34'', 0x03),
      (REG H ''OV5640_GMTRX35'', 0x08),
      (REG H ''OV5640_GMTRX40'', 0x0D),
      (REG H ''OV5640_GMTRX41'', 0x08),
      (REG H ''OV5640_GMTRX42'', 0x05),
      (REG H ''OV5640_GMTRX43'', 0x06),
      (REG H ''OV5640_GMTRX44'', 0x08),
      (REG H ''OV5640_GMTRX45'', 0x0E),
      (REG H ''OV5640_GMTRX50'', 0x29),
      (REG H ''OV5640_GMTRX51'', 0x17),
      (REG H ''OV5640_GMTRX52'', 0x11),
      (REG H ''OV5640_GMTRX53'', 0x11),
      (REG H ''OV5640_GMTRX54'', 0x15),
      (REG H ''OV5640_GMTRX55'', 0x28),
      (REG H ''OV5640_BRMATRX00'', 0x46),
      (REG H ''OV5640_BRMATRX01'', 0x26),
      (REG H ''OV5640_BRMATRX02'', 0x08),
      (REG H ''OV5640_BRMATRX03'', 0x26),
      (REG H ''OV5640_BRMATRX04'', 0x64),
      (REG H ''OV5640_BRMATRX05'', 0x26),
      (REG H ''OV5640_BRMATRX06'', 0x24),
      (REG H ''OV5640_BRMATRX07'', 0x22),
      (REG H ''OV5640_BRMATRX08'', 0x24),
      (REG H ''OV5640_BRMATRX09'', 0x24),
      (REG H ''OV5640_BRMATRX20'', 0x06),
      (REG H ''OV5640_BRMATRX21'', 0x22),
      (REG H ''OV5640_BRMATRX22'', 0x40),
      (REG H ''OV5640_BRMATRX23'', 0x42),
      (REG H ''OV5640_BRMATRX24'', 0x24),
      (REG H ''OV5640_BRMATRX30'', 0x26),
      (REG H ''OV5640_BRMATRX31'', 0x24),
      (REG H ''OV5640_BRMATRX32'', 0x22),
      (REG H ''OV5640_BRMATRX33'', 0x22),
      (REG H ''OV5640_BRMATRX34'', 0x26),
      (REG H ''OV5640_BRMATRX40'', 0x44),
      (REG H ''OV5640_BRMATRX41'', 0x24),
      (REG H ''OV5640_BRMATRX42'', 0x26),
      (REG H ''OV5640_BRMATRX43'', 0x28),
      (REG H ''OV5640_BRMATRX44'', 0x42),
      (REG H ''OV5640_LENC_BR_OFFSET'', 0xCE),
      (0x5025, 0x00),
      (REG H ''OV5640_AEC_CTRL0F'', 0x30),
      (REG H ''OV5640_AEC_CTRL10'', 0x28),
      (REG H ''OV5640_AEC_CTRL1B'', 0x30),
      (REG H ''OV5640_AEC_CTRL1E'', 0x26),
      (REG H ''OV5640_AEC_CTRL11'', 0x60),
      (REG H ''OV5640_AEC_CTRL1F'', 0x14),
      (REG H ''OV5640_SYSTEM_CTROL0'', 0x02)]"

text \<open>
  \<^verbatim>\<open>OV5640_Init\<close>. The result is \<open>None\<close> when a delay of the pixel-format step never ends.
\<close>

definition Init_interface ::
  "ov5640_h \<Rightarrow> 'b OV5640_Object_t \<Rightarrow> i32 \<times> 'b world \<Rightarrow> i32 \<times> 'b world" where
  "Init_interface H pObj s =
     (case s of
        (ret, w) \<Rightarrow>
          if ret = OV5640_OK H then
            (if Mode pObj = SERIAL_MODE H then
               (case OV5640_EnableMIPIMode H pObj w of
                  (r1, w1) \<Rightarrow>
                    if r1 \<noteq> OV5640_OK H then (OV5640_ERROR H, w1)
                    else
                      (case OV5640_SetMIPIVirtualChannel H pObj (VirtualChannelID pObj) w1 of
                         (r2, w2) \<Rightarrow> if r2 \<noteq> OV5640_OK H then (OV5640_ERROR H, w2) else (ret, w2)))
             else
               (case OV5640_EnableDVPMode H pObj w of
                  (r1, w1) \<Rightarrow> if r1 \<noteq> OV5640_OK H then (OV5640_ERROR H, w1) else (OV5640_OK H, w1)))
          else (ret, w))"

definition OV5640_Init ::
  "ov5640_h \<Rightarrow> 'b OV5640_Object_t \<Rightarrow> u32 \<Rightarrow> u32 \<Rightarrow> 'b world
     \<Rightarrow> (i32 \<times> 'b OV5640_Object_t \<times> 'b world) option" where
  "OV5640_Init H pObj Resolution PixelFormat w =
     (if IsInitialized pObj = 0 then
        (if Resolution > OV5640_R800x480 H
            \<or> (PixelFormat \<noteq> OV5640_RGB565 H \<and> PixelFormat \<noteq> OV5640_YUV422 H
                \<and> PixelFormat \<noteq> OV5640_RGB888 H \<and> PixelFormat \<noteq> OV5640_Y8 H
                \<and> PixelFormat \<noteq> OV5640_JPEG H)
         then Some (OV5640_ERROR H, pObj, w)
         else
           (case Init_interface H pObj (write_tbl_guarded H pObj (OV5640_Common H) (OV5640_OK H, w)) of
              (ret, w2) \<Rightarrow>
                if ret = OV5640_OK H then
                  (case OV5640_SetResolution H pObj Resolution w2 of
                     (r3, w3) \<Rightarrow>
                       if r3 \<noteq> OV5640_OK H then Some (OV5640_ERROR H, pObj, w3)
                       else
                         (case OV5640_SetPixelFormat H pObj PixelFormat w3 of
                            None \<Rightarrow> None
                          | Some (r4, w4) \<Rightarrow>
                              if r4 \<noteq> OV5640_OK H then Some (OV5640_ERROR H, pObj, w4)
                              else
                                (case OV5640_SetPolarities H (Some pObj)
                                        (OV5640_POLARITY_PCLK_HIGH H) (OV5640_POLARITY_HREF_HIGH H)
                                        (OV5640_POLARITY_VSYNC_HIGH H) w4 of
                                   (r5, w5) \<Rightarrow>
                                     if r5 \<noteq> OV5640_OK H then Some (OV5640_ERROR H, pObj, w5)
                                     else Some (ret, pObj\<lparr>IsInitialized := 1\<rparr>, w5))))
                else Some (ret, pObj, w2)))
      else Some (OV5640_OK H, pObj, w))"

definition OV5640_DeInit ::
  "ov5640_h \<Rightarrow> 'b OV5640_Object_t \<Rightarrow> i32 \<times> 'b OV5640_Object_t" where
  "OV5640_DeInit H pObj =
     (if IsInitialized pObj = 1 then (OV5640_OK H, pObj\<lparr>IsInitialized := 0\<rparr>)
      else (OV5640_OK H, pObj))"

section \<open>Autofocus\<close>

text \<open>
  \<^verbatim>\<open>vTaskDelay\<close> is the scheduler's: it blocks the caller, and the sensor goes on while the
  caller is blocked, so in the model it is a step of the bus state that the environment
  chooses. It is no register access and leaves the log alone.
\<close>

record 'b rtos =
  vTaskDelay :: "u32 \<Rightarrow> 'b \<Rightarrow> 'b"

definition task_delay :: "'b rtos \<Rightarrow> u32 \<Rightarrow> 'b world \<Rightarrow> 'b world" where
  "task_delay T ticks w = w\<lparr>bus := vTaskDelay T ticks (bus w)\<rparr>"

subsection \<open>Blocking single and continuous focus\<close>

text \<open>
  The loop of \<^verbatim>\<open>OV5640_Focus_Single\<close>:
  \<^verbatim>\<open>while (1) { retry++; read(0x3029, &temp); if (temp == 0x10) break;
                vTaskDelay(pdMS_TO_TICKS(5)); if (retry > 200) return OV5640_ERROR; }\<close>
  with \<^verbatim>\<open>uint16_t retry\<close>. The argument \<open>retry\<close> is the counter before the increment.
\<close>

function Focus_Single_poll ::
  "'b rtos \<Rightarrow> ov5640_h \<Rightarrow> 'b OV5640_Object_t \<Rightarrow> u16 \<Rightarrow> u8 \<Rightarrow> 'b world \<Rightarrow> i32 \<times> 'b world" where
  "Focus_Single_poll T H pObj retry temp w =
     (case ov5640_read_reg pObj 0x3029 temp w of
        (r, temp1, w1) \<Rightarrow>
          if temp1 = 0x10 then (OV5640_OK H, w1)
          else if retry + 1 > 200 then (OV5640_ERROR H, task_delay T (pdMS_TO_TICKS H 5) w1)
          else Focus_Single_poll T H pObj (retry + 1) temp1 (task_delay T (pdMS_TO_TICKS H 5) w1))"
  by pat_completeness auto
termination
proof (relation "measure (\<lambda>(T, H, pObj, retry, temp, w). if unat retry \<le> 200 then 201 - unat retry else 202)")
  show "wf (measure (\<lambda>(T :: 'b rtos, H :: ov5640_h, pObj :: 'b OV5640_Object_t, retry :: u16, temp :: u8, w :: 'b world).
              if unat retry \<le> 200 then 201 - unat retry else 202))"
    by simp
next
  fix T :: "'b rtos" and H :: ov5640_h and pObj :: "'b OV5640_Object_t" and retry :: u16
    and temp :: u8 and w :: "'b world" and x :: "i32 \<times> u8 \<times> 'b world" and r :: i32
    and y :: "u8 \<times> 'b world" and temp1 :: u8 and w1 :: "'b world"
  assume "\<not> 200 < retry + 1"
  then have le: "unat (retry + 1) \<le> 200"
    by (simp add: word_less_nat_alt not_less)
  have wrap: "unat (retry + 1) = (unat retry + 1) mod 65536"
    by (simp add: unat_word_ariths)
  have lt: "unat retry < 65536"
    using unsigned_less [of retry, where 'a = nat] by simp
  have "(unat retry = 65535 \<and> unat (retry + 1) = 0)
        \<or> (unat (retry + 1) = unat retry + 1 \<and> unat retry + 1 \<le> 200)"
  proof (cases "unat retry + 1 < 65536")
    case True
    with le wrap show ?thesis by simp
  next
    case False
    with lt have "unat retry = 65535" by arith
    with wrap show ?thesis by simp
  qed
  then show "((T, H, pObj, retry + 1, temp1, task_delay T (pdMS_TO_TICKS H 5) w1),
              (T, H, pObj, retry, temp, w))
             \<in> measure (\<lambda>(T, H, pObj, retry, temp, w). if unat retry \<le> 200 then 201 - unat retry else 202)"
    by auto
qed

declare Focus_Single_poll.simps [simp del]

definition OV5640_Focus_Single ::
  "'b rtos \<Rightarrow> ov5640_h \<Rightarrow> 'b OV5640_Object_t \<Rightarrow> 'b world \<Rightarrow> i32 \<times> 'b world" where
  "OV5640_Focus_Single T H pObj w =
     (case ov5640_write_reg pObj 0x3022 0x03 w of
        (r, w1) \<Rightarrow> Focus_Single_poll T H pObj 0 0x03 w1)"

text \<open>
  A polling phase of \<^verbatim>\<open>OV5640_Focus_Constant\<close>:
  \<^verbatim>\<open>do { read(0x3023, &temp); retry++; if (retry > 200) return OV5640_ERROR;
         vTaskDelay(pdMS_TO_TICKS(5)); } while (temp != 0x00);\<close>
  \<open>Inl\<close> is the \<^verbatim>\<open>return\<close> from inside the loop, \<open>Inr\<close> the end of the loop.
\<close>

function Focus_Constant_poll ::
  "'b rtos \<Rightarrow> ov5640_h \<Rightarrow> 'b OV5640_Object_t \<Rightarrow> u16 \<Rightarrow> u8 \<Rightarrow> 'b world
     \<Rightarrow> (i32 \<times> 'b world) + (u8 \<times> 'b world)" where
  "Focus_Constant_poll T H pObj retry temp w =
     (case ov5640_read_reg pObj 0x3023 temp w of
        (r, temp1, w1) \<Rightarrow>
          if retry + 1 > 200 then Inl (OV5640_ERROR H, w1)
          else if temp1 \<noteq> 0x00 then
            Focus_Constant_poll T H pObj (retry + 1) temp1 (task_delay T (pdMS_TO_TICKS H 5) w1)
          else Inr (temp1, task_delay T (pdMS_TO_TICKS H 5) w1))"
  by pat_completeness auto
termination
proof (relation "measure (\<lambda>(T, H, pObj, retry, temp, w). if unat retry \<le> 200 then 201 - unat retry else 202)")
  show "wf (measure (\<lambda>(T :: 'b rtos, H :: ov5640_h, pObj :: 'b OV5640_Object_t, retry :: u16, temp :: u8, w :: 'b world).
              if unat retry \<le> 200 then 201 - unat retry else 202))"
    by simp
next
  fix T :: "'b rtos" and H :: ov5640_h and pObj :: "'b OV5640_Object_t" and retry :: u16
    and temp :: u8 and w :: "'b world" and x :: "i32 \<times> u8 \<times> 'b world" and r :: i32
    and y :: "u8 \<times> 'b world" and temp1 :: u8 and w1 :: "'b world"
  assume "\<not> 200 < retry + 1"
  then have le: "unat (retry + 1) \<le> 200"
    by (simp add: word_less_nat_alt not_less)
  have wrap: "unat (retry + 1) = (unat retry + 1) mod 65536"
    by (simp add: unat_word_ariths)
  have lt: "unat retry < 65536"
    using unsigned_less [of retry, where 'a = nat] by simp
  have "(unat retry = 65535 \<and> unat (retry + 1) = 0)
        \<or> (unat (retry + 1) = unat retry + 1 \<and> unat retry + 1 \<le> 200)"
  proof (cases "unat retry + 1 < 65536")
    case True
    with le wrap show ?thesis by simp
  next
    case False
    with lt have "unat retry = 65535" by arith
    with wrap show ?thesis by simp
  qed
  then show "((T, H, pObj, retry + 1, temp1, task_delay T (pdMS_TO_TICKS H 5) w1),
              (T, H, pObj, retry, temp, w))
             \<in> measure (\<lambda>(T, H, pObj, retry, temp, w). if unat retry \<le> 200 then 201 - unat retry else 202)"
    by auto
qed

declare Focus_Constant_poll.simps [simp del]

definition OV5640_Focus_Constant ::
  "'b rtos \<Rightarrow> ov5640_h \<Rightarrow> 'b OV5640_Object_t \<Rightarrow> 'b world \<Rightarrow> i32 \<times> 'b world" where
  "OV5640_Focus_Constant T H pObj w =
     (case ov5640_write_reg pObj 0x3023 0x01 w of
        (r1, w1) \<Rightarrow>
          (case ov5640_write_reg pObj 0x3022 0x08 w1 of
             (r2, w2) \<Rightarrow>
               (case Focus_Constant_poll T H pObj 0 0x08 w2 of
                  Inl res \<Rightarrow> res
                | Inr (temp, w3) \<Rightarrow>
                    (case ov5640_write_reg pObj 0x3023 0x01 w3 of
                       (r4, w4) \<Rightarrow>
                         (case ov5640_write_reg pObj 0x3022 0x04 w4 of
                            (r5, w5) \<Rightarrow>
                              (case Focus_Constant_poll T H pObj 0 0x04 w5 of
                                 Inl res \<Rightarrow> res
                               | Inr (temp', w6) \<Rightarrow> (OV5640_OK H, w6)))))))"

subsection \<open>The run of a polling loop\<close>

text \<open>
  Both blocking loops repeat "read the status register into the buffer, then
  \<^verbatim>\<open>vTaskDelay(pdMS_TO_TICKS(5))\<close>". \<open>poll_step\<close> is one such round on the buffer and the
  world, \<open>poll_state j\<close> is the buffer and the world after \<open>j\<close> rounds, and \<open>read_no k\<close>
  is the byte the buffer holds after the \<open>k\<close>-th read (\<open>k \<ge> 1\<close>) of a run that starts
  from \<open>s\<close>. They describe the run for any bus and scheduler: a read that fails and
  leaves the buffer alone repeats the byte before it.
\<close>

definition poll_step ::
  "'b rtos \<Rightarrow> ov5640_h \<Rightarrow> 'b OV5640_Object_t \<Rightarrow> u16 \<Rightarrow> u8 \<times> 'b world \<Rightarrow> u8 \<times> 'b world" where
  "poll_step T H pObj reg s =
     (case ov5640_read_reg pObj reg (fst s) (snd s) of
        (r, temp1, w1) \<Rightarrow> (temp1, task_delay T (pdMS_TO_TICKS H 5) w1))"

definition poll_state ::
  "'b rtos \<Rightarrow> ov5640_h \<Rightarrow> 'b OV5640_Object_t \<Rightarrow> u16 \<Rightarrow> nat \<Rightarrow> u8 \<times> 'b world \<Rightarrow> u8 \<times> 'b world" where
  "poll_state T H pObj reg j s = (poll_step T H pObj reg ^^ j) s"

definition read_no ::
  "'b rtos \<Rightarrow> ov5640_h \<Rightarrow> 'b OV5640_Object_t \<Rightarrow> u16 \<Rightarrow> nat \<Rightarrow> u8 \<times> 'b world \<Rightarrow> u8" where
  "read_no T H pObj reg k s =
     fst (snd (ov5640_read_reg pObj reg (fst (poll_state T H pObj reg (k - 1) s))
                 (snd (poll_state T H pObj reg (k - 1) s))))"

text \<open>The world right after the \<open>k\<close>-th read, before the delay that follows it.\<close>

definition world_at_read ::
  "'b rtos \<Rightarrow> ov5640_h \<Rightarrow> 'b OV5640_Object_t \<Rightarrow> u16 \<Rightarrow> nat \<Rightarrow> u8 \<times> 'b world \<Rightarrow> 'b world" where
  "world_at_read T H pObj reg k s =
     snd (snd (ov5640_read_reg pObj reg (fst (poll_state T H pObj reg (k - 1) s))
                 (snd (poll_state T H pObj reg (k - 1) s))))"

text \<open>
  The sentinel shows for the first time on the \<open>k\<close>-th read; no read up to the \<open>n\<close>-th
  shows it.
\<close>

definition first_on ::
  "'b rtos \<Rightarrow> ov5640_h \<Rightarrow> 'b OV5640_Object_t \<Rightarrow> u16 \<Rightarrow> u8 \<Rightarrow> nat \<Rightarrow> u8 \<times> 'b world \<Rightarrow> bool" where
  "first_on T H pObj reg sentinel k s \<longleftrightarrow>
     1 \<le> k \<and> (\<forall>j \<in> {1 ..< k}. read_no T H pObj reg j s \<noteq> sentinel)
     \<and> read_no T H pObj reg k s = sentinel"

definition none_within ::
  "'b rtos \<Rightarrow> ov5640_h \<Rightarrow> 'b OV5640_Object_t \<Rightarrow> u16 \<Rightarrow> u8 \<Rightarrow> nat \<Rightarrow> u8 \<times> 'b world \<Rightarrow> bool" where
  "none_within T H pObj reg sentinel n s \<longleftrightarrow>
     (\<forall>j \<in> {1 .. n}. read_no T H pObj reg j s \<noteq> sentinel)"

text \<open>
  The buffer and the world at the start of each loop: \<^verbatim>\<open>OV5640_Focus_Single\<close> has written
  0x03 to 0x3022; \<^verbatim>\<open>OV5640_Focus_Constant\<close> has written 0x01 to 0x3023 and 0x08 to 0x3022
  before its first phase, and 0x01 and 0x04 before its second.
\<close>

definition Focus_Single_start :: "'b OV5640_Object_t \<Rightarrow> 'b world \<Rightarrow> u8 \<times> 'b world" where
  "Focus_Single_start pObj w = (0x03, snd (ov5640_write_reg pObj 0x3022 0x03 w))"

definition Focus_Constant_start :: "'b OV5640_Object_t \<Rightarrow> 'b world \<Rightarrow> u8 \<times> 'b world" where
  "Focus_Constant_start pObj w =
     (0x08, snd (ov5640_write_reg pObj 0x3022 0x08 (snd (ov5640_write_reg pObj 0x3023 0x01 w))))"

definition Focus_Constant_restart :: "'b OV5640_Object_t \<Rightarrow> 'b world \<Rightarrow> u8 \<times> 'b world" where
  "Focus_Constant_restart pObj w =
     (0x04, snd (ov5640_write_reg pObj 0x3022 0x04 (snd (ov5640_write_reg pObj 0x3023 0x01 w))))"

subsection \<open>Firmware upload\<close>

text \<open>
  \<^verbatim>\<open>OV5640_AF_Config\<close> is one array of 4077 bytes in the source; here it is cut into pieces
  of 256 bytes, named by the address of their first byte in the source's comments.
\<close>

definition OV5640_AF_Config_8000 :: "u8 list" where
  "OV5640_AF_Config_8000 = [
    0x02, 0x0F, 0xD6, 0x02, 0x0A, 0x39, 0xC2, 0x01, 0x22, 0x22, 0x00, 0x02, 0x0F, 0xB2, 0xE5, 0x1F,
    0x70, 0x72, 0xF5, 0x1E, 0xD2, 0x35, 0xFF, 0xEF, 0x25, 0xE0, 0x24, 0x4E, 0xF8, 0xE4, 0xF6, 0x08,
    0xF6, 0x0F, 0xBF, 0x34, 0xF2, 0x90, 0x0E, 0x93, 0xE4, 0x93, 0xFF, 0xE5, 0x4B, 0xC3, 0x9F, 0x50,
    0x04, 0x7F, 0x05, 0x80, 0x02, 0x7F, 0xFB, 0x78, 0xBD, 0xA6, 0x07, 0x12, 0x0F, 0x04, 0x40, 0x04,
    0x7F, 0x03, 0x80, 0x02, 0x7F, 0x30, 0x78, 0xBC, 0xA6, 0x07, 0xE6, 0x18, 0xF6, 0x08, 0xE6, 0x78,
    0xB9, 0xF6, 0x78, 0xBC, 0xE6, 0x78, 0xBA, 0xF6, 0x78, 0xBF, 0x76, 0x33, 0xE4, 0x08, 0xF6, 0x78,
    0xB8, 0x76, 0x01, 0x75, 0x4A, 0x02, 0x78, 0xB6, 0xF6, 0x08, 0xF6, 0x74, 0xFF, 0x78, 0xC1, 0xF6,
    0x08, 0xF6, 0x75, 0x1F, 0x01, 0x78, 0xBC, 0xE6, 0x75, 0xF0, 0x05, 0xA4, 0xF5, 0x4B, 0x12, 0x0A,
    0xFF, 0xC2, 0x37, 0x22, 0x78, 0xB8, 0xE6, 0xD3, 0x94, 0x00, 0x40, 0x02, 0x16, 0x22, 0xE5, 0x1F,
    0xB4, 0x05, 0x23, 0xE4, 0xF5, 0x1F, 0xC2, 0x01, 0x78, 0xB6, 0xE6, 0xFE, 0x08, 0xE6, 0xFF, 0x78,
    0x4E, 0xA6, 0x06, 0x08, 0xA6, 0x07, 0xA2, 0x37, 0xE4, 0x33, 0xF5, 0x3C, 0x90, 0x30, 0x28, 0xF0,
    0x75, 0x1E, 0x10, 0xD2, 0x35, 0x22, 0xE5, 0x4B, 0x75, 0xF0, 0x05, 0x84, 0x78, 0xBC, 0xF6, 0x90,
    0x0E, 0x8C, 0xE4, 0x93, 0xFF, 0x25, 0xE0, 0x24, 0x0A, 0xF8, 0xE6, 0xFC, 0x08, 0xE6, 0xFD, 0x78,
    0xBC, 0xE6, 0x25, 0xE0, 0x24, 0x4E, 0xF8, 0xA6, 0x04, 0x08, 0xA6, 0x05, 0xEF, 0x12, 0x0F, 0x0B,
    0xD3, 0x78, 0xB7, 0x96, 0xEE, 0x18, 0x96, 0x40, 0x0D, 0x78, 0xBC, 0xE6, 0x78, 0xB9, 0xF6, 0x78,
    0xB6, 0xA6, 0x06, 0x08, 0xA6, 0x07, 0x90, 0x0E, 0x8C, 0xE4, 0x93, 0x12, 0x0F, 0x0B, 0xC3, 0x78]"

definition OV5640_AF_Config_8100 :: "u8 list" where
  "OV5640_AF_Config_8100 = [
    0xC2, 0x96, 0xEE, 0x18, 0x96, 0x50, 0x0D, 0x78, 0xBC, 0xE6, 0x78, 0xBA, 0xF6, 0x78, 0xC1, 0xA6,
    0x06, 0x08, 0xA6, 0x07, 0x78, 0xB6, 0xE6, 0xFE, 0x08, 0xE6, 0xC3, 0x78, 0xC2, 0x96, 0xFF, 0xEE,
    0x18, 0x96, 0x78, 0xC3, 0xF6, 0x08, 0xA6, 0x07, 0x90, 0x0E, 0x95, 0xE4, 0x18, 0x12, 0x0E, 0xE9,
    0x40, 0x02, 0xD2, 0x37, 0x78, 0xBC, 0xE6, 0x08, 0x26, 0x08, 0xF6, 0xE5, 0x1F, 0x64, 0x01, 0x70,
    0x4A, 0xE6, 0xC3, 0x78, 0xC0, 0x12, 0x0E, 0xDF, 0x40, 0x05, 0x12, 0x0E, 0xDA, 0x40, 0x39, 0x12,
    0x0F, 0x02, 0x40, 0x04, 0x7F, 0xFE, 0x80, 0x02, 0x7F, 0x02, 0x78, 0xBD, 0xA6, 0x07, 0x78, 0xB9,
    0xE6, 0x24, 0x03, 0x78, 0xBF, 0xF6, 0x78, 0xB9, 0xE6, 0x24, 0xFD, 0x78, 0xC0, 0xF6, 0x12, 0x0F,
    0x02, 0x40, 0x06, 0x78, 0xC0, 0xE6, 0xFF, 0x80, 0x04, 0x78, 0xBF, 0xE6, 0xFF, 0x78, 0xBE, 0xA6,
    0x07, 0x75, 0x1F, 0x02, 0x78, 0xB8, 0x76, 0x01, 0x02, 0x02, 0x4A, 0xE5, 0x1F, 0x64, 0x02, 0x60,
    0x03, 0x02, 0x02, 0x2A, 0x78, 0xBE, 0xE6, 0xFF, 0xC3, 0x78, 0xC0, 0x12, 0x0E, 0xE0, 0x40, 0x08,
    0x12, 0x0E, 0xDA, 0x50, 0x03, 0x02, 0x02, 0x28, 0x12, 0x0F, 0x02, 0x40, 0x04, 0x7F, 0xFF, 0x80,
    0x02, 0x7F, 0x01, 0x78, 0xBD, 0xA6, 0x07, 0x78, 0xB9, 0xE6, 0x04, 0x78, 0xBF, 0xF6, 0x78, 0xB9,
    0xE6, 0x14, 0x78, 0xC0, 0xF6, 0x18, 0x12, 0x0F, 0x04, 0x40, 0x04, 0xE6, 0xFF, 0x80, 0x02, 0x7F,
    0x00, 0x78, 0xBF, 0xA6, 0x07, 0xD3, 0x08, 0xE6, 0x64, 0x80, 0x94, 0x80, 0x40, 0x04, 0xE6, 0xFF,
    0x80, 0x02, 0x7F, 0x00, 0x78, 0xC0, 0xA6, 0x07, 0xC3, 0x18, 0xE6, 0x64, 0x80, 0x94, 0xB3, 0x50,
    0x04, 0xE6, 0xFF, 0x80, 0x02, 0x7F, 0x33, 0x78, 0xBF, 0xA6, 0x07, 0xC3, 0x08, 0xE6, 0x64, 0x80]"

definition OV5640_AF_Config_8200 :: "u8 list" where
  "OV5640_AF_Config_8200 = [
    0x94, 0xB3, 0x50, 0x04, 0xE6, 0xFF, 0x80, 0x02, 0x7F, 0x33, 0x78, 0xC0, 0xA6, 0x07, 0x12, 0x0F,
    0x02, 0x40, 0x06, 0x78, 0xC0, 0xE6, 0xFF, 0x80, 0x04, 0x78, 0xBF, 0xE6, 0xFF, 0x78, 0xBE, 0xA6,
    0x07, 0x75, 0x1F, 0x03, 0x78, 0xB8, 0x76, 0x01, 0x80, 0x20, 0xE5, 0x1F, 0x64, 0x03, 0x70, 0x26,
    0x78, 0xBE, 0xE6, 0xFF, 0xC3, 0x78, 0xC0, 0x12, 0x0E, 0xE0, 0x40, 0x05, 0x12, 0x0E, 0xDA, 0x40,
    0x09, 0x78, 0xB9, 0xE6, 0x78, 0xBE, 0xF6, 0x75, 0x1F, 0x04, 0x78, 0xBE, 0xE6, 0x75, 0xF0, 0x05,
    0xA4, 0xF5, 0x4B, 0x02, 0x0A, 0xFF, 0xE5, 0x1F, 0xB4, 0x04, 0x10, 0x90, 0x0E, 0x94, 0xE4, 0x78,
    0xC3, 0x12, 0x0E, 0xE9, 0x40, 0x02, 0xD2, 0x37, 0x75, 0x1F, 0x05, 0x22, 0x30, 0x01, 0x03, 0x02,
    0x04, 0xC0, 0x30, 0x02, 0x03, 0x02, 0x04, 0xC0, 0x90, 0x51, 0xA5, 0xE0, 0x78, 0x93, 0xF6, 0xA3,
    0xE0, 0x08, 0xF6, 0xA3, 0xE0, 0x08, 0xF6, 0xE5, 0x1F, 0x70, 0x3C, 0x75, 0x1E, 0x20, 0xD2, 0x35,
    0x12, 0x0C, 0x7A, 0x78, 0x7E, 0xA6, 0x06, 0x08, 0xA6, 0x07, 0x78, 0x8B, 0xA6, 0x09, 0x18, 0x76,
    0x01, 0x12, 0x0C, 0x5B, 0x78, 0x4E, 0xA6, 0x06, 0x08, 0xA6, 0x07, 0x78, 0x8B, 0xE6, 0x78, 0x6E,
    0xF6, 0x75, 0x1F, 0x01, 0x78, 0x93, 0xE6, 0x78, 0x90, 0xF6, 0x78, 0x94, 0xE6, 0x78, 0x91, 0xF6,
    0x78, 0x95, 0xE6, 0x78, 0x92, 0xF6, 0x22, 0x79, 0x90, 0xE7, 0xD3, 0x78, 0x93, 0x96, 0x40, 0x05,
    0xE7, 0x96, 0xFF, 0x80, 0x08, 0xC3, 0x79, 0x93, 0xE7, 0x78, 0x90, 0x96, 0xFF, 0x78, 0x88, 0x76,
    0x00, 0x08, 0xA6, 0x07, 0x79, 0x91, 0xE7, 0xD3, 0x78, 0x94, 0x96, 0x40, 0x05, 0xE7, 0x96, 0xFF,
    0x80, 0x08, 0xC3, 0x79, 0x94, 0xE7, 0x78, 0x91, 0x96, 0xFF, 0x12, 0x0C, 0x8E, 0x79, 0x92, 0xE7]"

definition OV5640_AF_Config_8300 :: "u8 list" where
  "OV5640_AF_Config_8300 = [
    0xD3, 0x78, 0x95, 0x96, 0x40, 0x05, 0xE7, 0x96, 0xFF, 0x80, 0x08, 0xC3, 0x79, 0x95, 0xE7, 0x78,
    0x92, 0x96, 0xFF, 0x12, 0x0C, 0x8E, 0x12, 0x0C, 0x5B, 0x78, 0x8A, 0xE6, 0x25, 0xE0, 0x24, 0x4E,
    0xF8, 0xA6, 0x06, 0x08, 0xA6, 0x07, 0x78, 0x8A, 0xE6, 0x24, 0x6E, 0xF8, 0xA6, 0x09, 0x78, 0x8A,
    0xE6, 0x24, 0x01, 0xFF, 0xE4, 0x33, 0xFE, 0xD3, 0xEF, 0x94, 0x0F, 0xEE, 0x64, 0x80, 0x94, 0x80,
    0x40, 0x04, 0x7F, 0x00, 0x80, 0x05, 0x78, 0x8A, 0xE6, 0x04, 0xFF, 0x78, 0x8A, 0xA6, 0x07, 0xE5,
    0x1F, 0xB4, 0x01, 0x0A, 0xE6, 0x60, 0x03, 0x02, 0x04, 0xC0, 0x75, 0x1F, 0x02, 0x22, 0x12, 0x0C,
    0x7A, 0x78, 0x80, 0xA6, 0x06, 0x08, 0xA6, 0x07, 0x12, 0x0C, 0x7A, 0x78, 0x82, 0xA6, 0x06, 0x08,
    0xA6, 0x07, 0x78, 0x6E, 0xE6, 0x78, 0x8C, 0xF6, 0x78, 0x6E, 0xE6, 0x78, 0x8D, 0xF6, 0x7F, 0x01,
    0xEF, 0x25, 0xE0, 0x24, 0x4F, 0xF9, 0xC3, 0x78, 0x81, 0xE6, 0x97, 0x18, 0xE6, 0x19, 0x97, 0x50,
    0x0A, 0x12, 0x0C, 0x82, 0x78, 0x80, 0xA6, 0x04, 0x08, 0xA6, 0x05, 0x74, 0x6E, 0x2F, 0xF9, 0x78,
    0x8C, 0xE6, 0xC3, 0x97, 0x50, 0x08, 0x74, 0x6E, 0x2F, 0xF8, 0xE6, 0x78, 0x8C, 0xF6, 0xEF, 0x25,
    0xE0, 0x24, 0x4F, 0xF9, 0xD3, 0x78, 0x83, 0xE6, 0x97, 0x18, 0xE6, 0x19, 0x97, 0x40, 0x0A, 0x12,
    0x0C, 0x82, 0x78, 0x82, 0xA6, 0x04, 0x08, 0xA6, 0x05, 0x74, 0x6E, 0x2F, 0xF9, 0x78, 0x8D, 0xE6,
    0xD3, 0x97, 0x40, 0x08, 0x74, 0x6E, 0x2F, 0xF8, 0xE6, 0x78, 0x8D, 0xF6, 0x0F, 0xEF, 0x64, 0x10,
    0x70, 0x9E, 0xC3, 0x79, 0x81, 0xE7, 0x78, 0x83, 0x96, 0xFF, 0x19, 0xE7, 0x18, 0x96, 0x78, 0x84,
    0xF6, 0x08, 0xA6, 0x07, 0xC3, 0x79, 0x8C, 0xE7, 0x78, 0x8D, 0x96, 0x08, 0xF6, 0xD3, 0x79, 0x81]"

definition OV5640_AF_Config_8400 :: "u8 list" where
  "OV5640_AF_Config_8400 = [
    0xE7, 0x78, 0x7F, 0x96, 0x19, 0xE7, 0x18, 0x96, 0x40, 0x05, 0x09, 0xE7, 0x08, 0x80, 0x06, 0xC3,
    0x79, 0x7F, 0xE7, 0x78, 0x81, 0x96, 0xFF, 0x19, 0xE7, 0x18, 0x96, 0xFE, 0x78, 0x86, 0xA6, 0x06,
    0x08, 0xA6, 0x07, 0x79, 0x8C, 0xE7, 0xD3, 0x78, 0x8B, 0x96, 0x40, 0x05, 0xE7, 0x96, 0xFF, 0x80,
    0x08, 0xC3, 0x79, 0x8B, 0xE7, 0x78, 0x8C, 0x96, 0xFF, 0x78, 0x8F, 0xA6, 0x07, 0xE5, 0x1F, 0x64,
    0x02, 0x70, 0x69, 0x90, 0x0E, 0x91, 0x93, 0xFF, 0x18, 0xE6, 0xC3, 0x9F, 0x50, 0x72, 0x12, 0x0C,
    0x4A, 0x12, 0x0C, 0x2F, 0x90, 0x0E, 0x8E, 0x12, 0x0C, 0x38, 0x78, 0x80, 0x12, 0x0C, 0x6B, 0x7B,
    0x04, 0x12, 0x0C, 0x1D, 0xC3, 0x12, 0x06, 0x45, 0x50, 0x56, 0x90, 0x0E, 0x92, 0xE4, 0x93, 0xFF,
    0x78, 0x8F, 0xE6, 0x9F, 0x40, 0x02, 0x80, 0x11, 0x90, 0x0E, 0x90, 0xE4, 0x93, 0xFF, 0xD3, 0x78,
    0x89, 0xE6, 0x9F, 0x18, 0xE6, 0x94, 0x00, 0x40, 0x03, 0x75, 0x1F, 0x05, 0x12, 0x0C, 0x4A, 0x12,
    0x0C, 0x2F, 0x90, 0x0E, 0x8F, 0x12, 0x0C, 0x38, 0x78, 0x7E, 0x12, 0x0C, 0x6B, 0x7B, 0x40, 0x12,
    0x0C, 0x1D, 0xD3, 0x12, 0x06, 0x45, 0x40, 0x18, 0x75, 0x1F, 0x05, 0x22, 0xE5, 0x1F, 0xB4, 0x05,
    0x0F, 0xD2, 0x01, 0xC2, 0x02, 0xE4, 0xF5, 0x1F, 0xF5, 0x1E, 0xD2, 0x35, 0xD2, 0x33, 0xD2, 0x36,
    0x22, 0xEF, 0x8D, 0xF0, 0xA4, 0xA8, 0xF0, 0xCF, 0x8C, 0xF0, 0xA4, 0x28, 0xCE, 0x8D, 0xF0, 0xA4,
    0x2E, 0xFE, 0x22, 0xBC, 0x00, 0x0B, 0xBE, 0x00, 0x29, 0xEF, 0x8D, 0xF0, 0x84, 0xFF, 0xAD, 0xF0,
    0x22, 0xE4, 0xCC, 0xF8, 0x75, 0xF0, 0x08, 0xEF, 0x2F, 0xFF, 0xEE, 0x33, 0xFE, 0xEC, 0x33, 0xFC,
    0xEE, 0x9D, 0xEC, 0x98, 0x40, 0x05, 0xFC, 0xEE, 0x9D, 0xFE, 0x0F, 0xD5, 0xF0, 0xE9, 0xE4, 0xCE]"

definition OV5640_AF_Config_8500 :: "u8 list" where
  "OV5640_AF_Config_8500 = [
    0xFD, 0x22, 0xED, 0xF8, 0xF5, 0xF0, 0xEE, 0x84, 0x20, 0xD2, 0x1C, 0xFE, 0xAD, 0xF0, 0x75, 0xF0,
    0x08, 0xEF, 0x2F, 0xFF, 0xED, 0x33, 0xFD, 0x40, 0x07, 0x98, 0x50, 0x06, 0xD5, 0xF0, 0xF2, 0x22,
    0xC3, 0x98, 0xFD, 0x0F, 0xD5, 0xF0, 0xEA, 0x22, 0xE8, 0x8F, 0xF0, 0xA4, 0xCC, 0x8B, 0xF0, 0xA4,
    0x2C, 0xFC, 0xE9, 0x8E, 0xF0, 0xA4, 0x2C, 0xFC, 0x8A, 0xF0, 0xED, 0xA4, 0x2C, 0xFC, 0xEA, 0x8E,
    0xF0, 0xA4, 0xCD, 0xA8, 0xF0, 0x8B, 0xF0, 0xA4, 0x2D, 0xCC, 0x38, 0x25, 0xF0, 0xFD, 0xE9, 0x8F,
    0xF0, 0xA4, 0x2C, 0xCD, 0x35, 0xF0, 0xFC, 0xEB, 0x8E, 0xF0, 0xA4, 0xFE, 0xA9, 0xF0, 0xEB, 0x8F,
    0xF0, 0xA4, 0xCF, 0xC5, 0xF0, 0x2E, 0xCD, 0x39, 0xFE, 0xE4, 0x3C, 0xFC, 0xEA, 0xA4, 0x2D, 0xCE,
    0x35, 0xF0, 0xFD, 0xE4, 0x3C, 0xFC, 0x22, 0x75, 0xF0, 0x08, 0x75, 0x82, 0x00, 0xEF, 0x2F, 0xFF,
    0xEE, 0x33, 0xFE, 0xCD, 0x33, 0xCD, 0xCC, 0x33, 0xCC, 0xC5, 0x82, 0x33, 0xC5, 0x82, 0x9B, 0xED,
    0x9A, 0xEC, 0x99, 0xE5, 0x82, 0x98, 0x40, 0x0C, 0xF5, 0x82, 0xEE, 0x9B, 0xFE, 0xED, 0x9A, 0xFD,
    0xEC, 0x99, 0xFC, 0x0F, 0xD5, 0xF0, 0xD6, 0xE4, 0xCE, 0xFB, 0xE4, 0xCD, 0xFA, 0xE4, 0xCC, 0xF9,
    0xA8, 0x82, 0x22, 0xB8, 0x00, 0xC1, 0xB9, 0x00, 0x59, 0xBA, 0x00, 0x2D, 0xEC, 0x8B, 0xF0, 0x84,
    0xCF, 0xCE, 0xCD, 0xFC, 0xE5, 0xF0, 0xCB, 0xF9, 0x78, 0x18, 0xEF, 0x2F, 0xFF, 0xEE, 0x33, 0xFE,
    0xED, 0x33, 0xFD, 0xEC, 0x33, 0xFC, 0xEB, 0x33, 0xFB, 0x10, 0xD7, 0x03, 0x99, 0x40, 0x04, 0xEB,
    0x99, 0xFB, 0x0F, 0xD8, 0xE5, 0xE4, 0xF9, 0xFA, 0x22, 0x78, 0x18, 0xEF, 0x2F, 0xFF, 0xEE, 0x33,
    0xFE, 0xED, 0x33, 0xFD, 0xEC, 0x33, 0xFC, 0xC9, 0x33, 0xC9, 0x10, 0xD7, 0x05, 0x9B, 0xE9, 0x9A]"

definition OV5640_AF_Config_8600 :: "u8 list" where
  "OV5640_AF_Config_8600 = [
    0x40, 0x07, 0xEC, 0x9B, 0xFC, 0xE9, 0x9A, 0xF9, 0x0F, 0xD8, 0xE0, 0xE4, 0xC9, 0xFA, 0xE4, 0xCC,
    0xFB, 0x22, 0x75, 0xF0, 0x10, 0xEF, 0x2F, 0xFF, 0xEE, 0x33, 0xFE, 0xED, 0x33, 0xFD, 0xCC, 0x33,
    0xCC, 0xC8, 0x33, 0xC8, 0x10, 0xD7, 0x07, 0x9B, 0xEC, 0x9A, 0xE8, 0x99, 0x40, 0x0A, 0xED, 0x9B,
    0xFD, 0xEC, 0x9A, 0xFC, 0xE8, 0x99, 0xF8, 0x0F, 0xD5, 0xF0, 0xDA, 0xE4, 0xCD, 0xFB, 0xE4, 0xCC,
    0xFA, 0xE4, 0xC8, 0xF9, 0x22, 0xEB, 0x9F, 0xF5, 0xF0, 0xEA, 0x9E, 0x42, 0xF0, 0xE9, 0x9D, 0x42,
    0xF0, 0xE8, 0x9C, 0x45, 0xF0, 0x22, 0xE8, 0x60, 0x0F, 0xEC, 0xC3, 0x13, 0xFC, 0xED, 0x13, 0xFD,
    0xEE, 0x13, 0xFE, 0xEF, 0x13, 0xFF, 0xD8, 0xF1, 0x22, 0xE8, 0x60, 0x0F, 0xEF, 0xC3, 0x33, 0xFF,
    0xEE, 0x33, 0xFE, 0xED, 0x33, 0xFD, 0xEC, 0x33, 0xFC, 0xD8, 0xF1, 0x22, 0xE4, 0x93, 0xFC, 0x74,
    0x01, 0x93, 0xFD, 0x74, 0x02, 0x93, 0xFE, 0x74, 0x03, 0x93, 0xFF, 0x22, 0xE6, 0xFB, 0x08, 0xE6,
    0xF9, 0x08, 0xE6, 0xFA, 0x08, 0xE6, 0xCB, 0xF8, 0x22, 0xEC, 0xF6, 0x08, 0xED, 0xF6, 0x08, 0xEE,
    0xF6, 0x08, 0xEF, 0xF6, 0x22, 0xA4, 0x25, 0x82, 0xF5, 0x82, 0xE5, 0xF0, 0x35, 0x83, 0xF5, 0x83,
    0x22, 0xD0, 0x83, 0xD0, 0x82, 0xF8, 0xE4, 0x93, 0x70, 0x12, 0x74, 0x01, 0x93, 0x70, 0x0D, 0xA3,
    0xA3, 0x93, 0xF8, 0x74, 0x01, 0x93, 0xF5, 0x82, 0x88, 0x83, 0xE4, 0x73, 0x74, 0x02, 0x93, 0x68,
    0x60, 0xEF, 0xA3, 0xA3, 0xA3, 0x80, 0xDF, 0x90, 0x38, 0x04, 0x78, 0x52, 0x12, 0x0B, 0xFD, 0x90,
    0x38, 0x00, 0xE0, 0xFE, 0xA3, 0xE0, 0xFD, 0xED, 0xFF, 0xC3, 0x12, 0x0B, 0x9E, 0x90, 0x38, 0x10,
    0x12, 0x0B, 0x92, 0x90, 0x38, 0x06, 0x78, 0x54, 0x12, 0x0B, 0xFD, 0x90, 0x38, 0x02, 0xE0, 0xFE]"

definition OV5640_AF_Config_8700 :: "u8 list" where
  "OV5640_AF_Config_8700 = [
    0xA3, 0xE0, 0xFD, 0xED, 0xFF, 0xC3, 0x12, 0x0B, 0x9E, 0x90, 0x38, 0x12, 0x12, 0x0B, 0x92, 0xA3,
    0xE0, 0xB4, 0x31, 0x07, 0x78, 0x52, 0x79, 0x52, 0x12, 0x0C, 0x13, 0x90, 0x38, 0x14, 0xE0, 0xB4,
    0x71, 0x15, 0x78, 0x52, 0xE6, 0xFE, 0x08, 0xE6, 0x78, 0x02, 0xCE, 0xC3, 0x13, 0xCE, 0x13, 0xD8,
    0xF9, 0x79, 0x53, 0xF7, 0xEE, 0x19, 0xF7, 0x90, 0x38, 0x15, 0xE0, 0xB4, 0x31, 0x07, 0x78, 0x54,
    0x79, 0x54, 0x12, 0x0C, 0x13, 0x90, 0x38, 0x15, 0xE0, 0xB4, 0x71, 0x15, 0x78, 0x54, 0xE6, 0xFE,
    0x08, 0xE6, 0x78, 0x02, 0xCE, 0xC3, 0x13, 0xCE, 0x13, 0xD8, 0xF9, 0x79, 0x55, 0xF7, 0xEE, 0x19,
    0xF7, 0x79, 0x52, 0x12, 0x0B, 0xD9, 0x09, 0x12, 0x0B, 0xD9, 0xAF, 0x47, 0x12, 0x0B, 0xB2, 0xE5,
    0x44, 0xFB, 0x7A, 0x00, 0xFD, 0x7C, 0x00, 0x12, 0x04, 0xD3, 0x78, 0x5A, 0xA6, 0x06, 0x08, 0xA6,
    0x07, 0xAF, 0x45, 0x12, 0x0B, 0xB2, 0xAD, 0x03, 0x7C, 0x00, 0x12, 0x04, 0xD3, 0x78, 0x56, 0xA6,
    0x06, 0x08, 0xA6, 0x07, 0xAF, 0x48, 0x78, 0x54, 0x12, 0x0B, 0xB4, 0xE5, 0x43, 0xFB, 0xFD, 0x7C,
    0x00, 0x12, 0x04, 0xD3, 0x78, 0x5C, 0xA6, 0x06, 0x08, 0xA6, 0x07, 0xAF, 0x46, 0x7E, 0x00, 0x78,
    0x54, 0x12, 0x0B, 0xB6, 0xAD, 0x03, 0x7C, 0x00, 0x12, 0x04, 0xD3, 0x78, 0x58, 0xA6, 0x06, 0x08,
    0xA6, 0x07, 0xC3, 0x78, 0x5B, 0xE6, 0x94, 0x08, 0x18, 0xE6, 0x94, 0x00, 0x50, 0x05, 0x76, 0x00,
    0x08, 0x76, 0x08, 0xC3, 0x78, 0x5D, 0xE6, 0x94, 0x08, 0x18, 0xE6, 0x94, 0x00, 0x50, 0x05, 0x76,
    0x00, 0x08, 0x76, 0x08, 0x78, 0x5A, 0x12, 0x0B, 0xC6, 0xFF, 0xD3, 0x78, 0x57, 0xE6, 0x9F, 0x18,
    0xE6, 0x9E, 0x40, 0x0E, 0x78, 0x5A, 0xE6, 0x13, 0xFE, 0x08, 0xE6, 0x78, 0x57, 0x12, 0x0C, 0x08]"

definition OV5640_AF_Config_8800 :: "u8 list" where
  "OV5640_AF_Config_8800 = [
    0x80, 0x04, 0x7E, 0x00, 0x7F, 0x00, 0x78, 0x5E, 0x12, 0x0B, 0xBE, 0xFF, 0xD3, 0x78, 0x59, 0xE6,
    0x9F, 0x18, 0xE6, 0x9E, 0x40, 0x0E, 0x78, 0x5C, 0xE6, 0x13, 0xFE, 0x08, 0xE6, 0x78, 0x59, 0x12,
    0x0C, 0x08, 0x80, 0x04, 0x7E, 0x00, 0x7F, 0x00, 0xE4, 0xFC, 0xFD, 0x78, 0x62, 0x12, 0x06, 0x99,
    0x78, 0x5A, 0x12, 0x0B, 0xC6, 0x78, 0x57, 0x26, 0xFF, 0xEE, 0x18, 0x36, 0xFE, 0x78, 0x66, 0x12,
    0x0B, 0xBE, 0x78, 0x59, 0x26, 0xFF, 0xEE, 0x18, 0x36, 0xFE, 0xE4, 0xFC, 0xFD, 0x78, 0x6A, 0x12,
    0x06, 0x99, 0x12, 0x0B, 0xCE, 0x78, 0x66, 0x12, 0x06, 0x8C, 0xD3, 0x12, 0x06, 0x45, 0x40, 0x08,
    0x12, 0x0B, 0xCE, 0x78, 0x66, 0x12, 0x06, 0x99, 0x78, 0x54, 0x12, 0x0B, 0xD0, 0x78, 0x6A, 0x12,
    0x06, 0x8C, 0xD3, 0x12, 0x06, 0x45, 0x40, 0x0A, 0x78, 0x54, 0x12, 0x0B, 0xD0, 0x78, 0x6A, 0x12,
    0x06, 0x99, 0x78, 0x61, 0xE6, 0x90, 0x60, 0x01, 0xF0, 0x78, 0x65, 0xE6, 0xA3, 0xF0, 0x78, 0x69,
    0xE6, 0xA3, 0xF0, 0x78, 0x55, 0xE6, 0xA3, 0xF0, 0x7D, 0x01, 0x78, 0x61, 0x12, 0x0B, 0xE9, 0x24,
    0x01, 0x12, 0x0B, 0xA6, 0x78, 0x65, 0x12, 0x0B, 0xE9, 0x24, 0x02, 0x12, 0x0B, 0xA6, 0x78, 0x69,
    0x12, 0x0B, 0xE9, 0x24, 0x03, 0x12, 0x0B, 0xA6, 0x78, 0x6D, 0x12, 0x0B, 0xE9, 0x24, 0x04, 0x12,
    0x0B, 0xA6, 0x0D, 0xBD, 0x05, 0xD4, 0xC2, 0x0E, 0xC2, 0x06, 0x22, 0x85, 0x08, 0x41, 0x90, 0x30,
    0x24, 0xE0, 0xF5, 0x3D, 0xA3, 0xE0, 0xF5, 0x3E, 0xA3, 0xE0, 0xF5, 0x3F, 0xA3, 0xE0, 0xF5, 0x40,
    0xA3, 0xE0, 0xF5, 0x3C, 0xD2, 0x34, 0xE5, 0x41, 0x12, 0x06, 0xB1, 0x09, 0x31, 0x03, 0x09, 0x35,
    0x04, 0x09, 0x3B, 0x05, 0x09, 0x3E, 0x06, 0x09, 0x41, 0x07, 0x09, 0x4A, 0x08, 0x09, 0x5B, 0x12]"

definition OV5640_AF_Config_8900 :: "u8 list" where
  "OV5640_AF_Config_8900 = [
    0x09, 0x73, 0x18, 0x09, 0x89, 0x19, 0x09, 0x5E, 0x1A, 0x09, 0x6A, 0x1B, 0x09, 0xAD, 0x80, 0x09,
    0xB2, 0x81, 0x0A, 0x1D, 0x8F, 0x0A, 0x09, 0x90, 0x0A, 0x1D, 0x91, 0x0A, 0x1D, 0x92, 0x0A, 0x1D,
    0x93, 0x0A, 0x1D, 0x94, 0x0A, 0x1D, 0x98, 0x0A, 0x17, 0x9F, 0x0A, 0x1A, 0xEC, 0x00, 0x00, 0x0A,
    0x38, 0x12, 0x0F, 0x74, 0x22, 0x12, 0x0F, 0x74, 0xD2, 0x03, 0x22, 0xD2, 0x03, 0x22, 0xC2, 0x03,
    0x22, 0xA2, 0x37, 0xE4, 0x33, 0xF5, 0x3C, 0x02, 0x0A, 0x1D, 0xC2, 0x01, 0xC2, 0x02, 0xC2, 0x03,
    0x12, 0x0D, 0x0D, 0x75, 0x1E, 0x70, 0xD2, 0x35, 0x02, 0x0A, 0x1D, 0x02, 0x0A, 0x04, 0x85, 0x40,
    0x4A, 0x85, 0x3C, 0x4B, 0x12, 0x0A, 0xFF, 0x02, 0x0A, 0x1D, 0x85, 0x4A, 0x40, 0x85, 0x4B, 0x3C,
    0x02, 0x0A, 0x1D, 0xE4, 0xF5, 0x22, 0xF5, 0x23, 0x85, 0x40, 0x31, 0x85, 0x3F, 0x30, 0x85, 0x3E,
    0x2F, 0x85, 0x3D, 0x2E, 0x12, 0x0F, 0x46, 0x80, 0x1F, 0x75, 0x22, 0x00, 0x75, 0x23, 0x01, 0x74,
    0xFF, 0xF5, 0x2D, 0xF5, 0x2C, 0xF5, 0x2B, 0xF5, 0x2A, 0x12, 0x0F, 0x46, 0x85, 0x2D, 0x40, 0x85,
    0x2C, 0x3F, 0x85, 0x2B, 0x3E, 0x85, 0x2A, 0x3D, 0xE4, 0xF5, 0x3C, 0x80, 0x70, 0x12, 0x0F, 0x16,
    0x80, 0x6B, 0x85, 0x3D, 0x45, 0x85, 0x3E, 0x46, 0xE5, 0x47, 0xC3, 0x13, 0xFF, 0xE5, 0x45, 0xC3,
    0x9F, 0x50, 0x02, 0x8F, 0x45, 0xE5, 0x48, 0xC3, 0x13, 0xFF, 0xE5, 0x46, 0xC3, 0x9F, 0x50, 0x02,
    0x8F, 0x46, 0xE5, 0x47, 0xC3, 0x13, 0xFF, 0xFD, 0xE5, 0x45, 0x2D, 0xFD, 0xE4, 0x33, 0xFC, 0xE5,
    0x44, 0x12, 0x0F, 0x90, 0x40, 0x05, 0xE5, 0x44, 0x9F, 0xF5, 0x45, 0xE5, 0x48, 0xC3, 0x13, 0xFF,
    0xFD, 0xE5, 0x46, 0x2D, 0xFD, 0xE4, 0x33, 0xFC, 0xE5, 0x43, 0x12, 0x0F, 0x90, 0x40, 0x05, 0xE5]"

definition OV5640_AF_Config_8a00 :: "u8 list" where
  "OV5640_AF_Config_8a00 = [
    0x43, 0x9F, 0xF5, 0x46, 0x12, 0x06, 0xD7, 0x80, 0x14, 0x85, 0x40, 0x48, 0x85, 0x3F, 0x47, 0x85,
    0x3E, 0x46, 0x85, 0x3D, 0x45, 0x80, 0x06, 0x02, 0x06, 0xD7, 0x12, 0x0D, 0x7E, 0x90, 0x30, 0x24,
    0xE5, 0x3D, 0xF0, 0xA3, 0xE5, 0x3E, 0xF0, 0xA3, 0xE5, 0x3F, 0xF0, 0xA3, 0xE5, 0x40, 0xF0, 0xA3,
    0xE5, 0x3C, 0xF0, 0x90, 0x30, 0x23, 0xE4, 0xF0, 0x22, 0xC0, 0xE0, 0xC0, 0x83, 0xC0, 0x82, 0xC0,
    0xD0, 0x90, 0x3F, 0x0C, 0xE0, 0xF5, 0x32, 0xE5, 0x32, 0x30, 0xE3, 0x74, 0x30, 0x36, 0x66, 0x90,
    0x60, 0x19, 0xE0, 0xF5, 0x0A, 0xA3, 0xE0, 0xF5, 0x0B, 0x90, 0x60, 0x1D, 0xE0, 0xF5, 0x14, 0xA3,
    0xE0, 0xF5, 0x15, 0x90, 0x60, 0x21, 0xE0, 0xF5, 0x0C, 0xA3, 0xE0, 0xF5, 0x0D, 0x90, 0x60, 0x29,
    0xE0, 0xF5, 0x0E, 0xA3, 0xE0, 0xF5, 0x0F, 0x90, 0x60, 0x31, 0xE0, 0xF5, 0x10, 0xA3, 0xE0, 0xF5,
    0x11, 0x90, 0x60, 0x39, 0xE0, 0xF5, 0x12, 0xA3, 0xE0, 0xF5, 0x13, 0x30, 0x01, 0x06, 0x30, 0x33,
    0x03, 0xD3, 0x80, 0x01, 0xC3, 0x92, 0x09, 0x30, 0x02, 0x06, 0x30, 0x33, 0x03, 0xD3, 0x80, 0x01,
    0xC3, 0x92, 0x0A, 0x30, 0x33, 0x0C, 0x30, 0x03, 0x09, 0x20, 0x02, 0x06, 0x20, 0x01, 0x03, 0xD3,
    0x80, 0x01, 0xC3, 0x92, 0x0B, 0x90, 0x30, 0x01, 0xE0, 0x44, 0x40, 0xF0, 0xE0, 0x54, 0xBF, 0xF0,
    0xE5, 0x32, 0x30, 0xE1, 0x14, 0x30, 0x34, 0x11, 0x90, 0x30, 0x22, 0xE0, 0xF5, 0x08, 0xE4, 0xF0,
    0x30, 0x00, 0x03, 0xD3, 0x80, 0x01, 0xC3, 0x92, 0x08, 0xE5, 0x32, 0x30, 0xE5, 0x12, 0x90, 0x56,
    0xA1, 0xE0, 0xF5, 0x09, 0x30, 0x31, 0x09, 0x30, 0x05, 0x03, 0xD3, 0x80, 0x01, 0xC3, 0x92, 0x0D,
    0x90, 0x3F, 0x0C, 0xE5, 0x32, 0xF0, 0xD0, 0xD0, 0xD0, 0x82, 0xD0, 0x83, 0xD0, 0xE0, 0x32, 0x90]"

definition OV5640_AF_Config_8b00 :: "u8 list" where
  "OV5640_AF_Config_8b00 = [
    0x0E, 0x7E, 0xE4, 0x93, 0xFE, 0x74, 0x01, 0x93, 0xFF, 0xC3, 0x90, 0x0E, 0x7C, 0x74, 0x01, 0x93,
    0x9F, 0xFF, 0xE4, 0x93, 0x9E, 0xFE, 0xE4, 0x8F, 0x3B, 0x8E, 0x3A, 0xF5, 0x39, 0xF5, 0x38, 0xAB,
    0x3B, 0xAA, 0x3A, 0xA9, 0x39, 0xA8, 0x38, 0xAF, 0x4B, 0xFC, 0xFD, 0xFE, 0x12, 0x05, 0x28, 0x12,
    0x0D, 0xE1, 0xE4, 0x7B, 0xFF, 0xFA, 0xF9, 0xF8, 0x12, 0x05, 0xB3, 0x12, 0x0D, 0xE1, 0x90, 0x0E,
    0x69, 0xE4, 0x12, 0x0D, 0xF6, 0x12, 0x0D, 0xE1, 0xE4, 0x85, 0x4A, 0x37, 0xF5, 0x36, 0xF5, 0x35,
    0xF5, 0x34, 0xAF, 0x37, 0xAE, 0x36, 0xAD, 0x35, 0xAC, 0x34, 0xA3, 0x12, 0x0D, 0xF6, 0x8F, 0x37,
    0x8E, 0x36, 0x8D, 0x35, 0x8C, 0x34, 0xE5, 0x3B, 0x45, 0x37, 0xF5, 0x3B, 0xE5, 0x3A, 0x45, 0x36,
    0xF5, 0x3A, 0xE5, 0x39, 0x45, 0x35, 0xF5, 0x39, 0xE5, 0x38, 0x45, 0x34, 0xF5, 0x38, 0xE4, 0xF5,
    0x22, 0xF5, 0x23, 0x85, 0x3B, 0x31, 0x85, 0x3A, 0x30, 0x85, 0x39, 0x2F, 0x85, 0x38, 0x2E, 0x02,
    0x0F, 0x46, 0xE0, 0xA3, 0xE0, 0x75, 0xF0, 0x02, 0xA4, 0xFF, 0xAE, 0xF0, 0xC3, 0x08, 0xE6, 0x9F,
    0xF6, 0x18, 0xE6, 0x9E, 0xF6, 0x22, 0xFF, 0xE5, 0xF0, 0x34, 0x60, 0x8F, 0x82, 0xF5, 0x83, 0xEC,
    0xF0, 0x22, 0x78, 0x52, 0x7E, 0x00, 0xE6, 0xFC, 0x08, 0xE6, 0xFD, 0x02, 0x04, 0xC1, 0xE4, 0xFC,
    0xFD, 0x12, 0x06, 0x99, 0x78, 0x5C, 0xE6, 0xC3, 0x13, 0xFE, 0x08, 0xE6, 0x13, 0x22, 0x78, 0x52,
    0xE6, 0xFE, 0x08, 0xE6, 0xFF, 0xE4, 0xFC, 0xFD, 0x22, 0xE7, 0xC4, 0xF8, 0x54, 0xF0, 0xC8, 0x68,
    0xF7, 0x09, 0xE7, 0xC4, 0x54, 0x0F, 0x48, 0xF7, 0x22, 0xE6, 0xFC, 0xED, 0x75, 0xF0, 0x04, 0xA4,
    0x22, 0x12, 0x06, 0x7C, 0x8F, 0x48, 0x8E, 0x47, 0x8D, 0x46, 0x8C, 0x45, 0x22, 0xE0, 0xFE, 0xA3]"

definition OV5640_AF_Config_8c00 :: "u8 list" where
  "OV5640_AF_Config_8c00 = [
    0xE0, 0xFD, 0xEE, 0xF6, 0xED, 0x08, 0xF6, 0x22, 0x13, 0xFF, 0xC3, 0xE6, 0x9F, 0xFF, 0x18, 0xE6,
    0x9E, 0xFE, 0x22, 0xE6, 0xC3, 0x13, 0xF7, 0x08, 0xE6, 0x13, 0x09, 0xF7, 0x22, 0xAD, 0x39, 0xAC,
    0x38, 0xFA, 0xF9, 0xF8, 0x12, 0x05, 0x28, 0x8F, 0x3B, 0x8E, 0x3A, 0x8D, 0x39, 0x8C, 0x38, 0xAB,
    0x37, 0xAA, 0x36, 0xA9, 0x35, 0xA8, 0x34, 0x22, 0x93, 0xFF, 0xE4, 0xFC, 0xFD, 0xFE, 0x12, 0x05,
    0x28, 0x8F, 0x37, 0x8E, 0x36, 0x8D, 0x35, 0x8C, 0x34, 0x22, 0x78, 0x84, 0xE6, 0xFE, 0x08, 0xE6,
    0xFF, 0xE4, 0x8F, 0x37, 0x8E, 0x36, 0xF5, 0x35, 0xF5, 0x34, 0x22, 0x90, 0x0E, 0x8C, 0xE4, 0x93,
    0x25, 0xE0, 0x24, 0x0A, 0xF8, 0xE6, 0xFE, 0x08, 0xE6, 0xFF, 0x22, 0xE6, 0xFE, 0x08, 0xE6, 0xFF,
    0xE4, 0x8F, 0x3B, 0x8E, 0x3A, 0xF5, 0x39, 0xF5, 0x38, 0x22, 0x78, 0x4E, 0xE6, 0xFE, 0x08, 0xE6,
    0xFF, 0x22, 0xEF, 0x25, 0xE0, 0x24, 0x4E, 0xF8, 0xE6, 0xFC, 0x08, 0xE6, 0xFD, 0x22, 0x78, 0x89,
    0xEF, 0x26, 0xF6, 0x18, 0xE4, 0x36, 0xF6, 0x22, 0x75, 0x89, 0x03, 0x75, 0xA8, 0x01, 0x75, 0xB8,
    0x04, 0x75, 0x34, 0xFF, 0x75, 0x35, 0x0E, 0x75, 0x36, 0x15, 0x75, 0x37, 0x0D, 0x12, 0x0E, 0x9A,
    0x12, 0x00, 0x09, 0x12, 0x0F, 0x16, 0x12, 0x00, 0x06, 0xD2, 0x00, 0xD2, 0x34, 0xD2, 0xAF, 0x75,
    0x34, 0xFF, 0x75, 0x35, 0x0E, 0x75, 0x36, 0x49, 0x75, 0x37, 0x03, 0x12, 0x0E, 0x9A, 0x30, 0x08,
    0x09, 0xC2, 0x34, 0x12, 0x08, 0xCB, 0xC2, 0x08, 0xD2, 0x34, 0x30, 0x0B, 0x09, 0xC2, 0x36, 0x12,
    0x02, 0x6C, 0xC2, 0x0B, 0xD2, 0x36, 0x30, 0x09, 0x09, 0xC2, 0x36, 0x12, 0x00, 0x0E, 0xC2, 0x09,
    0xD2, 0x36, 0x30, 0x0E, 0x03, 0x12, 0x06, 0xD7, 0x30, 0x35, 0xD3, 0x90, 0x30, 0x29, 0xE5, 0x1E]"

definition OV5640_AF_Config_8d00 :: "u8 list" where
  "OV5640_AF_Config_8d00 = [
    0xF0, 0xB4, 0x10, 0x05, 0x90, 0x30, 0x23, 0xE4, 0xF0, 0xC2, 0x35, 0x80, 0xC1, 0xE4, 0xF5, 0x4B,
    0x90, 0x0E, 0x7A, 0x93, 0xFF, 0xE4, 0x8F, 0x37, 0xF5, 0x36, 0xF5, 0x35, 0xF5, 0x34, 0xAF, 0x37,
    0xAE, 0x36, 0xAD, 0x35, 0xAC, 0x34, 0x90, 0x0E, 0x6A, 0x12, 0x0D, 0xF6, 0x8F, 0x37, 0x8E, 0x36,
    0x8D, 0x35, 0x8C, 0x34, 0x90, 0x0E, 0x72, 0x12, 0x06, 0x7C, 0xEF, 0x45, 0x37, 0xF5, 0x37, 0xEE,
    0x45, 0x36, 0xF5, 0x36, 0xED, 0x45, 0x35, 0xF5, 0x35, 0xEC, 0x45, 0x34, 0xF5, 0x34, 0xE4, 0xF5,
    0x22, 0xF5, 0x23, 0x85, 0x37, 0x31, 0x85, 0x36, 0x30, 0x85, 0x35, 0x2F, 0x85, 0x34, 0x2E, 0x12,
    0x0F, 0x46, 0xE4, 0xF5, 0x22, 0xF5, 0x23, 0x90, 0x0E, 0x72, 0x12, 0x0D, 0xEA, 0x12, 0x0F, 0x46,
    0xE4, 0xF5, 0x22, 0xF5, 0x23, 0x90, 0x0E, 0x6E, 0x12, 0x0D, 0xEA, 0x02, 0x0F, 0x46, 0xE5, 0x40,
    0x24, 0xF2, 0xF5, 0x37, 0xE5, 0x3F, 0x34, 0x43, 0xF5, 0x36, 0xE5, 0x3E, 0x34, 0xA2, 0xF5, 0x35,
    0xE5, 0x3D, 0x34, 0x28, 0xF5, 0x34, 0xE5, 0x37, 0xFF, 0xE4, 0xFE, 0xFD, 0xFC, 0x78, 0x18, 0x12,
    0x06, 0x69, 0x8F, 0x40, 0x8E, 0x3F, 0x8D, 0x3E, 0x8C, 0x3D, 0xE5, 0x37, 0x54, 0xA0, 0xFF, 0xE5,
    0x36, 0xFE, 0xE4, 0xFD, 0xFC, 0x78, 0x07, 0x12, 0x06, 0x56, 0x78, 0x10, 0x12, 0x0F, 0x9A, 0xE4,
    0xFF, 0xFE, 0xE5, 0x35, 0xFD, 0xE4, 0xFC, 0x78, 0x0E, 0x12, 0x06, 0x56, 0x12, 0x0F, 0x9D, 0xE4,
    0xFF, 0xFE, 0xFD, 0xE5, 0x34, 0xFC, 0x78, 0x18, 0x12, 0x06, 0x56, 0x78, 0x08, 0x12, 0x0F, 0x9A,
    0x22, 0x8F, 0x3B, 0x8E, 0x3A, 0x8D, 0x39, 0x8C, 0x38, 0x22, 0x12, 0x06, 0x7C, 0x8F, 0x31, 0x8E,
    0x30, 0x8D, 0x2F, 0x8C, 0x2E, 0x22, 0x93, 0xF9, 0xF8, 0x02, 0x06, 0x69, 0x00, 0x00, 0x00, 0x00]"

definition OV5640_AF_Config_8e00 :: "u8 list" where
  "OV5640_AF_Config_8e00 = [
    0x12, 0x01, 0x17, 0x08, 0x31, 0x15, 0x53, 0x54, 0x44, 0x20, 0x20, 0x20, 0x20, 0x20, 0x13, 0x01,
    0x10, 0x01, 0x56, 0x40, 0x1A, 0x30, 0x29, 0x7E, 0x00, 0x30, 0x04, 0x20, 0xDF, 0x30, 0x05, 0x40,
    0xBF, 0x50, 0x03, 0x00, 0xFD, 0x50, 0x27, 0x01, 0xFE, 0x60, 0x00, 0x11, 0x00, 0x3F, 0x05, 0x30,
    0x00, 0x3F, 0x06, 0x22, 0x00, 0x3F, 0x01, 0x2A, 0x00, 0x3F, 0x02, 0x00, 0x00, 0x36, 0x06, 0x07,
    0x00, 0x3F, 0x0B, 0x0F, 0xF0, 0x00, 0x00, 0x00, 0x00, 0x30, 0x01, 0x40, 0xBF, 0x30, 0x01, 0x00,
    0xBF, 0x30, 0x29, 0x70, 0x00, 0x3A, 0x00, 0x00, 0xFF, 0x3A, 0x00, 0x00, 0xFF, 0x36, 0x03, 0x36,
    0x02, 0x41, 0x44, 0x58, 0x20, 0x18, 0x10, 0x0A, 0x04, 0x04, 0x00, 0x03, 0xFF, 0x64, 0x00, 0x00,
    0x80, 0x00, 0x00, 0x00, 0x00, 0x00, 0x00, 0x02, 0x04, 0x06, 0x06, 0x00, 0x03, 0x51, 0x00, 0x7A,
    0x50, 0x3C, 0x28, 0x1E, 0x10, 0x10, 0x50, 0x2D, 0x28, 0x16, 0x10, 0x10, 0x02, 0x00, 0x10, 0x0C,
    0x10, 0x04, 0x0C, 0x6E, 0x06, 0x05, 0x00, 0xA5, 0x5A, 0x00, 0xAE, 0x35, 0xAF, 0x36, 0xE4, 0xFD,
    0xED, 0xC3, 0x95, 0x37, 0x50, 0x33, 0x12, 0x0F, 0xE2, 0xE4, 0x93, 0xF5, 0x38, 0x74, 0x01, 0x93,
    0xF5, 0x39, 0x45, 0x38, 0x60, 0x23, 0x85, 0x39, 0x82, 0x85, 0x38, 0x83, 0xE0, 0xFC, 0x12, 0x0F,
    0xE2, 0x74, 0x03, 0x93, 0x52, 0x04, 0x12, 0x0F, 0xE2, 0x74, 0x02, 0x93, 0x42, 0x04, 0x85, 0x39,
    0x82, 0x85, 0x38, 0x83, 0xEC, 0xF0, 0x0D, 0x80, 0xC7, 0x22, 0x78, 0xBE, 0xE6, 0xD3, 0x08, 0xFF,
    0xE6, 0x64, 0x80, 0xF8, 0xEF, 0x64, 0x80, 0x98, 0x22, 0x93, 0xFF, 0x7E, 0x00, 0xE6, 0xFC, 0x08,
    0xE6, 0xFD, 0x12, 0x04, 0xC1, 0x78, 0xC1, 0xE6, 0xFC, 0x08, 0xE6, 0xFD, 0xD3, 0xEF, 0x9D, 0xEE]"

definition OV5640_AF_Config_8f00 :: "u8 list" where
  "OV5640_AF_Config_8f00 = [
    0x9C, 0x22, 0x78, 0xBD, 0xD3, 0xE6, 0x64, 0x80, 0x94, 0x80, 0x22, 0x25, 0xE0, 0x24, 0x0A, 0xF8,
    0xE6, 0xFE, 0x08, 0xE6, 0xFF, 0x22, 0xE5, 0x3C, 0xD3, 0x94, 0x00, 0x40, 0x0B, 0x90, 0x0E, 0x88,
    0x12, 0x0B, 0xF1, 0x90, 0x0E, 0x86, 0x80, 0x09, 0x90, 0x0E, 0x82, 0x12, 0x0B, 0xF1, 0x90, 0x0E,
    0x80, 0xE4, 0x93, 0xF5, 0x44, 0xA3, 0xE4, 0x93, 0xF5, 0x43, 0xD2, 0x06, 0x30, 0x06, 0x03, 0xD3,
    0x80, 0x01, 0xC3, 0x92, 0x0E, 0x22, 0xA2, 0xAF, 0x92, 0x32, 0xC2, 0xAF, 0xE5, 0x23, 0x45, 0x22,
    0x90, 0x0E, 0x5D, 0x60, 0x0E, 0x12, 0x0F, 0xCB, 0xE0, 0xF5, 0x2C, 0x12, 0x0F, 0xC8, 0xE0, 0xF5,
    0x2D, 0x80, 0x0C, 0x12, 0x0F, 0xCB, 0xE5, 0x30, 0xF0, 0x12, 0x0F, 0xC8, 0xE5, 0x31, 0xF0, 0xA2,
    0x32, 0x92, 0xAF, 0x22, 0xD2, 0x01, 0xC2, 0x02, 0xE4, 0xF5, 0x1F, 0xF5, 0x1E, 0xD2, 0x35, 0xD2,
    0x33, 0xD2, 0x36, 0xD2, 0x01, 0xC2, 0x02, 0xF5, 0x1F, 0xF5, 0x1E, 0xD2, 0x35, 0xD2, 0x33, 0x22,
    0xFB, 0xD3, 0xED, 0x9B, 0x74, 0x80, 0xF8, 0x6C, 0x98, 0x22, 0x12, 0x06, 0x69, 0xE5, 0x40, 0x2F,
    0xF5, 0x40, 0xE5, 0x3F, 0x3E, 0xF5, 0x3F, 0xE5, 0x3E, 0x3D, 0xF5, 0x3E, 0xE5, 0x3D, 0x3C, 0xF5,
    0x3D, 0x22, 0xC0, 0xE0, 0xC0, 0x83, 0xC0, 0x82, 0x90, 0x3F, 0x0D, 0xE0, 0xF5, 0x33, 0xE5, 0x33,
    0xF0, 0xD0, 0x82, 0xD0, 0x83, 0xD0, 0xE0, 0x32, 0x90, 0x0E, 0x5F, 0xE4, 0x93, 0xFE, 0x74, 0x01,
    0x93, 0xF5, 0x82, 0x8E, 0x83, 0x22, 0x78, 0x7F, 0xE4, 0xF6, 0xD8, 0xFD, 0x75, 0x81, 0xCD, 0x02,
    0x0C, 0x98, 0x8F, 0x82, 0x8E, 0x83, 0x75, 0xF0, 0x04, 0xED, 0x02, 0x06, 0xA5]"

definition OV5640_AF_Config :: "u8 list" where
  "OV5640_AF_Config =
     OV5640_AF_Config_8000 @
     OV5640_AF_Config_8100 @
     OV5640_AF_Config_8200 @
     OV5640_AF_Config_8300 @
     OV5640_AF_Config_8400 @
     OV5640_AF_Config_8500 @
     OV5640_AF_Config_8600 @
     OV5640_AF_Config_8700 @
     OV5640_AF_Config_8800 @
     OV5640_AF_Config_8900 @
     OV5640_AF_Config_8a00 @
     OV5640_AF_Config_8b00 @
     OV5640_AF_Config_8c00 @
     OV5640_AF_Config_8d00 @
     OV5640_AF_Config_8e00 @
     OV5640_AF_Config_8f00"

text \<open>
  \<^verbatim>\<open>OV5640_Focus_Init\<close>. Its two local tables:
\<close>

definition Focus_Init_datas :: reg_tbl where
  "Focus_Init_datas = [(0x3000, 0x20)]"

definition Focus_Init_datas2 :: reg_tbl where
  "Focus_Init_datas2 =
     [(0x3022, 0x00),
      (0x3023, 0x00),
      (0x3024, 0x00),
      (0x3025, 0x00),
      (0x3026, 0x00),
      (0x3027, 0x00),
      (0x3028, 0x00),
      (0x3029, 0x7F),
      (0x3000, 0x00)]"

text \<open>
  The upload loop
  \<^verbatim>\<open>for (i = 0; i < sizeof(OV5640_AF_Config); i++) { tmp = OV5640_AF_Config[i]; write(addr, &tmp); addr++; }\<close>
  with \<^verbatim>\<open>uint16_t addr\<close>; the status of the writes is not looked at.
\<close>

fun AF_upload :: "'b OV5640_Object_t \<Rightarrow> u16 \<Rightarrow> u8 list \<Rightarrow> 'b world \<Rightarrow> 'b world" where
  "AF_upload pObj addr [] w = w"
| "AF_upload pObj addr (tmp # rest) w =
     AF_upload pObj (addr + 1) rest (snd (ov5640_write_reg pObj addr tmp w))"

text \<open>
  The loop after the upload runs \<^verbatim>\<open>index\<close> over the rows of \<^verbatim>\<open>datas2\<close>
  (\<^verbatim>\<open>index < sizeof(datas2) / 4U\<close>) but its body reads \<^verbatim>\<open>datas[index]\<close>:
  \<^verbatim>\<open>tmp = (uint8_t)datas[index][1]; if (write(datas[index][0], &tmp) != OV5640_OK) ret = OV5640_ERROR;\<close>
\<close>

fun Focus_Init_release ::
  "ov5640_h \<Rightarrow> 'b OV5640_Object_t \<Rightarrow> nat list \<Rightarrow> i32 \<times> 'b world
     \<Rightarrow> (fault \<times> 'b world) + (i32 \<times> 'b world)" where
  "Focus_Init_release H pObj [] (ret, w) = Inr (ret, w)"
| "Focus_Init_release H pObj (index # rest) (ret, w) =
     (case subscript Focus_Init_datas (int index) of
        None \<Rightarrow> Inl (OutOfBounds, w)
      | Some row \<Rightarrow>
          (case ov5640_write_reg pObj (fst row) (ucast (snd row)) w of
             (r, w1) \<Rightarrow>
               Focus_Init_release H pObj rest (if r \<noteq> OV5640_OK H then OV5640_ERROR H else ret, w1)))"

text \<open>
  The final poll:
  \<^verbatim>\<open>do { read(0x3029, &tmp); vTaskDelay(pdMS_TO_TICKS(5)); i++; if (i > 1000) return 1; } while (tmp != 0x70);\<close>
  with \<^verbatim>\<open>size_t i\<close> (32 bits on the target).
\<close>

function Focus_Init_poll ::
  "'b rtos \<Rightarrow> ov5640_h \<Rightarrow> 'b OV5640_Object_t \<Rightarrow> i32 \<Rightarrow> u32 \<Rightarrow> u8 \<Rightarrow> 'b world \<Rightarrow> i32 \<times> 'b world" where
  "Focus_Init_poll T H pObj ret i tmp w =
     (case ov5640_read_reg pObj 0x3029 tmp w of
        (r, tmp1, w1) \<Rightarrow>
          if i + 1 > 1000 then (1, task_delay T (pdMS_TO_TICKS H 5) w1)
          else if tmp1 \<noteq> 0x70 then
            Focus_Init_poll T H pObj ret (i + 1) tmp1 (task_delay T (pdMS_TO_TICKS H 5) w1)
          else (ret, task_delay T (pdMS_TO_TICKS H 5) w1))"
  by pat_completeness auto
termination
proof (relation "measure (\<lambda>(T, H, pObj, ret, i, tmp, w). if unat i \<le> 1000 then 1001 - unat i else 1002)")
  show "wf (measure (\<lambda>(T :: 'b rtos, H :: ov5640_h, pObj :: 'b OV5640_Object_t, ret :: i32, i :: u32, tmp :: u8, w :: 'b world).
              if unat i \<le> 1000 then 1001 - unat i else 1002))"
    by simp
next
  fix T :: "'b rtos" and H :: ov5640_h and pObj :: "'b OV5640_Object_t" and ret :: i32 and i :: u32
    and tmp :: u8 and w :: "'b world" and x :: "i32 \<times> u8 \<times> 'b world" and r :: i32
    and y :: "u8 \<times> 'b world" and tmp1 :: u8 and w1 :: "'b world"
  assume "\<not> 1000 < i + 1"
  then have le: "unat (i + 1) \<le> 1000"
    by (simp add: word_less_nat_alt not_less)
  have wrap: "unat (i + 1) = (unat i + 1) mod 4294967296"
    by (simp add: unat_word_ariths)
  have lt: "unat i < 4294967296"
    using unsigned_less [of i, where 'a = nat] by simp
  have "(unat i = 4294967295 \<and> unat (i + 1) = 0)
        \<or> (unat (i + 1) = unat i + 1 \<and> unat i + 1 \<le> 1000)"
  proof (cases "unat i + 1 < 4294967296")
    case True
    with le wrap show ?thesis by simp
  next
    case False
    with lt have "unat i = 4294967295" by arith
    with wrap show ?thesis by simp
  qed
  then show "((T, H, pObj, ret, i + 1, tmp1, task_delay T (pdMS_TO_TICKS H 5) w1),
              (T, H, pObj, ret, i, tmp, w))
             \<in> measure (\<lambda>(T, H, pObj, ret, i, tmp, w). if unat i \<le> 1000 then 1001 - unat i else 1002)"
    by auto
qed

declare Focus_Init_poll.simps [simp del]

definition OV5640_Focus_Init ::
  "'b rtos \<Rightarrow> ov5640_h \<Rightarrow> 'b OV5640_Object_t \<Rightarrow> 'b world \<Rightarrow> (fault \<times> 'b world) + (i32 \<times> 'b world)" where
  "OV5640_Focus_Init T H pObj w =
     (case subscript Focus_Init_datas 0 of
        None \<Rightarrow> Inl (OutOfBounds, w)
      | Some row \<Rightarrow>
          (case ov5640_write_reg pObj (fst row) (ucast (snd row)) w of
             (r, w1) \<Rightarrow>
               (case Focus_Init_release H pObj [0 ..< length Focus_Init_datas2]
                       (OV5640_OK H, AF_upload pObj 0x8000 OV5640_AF_Config w1) of
                  Inl f \<Rightarrow> Inl f
                | Inr (ret, w3) \<Rightarrow> Inr (Focus_Init_poll T H pObj ret 0 0x8F w3))))"

section \<open>Output size, window and the JPEG and RGB565 presets\<close>

text \<open>
  These four functions apply their table with a loop of the third kind. The tables of
  \<^verbatim>\<open>OV5640_OutSize_Set\<close> and \<^verbatim>\<open>OV5640_ImageWin_Set\<close> are built from the \<^verbatim>\<open>uint16_t\<close> arguments.
\<close>

definition OutSize_datas :: "u16 \<Rightarrow> u16 \<Rightarrow> u16 \<Rightarrow> u16 \<Rightarrow> reg_tbl" where
  "OutSize_datas offx offy width height =
     [(0x3212, 0x03),
      (0x3808, drop_bit 8 width),
      (0x3809, width AND 0xFF),
      (0x380A, drop_bit 8 height),
      (0x380B, height AND 0xFF),
      (0x3810, drop_bit 8 offx),
      (0x3811, offx AND 0xFF),
      (0x3812, drop_bit 8 offy),
      (0x3813, offy AND 0xFF),
      (0x3212, 0x13),
      (0x3212, 0xA3)]"

definition OV5640_OutSize_Set ::
  "ov5640_h \<Rightarrow> 'b OV5640_Object_t \<Rightarrow> u16 \<Rightarrow> u16 \<Rightarrow> u16 \<Rightarrow> u16 \<Rightarrow> 'b world \<Rightarrow> i32 \<times> 'b world" where
  "OV5640_OutSize_Set H pObj offx offy width height w =
     write_tbl_all H pObj (OutSize_datas offx offy width height) (OV5640_OK H, w)"

definition ImageWin_datas :: "u16 \<Rightarrow> u16 \<Rightarrow> u16 \<Rightarrow> u16 \<Rightarrow> reg_tbl" where
  "ImageWin_datas xst yst xend yend =
     [(0x3212, 0x03),
      (0x3800, drop_bit 8 xst),
      (0x3801, xst AND 0xFF),
      (0x3802, drop_bit 8 yst),
      (0x3803, yst AND 0xFF),
      (0x3804, drop_bit 8 xend),
      (0x3805, xend AND 0xFF),
      (0x3806, drop_bit 8 yend),
      (0x3807, yend AND 0xFF),
      (0x3212, 0x13),
      (0x3212, 0xA3)]"

definition OV5640_ImageWin_Set ::
  "ov5640_h \<Rightarrow> 'b OV5640_Object_t \<Rightarrow> u16 \<Rightarrow> u16 \<Rightarrow> u16 \<Rightarrow> u16 \<Rightarrow> 'b world \<Rightarrow> i32 \<times> 'b world" where
  "OV5640_ImageWin_Set H pObj offx offy width height w =
     write_tbl_all H pObj (ImageWin_datas offx offy (offx + width - 1) (offy + height - 1))
       (OV5640_OK H, w)"

definition OV5640_jpeg_reg_tbl :: "(u16 \<times> u16) list" where
  "OV5640_jpeg_reg_tbl =
     [(0x4300, 0x30),
      (0x501F, 0x00),
      (0x3035, 0x21),
      (0x3036, 0x69),
      (0x3C07, 0x07),
      (0x3820, 0x46),
      (0x3821, 0x20),
      (0x3814, 0x11),
      (0x3815, 0x11),
      (0x3800, 0x00),
      (0x3801, 0x00),
      (0x3802, 0x00),
      (0x3803, 0x00),
      (0x3804, 0x0A),
      (0x3805, 0x3F),
      (0x3806, 0x07),
      (0x3807, 0x9F),
      (0x3808, 0x02),
      (0x3809, 0x80),
      (0x380A, 0x01),
      (0x380B, 0xE0),
      (0x380C, 0x0B),
      (0x380D, 0x1C),
      (0x380E, 0x07),
      (0x380F, 0xB0),
      (0x3813, 0x04),
      (0x3618, 0x04),
      (0x3612, 0x2B),
      (0x3709, 0x12),
      (0x370C, 0x00),
      (0x4004, 0x06),
      (0x3002, 0x00),
      (0x3006, 0xFF),
      (0x4713, 0x03),
      (0x4407, 0x01),
      (0x460B, 0x35),
      (0x460C, 0x22),
      (0x4837, 0x16),
      (0x3824, 0x02),
      (0x5001, 0xA3),
      (0x3503, 0x00)]"

definition ov5640_rgb565_reg_tbl :: "(u16 \<times> u16) list" where
  "ov5640_rgb565_reg_tbl =
     [(0x4300, 0x6F),
      (0x501F, 0x01),
      (0x3035, 0x41),
      (0x3036, 0x69),
      (0x3C07, 0x07),
      (0x3820, 0x46),
      (0x3821, 0x00),
      (0x3814, 0x31),
      (0x3815, 0x31),
      (0x3800, 0x00),
      (0x3801, 0x00),
      (0x3802, 0x00),
      (0x3803, 0x00),
      (0x3804, 0x0A),
      (0x3805, 0x3F),
      (0x3806, 0x06),
      (0x3807, 0xA9),
      (0x3808, 0x05),
      (0x3809, 0x00),
      (0x380A, 0x02),
      (0x380B, 0xD0),
      (0x380C, 0x05),
      (0x380D, 0xF8),
      (0x380E, 0x03),
      (0x380F, 0x84),
      (0x3813, 0x04),
      (0x3618, 0x00),
      (0x3612, 0x29),
      (0x3709, 0x52),
      (0x370C, 0x03),
      (0x3A02, 0x02),
      (0x3A03, 0xE0),
      (0x3A14, 0x02),
      (0x3A15, 0xE0),
      (0x4004, 0x02),
      (0x3002, 0x1C),
      (0x3006, 0xC3),
      (0x4713, 0x03),
      (0x4407, 0x04),
      (0x460B, 0x37),
      (0x460C, 0x20),
      (0x4837, 0x16),
      (0x3824, 0x04),
      (0x5001, 0xA3),
      (0x3503, 0x00)]"

definition OV5640_JPEG_Mode :: "ov5640_h \<Rightarrow> 'b OV5640_Object_t \<Rightarrow> 'b world \<Rightarrow> i32 \<times> 'b world" where
  "OV5640_JPEG_Mode H pObj w = write_tbl_all H pObj OV5640_jpeg_reg_tbl (OV5640_OK H, w)"

definition OV5640_RGB565_Mode :: "ov5640_h \<Rightarrow> 'b OV5640_Object_t \<Rightarrow> 'b world \<Rightarrow> i32 \<times> 'b world" where
  "OV5640_RGB565_Mode H pObj w = write_tbl_all H pObj ov5640_rgb565_reg_tbl (OV5640_OK H, w)"

section \<open>Example header and stub buses\<close>

text \<open>
  An example binding of the header's macros, for running the model on concrete inputs:
  status 0 and -1, the resolutions and modes numbered from 0, a 1 kHz tick, and the
  datasheet addresses of the registers that the functions outside the common table name.
  A register macro that is not listed resolves to 0 in this example.
\<close>

definition example_regs :: "(string \<times> u16) list" where
  "example_regs =
     [(''OV5640_SCCB_SYSTEM_CTRL1'', 0x3103),
      (''OV5640_SYSTEM_CTROL0'', 0x3008),
      (''OV5640_TIMING_TC_REG20'', 0x3820),
      (''OV5640_TIMING_TC_REG21'', 0x3821),
      (''OV5640_POLARITY_CTRL'', 0x4740),
      (''OV5640_ISP_CONTROL01'', 0x5001),
      (''OV5640_SDE_CTRL0'', 0x5580),
      (''OV5640_SDE_CTRL1'', 0x5581),
      (''OV5640_SDE_CTRL2'', 0x5582),
      (''OV5640_SDE_CTRL3'', 0x5583),
      (''OV5640_SDE_CTRL4'', 0x5584),
      (''OV5640_SDE_CTRL5'', 0x5585),
      (''OV5640_SDE_CTRL6'', 0x5586),
      (''OV5640_SDE_CTRL7'', 0x5587),
      (''OV5640_SDE_CTRL8'', 0x5588),
      (''OV5640_FORMAT_CTRL00'', 0x4300),
      (''OV5640_FORMAT_MUX_CTRL'', 0x501F),
      (''OV5640_TIMING_DVPHO_HIGH'', 0x3808),
      (''OV5640_TIMING_DVPHO_LOW'', 0x3809),
      (''OV5640_TIMING_DVPVO_HIGH'', 0x380A),
      (''OV5640_TIMING_DVPVO_LOW'', 0x380B),
      (''OV5640_PAD_OUTPUT_ENABLE01'', 0x3017),
      (''OV5640_PAD_OUTPUT_ENABLE02'', 0x3018)]"

definition example_h :: ov5640_h where
  "example_h =
     \<lparr>OV5640_OK = 0, OV5640_ERROR = - 1,
      OV5640_R160x120 = 0, OV5640_R320x240 = 1, OV5640_R480x272 = 2,
      OV5640_R640x480 = 3, OV5640_R800x480 = 4,
      OV5640_RGB565 = 0, OV5640_YUV422 = 2, OV5640_RGB888 = 1, OV5640_Y8 = 7, OV5640_JPEG = 8,
      OV5640_POLARITY_PCLK_LOW = 0, OV5640_POLARITY_PCLK_HIGH = 1,
      OV5640_POLARITY_HREF_LOW = 0, OV5640_POLARITY_HREF_HIGH = 1,
      OV5640_POLARITY_VSYNC_LOW = 0, OV5640_POLARITY_VSYNC_HIGH = 1,
      OV5640_MIRROR_FLIP_NONE = 0, OV5640_FLIP = 1, OV5640_MIRROR = 2, OV5640_MIRROR_FLIP = 3,
      SERIAL_MODE = 1,
      pdMS_TO_TICKS = (\<lambda>ms. ms),
      REG = (\<lambda>name. case map_of example_regs name of Some a \<Rightarrow> a | None \<Rightarrow> 0)\<rparr>"

text \<open>
  A stub bus whose state counts the ticks: every write returns \<open>wret\<close>, every read returns
  status 0 and the byte \<open>rbyte\<close>, and the tick advances by one at each \<open>GetTick\<close>.
\<close>

definition stub_io :: "i32 \<Rightarrow> u8 \<Rightarrow> nat OV5640_IO_t" where
  "stub_io wret rbyte =
     \<lparr>Init = Some (\<lambda>b. (0, b)), DeInit = Some (\<lambda>b. (0, b)), Address = 0x78,
      WriteReg = (\<lambda>b a r v. (wret, b)),
      ReadReg = (\<lambda>b a r old. (0, rbyte, b)),
      GetTick = (\<lambda>b. (of_nat b, Suc b))\<rparr>"

text \<open>A handle as \<^verbatim>\<open>OV5640_RegisterBusIO\<close> leaves it, not yet initialised, in parallel mode.\<close>

definition fresh_handle :: "'b OV5640_IO_t \<Rightarrow> 'b OV5640_Object_t" where
  "fresh_handle io =
     \<lparr>IO = io, IsInitialized = 0, Mode = 0, VirtualChannelID = 0,
      bright = 0x01, saturation = 0x41, contrast = 0x41, huedegree = 0x32\<rparr>"

definition world0 :: "'b \<Rightarrow> 'b world" where
  "world0 b = \<lparr>bus = b, log = []\<rparr>"

text \<open>
  A bus that is a plain register file: a write stores the byte at the register, a read
  returns the byte stored there, and both return the status \<open>ok\<close>.
\<close>

definition regfile_io :: "i32 \<Rightarrow> (u16 \<Rightarrow> u8) OV5640_IO_t" where
  "regfile_io ok =
     \<lparr>Init = Some (\<lambda>b. (ok, b)), DeInit = Some (\<lambda>b. (ok, b)), Address = 0x78,
      WriteReg = (\<lambda>b a r v. (ok, b(r := v))),
      ReadReg = (\<lambda>b a r old. (ok, b r, b)),
      GetTick = (\<lambda>b. (0, b))\<rparr>"

text \<open>The number of register reads in a log.\<close>

definition count_reads :: "bus_event list \<Rightarrow> nat" where
  "count_reads l = length (filter is_read l)"

definition count_writes :: "bus_event list \<Rightarrow> nat" where
  "count_writes l = length (filter is_write l)"

text \<open>
  A stub whose state counts the reads made so far: every read returns the byte \<open>other\<close>
  until the \<open>k\<close>-th read, from which on every read returns \<open>sentinel\<close>; all accesses
  return status 0.
\<close>

definition status_io :: "nat \<Rightarrow> u8 \<Rightarrow> u8 \<Rightarrow> nat OV5640_IO_t" where
  "status_io k sentinel other =
     \<lparr>Init = Some (\<lambda>b. (0, b)), DeInit = Some (\<lambda>b. (0, b)), Address = 0x78,
      WriteReg = (\<lambda>b a r v. (0, b)),
      ReadReg = (\<lambda>b a r old. (0, if k \<le> Suc b then sentinel else other, Suc b)),
      GetTick = (\<lambda>b. (0, b))\<rparr>"

text \<open>A scheduler whose delay leaves the bus state as it is.\<close>

definition idle_rtos :: "'b rtos" where
  "idle_rtos = \<lparr>vTaskDelay = (\<lambda>ticks b. b)\<rparr>"

text \<open>
  A stub that shows \<open>sentinel\<close> on the \<open>k\<close>-th read only, and a dead bus: every access
  fails with status -1 and a read leaves the buffer as it was. Both count the reads.
\<close>

definition pulse_io :: "nat \<Rightarrow> u8 \<Rightarrow> u8 \<Rightarrow> nat OV5640_IO_t" where
  "pulse_io k sentinel other =
     \<lparr>Init = Some (\<lambda>b. (0, b)), DeInit = Some (\<lambda>b. (0, b)), Address = 0x78,
      WriteReg = (\<lambda>b a r v. (0, b)),
      ReadReg = (\<lambda>b a r old. (0, if Suc b = k then sentinel else other, Suc b)),
      GetTick = (\<lambda>b. (0, b))\<rparr>"

definition dead_io :: "nat OV5640_IO_t" where
  "dead_io =
     \<lparr>Init = Some (\<lambda>b. (- 1, b)), DeInit = Some (\<lambda>b. (- 1, b)), Address = 0x78,
      WriteReg = (\<lambda>b a r v. (- 1, b)),
      ReadReg = (\<lambda>b a r old. (- 1, old, Suc b)),
      GetTick = (\<lambda>b. (0, b))\<rparr>"

text \<open>A scheduler whose delay changes the bus state: it adds the ticks to the counter.\<close>

definition busy_rtos :: "nat rtos" where
  "busy_rtos = \<lparr>vTaskDelay = (\<lambda>ticks b. b + 1000 * unat ticks)\<rparr>"

text \<open>
  \<open>watch ok io\<close> is the bus \<open>io\<close> with a flag beside its state: the flag is raised by the
  first \<open>WriteReg\<close> or \<open>ReadReg\<close> that returns a status other than \<open>ok\<close> and stays
  raised; statuses, bytes, ticks and the state of \<open>io\<close> are those of \<open>io\<close>.
\<close>

definition watch :: "i32 \<Rightarrow> 'b OV5640_IO_t \<Rightarrow> ('b \<times> bool) OV5640_IO_t" where
  "watch ok io =
     \<lparr>Init = map_option (\<lambda>f s. case f (fst s) of (r, b) \<Rightarrow> (r, (b, snd s))) (Init io),
      DeInit = map_option (\<lambda>f s. case f (fst s) of (r, b) \<Rightarrow> (r, (b, snd s))) (DeInit io),
      Address = Address io,
      WriteReg = (\<lambda>s a r v. case WriteReg io (fst s) a r v of
                    (ret, b) \<Rightarrow> (ret, (b, snd s \<or> ret \<noteq> ok))),
      ReadReg = (\<lambda>s a r old. case ReadReg io (fst s) a r old of
                    (ret, data, b) \<Rightarrow> (ret, data, (b, snd s \<or> ret \<noteq> ok))),
      GetTick = (\<lambda>s. case GetTick io (fst s) of (t, b) \<Rightarrow> (t, (b, snd s)))\<rparr>"

text \<open>
  On a watched bus, a status and a world agree when the status is \<^verbatim>\<open>OV5640_ERROR\<close> if the
  flag is raised and \<^verbatim>\<open>OV5640_OK\<close> if it is not.
\<close>

definition failure_tracked :: "ov5640_h \<Rightarrow> i32 \<times> ('b \<times> bool) world \<Rightarrow> bool" where
  "failure_tracked H s \<longleftrightarrow>
     (if snd (bus (snd s)) then fst s = OV5640_ERROR H else fst s = OV5640_OK H)"

text \<open>
  A stub whose state counts the writes and the ticks: the \<open>n\<close>-th write returns \<open>bad\<close>,
  every other access returns \<open>ok\<close>, and a read returns the byte 0. When \<open>ticking\<close> the tick
  advances by one at each \<open>GetTick\<close>, otherwise it stands still. With \<open>n = 0\<close> no write
  fails.
\<close>

definition nth_fail_io :: "i32 \<Rightarrow> i32 \<Rightarrow> nat \<Rightarrow> bool \<Rightarrow> (nat \<times> nat) OV5640_IO_t" where
  "nth_fail_io ok bad n ticking =
     \<lparr>Init = Some (\<lambda>b. (ok, b)), DeInit = Some (\<lambda>b. (ok, b)), Address = 0x78,
      WriteReg = (\<lambda>b a r v. (if Suc (fst b) = n then bad else ok, (Suc (fst b), snd b))),
      ReadReg = (\<lambda>b a r old. (ok, 0, b)),
      GetTick = (\<lambda>b. (of_nat (snd b), (fst b, if ticking then Suc (snd b) else snd b)))\<rparr>"

text \<open>The tick that \<open>GetTick\<close> returns after \<open>n\<close> earlier calls of \<open>GetTick\<close> from the state \<open>b\<close>.\<close>

definition tick_after :: "'b OV5640_Object_t \<Rightarrow> nat \<Rightarrow> 'b \<Rightarrow> u32" where
  "tick_after pObj n b = fst (GetTick (IO pObj) (((\<lambda>b. snd (GetTick (IO pObj) b)) ^^ n) b))"

section \<open>Helper facts\<close>

lemma ucast_or_truncate:
  "(ucast ((ucast ((ucast (a::u32)) :: u8) :: u32) OR b) :: u8) = ucast (a OR b)"
  by (rule bit_word_eqI) (auto simp: bit_simps)

section \<open>Polarities: validation before the write\<close>

text \<open>
  C9. When the handle is null or one of the three polarity arguments is not one of the two
  values accepted for its axis, \<^verbatim>\<open>OV5640_SetPolarities\<close> returns \<^verbatim>\<open>OV5640_ERROR\<close> and the world,
  log included, is as before: no bus call is made. When the handle is not null and the three
  arguments are accepted, the call adds exactly one event to the log, the write of the
  byte \<^verbatim>\<open>(PclkPolarity << 5) | (HrefPolarity << 1) | VsyncPolarity\<close> (truncated to 8 bits)
  to \<^verbatim>\<open>OV5640_POLARITY_CTRL\<close>.
\<close>

theorem SetPolarities_validates_then_writes:
  "(pObj = None \<or> \<not> polarities_accepted H p h v \<longrightarrow>
      OV5640_SetPolarities H pObj p h v w = (OV5640_ERROR H, w))
   \<and> (pObj = Some obj \<and> polarities_accepted H p h v \<longrightarrow>
      log (snd (OV5640_SetPolarities H pObj p h v w)) =
        log w @ [BusWrite (Address (IO obj)) (REG H ''OV5640_POLARITY_CTRL'')
                   (ucast (push_bit 5 p OR push_bit 1 h OR v))])"
  by (auto simp: OV5640_SetPolarities_def polarities_accepted_def ucast_or_truncate
      ov5640_write_reg_def OV5640_WriteRegWrap_def or.assoc Let_def
      split: option.splits prod.splits)

lemma example_h_simps:
  "OV5640_OK example_h = 0" "OV5640_ERROR example_h = - 1"
  "OV5640_POLARITY_PCLK_LOW example_h = 0" "OV5640_POLARITY_PCLK_HIGH example_h = 1"
  "OV5640_POLARITY_HREF_LOW example_h = 0" "OV5640_POLARITY_HREF_HIGH example_h = 1"
  "OV5640_POLARITY_VSYNC_LOW example_h = 0" "OV5640_POLARITY_VSYNC_HIGH example_h = 1"
  by (simp_all add: example_h_def)

lemma example_regs_simps:
  "REG example_h ''OV5640_ISP_CONTROL01'' = 0x5001"
  "REG example_h ''OV5640_SDE_CTRL0'' = 0x5580"
  "REG example_h ''OV5640_SDE_CTRL1'' = 0x5581"
  "REG example_h ''OV5640_SDE_CTRL2'' = 0x5582"
  "REG example_h ''OV5640_SDE_CTRL3'' = 0x5583"
  "REG example_h ''OV5640_SDE_CTRL4'' = 0x5584"
  "REG example_h ''OV5640_SDE_CTRL5'' = 0x5585"
  "REG example_h ''OV5640_SDE_CTRL6'' = 0x5586"
  "REG example_h ''OV5640_SDE_CTRL7'' = 0x5587"
  "REG example_h ''OV5640_SDE_CTRL8'' = 0x5588"
  "REG example_h ''OV5640_TIMING_TC_REG20'' = 0x3820"
  "REG example_h ''OV5640_TIMING_TC_REG21'' = 0x3821"
  "REG example_h ''OV5640_POLARITY_CTRL'' = 0x4740"
  by (simp_all add: example_h_def example_regs_def)

theorem SetPolarities_validates_then_writes_witness:
  "polarities_accepted example_h 1 1 1
   \<and> log (snd (OV5640_SetPolarities example_h (Some (fresh_handle (stub_io 0 0))) 1 1 1 (world0 0))) =
       [BusWrite 0x78 0x4740 0x23]
   \<and> \<not> polarities_accepted example_h 2 1 1
   \<and> OV5640_SetPolarities example_h (Some (fresh_handle (stub_io 0 0))) 2 1 1 (world0 0) =
       (- 1, world0 0)
   \<and> OV5640_SetPolarities example_h (None :: nat OV5640_Object_t option) 1 1 1 (world0 0) =
       (- 1, world0 0)"
  using SetPolarities_validates_then_writes
          [where pObj = "Some (fresh_handle (stub_io 0 0))" and H = example_h and p = 1 and h = 1
             and v = 1 and obj = "fresh_handle (stub_io 0 0)" and w = "world0 0"]
        SetPolarities_validates_then_writes
          [where pObj = "Some (fresh_handle (stub_io 0 0))" and H = example_h and p = 2 and h = 1
             and v = 1 and obj = "fresh_handle (stub_io 0 0)" and w = "world0 0"]
        SetPolarities_validates_then_writes
          [where pObj = "None :: nat OV5640_Object_t option" and H = example_h and p = 1 and h = 1
             and v = 1 and w = "world0 0"]
  by (simp add: polarities_accepted_def example_h_simps example_regs_simps fresh_handle_def
      stub_io_def world0_def)

section \<open>Image tuning: the composite write\<close>

lemma write_reg_logD:
  "ov5640_write_reg pObj reg v w = (ret, w') \<Longrightarrow>
     log w' = log w @ [BusWrite (Address (IO pObj)) reg v]"
  by (auto simp: ov5640_write_reg_def OV5640_WriteRegWrap_def split: prod.splits)

lemma SetBrightness_composite:
  assumes "OV5640_SetBrightness H pObj Level w = Inr (OV5640_OK H, pObj', w')"
  shows "wrote_composite H pObj' w'
         \<and> contrast pObj' = contrast pObj \<and> huedegree pObj' = huedegree pObj
         \<and> saturation pObj' = saturation pObj
         \<and> bright pObj' = (if sint Level < 0 then 0x01 else 0x09)"
  using assms
  by (auto simp: OV5640_SetBrightness_def composite_def wrote_composite_def Let_def
      split: prod.splits option.splits if_splits dest!: write_reg_logD)

lemma SetSaturation_composite:
  assumes "OV5640_OK H \<noteq> OV5640_ERROR H"
      and "OV5640_SetSaturation H pObj Level w = Inr (OV5640_OK H, pObj', w')"
  shows "wrote_composite H pObj' w'
         \<and> contrast pObj' = contrast pObj \<and> bright pObj' = bright pObj
         \<and> huedegree pObj' = huedegree pObj
         \<and> saturation pObj' = 0x41"
  using assms
  by (auto simp: OV5640_SetSaturation_def composite_def wrote_composite_def Let_def as_status_def
      split: prod.splits option.splits if_splits dest!: write_reg_logD)

lemma SetContrast_composite:
  assumes "OV5640_OK H \<noteq> OV5640_ERROR H"
      and "OV5640_SetContrast H pObj Level w = Inr (OV5640_OK H, pObj', w')"
  shows "wrote_composite H pObj' w'
         \<and> bright pObj' = bright pObj \<and> huedegree pObj' = huedegree pObj
         \<and> saturation pObj' = saturation pObj
         \<and> contrast pObj' = 0x41"
  using assms
  by (auto simp: OV5640_SetContrast_def composite_def wrote_composite_def Let_def as_status_def
      split: prod.splits option.splits if_splits dest!: write_reg_logD)

lemma SetHueDegree_composite:
  assumes "OV5640_OK H \<noteq> OV5640_ERROR H"
      and "OV5640_SetHueDegree H pObj Degree w = Inr (OV5640_OK H, pObj', w')"
  shows "wrote_composite H pObj' w'
         \<and> contrast pObj' = contrast pObj \<and> bright pObj' = bright pObj
         \<and> saturation pObj' = saturation pObj
         \<and> subscript hue_degree_ctrl8 (sint Degree + 6) = Some (huedegree pObj')"
  using assms
  by (auto simp: OV5640_SetHueDegree_def composite_def wrote_composite_def Let_def as_status_def
      split: prod.splits option.splits if_splits dest!: write_reg_logD)

text \<open>
  C1. Let \<^verbatim>\<open>OV5640_OK\<close> and \<^verbatim>\<open>OV5640_ERROR\<close> be different codes. Whenever one of
  \<^verbatim>\<open>OV5640_SetBrightness\<close>, \<^verbatim>\<open>OV5640_SetSaturation\<close>, \<^verbatim>\<open>OV5640_SetContrast\<close>,
  \<^verbatim>\<open>OV5640_SetHueDegree\<close> returns \<^verbatim>\<open>OV5640_OK\<close>, its last register access is the write to
  \<^verbatim>\<open>OV5640_SDE_CTRL8\<close> of \<open>contrast OR bright OR huedegree OR saturation\<close> of the handle as
  the call leaves it, and in that handle the codes of the three other axes are the ones
  the handle had on entry: only the caller's own code has been set (brightness to 0x01 or
  0x09 by the sign of the level, saturation and contrast to 0x41, hue to its table entry).
\<close>

theorem tuning_composite_keeps_other_axes:
  assumes "OV5640_OK H \<noteq> OV5640_ERROR H"
  shows
    "(OV5640_SetBrightness H pObj Level w = Inr (OV5640_OK H, pObj', w') \<longrightarrow>
        wrote_composite H pObj' w'
        \<and> contrast pObj' = contrast pObj \<and> huedegree pObj' = huedegree pObj
        \<and> saturation pObj' = saturation pObj
        \<and> bright pObj' = (if sint Level < 0 then 0x01 else 0x09))
     \<and> (OV5640_SetSaturation H pObj Level w = Inr (OV5640_OK H, pObj', w') \<longrightarrow>
        wrote_composite H pObj' w'
        \<and> contrast pObj' = contrast pObj \<and> bright pObj' = bright pObj
        \<and> huedegree pObj' = huedegree pObj
        \<and> saturation pObj' = 0x41)
     \<and> (OV5640_SetContrast H pObj Level w = Inr (OV5640_OK H, pObj', w') \<longrightarrow>
        wrote_composite H pObj' w'
        \<and> bright pObj' = bright pObj \<and> huedegree pObj' = huedegree pObj
        \<and> saturation pObj' = saturation pObj
        \<and> contrast pObj' = 0x41)
     \<and> (OV5640_SetHueDegree H pObj Level w = Inr (OV5640_OK H, pObj', w') \<longrightarrow>
        wrote_composite H pObj' w'
        \<and> contrast pObj' = contrast pObj \<and> bright pObj' = bright pObj
        \<and> saturation pObj' = saturation pObj
        \<and> subscript hue_degree_ctrl8 (sint Level + 6) = Some (huedegree pObj'))"
  using SetBrightness_composite [of H pObj Level w pObj' w']
        SetSaturation_composite [OF assms, of pObj Level w pObj' w']
        SetContrast_composite [OF assms, of pObj Level w pObj' w']
        SetHueDegree_composite [OF assms, of pObj Level w pObj' w']
  by blast

lemma SetBrightness_on_stub:
  "OV5640_SetBrightness example_h (fresh_handle (stub_io 0 0)) 2 (world0 0) =
     Inr (0, fresh_handle (stub_io 0 0)\<lparr>bright := 0x09\<rparr>,
          \<lparr>bus = 0, log = [BusWrite 0x78 0x5001 0xFF, BusWrite 0x78 0x5587 0x20,
                            BusWrite 0x78 0x5580 0x07, BusWrite 0x78 0x5588 0x7B]\<rparr>)"
  by (simp add: OV5640_SetBrightness_def example_h_simps example_regs_simps
      ov5640_write_reg_def OV5640_WriteRegWrap_def fresh_handle_def stub_io_def world0_def
      subscript_def in_bounds_def brightness_level_def composite_def Let_def)

lemma SetSaturation_on_stub:
  "OV5640_SetSaturation example_h (fresh_handle (stub_io 0 0)\<lparr>bright := 0x09\<rparr>) (- 1) (world0 0) =
     Inr (0, fresh_handle (stub_io 0 0)\<lparr>bright := 0x09\<rparr>,
          \<lparr>bus = 0, log = [BusWrite 0x78 0x5001 0xFF, BusWrite 0x78 0x5583 0x30,
                            BusWrite 0x78 0x5584 0x30, BusWrite 0x78 0x5580 0x07,
                            BusWrite 0x78 0x5588 0x7B]\<rparr>)"
  by (simp add: OV5640_SetSaturation_def example_h_simps example_regs_simps as_status_def
      ov5640_write_reg_def OV5640_WriteRegWrap_def fresh_handle_def stub_io_def world0_def
      subscript_def in_bounds_def saturation_level_def composite_def Let_def)

lemma SetContrast_on_stub:
  "OV5640_SetContrast example_h (fresh_handle (stub_io 0 0)) 4 (world0 0) =
     Inr (0, fresh_handle (stub_io 0 0),
          \<lparr>bus = 0, log = [BusWrite 0x78 0x5001 0xFF, BusWrite 0x78 0x5580 0x07,
                            BusWrite 0x78 0x5586 0x30, BusWrite 0x78 0x5585 0x30,
                            BusWrite 0x78 0x5588 0x73]\<rparr>)"
  by (simp add: OV5640_SetContrast_def example_h_simps example_regs_simps as_status_def
      ov5640_write_reg_def OV5640_WriteRegWrap_def fresh_handle_def stub_io_def world0_def
      subscript_def in_bounds_def contrast_level_def composite_def Let_def)

lemma SetHueDegree_on_stub:
  "OV5640_SetHueDegree example_h (fresh_handle (stub_io 0 0)) (- 3) (world0 0) =
     Inr (0, fresh_handle (stub_io 0 0)\<lparr>huedegree := 0x02\<rparr>,
          \<lparr>bus = 0, log = [BusWrite 0x78 0x5001 0xFF, BusWrite 0x78 0x5580 0x07,
                            BusWrite 0x78 0x5581 0x00, BusWrite 0x78 0x5582 0x80,
                            BusWrite 0x78 0x5588 0x43]\<rparr>)"
  by (simp add: OV5640_SetHueDegree_def example_h_simps example_regs_simps as_status_def
      ov5640_write_reg_def OV5640_WriteRegWrap_def fresh_handle_def stub_io_def world0_def
      subscript_def in_bounds_def hue_degree_ctrl1_def hue_degree_ctrl2_def hue_degree_ctrl8_def
      composite_def Let_def)

theorem tuning_composite_keeps_other_axes_witness:
  "OV5640_OK example_h \<noteq> OV5640_ERROR example_h
   \<and> OV5640_SetBrightness example_h (fresh_handle (stub_io 0 0)) 2 (world0 0) =
       Inr (OV5640_OK example_h, fresh_handle (stub_io 0 0)\<lparr>bright := 0x09\<rparr>,
            \<lparr>bus = 0, log = [BusWrite 0x78 0x5001 0xFF, BusWrite 0x78 0x5587 0x20,
                              BusWrite 0x78 0x5580 0x07, BusWrite 0x78 0x5588 0x7B]\<rparr>)
   \<and> wrote_composite example_h (fresh_handle (stub_io 0 0)\<lparr>bright := 0x09\<rparr>)
         \<lparr>bus = 0, log = [BusWrite 0x78 0x5001 0xFF, BusWrite 0x78 0x5587 0x20,
                           BusWrite 0x78 0x5580 0x07, BusWrite 0x78 0x5588 0x7B]\<rparr>
   \<and> OV5640_SetSaturation example_h (fresh_handle (stub_io 0 0)\<lparr>bright := 0x09\<rparr>) (- 1) (world0 0) =
       Inr (OV5640_OK example_h, fresh_handle (stub_io 0 0)\<lparr>bright := 0x09\<rparr>,
            \<lparr>bus = 0, log = [BusWrite 0x78 0x5001 0xFF, BusWrite 0x78 0x5583 0x30,
                              BusWrite 0x78 0x5584 0x30, BusWrite 0x78 0x5580 0x07,
                              BusWrite 0x78 0x5588 0x7B]\<rparr>)
   \<and> wrote_composite example_h (fresh_handle (stub_io 0 0)\<lparr>bright := 0x09\<rparr>)
         \<lparr>bus = 0, log = [BusWrite 0x78 0x5001 0xFF, BusWrite 0x78 0x5583 0x30,
                           BusWrite 0x78 0x5584 0x30, BusWrite 0x78 0x5580 0x07,
                           BusWrite 0x78 0x5588 0x7B]\<rparr>
   \<and> OV5640_SetContrast example_h (fresh_handle (stub_io 0 0)) 4 (world0 0) =
       Inr (OV5640_OK example_h, fresh_handle (stub_io 0 0),
            \<lparr>bus = 0, log = [BusWrite 0x78 0x5001 0xFF, BusWrite 0x78 0x5580 0x07,
                              BusWrite 0x78 0x5586 0x30, BusWrite 0x78 0x5585 0x30,
                              BusWrite 0x78 0x5588 0x73]\<rparr>)
   \<and> wrote_composite example_h (fresh_handle (stub_io 0 0))
         \<lparr>bus = 0, log = [BusWrite 0x78 0x5001 0xFF, BusWrite 0x78 0x5580 0x07,
                           BusWrite 0x78 0x5586 0x30, BusWrite 0x78 0x5585 0x30,
                           BusWrite 0x78 0x5588 0x73]\<rparr>
   \<and> OV5640_SetHueDegree example_h (fresh_handle (stub_io 0 0)) (- 3) (world0 0) =
       Inr (OV5640_OK example_h, fresh_handle (stub_io 0 0)\<lparr>huedegree := 0x02\<rparr>,
            \<lparr>bus = 0, log = [BusWrite 0x78 0x5001 0xFF, BusWrite 0x78 0x5580 0x07,
                              BusWrite 0x78 0x5581 0x00, BusWrite 0x78 0x5582 0x80,
                              BusWrite 0x78 0x5588 0x43]\<rparr>)
   \<and> wrote_composite example_h (fresh_handle (stub_io 0 0)\<lparr>huedegree := 0x02\<rparr>)
         \<lparr>bus = 0, log = [BusWrite 0x78 0x5001 0xFF, BusWrite 0x78 0x5580 0x07,
                           BusWrite 0x78 0x5581 0x00, BusWrite 0x78 0x5582 0x80,
                           BusWrite 0x78 0x5588 0x43]\<rparr>"
proof -
  have ok: "OV5640_OK example_h \<noteq> OV5640_ERROR example_h"
    by (simp add: example_h_simps)
  have ok0: "OV5640_OK example_h = 0"
    by (simp add: example_h_simps)
  note inst = tuning_composite_keeps_other_axes [OF ok]
  show ?thesis
    using ok
      inst [where pObj = "fresh_handle (stub_io 0 0)" and Level = 2 and w = "world0 0"
             and pObj' = "fresh_handle (stub_io 0 0)\<lparr>bright := 0x09\<rparr>"
             and w' = "\<lparr>bus = 0, log = [BusWrite 0x78 0x5001 0xFF, BusWrite 0x78 0x5587 0x20,
                              BusWrite 0x78 0x5580 0x07, BusWrite 0x78 0x5588 0x7B]\<rparr>"]
      inst [where pObj = "fresh_handle (stub_io 0 0)\<lparr>bright := 0x09\<rparr>" and Level = "- 1"
             and w = "world0 0"
             and pObj' = "fresh_handle (stub_io 0 0)\<lparr>bright := 0x09\<rparr>"
             and w' = "\<lparr>bus = 0, log = [BusWrite 0x78 0x5001 0xFF, BusWrite 0x78 0x5583 0x30,
                              BusWrite 0x78 0x5584 0x30, BusWrite 0x78 0x5580 0x07,
                              BusWrite 0x78 0x5588 0x7B]\<rparr>"]
      inst [where pObj = "fresh_handle (stub_io 0 0)" and Level = 4 and w = "world0 0"
             and pObj' = "fresh_handle (stub_io 0 0)"
             and w' = "\<lparr>bus = 0, log = [BusWrite 0x78 0x5001 0xFF, BusWrite 0x78 0x5580 0x07,
                              BusWrite 0x78 0x5586 0x30, BusWrite 0x78 0x5585 0x30,
                              BusWrite 0x78 0x5588 0x73]\<rparr>"]
      inst [where pObj = "fresh_handle (stub_io 0 0)" and Level = "- 3" and w = "world0 0"
             and pObj' = "fresh_handle (stub_io 0 0)\<lparr>huedegree := 0x02\<rparr>"
             and w' = "\<lparr>bus = 0, log = [BusWrite 0x78 0x5001 0xFF, BusWrite 0x78 0x5580 0x07,
                              BusWrite 0x78 0x5581 0x00, BusWrite 0x78 0x5582 0x80,
                              BusWrite 0x78 0x5588 0x43]\<rparr>"]
    by (simp only: ok0 SetBrightness_on_stub SetSaturation_on_stub SetContrast_on_stub
        SetHueDegree_on_stub simp_thms)
qed

text \<open>
  The defaults of the composite: \<^verbatim>\<open>OV5640_RegisterBusIO\<close> seeds the four codes, so a first
  tuning call already ORs defined values.
\<close>

lemma RegisterBusIO_seeds_tuning_codes:
  assumes "OV5640_RegisterBusIO H (Some obj) pIO w = (ret, pObj', w')"
  shows "\<exists>obj'. pObj' = Some obj' \<and> IO obj' = pIO \<and> bright obj' = 0x01 \<and> saturation obj' = 0x41
                \<and> contrast obj' = 0x41 \<and> huedegree obj' = 0x32
                \<and> IsInitialized obj' = IsInitialized obj"
  using assms
  by (auto simp: OV5640_RegisterBusIO_def Let_def split: option.splits prod.splits)

text \<open>
  The round trip of two calls: after a successful \<^verbatim>\<open>OV5640_SetBrightness\<close>, the composite
  that a successful \<^verbatim>\<open>OV5640_SetSaturation\<close> writes still carries the brightness code of the
  first call.
\<close>

lemma brightness_then_saturation:
  assumes ok: "OV5640_OK H \<noteq> OV5640_ERROR H"
      and b: "OV5640_SetBrightness H pObj Level w = Inr (OV5640_OK H, pObj1, w1)"
      and s: "OV5640_SetSaturation H pObj1 Level' w1 = Inr (OV5640_OK H, pObj2, w2)"
  shows "last (log w2) =
           BusWrite (Address (IO pObj2)) (REG H ''OV5640_SDE_CTRL8'')
             (contrast pObj OR (if sint Level < 0 then 0x01 else 0x09) OR huedegree pObj OR 0x41)"
  using SetBrightness_composite [OF b] SetSaturation_composite [OF ok s]
  by (simp add: wrote_composite_def)

section \<open>Image tuning: the table subscripts\<close>

lemma tuning_tables_in_bounds:
  "in_bounds brightness_level (sint Level + 4) \<longleftrightarrow> - 4 \<le> sint Level \<and> sint Level \<le> 4"
  "in_bounds saturation_level (sint Level + 4) \<longleftrightarrow> - 4 \<le> sint Level \<and> sint Level \<le> 4"
  "in_bounds contrast_level (sint Level + 4) \<longleftrightarrow> - 4 \<le> sint Level \<and> sint Level \<le> 4"
  "in_bounds hue_degree_ctrl1 (sint Degree + 6) \<longleftrightarrow> - 6 \<le> sint Degree \<and> sint Degree \<le> 5"
  "in_bounds hue_degree_ctrl2 (sint Degree + 6) \<longleftrightarrow> - 6 \<le> sint Degree \<and> sint Degree \<le> 5"
  "in_bounds hue_degree_ctrl8 (sint Degree + 6) \<longleftrightarrow> - 6 \<le> sint Degree \<and> sint Degree \<le> 5"
  by (auto simp: in_bounds_def brightness_level_def saturation_level_def contrast_level_def
      hue_degree_ctrl1_def hue_degree_ctrl2_def hue_degree_ctrl8_def)

lemma write_reg_fst:
  "fst (ov5640_write_reg pObj reg v w) = fst (WriteReg (IO pObj) (bus w) (Address (IO pObj)) reg v)"
  by (simp add: ov5640_write_reg_def OV5640_WriteRegWrap_def split: prod.splits)

lemma write_reg_OK:
  assumes "\<forall>b a r v. fst (WriteReg (IO pObj) b a r v) = OV5640_OK H"
  shows "ov5640_write_reg pObj reg v w = (ret, w') \<Longrightarrow> ret = OV5640_OK H"
  using assms write_reg_fst [of pObj reg v w] by simp

lemma SetBrightness_fault:
  "isl (OV5640_SetBrightness H pObj Level w) \<Longrightarrow> \<not> (- 4 \<le> sint Level \<and> sint Level \<le> 4)"
  by (auto simp: OV5640_SetBrightness_def subscript_def tuning_tables_in_bounds Let_def
      split: prod.splits if_splits)

lemma SetSaturation_fault:
  "isl (OV5640_SetSaturation H pObj Level w) \<Longrightarrow> \<not> (- 4 \<le> sint Level \<and> sint Level \<le> 4)"
  by (auto simp: OV5640_SetSaturation_def subscript_def tuning_tables_in_bounds Let_def
      split: prod.splits if_splits)

lemma SetContrast_fault:
  "isl (OV5640_SetContrast H pObj Level w) \<Longrightarrow> \<not> (- 4 \<le> sint Level \<and> sint Level \<le> 4)"
  by (auto simp: OV5640_SetContrast_def subscript_def tuning_tables_in_bounds Let_def
      split: prod.splits if_splits)

lemma SetHueDegree_fault:
  "isl (OV5640_SetHueDegree H pObj Degree w) \<Longrightarrow> \<not> (- 6 \<le> sint Degree \<and> sint Degree \<le> 5)"
  by (auto simp: OV5640_SetHueDegree_def subscript_def tuning_tables_in_bounds Let_def
      split: prod.splits if_splits)

lemma SetBrightness_out_of_range:
  assumes "\<forall>b a r v. fst (WriteReg (IO pObj) b a r v) = OV5640_OK H"
      and "\<not> (- 4 \<le> sint Level \<and> sint Level \<le> 4)"
  shows "isl (OV5640_SetBrightness H pObj Level w)"
  using assms(2)
  by (auto simp: OV5640_SetBrightness_def subscript_def tuning_tables_in_bounds
      split: prod.splits dest!: write_reg_OK [OF assms(1)])

lemma SetSaturation_out_of_range:
  assumes "\<forall>b a r v. fst (WriteReg (IO pObj) b a r v) = OV5640_OK H"
      and "\<not> (- 4 \<le> sint Level \<and> sint Level \<le> 4)"
  shows "isl (OV5640_SetSaturation H pObj Level w)"
  using assms(2)
  by (auto simp: OV5640_SetSaturation_def subscript_def tuning_tables_in_bounds
      split: prod.splits dest!: write_reg_OK [OF assms(1)])

lemma SetContrast_out_of_range:
  assumes "\<forall>b a r v. fst (WriteReg (IO pObj) b a r v) = OV5640_OK H"
      and "\<not> (- 4 \<le> sint Level \<and> sint Level \<le> 4)"
  shows "isl (OV5640_SetContrast H pObj Level w)"
  using assms(2)
  by (auto simp: OV5640_SetContrast_def subscript_def tuning_tables_in_bounds
      split: prod.splits dest!: write_reg_OK [OF assms(1)])

lemma SetHueDegree_out_of_range:
  assumes "\<forall>b a r v. fst (WriteReg (IO pObj) b a r v) = OV5640_OK H"
      and "\<not> (- 6 \<le> sint Degree \<and> sint Degree \<le> 5)"
  shows "isl (OV5640_SetHueDegree H pObj Degree w)"
  using assms(2)
  by (auto simp: OV5640_SetHueDegree_def subscript_def tuning_tables_in_bounds
      split: prod.splits dest!: write_reg_OK [OF assms(1)])

text \<open>
  C5. The subscript \<^verbatim>\<open>Level + 4\<close> is inside the 9-entry tables of \<^verbatim>\<open>OV5640_SetBrightness\<close>,
  \<^verbatim>\<open>OV5640_SetSaturation\<close> and \<^verbatim>\<open>OV5640_SetContrast\<close> exactly when \<open>-4 \<le> Level \<le> 4\<close>, and
  \<^verbatim>\<open>Degree + 6\<close> is inside the three 12-entry tables of \<^verbatim>\<open>OV5640_SetHueDegree\<close> exactly when
  \<open>-6 \<le> Degree \<le> 5\<close>. The functions do not test the argument: a call faults with an
  out-of-bounds access only for an argument outside the range, and for every argument
  outside the range it does so whenever the bus writes succeed (so that the access is
  reached).
\<close>

theorem tuning_subscripts_unchecked:
  "(in_bounds brightness_level (sint Level + 4) \<longleftrightarrow> - 4 \<le> sint Level \<and> sint Level \<le> 4)
   \<and> (in_bounds saturation_level (sint Level + 4) \<longleftrightarrow> - 4 \<le> sint Level \<and> sint Level \<le> 4)
   \<and> (in_bounds contrast_level (sint Level + 4) \<longleftrightarrow> - 4 \<le> sint Level \<and> sint Level \<le> 4)
   \<and> (in_bounds hue_degree_ctrl1 (sint Degree + 6) \<longleftrightarrow> - 6 \<le> sint Degree \<and> sint Degree \<le> 5)
   \<and> (in_bounds hue_degree_ctrl2 (sint Degree + 6) \<longleftrightarrow> - 6 \<le> sint Degree \<and> sint Degree \<le> 5)
   \<and> (in_bounds hue_degree_ctrl8 (sint Degree + 6) \<longleftrightarrow> - 6 \<le> sint Degree \<and> sint Degree \<le> 5)
   \<and> (isl (OV5640_SetBrightness H pObj Level w) \<or> isl (OV5640_SetSaturation H pObj Level w)
        \<or> isl (OV5640_SetContrast H pObj Level w)
        \<longrightarrow> \<not> (- 4 \<le> sint Level \<and> sint Level \<le> 4))
   \<and> (isl (OV5640_SetHueDegree H pObj Degree w) \<longrightarrow> \<not> (- 6 \<le> sint Degree \<and> sint Degree \<le> 5))
   \<and> ((\<forall>b a r v. fst (WriteReg (IO pObj) b a r v) = OV5640_OK H)
        \<and> \<not> (- 4 \<le> sint Level \<and> sint Level \<le> 4)
        \<longrightarrow> isl (OV5640_SetBrightness H pObj Level w) \<and> isl (OV5640_SetSaturation H pObj Level w)
            \<and> isl (OV5640_SetContrast H pObj Level w))
   \<and> ((\<forall>b a r v. fst (WriteReg (IO pObj) b a r v) = OV5640_OK H)
        \<and> \<not> (- 6 \<le> sint Degree \<and> sint Degree \<le> 5)
        \<longrightarrow> isl (OV5640_SetHueDegree H pObj Degree w))"
proof -
  have faults: "isl (OV5640_SetBrightness H pObj Level w) \<or> isl (OV5640_SetSaturation H pObj Level w)
        \<or> isl (OV5640_SetContrast H pObj Level w)
        \<longrightarrow> \<not> (- 4 \<le> sint Level \<and> sint Level \<le> 4)"
    using SetBrightness_fault [of H pObj Level w] SetSaturation_fault [of H pObj Level w]
        SetContrast_fault [of H pObj Level w] by blast
  have hue_faults:
    "isl (OV5640_SetHueDegree H pObj Degree w) \<longrightarrow> \<not> (- 6 \<le> sint Degree \<and> sint Degree \<le> 5)"
    using SetHueDegree_fault [of H pObj Degree w] by blast
  have reached: "(\<forall>b a r v. fst (WriteReg (IO pObj) b a r v) = OV5640_OK H)
        \<and> \<not> (- 4 \<le> sint Level \<and> sint Level \<le> 4)
        \<longrightarrow> isl (OV5640_SetBrightness H pObj Level w) \<and> isl (OV5640_SetSaturation H pObj Level w)
            \<and> isl (OV5640_SetContrast H pObj Level w)"
    using SetBrightness_out_of_range [of pObj H Level w] SetSaturation_out_of_range [of pObj H Level w]
        SetContrast_out_of_range [of pObj H Level w] by blast
  have hue_reached: "(\<forall>b a r v. fst (WriteReg (IO pObj) b a r v) = OV5640_OK H)
        \<and> \<not> (- 6 \<le> sint Degree \<and> sint Degree \<le> 5)
        \<longrightarrow> isl (OV5640_SetHueDegree H pObj Degree w)"
    using SetHueDegree_out_of_range [of pObj H Degree w] by blast
  show ?thesis
    by (intro conjI tuning_tables_in_bounds faults hue_faults reached hue_reached)
qed

lemma stub_writes_OK:
  "\<forall>b a r v. fst (WriteReg (IO (fresh_handle (stub_io 0 0))) b a r v) = OV5640_OK example_h"
  by (simp add: fresh_handle_def stub_io_def example_h_simps)

lemma sint_examples: "sint (5 :: i32) = 5" "sint (- 7 :: i32) = - 7"
  by simp_all

theorem tuning_subscripts_unchecked_witness:
  "(\<forall>b a r v. fst (WriteReg (IO (fresh_handle (stub_io 0 0))) b a r v) = OV5640_OK example_h)
   \<and> \<not> (- 4 \<le> sint (5 :: i32) \<and> sint (5 :: i32) \<le> 4)
   \<and> \<not> (- 6 \<le> sint (- 7 :: i32) \<and> sint (- 7 :: i32) \<le> 5)
   \<and> \<not> in_bounds brightness_level (sint (5 :: i32) + 4)
   \<and> \<not> in_bounds hue_degree_ctrl8 (sint (- 7 :: i32) + 6)
   \<and> isl (OV5640_SetBrightness example_h (fresh_handle (stub_io 0 0)) 5 (world0 0))
   \<and> isl (OV5640_SetSaturation example_h (fresh_handle (stub_io 0 0)) 5 (world0 0))
   \<and> isl (OV5640_SetContrast example_h (fresh_handle (stub_io 0 0)) 5 (world0 0))
   \<and> isl (OV5640_SetHueDegree example_h (fresh_handle (stub_io 0 0)) (- 7) (world0 0))"
proof -
  have r1: "\<not> (- 4 \<le> sint (5 :: i32) \<and> sint (5 :: i32) \<le> 4)"
    by (simp add: sint_examples)
  have r2: "\<not> (- 6 \<le> sint (- 7 :: i32) \<and> sint (- 7 :: i32) \<le> 5)"
    by (simp add: sint_examples)
  show ?thesis
    using tuning_subscripts_unchecked
          [where H = example_h and pObj = "fresh_handle (stub_io 0 0)" and Level = 5
             and Degree = "- 7" and w = "world0 0"]
        stub_writes_OK r1 r2
    by blast
qed

lemma SetBrightness_level_5_on_stub:
  "OV5640_SetBrightness example_h (fresh_handle (stub_io 0 0)) 5 (world0 0) =
     Inl (OutOfBounds, \<lparr>bus = 0, log = [BusWrite 0x78 0x5001 0xFF]\<rparr>)"
  by (simp add: OV5640_SetBrightness_def example_h_simps example_regs_simps
      ov5640_write_reg_def OV5640_WriteRegWrap_def fresh_handle_def stub_io_def world0_def
      subscript_def in_bounds_def brightness_level_def)

section \<open>Mirror and flip: idempotence\<close>

lemma mask_F9_idem: "((x::u8) AND 0xF9) AND 0xF9 = x AND 0xF9"
  by (simp add: and.assoc)

lemma set_06_mask_F9: "(((x::u8) AND 0xF9) OR 0x06) AND 0xF9 = x AND 0xF9"
  by (simp add: bit.conj_disj_distrib2 and.assoc)

lemma regfile_write:
  "IO pObj = regfile_io ok \<Longrightarrow>
     ov5640_write_reg pObj reg v w = (ok, \<lparr>bus = (bus w)(reg := v), log = log w @ [BusWrite 0x78 reg v]\<rparr>)"
  by (simp add: ov5640_write_reg_def OV5640_WriteRegWrap_def regfile_io_def)

lemma regfile_read:
  "IO pObj = regfile_io ok \<Longrightarrow>
     ov5640_read_reg pObj reg old w = (ok, bus w reg, \<lparr>bus = bus w, log = log w @ [BusRead 0x78 reg]\<rparr>)"
  by (simp add: ov5640_read_reg_def OV5640_ReadRegWrap_def regfile_io_def)

lemma MirrorFlip_on_regfile:
  assumes "REG H ''OV5640_TIMING_TC_REG20'' = 0x3820"
      and "REG H ''OV5640_TIMING_TC_REG21'' = 0x3821"
      and "IO pObj = regfile_io (OV5640_OK H)"
  shows "OV5640_MirrorFlipConfig H pObj Config w =
           (OV5640_OK H,
            \<lparr>bus = (bus w)
                 (0x3820 := mirror_flip_reg20 H Config (bus w 0x3820),
                  0x3821 := mirror_flip_reg21 H Config (bus w 0x3821)),
             log = log w @ [BusRead 0x78 0x3820, BusRead 0x78 0x3821,
                    BusWrite 0x78 0x3820 (mirror_flip_reg20 H Config (bus w 0x3820)),
                    BusWrite 0x78 0x3821 (mirror_flip_reg21 H Config (bus w 0x3821))]\<rparr>)"
  by (simp add: OV5640_MirrorFlipConfig_def write_reg20_reg21_def assms(1,2)
      regfile_write [OF assms(3)] regfile_read [OF assms(3)] Let_def
      mirror_flip_reg20_def mirror_flip_reg21_def)

lemma mirror_flip_reg_idem:
  "mirror_flip_reg20 H Config (mirror_flip_reg20 H Config x) = mirror_flip_reg20 H Config x"
  "mirror_flip_reg21 H Config (mirror_flip_reg21 H Config x) = mirror_flip_reg21 H Config x"
  by (simp_all add: mirror_flip_reg20_def mirror_flip_reg21_def mask_F9_idem set_06_mask_F9)

text \<open>
  C8. On a bus that is a plain register file answering with \<^verbatim>\<open>OV5640_OK\<close>, with the two timing
  registers at 0x3820 and 0x3821, for every \<^verbatim>\<open>Config\<close> (the four named ones and any other
  value, which the \<^verbatim>\<open>switch\<close> treats as none) and every content of the register file: a call
  of \<^verbatim>\<open>OV5640_MirrorFlipConfig\<close> succeeds and leaves in each register the byte read with bits
  2:1 cleared (AND 0xF9) and set again (OR 0x06) for the requested axis, and a second call
  with the same \<^verbatim>\<open>Config\<close> leaves registers 0x3820 and 0x3821, and the whole register file,
  as the first call left them.
\<close>

theorem MirrorFlipConfig_idempotent:
  assumes "REG H ''OV5640_TIMING_TC_REG20'' = 0x3820"
      and "REG H ''OV5640_TIMING_TC_REG21'' = 0x3821"
      and "IO pObj = regfile_io (OV5640_OK H)"
  shows "fst (OV5640_MirrorFlipConfig H pObj Config w) = OV5640_OK H
         \<and> fst (OV5640_MirrorFlipConfig H pObj Config (snd (OV5640_MirrorFlipConfig H pObj Config w))) = OV5640_OK H
         \<and> bus (snd (OV5640_MirrorFlipConfig H pObj Config w)) 0x3820 = mirror_flip_reg20 H Config (bus w 0x3820)
         \<and> bus (snd (OV5640_MirrorFlipConfig H pObj Config w)) 0x3821 = mirror_flip_reg21 H Config (bus w 0x3821)
         \<and> bus (snd (OV5640_MirrorFlipConfig H pObj Config (snd (OV5640_MirrorFlipConfig H pObj Config w)))) 0x3820
             = bus (snd (OV5640_MirrorFlipConfig H pObj Config w)) 0x3820
         \<and> bus (snd (OV5640_MirrorFlipConfig H pObj Config (snd (OV5640_MirrorFlipConfig H pObj Config w)))) 0x3821
             = bus (snd (OV5640_MirrorFlipConfig H pObj Config w)) 0x3821
         \<and> bus (snd (OV5640_MirrorFlipConfig H pObj Config (snd (OV5640_MirrorFlipConfig H pObj Config w))))
             = bus (snd (OV5640_MirrorFlipConfig H pObj Config w))"
  by (simp add: MirrorFlip_on_regfile [OF assms] mirror_flip_reg_idem fun_eq_iff)

theorem MirrorFlipConfig_idempotent_witness:
  "REG example_h ''OV5640_TIMING_TC_REG20'' = 0x3820
   \<and> REG example_h ''OV5640_TIMING_TC_REG21'' = 0x3821
   \<and> IO (fresh_handle (regfile_io (OV5640_OK example_h))) = regfile_io (OV5640_OK example_h)
   \<and> bus (snd (OV5640_MirrorFlipConfig example_h (fresh_handle (regfile_io (OV5640_OK example_h)))
                  (OV5640_MIRROR example_h) (world0 (\<lambda>r. 0x47)))) 0x3820 = 0x41
   \<and> bus (snd (OV5640_MirrorFlipConfig example_h (fresh_handle (regfile_io (OV5640_OK example_h)))
                  (OV5640_MIRROR example_h) (world0 (\<lambda>r. 0x47)))) 0x3821 = 0x47
   \<and> bus (snd (OV5640_MirrorFlipConfig example_h (fresh_handle (regfile_io (OV5640_OK example_h)))
                  (OV5640_MIRROR example_h)
                  (snd (OV5640_MirrorFlipConfig example_h (fresh_handle (regfile_io (OV5640_OK example_h)))
                          (OV5640_MIRROR example_h) (world0 (\<lambda>r. 0x47)))))) 0x3820 = 0x41
   \<and> bus (snd (OV5640_MirrorFlipConfig example_h (fresh_handle (regfile_io (OV5640_OK example_h)))
                  (OV5640_MIRROR example_h)
                  (snd (OV5640_MirrorFlipConfig example_h (fresh_handle (regfile_io (OV5640_OK example_h)))
                          (OV5640_MIRROR example_h) (world0 (\<lambda>r. 0x47)))))) 0x3821 = 0x47"
proof -
  have a1: "REG example_h ''OV5640_TIMING_TC_REG20'' = 0x3820"
    and a2: "REG example_h ''OV5640_TIMING_TC_REG21'' = 0x3821"
    by (simp_all add: example_regs_simps)
  have a3: "IO (fresh_handle (regfile_io (OV5640_OK example_h))) = regfile_io (OV5640_OK example_h)"
    by (simp add: fresh_handle_def)
  have v20: "mirror_flip_reg20 example_h (OV5640_MIRROR example_h) 0x47 = 0x41"
    and v21: "mirror_flip_reg21 example_h (OV5640_MIRROR example_h) 0x47 = 0x47"
    by (simp_all add: mirror_flip_reg20_def mirror_flip_reg21_def)
  show ?thesis
    using MirrorFlipConfig_idempotent [OF a1 a2 a3, of "OV5640_MIRROR example_h" "world0 (\<lambda>r. 0x47)"]
      a1 a2 a3 v20 v21
    by (simp add: world0_def)
qed

section \<open>Blocking autofocus: the retry budget\<close>

lemma count_reads_simps [simp]:
  "count_reads [] = 0"
  "count_reads (BusRead a r # l) = Suc (count_reads l)"
  "count_reads (BusWrite a r v # l) = count_reads l"
  "count_reads (l @ m) = count_reads l + count_reads m"
  by (simp_all add: count_reads_def)

lemma log_task_delay [simp]: "log (task_delay T t w) = log w"
  by (simp add: task_delay_def)

lemma read_regD:
  "ov5640_read_reg pObj reg old w = (r, t, w1) \<Longrightarrow>
     t = fst (snd (ReadReg (IO pObj) (bus w) (Address (IO pObj)) reg old))
     \<and> log w1 = log w @ [BusRead (Address (IO pObj)) reg]"
  by (auto simp: ov5640_read_reg_def OV5640_ReadRegWrap_def split: prod.splits)

lemma u16_gt_200: "n \<le> 65535 \<Longrightarrow> (200 :: u16) < of_nat n \<longleftrightarrow> 200 < n"
  by (simp add: word_less_nat_alt unat_of_nat)

lemma Focus_Single_poll_never:
  assumes never: "\<forall>b a r old. fst (snd (ReadReg (IO pObj) b a r old)) \<noteq> 0x10"
  shows "n \<le> 200 \<Longrightarrow>
           fst (Focus_Single_poll T H pObj (of_nat n) temp w) = OV5640_ERROR H
           \<and> count_reads (log (snd (Focus_Single_poll T H pObj (of_nat n) temp w))) =
               count_reads (log w) + (201 - n)"
proof (induction "200 - n" arbitrary: n temp w)
  case 0
  then have n: "n = 200" by simp
  obtain r t w1 where rd: "ov5640_read_reg pObj 0x3029 temp w = (r, t, w1)"
    by (cases "ov5640_read_reg pObj 0x3029 temp w") auto
  from read_regD [OF rd] never have t: "t \<noteq> 0x10" and l: "log w1 = log w @ [BusRead (Address (IO pObj)) 0x3029]"
    by auto
  show ?case
    by (subst (1 2) Focus_Single_poll.simps) (simp add: n rd t l)
next
  case (Suc d)
  then have n: "n < 200" by simp
  obtain r t w1 where rd: "ov5640_read_reg pObj 0x3029 temp w = (r, t, w1)"
    by (cases "ov5640_read_reg pObj 0x3029 temp w") auto
  from read_regD [OF rd] never have t: "t \<noteq> 0x10" and l: "log w1 = log w @ [BusRead (Address (IO pObj)) 0x3029]"
    by auto
  have step: "(of_nat n :: u16) + 1 = of_nat (Suc n)" by simp
  have ngt: "\<not> (200 :: u16) < of_nat (Suc n)"
    using n by (simp add: u16_gt_200 del: of_nat_Suc)
  have d: "d = 200 - Suc n" using Suc.hyps(2) by simp
  have IH: "fst (Focus_Single_poll T H pObj (of_nat (Suc n)) t (task_delay T (pdMS_TO_TICKS H 5) w1)) = OV5640_ERROR H
        \<and> count_reads (log (snd (Focus_Single_poll T H pObj (of_nat (Suc n)) t (task_delay T (pdMS_TO_TICKS H 5) w1)))) =
            count_reads (log (task_delay T (pdMS_TO_TICKS H 5) w1)) + (201 - Suc n)"
    using Suc.hyps(1) [OF d] n by simp
  show ?case
    apply (subst (1 2) Focus_Single_poll.simps)
    using IH n
    apply (simp add: rd t step ngt l del: of_nat_Suc)
    done
qed

lemma Focus_Constant_poll_never:
  assumes never: "\<forall>b a r old. fst (snd (ReadReg (IO pObj) b a r old)) \<noteq> 0x00"
  shows "n \<le> 200 \<Longrightarrow>
           \<exists>w'. Focus_Constant_poll T H pObj (of_nat n) temp w = Inl (OV5640_ERROR H, w')
                \<and> count_reads (log w') = count_reads (log w) + (201 - n)"
proof (induction "200 - n" arbitrary: n temp w)
  case 0
  then have n: "n = 200" by simp
  obtain r t w1 where rd: "ov5640_read_reg pObj 0x3023 temp w = (r, t, w1)"
    by (cases "ov5640_read_reg pObj 0x3023 temp w") auto
  from read_regD [OF rd] have l: "log w1 = log w @ [BusRead (Address (IO pObj)) 0x3023]"
    by auto
  show ?case
    by (subst Focus_Constant_poll.simps) (simp add: n rd l)
next
  case (Suc d)
  then have n: "n < 200" by simp
  obtain r t w1 where rd: "ov5640_read_reg pObj 0x3023 temp w = (r, t, w1)"
    by (cases "ov5640_read_reg pObj 0x3023 temp w") auto
  from read_regD [OF rd] never have t: "t \<noteq> 0x00"
    and l: "log w1 = log w @ [BusRead (Address (IO pObj)) 0x3023]"
    by auto
  have step: "(of_nat n :: u16) + 1 = of_nat (Suc n)" by simp
  have ngt: "\<not> (200 :: u16) < of_nat (Suc n)"
    using n by (simp add: u16_gt_200 del: of_nat_Suc)
  have d: "d = 200 - Suc n" using Suc.hyps(2) by simp
  have "Suc n \<le> 200" using n by simp
  from Suc.hyps(1) [OF d this, of t "task_delay T (pdMS_TO_TICKS H 5) w1"]
  obtain w' where
    IH: "Focus_Constant_poll T H pObj (of_nat (Suc n)) t (task_delay T (pdMS_TO_TICKS H 5) w1) =
           Inl (OV5640_ERROR H, w')"
        "count_reads (log w') = count_reads (log (task_delay T (pdMS_TO_TICKS H 5) w1)) + (201 - Suc n)"
    by blast
  show ?case
    apply (subst Focus_Constant_poll.simps)
    using IH n
    apply (simp add: rd t step ngt l del: of_nat_Suc)
    done
qed

lemma status_read:
  "IO pObj = status_io k s other \<Longrightarrow>
     ov5640_read_reg pObj reg old w =
       (0, if k \<le> Suc (bus w) then s else other,
        \<lparr>bus = Suc (bus w), log = log w @ [BusRead 0x78 reg]\<rparr>)"
  by (simp add: ov5640_read_reg_def OV5640_ReadRegWrap_def status_io_def)

lemma status_write:
  "IO pObj = status_io k s other \<Longrightarrow>
     ov5640_write_reg pObj reg v w = (0, \<lparr>bus = bus w, log = log w @ [BusWrite 0x78 reg v]\<rparr>)"
  by (simp add: ov5640_write_reg_def OV5640_WriteRegWrap_def status_io_def)

lemma idle_delay [simp]: "task_delay idle_rtos t w = w"
  by (simp add: task_delay_def idle_rtos_def)

lemma Focus_Single_poll_status:
  assumes io: "IO pObj = status_io k 0x10 other" and other: "other \<noteq> 0x10"
  shows "bus w < k \<Longrightarrow> n + (k - bus w) \<le> 201 \<Longrightarrow>
           Focus_Single_poll idle_rtos H pObj (of_nat n) temp w =
             (OV5640_OK H, \<lparr>bus = k, log = log w @ replicate (k - bus w) (BusRead 0x78 0x3029)\<rparr>)"
proof (induction "k - bus w" arbitrary: n temp w)
  case 0
  then show ?case by simp
next
  case (Suc d)
  show ?case
  proof (cases d)
    case 0
    with Suc.hyps(2) have k: "k = Suc (bus w)" by simp
    show ?thesis
      by (subst Focus_Single_poll.simps) (simp add: status_read [OF io] k)
  next
    case (Suc d')
    with Suc.hyps(2) have far: "\<not> k \<le> Suc (bus w)" and d: "d = k - Suc (bus w)"
      and lt: "Suc (bus w) < k"
      by simp_all
    have n: "Suc n \<le> 200" using Suc.prems(2) Suc.hyps(2) Suc by simp
    have ngt: "\<not> (200 :: u16) < of_nat (Suc n)"
      using n by (simp add: u16_gt_200 del: of_nat_Suc)
    have step: "(of_nat n :: u16) + 1 = of_nat (Suc n)" by simp
    let ?w1 = "\<lparr>bus = Suc (bus w), log = log w @ [BusRead 0x78 0x3029]\<rparr>"
    have IH: "Focus_Single_poll idle_rtos H pObj (of_nat (Suc n)) other ?w1 =
                (OV5640_OK H, \<lparr>bus = k, log = log ?w1 @ replicate (k - bus ?w1) (BusRead 0x78 0x3029)\<rparr>)"
      using Suc.hyps(1) [of ?w1 "Suc n" other] d lt Suc.prems(2) by simp
    have rep: "replicate (k - bus w) (BusRead 0x78 0x3029) =
                 BusRead 0x78 0x3029 # replicate (k - Suc (bus w)) (BusRead 0x78 0x3029)"
      using lt by (cases "k - bus w") simp_all
    show ?thesis
      apply (subst Focus_Single_poll.simps)
      using IH
      apply (simp add: status_read [OF io] far other step ngt rep del: of_nat_Suc replicate_Suc)
      done
  qed
qed

lemma Focus_Constant_poll_status:
  assumes io: "IO pObj = status_io k 0x00 other" and other: "other \<noteq> 0x00"
  shows "bus w < k \<Longrightarrow> n + (k - bus w) \<le> 200 \<Longrightarrow>
           Focus_Constant_poll idle_rtos H pObj (of_nat n) temp w =
             Inr (0, \<lparr>bus = k, log = log w @ replicate (k - bus w) (BusRead 0x78 0x3023)\<rparr>)"
proof (induction "k - bus w" arbitrary: n temp w)
  case 0
  then show ?case by simp
next
  case (Suc d)
  have n: "Suc n \<le> 200" using Suc.prems(2) Suc.hyps(2) by simp
  have ngt: "\<not> (200 :: u16) < of_nat (Suc n)"
    using n by (simp add: u16_gt_200 del: of_nat_Suc)
  have step: "(of_nat n :: u16) + 1 = of_nat (Suc n)" by simp
  show ?case
  proof (cases d)
    case 0
    with Suc.hyps(2) have k: "k = Suc (bus w)" by simp
    show ?thesis
      by (subst Focus_Constant_poll.simps) (simp add: status_read [OF io] k step ngt del: of_nat_Suc)
  next
    case (Suc d')
    with Suc.hyps(2) have far: "\<not> k \<le> Suc (bus w)" and d: "d = k - Suc (bus w)"
      and lt: "Suc (bus w) < k"
      by simp_all
    let ?w1 = "\<lparr>bus = Suc (bus w), log = log w @ [BusRead 0x78 0x3023]\<rparr>"
    have IH: "Focus_Constant_poll idle_rtos H pObj (of_nat (Suc n)) other ?w1 =
                Inr (0, \<lparr>bus = k, log = log ?w1 @ replicate (k - bus ?w1) (BusRead 0x78 0x3023)\<rparr>)"
      using Suc.hyps(1) [of ?w1 "Suc n" other] d lt Suc.prems(2) by simp
    have rep: "replicate (k - bus w) (BusRead 0x78 0x3023) =
                 BusRead 0x78 0x3023 # replicate (k - Suc (bus w)) (BusRead 0x78 0x3023)"
      using lt by (cases "k - bus w") simp_all
    show ?thesis
      apply (subst Focus_Constant_poll.simps)
      using IH
      apply (simp add: status_read [OF io] far other step ngt rep del: of_nat_Suc replicate_Suc)
      done
  qed
qed

lemma Focus_Constant_poll_status_ready:
  assumes io: "IO pObj = status_io k 0x00 other"
  shows "k \<le> Suc (bus w) \<Longrightarrow>
           Focus_Constant_poll idle_rtos H pObj 0 temp w =
             Inr (0, \<lparr>bus = Suc (bus w), log = log w @ [BusRead 0x78 0x3023]\<rparr>)"
  by (subst Focus_Constant_poll.simps) (simp add: status_read [OF io])

lemma count_reads_replicate [simp]:
  "count_reads (replicate j (BusRead a r)) = j"
  by (simp add: count_reads_def)

lemma Focus_Single_never:
  assumes "\<forall>b a r old. fst (snd (ReadReg (IO pObj) b a r old)) \<noteq> 0x10"
  shows "fst (OV5640_Focus_Single T H pObj w) = OV5640_ERROR H
         \<and> count_reads (log (snd (OV5640_Focus_Single T H pObj w))) = count_reads (log w) + 201"
proof -
  obtain r w1 where wr: "ov5640_write_reg pObj 0x3022 0x03 w = (r, w1)"
    by (cases "ov5640_write_reg pObj 0x3022 0x03 w") auto
  from write_reg_logD [OF wr] have "count_reads (log w1) = count_reads (log w)" by simp
  then show ?thesis
    using Focus_Single_poll_never [OF assms, where n = 0 and T = T and H = H and temp = "0x03" and w = w1]
    by (simp add: OV5640_Focus_Single_def wr)
qed

lemma Focus_Constant_never:
  assumes "\<forall>b a r old. fst (snd (ReadReg (IO pObj) b a r old)) \<noteq> 0x00"
  shows "fst (OV5640_Focus_Constant T H pObj w) = OV5640_ERROR H
         \<and> count_reads (log (snd (OV5640_Focus_Constant T H pObj w))) = count_reads (log w) + 201"
proof -
  obtain r1 w1 where wr1: "ov5640_write_reg pObj 0x3023 0x01 w = (r1, w1)"
    by (cases "ov5640_write_reg pObj 0x3023 0x01 w") auto
  obtain r2 w2 where wr2: "ov5640_write_reg pObj 0x3022 0x08 w1 = (r2, w2)"
    by (cases "ov5640_write_reg pObj 0x3022 0x08 w1") auto
  from write_reg_logD [OF wr1] write_reg_logD [OF wr2]
  have c: "count_reads (log w2) = count_reads (log w)" by simp
  from Focus_Constant_poll_never [OF assms, where n = 0 and T = T and H = H and temp = "0x08" and w = w2]
  obtain w' where "Focus_Constant_poll T H pObj 0 0x08 w2 = Inl (OV5640_ERROR H, w')"
    "count_reads (log w') = count_reads (log w2) + 201"
    by auto
  then show ?thesis
    by (simp add: OV5640_Focus_Constant_def wr1 wr2 c)
qed

lemma Focus_Single_status:
  assumes io: "IO pObj = status_io k 0x10 other" and other: "other \<noteq> 0x10"
      and k: "1 \<le> k" "k \<le> 201"
  shows "OV5640_Focus_Single idle_rtos H pObj (world0 0) =
           (OV5640_OK H, \<lparr>bus = k, log = BusWrite 0x78 0x3022 0x03 # replicate k (BusRead 0x78 0x3029)\<rparr>)"
  using Focus_Single_poll_status [OF io other,
          where w = "\<lparr>bus = 0, log = [BusWrite 0x78 0x3022 0x03]\<rparr>" and n = 0 and H = H
            and temp = "0x03"] k
  by (simp add: OV5640_Focus_Single_def status_write [OF io] world0_def)

lemma Focus_Constant_status:
  assumes io: "IO pObj = status_io k 0x00 other" and other: "other \<noteq> 0x00"
      and k: "1 \<le> k" "k \<le> 200"
  shows "OV5640_Focus_Constant idle_rtos H pObj (world0 0) =
           (OV5640_OK H,
            \<lparr>bus = Suc k,
             log = [BusWrite 0x78 0x3023 0x01, BusWrite 0x78 0x3022 0x08]
                   @ replicate k (BusRead 0x78 0x3023)
                   @ [BusWrite 0x78 0x3023 0x01, BusWrite 0x78 0x3022 0x04, BusRead 0x78 0x3023]\<rparr>)"
  using Focus_Constant_poll_status [OF io other,
          where w = "\<lparr>bus = 0, log = [BusWrite 0x78 0x3023 0x01, BusWrite 0x78 0x3022 0x08]\<rparr>"
            and n = 0 and H = H and temp = "0x08"] k
        Focus_Constant_poll_status_ready [OF io,
          where w = "\<lparr>bus = k, log = [BusWrite 0x78 0x3023 0x01, BusWrite 0x78 0x3022 0x08]
                   @ replicate k (BusRead 0x78 0x3023)
                   @ [BusWrite 0x78 0x3023 0x01, BusWrite 0x78 0x3022 0x04]\<rparr>"
            and H = H and temp = "0x04"]
  by (simp add: OV5640_Focus_Constant_def status_write [OF io] world0_def)

lemma stub_read_never:
  "\<forall>b a r old. fst (snd (ReadReg (IO (fresh_handle (stub_io 0 0x55))) b a r old)) \<noteq> 0x10"
  "\<forall>b a r old. fst (snd (ReadReg (IO (fresh_handle (stub_io 0 0x55))) b a r old)) \<noteq> 0x00"
  by (simp_all add: fresh_handle_def stub_io_def)

lemma IO_fresh_handle [simp]: "IO (fresh_handle io) = io"
  by (simp add: fresh_handle_def)

subsection \<open>The loops on any bus\<close>

lemma poll_state_0 [simp]: "poll_state T H pObj reg 0 s = s"
  by (simp add: poll_state_def)

lemma poll_state_Suc: "poll_state T H pObj reg (Suc j) s = poll_state T H pObj reg j (poll_step T H pObj reg s)"
  by (simp add: poll_state_def funpow_swap1)

lemma poll_state_1: "poll_state T H pObj reg (Suc 0) s = poll_step T H pObj reg s"
  by (simp add: poll_state_def)

lemma read_no_Suc:
  "read_no T H pObj reg (Suc j) s =
     fst (snd (ov5640_read_reg pObj reg (fst (poll_state T H pObj reg j s)) (snd (poll_state T H pObj reg j s))))"
  by (simp add: read_no_def)

lemma world_at_read_Suc:
  "world_at_read T H pObj reg (Suc j) s =
     snd (snd (ov5640_read_reg pObj reg (fst (poll_state T H pObj reg j s)) (snd (poll_state T H pObj reg j s))))"
  by (simp add: world_at_read_def)

lemma read_no_Suc_Suc:
  "read_no T H pObj reg (Suc (Suc j)) s = read_no T H pObj reg (Suc j) (poll_step T H pObj reg s)"
  by (simp add: read_no_def poll_state_Suc)

lemma world_at_read_Suc_Suc:
  "world_at_read T H pObj reg (Suc (Suc j)) s = world_at_read T H pObj reg (Suc j) (poll_step T H pObj reg s)"
  by (simp add: world_at_read_def poll_state_Suc)

lemma poll_step_reads:
  "count_reads (log (snd (poll_step T H pObj reg s))) = Suc (count_reads (log (snd s)))"
proof -
  obtain r t w1 where rd: "ov5640_read_reg pObj reg (fst s) (snd s) = (r, t, w1)"
    by (cases "ov5640_read_reg pObj reg (fst s) (snd s)") auto
  show ?thesis
    using read_regD [OF rd] by (simp add: poll_step_def rd)
qed

lemma poll_state_reads:
  "count_reads (log (snd (poll_state T H pObj reg j s))) = count_reads (log (snd s)) + j"
  by (induction j arbitrary: s) (simp_all add: poll_state_Suc poll_step_reads)

lemma world_at_read_reads:
  "count_reads (log (world_at_read T H pObj reg (Suc j) s)) = Suc (count_reads (log (snd s)) + j)"
proof -
  let ?s = "poll_state T H pObj reg j s"
  obtain r t w1 where rd: "ov5640_read_reg pObj reg (fst ?s) (snd ?s) = (r, t, w1)"
    by (cases "ov5640_read_reg pObj reg (fst ?s) (snd ?s)") auto
  show ?thesis
    using read_regD [OF rd] poll_state_reads [of T H pObj reg j s]
    by (simp add: world_at_read_Suc rd)
qed

lemma Focus_Single_poll_timeout:
  "n \<le> 200 \<Longrightarrow> none_within T H pObj 0x3029 0x10 (201 - n) (temp, w) \<Longrightarrow>
     Focus_Single_poll T H pObj (of_nat n) temp w =
       (OV5640_ERROR H, snd (poll_state T H pObj 0x3029 (201 - n) (temp, w)))"
proof (induction "200 - n" arbitrary: n temp w)
  case 0
  then have n: "n = 200" by simp
  obtain r t w1 where rd: "ov5640_read_reg pObj 0x3029 temp w = (r, t, w1)"
    by (cases "ov5640_read_reg pObj 0x3029 temp w") auto
  from "0.prems"(2) have "read_no T H pObj 0x3029 1 (temp, w) \<noteq> 0x10"
    by (simp add: none_within_def n)
  then have t: "t \<noteq> 0x10" by (simp add: read_no_Suc rd)
  have ps: "poll_state T H pObj 0x3029 (Suc 0) (temp, w) = (t, task_delay T (pdMS_TO_TICKS H 5) w1)"
    by (simp add: poll_state_1 poll_step_def rd)
  show ?case
    by (subst Focus_Single_poll.simps) (simp add: n rd t ps)
next
  case (Suc d)
  then have n: "n < 200" by simp
  obtain r t w1 where rd: "ov5640_read_reg pObj 0x3029 temp w = (r, t, w1)"
    by (cases "ov5640_read_reg pObj 0x3029 temp w") auto
  have st: "poll_step T H pObj 0x3029 (temp, w) = (t, task_delay T (pdMS_TO_TICKS H 5) w1)"
    by (simp add: poll_step_def rd)
  from Suc.prems(2) n have "read_no T H pObj 0x3029 1 (temp, w) \<noteq> 0x10"
    by (simp add: none_within_def)
  then have t: "t \<noteq> 0x10" by (simp add: read_no_Suc rd)
  have nw: "none_within T H pObj 0x3029 0x10 (201 - Suc n) (t, task_delay T (pdMS_TO_TICKS H 5) w1)"
    unfolding none_within_def
  proof
    fix j assume j: "j \<in> {1 .. 201 - Suc n}"
    then obtain i where i: "j = Suc i" by (cases j) auto
    from j n have "Suc j \<in> {1 .. 201 - n}" by auto
    with Suc.prems(2) have "read_no T H pObj 0x3029 (Suc j) (temp, w) \<noteq> 0x10"
      by (simp add: none_within_def)
    then show "read_no T H pObj 0x3029 j (t, task_delay T (pdMS_TO_TICKS H 5) w1) \<noteq> 0x10"
      by (simp add: i read_no_Suc_Suc st)
  qed
  have step: "(of_nat n :: u16) + 1 = of_nat (Suc n)" by simp
  have ngt: "\<not> (200 :: u16) < of_nat (Suc n)"
    using n by (simp add: u16_gt_200 del: of_nat_Suc)
  have d: "d = 200 - Suc n" using Suc.hyps(2) by simp
  have le: "Suc n \<le> 200" using n by simp
  have idx: "201 - n = Suc (201 - Suc n)" using n by simp
  have IH: "Focus_Single_poll T H pObj (of_nat (Suc n)) t (task_delay T (pdMS_TO_TICKS H 5) w1) =
       (OV5640_ERROR H, snd (poll_state T H pObj 0x3029 (201 - Suc n) (t, task_delay T (pdMS_TO_TICKS H 5) w1)))"
    using Suc.hyps(1) [OF d le nw] .
  show ?case
    apply (subst Focus_Single_poll.simps)
    apply (simp add: rd t step ngt IH del: of_nat_Suc)
    apply (simp add: idx poll_state_Suc st del: of_nat_Suc)
    done
qed

lemma Focus_Single_poll_first_on:
  "first_on T H pObj 0x3029 0x10 k (temp, w) \<Longrightarrow> n + k \<le> 201 \<Longrightarrow>
     Focus_Single_poll T H pObj (of_nat n) temp w =
       (OV5640_OK H, world_at_read T H pObj 0x3029 k (temp, w))"
proof (induction k arbitrary: n temp w)
  case 0
  then show ?case by (simp add: first_on_def)
next
  case (Suc k)
  obtain r t w1 where rd: "ov5640_read_reg pObj 0x3029 temp w = (r, t, w1)"
    by (cases "ov5640_read_reg pObj 0x3029 temp w") auto
  have st: "poll_step T H pObj 0x3029 (temp, w) = (t, task_delay T (pdMS_TO_TICKS H 5) w1)"
    by (simp add: poll_step_def rd)
  show ?case
  proof (cases k)
    case 0
    with Suc.prems(1) have "t = 0x10"
      by (simp add: first_on_def read_no_Suc rd)
    then show ?thesis
      by (subst Focus_Single_poll.simps) (simp add: rd 0 world_at_read_Suc)
  next
    case (Suc k')
    from Suc.prems(1) have "read_no T H pObj 0x3029 1 (temp, w) \<noteq> 0x10"
      by (simp add: first_on_def Suc)
    then have t: "t \<noteq> 0x10" by (simp add: read_no_Suc rd)
    have fo: "first_on T H pObj 0x3029 0x10 k (t, task_delay T (pdMS_TO_TICKS H 5) w1)"
      unfolding first_on_def
    proof (intro conjI ballI)
      show "1 \<le> k" by (simp add: Suc)
    next
      fix j assume j: "j \<in> {1 ..< k}"
      then obtain i where i: "j = Suc i" by (cases j) auto
      from j have "Suc j \<in> {1 ..< Suc k}" by auto
      with Suc.prems(1) have "read_no T H pObj 0x3029 (Suc j) (temp, w) \<noteq> 0x10"
        by (simp add: first_on_def)
      then show "read_no T H pObj 0x3029 j (t, task_delay T (pdMS_TO_TICKS H 5) w1) \<noteq> 0x10"
        by (simp add: i read_no_Suc_Suc st)
    next
      from Suc.prems(1) have "read_no T H pObj 0x3029 (Suc k) (temp, w) = 0x10"
        by (simp add: first_on_def)
      then show "read_no T H pObj 0x3029 k (t, task_delay T (pdMS_TO_TICKS H 5) w1) = 0x10"
        by (simp add: Suc read_no_Suc_Suc st)
    qed
    have n: "Suc n \<le> 200" using Suc.prems(2) Suc by simp
    have step: "(of_nat n :: u16) + 1 = of_nat (Suc n)" by simp
    have ngt: "\<not> (200 :: u16) < of_nat (Suc n)"
      using n by (simp add: u16_gt_200 del: of_nat_Suc)
    have IH: "Focus_Single_poll T H pObj (of_nat (Suc n)) t (task_delay T (pdMS_TO_TICKS H 5) w1) =
       (OV5640_OK H, world_at_read T H pObj 0x3029 k (t, task_delay T (pdMS_TO_TICKS H 5) w1))"
      using Suc.IH [OF fo, of "Suc n"] Suc.prems(2) by simp
    show ?thesis
      apply (subst Focus_Single_poll.simps)
      apply (simp add: rd t step ngt IH del: of_nat_Suc)
      apply (simp add: Suc world_at_read_Suc_Suc st)
      done
  qed
qed

lemma Focus_Constant_poll_timeout:
  "n \<le> 200 \<Longrightarrow> none_within T H pObj 0x3023 0x00 (200 - n) (temp, w) \<Longrightarrow>
     Focus_Constant_poll T H pObj (of_nat n) temp w =
       Inl (OV5640_ERROR H, world_at_read T H pObj 0x3023 (201 - n) (temp, w))"
proof (induction "200 - n" arbitrary: n temp w)
  case 0
  then have n: "n = 200" by simp
  obtain r t w1 where rd: "ov5640_read_reg pObj 0x3023 temp w = (r, t, w1)"
    by (cases "ov5640_read_reg pObj 0x3023 temp w") auto
  show ?case
    by (subst Focus_Constant_poll.simps) (simp add: n rd world_at_read_Suc)
next
  case (Suc d)
  then have n: "n < 200" by simp
  obtain r t w1 where rd: "ov5640_read_reg pObj 0x3023 temp w = (r, t, w1)"
    by (cases "ov5640_read_reg pObj 0x3023 temp w") auto
  have st: "poll_step T H pObj 0x3023 (temp, w) = (t, task_delay T (pdMS_TO_TICKS H 5) w1)"
    by (simp add: poll_step_def rd)
  from Suc.prems(2) n have "read_no T H pObj 0x3023 (Suc 0) (temp, w) \<noteq> 0x00"
    by (simp add: none_within_def)
  then have t: "t \<noteq> 0x00" by (simp add: read_no_Suc rd)
  have nw: "none_within T H pObj 0x3023 0x00 (200 - Suc n) (t, task_delay T (pdMS_TO_TICKS H 5) w1)"
    unfolding none_within_def
  proof
    fix j assume j: "j \<in> {1 .. 200 - Suc n}"
    then obtain i where i: "j = Suc i" by (cases j) auto
    from j n have "Suc j \<in> {1 .. 200 - n}" by auto
    with Suc.prems(2) have "read_no T H pObj 0x3023 (Suc j) (temp, w) \<noteq> 0x00"
      by (simp add: none_within_def)
    then show "read_no T H pObj 0x3023 j (t, task_delay T (pdMS_TO_TICKS H 5) w1) \<noteq> 0x00"
      by (simp add: i read_no_Suc_Suc st)
  qed
  have step: "(of_nat n :: u16) + 1 = of_nat (Suc n)" by simp
  have ngt: "\<not> (200 :: u16) < of_nat (Suc n)"
    using n by (simp add: u16_gt_200 del: of_nat_Suc)
  have d: "d = 200 - Suc n" using Suc.hyps(2) by simp
  have le: "Suc n \<le> 200" using n by simp
  have idx: "201 - n = Suc (Suc (199 - n))" "200 - n = Suc (199 - n)" using n by simp_all
  have IH: "Focus_Constant_poll T H pObj (of_nat (Suc n)) t (task_delay T (pdMS_TO_TICKS H 5) w1) =
       Inl (OV5640_ERROR H, world_at_read T H pObj 0x3023 (201 - Suc n) (t, task_delay T (pdMS_TO_TICKS H 5) w1))"
    using Suc.hyps(1) [OF d le nw] .
  show ?case
    apply (subst Focus_Constant_poll.simps)
    apply (simp add: rd t step ngt IH del: of_nat_Suc)
    apply (simp add: idx world_at_read_Suc_Suc st del: of_nat_Suc)
    done
qed

lemma Focus_Constant_poll_first_on:
  "first_on T H pObj 0x3023 0x00 k (temp, w) \<Longrightarrow> n + k \<le> 200 \<Longrightarrow>
     Focus_Constant_poll T H pObj (of_nat n) temp w =
       Inr (0x00, snd (poll_state T H pObj 0x3023 k (temp, w)))"
proof (induction k arbitrary: n temp w)
  case 0
  then show ?case by (simp add: first_on_def)
next
  case (Suc k)
  obtain r t w1 where rd: "ov5640_read_reg pObj 0x3023 temp w = (r, t, w1)"
    by (cases "ov5640_read_reg pObj 0x3023 temp w") auto
  have st: "poll_step T H pObj 0x3023 (temp, w) = (t, task_delay T (pdMS_TO_TICKS H 5) w1)"
    by (simp add: poll_step_def rd)
  have n: "Suc n \<le> 200" using Suc.prems(2) by simp
  have step: "(of_nat n :: u16) + 1 = of_nat (Suc n)" by simp
  have ngt: "\<not> (200 :: u16) < of_nat (Suc n)"
    using n by (simp add: u16_gt_200 del: of_nat_Suc)
  show ?case
  proof (cases k)
    case 0
    with Suc.prems(1) have "t = 0x00"
      by (simp add: first_on_def read_no_Suc rd)
    then show ?thesis
      apply (subst Focus_Constant_poll.simps)
      apply (simp add: rd 0 step ngt poll_state_1 st del: of_nat_Suc)
      done
  next
    case (Suc k')
    from Suc.prems(1) have "read_no T H pObj 0x3023 (Suc 0) (temp, w) \<noteq> 0x00"
      by (simp add: first_on_def Suc)
    then have t: "t \<noteq> 0x00" by (simp add: read_no_Suc rd)
    have fo: "first_on T H pObj 0x3023 0x00 k (t, task_delay T (pdMS_TO_TICKS H 5) w1)"
      unfolding first_on_def
    proof (intro conjI ballI)
      show "1 \<le> k" by (simp add: Suc)
    next
      fix j assume j: "j \<in> {1 ..< k}"
      then obtain i where i: "j = Suc i" by (cases j) auto
      from j have "Suc j \<in> {1 ..< Suc k}" by auto
      with Suc.prems(1) have "read_no T H pObj 0x3023 (Suc j) (temp, w) \<noteq> 0x00"
        by (simp add: first_on_def)
      then show "read_no T H pObj 0x3023 j (t, task_delay T (pdMS_TO_TICKS H 5) w1) \<noteq> 0x00"
        by (simp add: i read_no_Suc_Suc st)
    next
      from Suc.prems(1) have "read_no T H pObj 0x3023 (Suc k) (temp, w) = 0x00"
        by (simp add: first_on_def)
      then show "read_no T H pObj 0x3023 k (t, task_delay T (pdMS_TO_TICKS H 5) w1) = 0x00"
        by (simp add: Suc read_no_Suc_Suc st)
    qed
    have IH: "Focus_Constant_poll T H pObj (of_nat (Suc n)) t (task_delay T (pdMS_TO_TICKS H 5) w1) =
       Inr (0x00, snd (poll_state T H pObj 0x3023 k (t, task_delay T (pdMS_TO_TICKS H 5) w1)))"
      using Suc.IH [OF fo, of "Suc n"] Suc.prems(2) by simp
    show ?thesis
      apply (subst Focus_Constant_poll.simps)
      apply (simp add: rd t step ngt IH del: of_nat_Suc)
      apply (simp add: poll_state_Suc st)
      done
  qed
qed

lemma poll_run_cases:
  "none_within T H pObj reg sentinel n s \<or> (\<exists>k \<le> n. first_on T H pObj reg sentinel k s)"
proof (cases "\<exists>j. 1 \<le> j \<and> j \<le> n \<and> read_no T H pObj reg j s = sentinel")
  case False
  then show ?thesis by (auto simp add: none_within_def)
next
  case True
  define k where "k = (LEAST j. 1 \<le> j \<and> j \<le> n \<and> read_no T H pObj reg j s = sentinel)"
  from True have k: "1 \<le> k \<and> k \<le> n \<and> read_no T H pObj reg k s = sentinel"
    unfolding k_def by (rule LeastI_ex)
  have least: "\<And>j. 1 \<le> j \<and> j \<le> n \<and> read_no T H pObj reg j s = sentinel \<Longrightarrow> k \<le> j"
    unfolding k_def by (rule Least_le)
  have "first_on T H pObj reg sentinel k s"
    unfolding first_on_def
  proof (intro conjI ballI)
    show "1 \<le> k" using k by simp
    show "read_no T H pObj reg k s = sentinel" using k by simp
  next
    fix j assume j: "j \<in> {1 ..< k}"
    show "read_no T H pObj reg j s \<noteq> sentinel"
    proof
      assume "read_no T H pObj reg j s = sentinel"
      with j k have "k \<le> j" by (intro least) auto
      with j show False by simp
    qed
  qed
  with k show ?thesis by blast
qed

lemma first_on_not_none_within:
  "first_on T H pObj reg sentinel k s \<Longrightarrow> k \<le> n \<Longrightarrow> \<not> none_within T H pObj reg sentinel n s"
  by (auto simp add: first_on_def none_within_def)

lemma Focus_Single_start_reads:
  "count_reads (log (snd (Focus_Single_start pObj w))) = count_reads (log w)"
proof -
  obtain r w1 where wr: "ov5640_write_reg pObj 0x3022 0x03 w = (r, w1)"
    by (cases "ov5640_write_reg pObj 0x3022 0x03 w") auto
  from write_reg_logD [OF wr] show ?thesis by (simp add: Focus_Single_start_def wr)
qed

lemma Focus_Constant_start_reads:
  "count_reads (log (snd (Focus_Constant_start pObj w))) = count_reads (log w)"
proof -
  obtain r1 w1 where wr1: "ov5640_write_reg pObj 0x3023 0x01 w = (r1, w1)"
    by (cases "ov5640_write_reg pObj 0x3023 0x01 w") auto
  obtain r2 w2 where wr2: "ov5640_write_reg pObj 0x3022 0x08 w1 = (r2, w2)"
    by (cases "ov5640_write_reg pObj 0x3022 0x08 w1") auto
  from write_reg_logD [OF wr1] write_reg_logD [OF wr2] show ?thesis
    by (simp add: Focus_Constant_start_def wr1 wr2)
qed

lemma Focus_Constant_restart_reads:
  "count_reads (log (snd (Focus_Constant_restart pObj w))) = count_reads (log w)"
proof -
  obtain r1 w1 where wr1: "ov5640_write_reg pObj 0x3023 0x01 w = (r1, w1)"
    by (cases "ov5640_write_reg pObj 0x3023 0x01 w") auto
  obtain r2 w2 where wr2: "ov5640_write_reg pObj 0x3022 0x04 w1 = (r2, w2)"
    by (cases "ov5640_write_reg pObj 0x3022 0x04 w1") auto
  from write_reg_logD [OF wr1] write_reg_logD [OF wr2] show ?thesis
    by (simp add: Focus_Constant_restart_def wr1 wr2)
qed

lemma Focus_Single_unfold:
  "OV5640_Focus_Single T H pObj w =
     Focus_Single_poll T H pObj 0 (fst (Focus_Single_start pObj w)) (snd (Focus_Single_start pObj w))"
  by (simp add: OV5640_Focus_Single_def Focus_Single_start_def split: prod.splits)

lemma Focus_Constant_unfold:
  "OV5640_Focus_Constant T H pObj w =
     (case Focus_Constant_poll T H pObj 0 (fst (Focus_Constant_start pObj w)) (snd (Focus_Constant_start pObj w)) of
        Inl res \<Rightarrow> res
      | Inr (temp, w3) \<Rightarrow>
          (case Focus_Constant_poll T H pObj 0 (fst (Focus_Constant_restart pObj w3))
                  (snd (Focus_Constant_restart pObj w3)) of
             Inl res \<Rightarrow> res
           | Inr (temp', w6) \<Rightarrow> (OV5640_OK H, w6)))"
  by (simp add: OV5640_Focus_Constant_def Focus_Constant_start_def Focus_Constant_restart_def
           split: prod.splits sum.splits)

lemma Focus_Single_timeout:
  assumes "none_within T H pObj 0x3029 0x10 201 (Focus_Single_start pObj w)"
  shows "OV5640_Focus_Single T H pObj w =
           (OV5640_ERROR H, snd (poll_state T H pObj 0x3029 201 (Focus_Single_start pObj w)))"
  using Focus_Single_poll_timeout [where n = 0 and T = T and H = H and pObj = pObj
          and temp = "fst (Focus_Single_start pObj w)" and w = "snd (Focus_Single_start pObj w)"] assms
  by (simp add: Focus_Single_unfold)

lemma Focus_Single_first_on:
  assumes "first_on T H pObj 0x3029 0x10 k (Focus_Single_start pObj w)" "k \<le> 201"
  shows "OV5640_Focus_Single T H pObj w =
           (OV5640_OK H, world_at_read T H pObj 0x3029 k (Focus_Single_start pObj w))"
  using Focus_Single_poll_first_on [where n = 0 and T = T and H = H and pObj = pObj and k = k
          and temp = "fst (Focus_Single_start pObj w)" and w = "snd (Focus_Single_start pObj w)"] assms
  by (simp add: Focus_Single_unfold)

lemma Focus_Constant_timeout:
  assumes "none_within T H pObj 0x3023 0x00 200 (Focus_Constant_start pObj w)"
  shows "OV5640_Focus_Constant T H pObj w =
           (OV5640_ERROR H, world_at_read T H pObj 0x3023 201 (Focus_Constant_start pObj w))"
  using Focus_Constant_poll_timeout [where n = 0 and T = T and H = H and pObj = pObj
          and temp = "fst (Focus_Constant_start pObj w)" and w = "snd (Focus_Constant_start pObj w)"] assms
  by (simp add: Focus_Constant_unfold)

lemma Focus_Constant_second_timeout:
  assumes "first_on T H pObj 0x3023 0x00 k (Focus_Constant_start pObj w)" "k \<le> 200"
      and "none_within T H pObj 0x3023 0x00 200
             (Focus_Constant_restart pObj (snd (poll_state T H pObj 0x3023 k (Focus_Constant_start pObj w))))"
  shows "OV5640_Focus_Constant T H pObj w =
           (OV5640_ERROR H, world_at_read T H pObj 0x3023 201
              (Focus_Constant_restart pObj (snd (poll_state T H pObj 0x3023 k (Focus_Constant_start pObj w)))))"
proof -
  let ?s = "Focus_Constant_start pObj w"
  let ?w3 = "snd (poll_state T H pObj 0x3023 k ?s)"
  let ?s2 = "Focus_Constant_restart pObj ?w3"
  have p1: "Focus_Constant_poll T H pObj 0 (fst ?s) (snd ?s) = Inr (0x00, ?w3)"
    using Focus_Constant_poll_first_on [where n = 0 and T = T and H = H and pObj = pObj and k = k
          and temp = "fst ?s" and w = "snd ?s"] assms(1,2) by simp
  have p2: "Focus_Constant_poll T H pObj 0 (fst ?s2) (snd ?s2) =
              Inl (OV5640_ERROR H, world_at_read T H pObj 0x3023 201 ?s2)"
    using Focus_Constant_poll_timeout [where n = 0 and T = T and H = H and pObj = pObj
          and temp = "fst ?s2" and w = "snd ?s2"] assms(3) by simp
  show ?thesis
    by (simp add: Focus_Constant_unfold p1 p2)
qed

lemma Focus_Constant_both_first_on:
  assumes "first_on T H pObj 0x3023 0x00 k (Focus_Constant_start pObj w)" "k \<le> 200"
      and "first_on T H pObj 0x3023 0x00 m
             (Focus_Constant_restart pObj (snd (poll_state T H pObj 0x3023 k (Focus_Constant_start pObj w))))"
          "m \<le> 200"
  shows "OV5640_Focus_Constant T H pObj w =
           (OV5640_OK H, snd (poll_state T H pObj 0x3023 m
              (Focus_Constant_restart pObj (snd (poll_state T H pObj 0x3023 k (Focus_Constant_start pObj w))))))"
proof -
  let ?s = "Focus_Constant_start pObj w"
  let ?w3 = "snd (poll_state T H pObj 0x3023 k ?s)"
  let ?s2 = "Focus_Constant_restart pObj ?w3"
  have p1: "Focus_Constant_poll T H pObj 0 (fst ?s) (snd ?s) = Inr (0x00, ?w3)"
    using Focus_Constant_poll_first_on [where n = 0 and T = T and H = H and pObj = pObj and k = k
          and temp = "fst ?s" and w = "snd ?s"] assms(1,2) by simp
  have p2: "Focus_Constant_poll T H pObj 0 (fst ?s2) (snd ?s2) =
              Inr (0x00, snd (poll_state T H pObj 0x3023 m ?s2))"
    using Focus_Constant_poll_first_on [where n = 0 and T = T and H = H and pObj = pObj and k = m
          and temp = "fst ?s2" and w = "snd ?s2"] assms(3,4) by simp
  show ?thesis
    by (simp add: Focus_Constant_unfold p1 p2)
qed

lemma dead_poll_state_fst:
  "IO pObj = dead_io \<Longrightarrow> fst (poll_state T H pObj reg j s) = fst s"
proof (induction j arbitrary: s)
  case 0
  show ?case by simp
next
  case (Suc j)
  have "fst (poll_step T H pObj reg s) = fst s"
    by (simp add: poll_step_def ov5640_read_reg_def OV5640_ReadRegWrap_def Suc.prems dead_io_def)
  with Suc.IH [OF Suc.prems, of "poll_step T H pObj reg s"] show ?case
    by (simp add: poll_state_Suc)
qed

lemma dead_read_no:
  "IO pObj = dead_io \<Longrightarrow> read_no T H pObj reg k s = fst s"
  using dead_poll_state_fst [of pObj T H reg "k - 1" s]
  by (simp add: read_no_def ov5640_read_reg_def OV5640_ReadRegWrap_def dead_io_def)

lemma dead_none_within:
  "IO pObj = dead_io \<Longrightarrow> fst s \<noteq> sentinel \<Longrightarrow> none_within T H pObj reg sentinel n s"
  by (simp add: none_within_def dead_read_no)

lemma counting_poll_state_bus:
  assumes "ReadReg (IO pObj) = (\<lambda>b a r old. (c, f (Suc b), Suc b))"
  shows "bus (snd (poll_state idle_rtos H pObj reg j s)) = bus (snd s) + j"
proof (induction j arbitrary: s)
  case 0
  show ?case by simp
next
  case (Suc j)
  have "bus (snd (poll_step idle_rtos H pObj reg s)) = Suc (bus (snd s))"
    by (simp add: poll_step_def ov5640_read_reg_def OV5640_ReadRegWrap_def assms)
  with Suc.IH [of "poll_step idle_rtos H pObj reg s"] show ?case
    by (simp add: poll_state_Suc)
qed

lemma counting_read_no:
  assumes "ReadReg (IO pObj) = (\<lambda>b a r old. (c, f (Suc b), Suc b))"
  shows "read_no idle_rtos H pObj reg (Suc j) s = f (Suc (bus (snd s) + j))"
  using counting_poll_state_bus [OF assms, of H reg j s]
  by (simp add: read_no_Suc ov5640_read_reg_def OV5640_ReadRegWrap_def assms)

lemma quiet_write_bus:
  assumes "WriteReg (IO pObj) = (\<lambda>b a r v. (c, b))"
  shows "bus (snd (ov5640_write_reg pObj reg v w)) = bus w"
  by (simp add: ov5640_write_reg_def OV5640_WriteRegWrap_def assms)

lemma quiet_start_bus:
  assumes "WriteReg (IO pObj) = (\<lambda>b a r v. (c, b))"
  shows "bus (snd (Focus_Single_start pObj w)) = bus w"
    "bus (snd (Focus_Constant_start pObj w)) = bus w"
    "bus (snd (Focus_Constant_restart pObj w)) = bus w"
  by (simp_all add: Focus_Single_start_def Focus_Constant_start_def Focus_Constant_restart_def
        quiet_write_bus [OF assms])

lemma start_fst [simp]:
  "fst (Focus_Single_start pObj w) = 0x03"
  "fst (Focus_Constant_start pObj w) = 0x08"
  "fst (Focus_Constant_restart pObj w) = 0x04"
  by (simp_all add: Focus_Single_start_def Focus_Constant_start_def Focus_Constant_restart_def)

lemma counting_first_on:
  assumes rd: "ReadReg (IO pObj) = (\<lambda>b a r old. (c, f (Suc b), Suc b))"
      and k: "f (bus (snd s) + Suc k) = sentinel"
      and before: "\<forall>j < k. f (bus (snd s) + Suc j) \<noteq> sentinel"
  shows "first_on idle_rtos H pObj reg sentinel (Suc k) s"
  unfolding first_on_def
proof (intro conjI ballI)
  show "1 \<le> Suc k" by simp
  show "read_no idle_rtos H pObj reg (Suc k) s = sentinel"
    using k by (simp add: counting_read_no [OF rd])
next
  fix j assume j: "j \<in> {1 ..< Suc k}"
  then obtain i where i: "j = Suc i" by (cases j) auto
  with j before have "f (bus (snd s) + Suc i) \<noteq> sentinel" by simp
  then show "read_no idle_rtos H pObj reg j s \<noteq> sentinel"
    by (simp add: i counting_read_no [OF rd])
qed

lemma counting_none_within:
  assumes rd: "ReadReg (IO pObj) = (\<lambda>b a r old. (c, f (Suc b), Suc b))"
      and before: "\<forall>j < n. f (bus (snd s) + Suc j) \<noteq> sentinel"
  shows "none_within idle_rtos H pObj reg sentinel n s"
  unfolding none_within_def
proof
  fix j assume j: "j \<in> {1 .. n}"
  then obtain i where i: "j = Suc i" by (cases j) auto
  with j before have "f (bus (snd s) + Suc i) \<noteq> sentinel" by simp
  then show "read_no idle_rtos H pObj reg j s \<noteq> sentinel"
    by (simp add: i counting_read_no [OF rd])
qed

lemma pulse_io_simps:
  "ReadReg (pulse_io k sentinel other) = (\<lambda>b a r old. (0, (\<lambda>n. if n = k then sentinel else other) (Suc b), Suc b))"
  "WriteReg (pulse_io k sentinel other) = (\<lambda>b a r v. (0, b))"
  by (simp_all add: pulse_io_def)

lemma status_io_simps:
  "ReadReg (status_io k sentinel other) = (\<lambda>b a r old. (0, (\<lambda>n. if k \<le> n then sentinel else other) (Suc b), Suc b))"
  "WriteReg (status_io k sentinel other) = (\<lambda>b a r v. (0, b))"
  by (simp_all add: status_io_def)

lemma fresh_pulse_io:
  "ReadReg (IO (fresh_handle (pulse_io k sentinel other))) =
     (\<lambda>b a r old. (0, if Suc b = k then sentinel else other, Suc b))"
  "WriteReg (IO (fresh_handle (pulse_io k sentinel other))) = (\<lambda>b a r v. (0, b))"
  by (simp_all add: pulse_io_def)

lemma fresh_status_io:
  "ReadReg (IO (fresh_handle (status_io k sentinel other))) =
     (\<lambda>b a r old. (0, if k \<le> Suc b then sentinel else other, Suc b))"
  "WriteReg (IO (fresh_handle (status_io k sentinel other))) = (\<lambda>b a r v. (0, b))"
  by (simp_all add: status_io_def)

lemma bus_world0 [simp]: "bus (world0 b) = b" "log (world0 b) = []"
  by (simp_all add: world0_def)

lemma busy_first_on:
  "first_on busy_rtos example_h (fresh_handle (status_io 5002 0x10 0xFF)) 0x3029 0x10 2
     (Focus_Single_start (fresh_handle (status_io 5002 0x10 0xFF)) (world0 0))"
proof -
  let ?B = "fresh_handle (status_io 5002 0x10 0xFF)"
  let ?s = "Focus_Single_start ?B (world0 0)"
  have s: "{1 ..< 2 :: nat} = {1}" by auto
  have a: "Address (status_io 5002 0x10 0xFF) = 0x78" by (simp add: status_io_def)
  note io = status_io_simps [of 5002 "0x10" "0xFF"] a
  have start: "?s = (0x03, \<lparr>bus = 0, log = [BusWrite 0x78 0x3022 0x03]\<rparr>)"
    by (simp add: Focus_Single_start_def ov5640_write_reg_def OV5640_WriteRegWrap_def
          io world0_def)
  have step: "poll_step busy_rtos example_h ?B 0x3029 ?s =
      (0xFF, \<lparr>bus = 5001, log = [BusWrite 0x78 0x3022 0x03, BusRead 0x78 0x3029]\<rparr>)"
    by (simp add: start poll_step_def ov5640_read_reg_def OV5640_ReadRegWrap_def
          io task_delay_def busy_rtos_def example_h_def)
  have one: "read_no busy_rtos example_h ?B 0x3029 1 ?s = 0xFF"
    using read_no_Suc [of busy_rtos example_h ?B "0x3029" 0 ?s]
    by (simp add: start ov5640_read_reg_def OV5640_ReadRegWrap_def io)
  have two: "read_no busy_rtos example_h ?B 0x3029 2 ?s = 0x10"
    using read_no_Suc [of busy_rtos example_h ?B "0x3029" "Suc 0" ?s]
    by (simp add: poll_state_1 step ov5640_read_reg_def OV5640_ReadRegWrap_def io
          numeral_2_eq_2)
  show ?thesis
    unfolding first_on_def s using one two by simp
qed

text \<open>
  C7 (as amended). The statement is about the run of the polling loop on any bus and any
  scheduler: \<open>none_within \<dots> n s\<close> says that none of the first \<open>n\<close> reads of the run from
  \<open>s\<close> leaves the sentinel in the buffer, \<open>first_on \<dots> k s\<close> that the \<open>k\<close>-th read is the
  first that does; for every run one of the two holds (last conjunct).

  \<^item> \<^verbatim>\<open>OV5640_Focus_Single\<close> (sentinel 0x10, register 0x3029): without the sentinel in the
    first 201 reads it returns \<^verbatim>\<open>OV5640_ERROR\<close> after exactly 201 reads; with the sentinel
    first on read \<open>k \<le> 201\<close> it returns \<^verbatim>\<open>OV5640_OK\<close> after exactly \<open>k\<close> reads.
  \<^item> A polling phase of \<^verbatim>\<open>OV5640_Focus_Constant\<close> (sentinel 0x00, register 0x3023), from any
    buffer and world: without the sentinel in the first 200 reads it leaves the function
    with \<^verbatim>\<open>OV5640_ERROR\<close> after exactly 201 reads (the test is \<^verbatim>\<open>retry > 200\<close>, made before
    the byte of the 201st read is looked at); with the sentinel first on read \<open>k \<le> 200\<close>
    it ends after exactly \<open>k\<close> reads.
  \<^item> \<^verbatim>\<open>OV5640_Focus_Constant\<close> as a whole: a first phase that times out gives
    \<^verbatim>\<open>OV5640_ERROR\<close> after 201 reads; a first phase that ends on read \<open>k\<close> followed by a
    second phase that times out gives \<^verbatim>\<open>OV5640_ERROR\<close> after \<open>k + 201\<close> reads; two phases
    that end on reads \<open>k\<close> and \<open>m\<close> give \<^verbatim>\<open>OV5640_OK\<close> after \<open>k + m\<close> reads.
\<close>

theorem focus_polling_gives_up_after_201_reads:
  "(none_within T H pObj 0x3029 0x10 201 (Focus_Single_start pObj w) \<longrightarrow>
      OV5640_Focus_Single T H pObj w =
        (OV5640_ERROR H, snd (poll_state T H pObj 0x3029 201 (Focus_Single_start pObj w)))
      \<and> count_reads (log (snd (OV5640_Focus_Single T H pObj w))) = count_reads (log w) + 201)
   \<and> (first_on T H pObj 0x3029 0x10 k (Focus_Single_start pObj w) \<and> k \<le> 201 \<longrightarrow>
      OV5640_Focus_Single T H pObj w =
        (OV5640_OK H, world_at_read T H pObj 0x3029 k (Focus_Single_start pObj w))
      \<and> count_reads (log (snd (OV5640_Focus_Single T H pObj w))) = count_reads (log w) + k)
   \<and> (none_within T H pObj 0x3023 0x00 200 (temp, w) \<longrightarrow>
      Focus_Constant_poll T H pObj 0 temp w =
        Inl (OV5640_ERROR H, world_at_read T H pObj 0x3023 201 (temp, w))
      \<and> count_reads (log (world_at_read T H pObj 0x3023 201 (temp, w))) = count_reads (log w) + 201)
   \<and> (first_on T H pObj 0x3023 0x00 k (temp, w) \<and> k \<le> 200 \<longrightarrow>
      Focus_Constant_poll T H pObj 0 temp w =
        Inr (0x00, snd (poll_state T H pObj 0x3023 k (temp, w)))
      \<and> count_reads (log (snd (poll_state T H pObj 0x3023 k (temp, w)))) = count_reads (log w) + k)
   \<and> (none_within T H pObj 0x3023 0x00 200 (Focus_Constant_start pObj w) \<longrightarrow>
      OV5640_Focus_Constant T H pObj w =
        (OV5640_ERROR H, world_at_read T H pObj 0x3023 201 (Focus_Constant_start pObj w))
      \<and> count_reads (log (snd (OV5640_Focus_Constant T H pObj w))) = count_reads (log w) + 201)
   \<and> (first_on T H pObj 0x3023 0x00 k (Focus_Constant_start pObj w) \<and> k \<le> 200
      \<and> none_within T H pObj 0x3023 0x00 200
          (Focus_Constant_restart pObj (snd (poll_state T H pObj 0x3023 k (Focus_Constant_start pObj w)))) \<longrightarrow>
      OV5640_Focus_Constant T H pObj w =
        (OV5640_ERROR H, world_at_read T H pObj 0x3023 201
           (Focus_Constant_restart pObj (snd (poll_state T H pObj 0x3023 k (Focus_Constant_start pObj w)))))
      \<and> count_reads (log (snd (OV5640_Focus_Constant T H pObj w))) = count_reads (log w) + k + 201)
   \<and> (first_on T H pObj 0x3023 0x00 k (Focus_Constant_start pObj w) \<and> k \<le> 200
      \<and> first_on T H pObj 0x3023 0x00 m
          (Focus_Constant_restart pObj (snd (poll_state T H pObj 0x3023 k (Focus_Constant_start pObj w))))
      \<and> m \<le> 200 \<longrightarrow>
      OV5640_Focus_Constant T H pObj w =
        (OV5640_OK H, snd (poll_state T H pObj 0x3023 m
           (Focus_Constant_restart pObj (snd (poll_state T H pObj 0x3023 k (Focus_Constant_start pObj w))))))
      \<and> count_reads (log (snd (OV5640_Focus_Constant T H pObj w))) = count_reads (log w) + k + m)
   \<and> (none_within T H pObj reg sentinel n s \<or> (\<exists>j \<le> n. first_on T H pObj reg sentinel j s))"
proof -
  let ?s1 = "Focus_Single_start pObj w"
  let ?c1 = "Focus_Constant_start pObj w"
  let ?c2 = "Focus_Constant_restart pObj (snd (poll_state T H pObj 0x3023 k ?c1))"
  have single_timeout: "none_within T H pObj 0x3029 0x10 201 ?s1 \<longrightarrow>
      OV5640_Focus_Single T H pObj w = (OV5640_ERROR H, snd (poll_state T H pObj 0x3029 201 ?s1))
      \<and> count_reads (log (snd (OV5640_Focus_Single T H pObj w))) = count_reads (log w) + 201"
    by (simp add: Focus_Single_timeout poll_state_reads Focus_Single_start_reads)
  have single_ok: "first_on T H pObj 0x3029 0x10 k ?s1 \<and> k \<le> 201 \<longrightarrow>
      OV5640_Focus_Single T H pObj w = (OV5640_OK H, world_at_read T H pObj 0x3029 k ?s1)
      \<and> count_reads (log (snd (OV5640_Focus_Single T H pObj w))) = count_reads (log w) + k"
  proof (intro impI, elim conjE)
    assume fo: "first_on T H pObj 0x3029 0x10 k ?s1" and k: "k \<le> 201"
    from fo obtain i where i: "k = Suc i" by (cases k) (auto simp add: first_on_def)
    show "OV5640_Focus_Single T H pObj w = (OV5640_OK H, world_at_read T H pObj 0x3029 k ?s1)
      \<and> count_reads (log (snd (OV5640_Focus_Single T H pObj w))) = count_reads (log w) + k"
      using Focus_Single_first_on [OF fo k]
      by (simp add: i world_at_read_reads Focus_Single_start_reads)
  qed
  have phase_timeout: "none_within T H pObj 0x3023 0x00 200 (temp, w) \<longrightarrow>
      Focus_Constant_poll T H pObj 0 temp w =
        Inl (OV5640_ERROR H, world_at_read T H pObj 0x3023 201 (temp, w))
      \<and> count_reads (log (world_at_read T H pObj 0x3023 201 (temp, w))) = count_reads (log w) + 201"
    using Focus_Constant_poll_timeout [where n = 0 and T = T and H = H and pObj = pObj
            and temp = temp and w = w]
          world_at_read_reads [of T H pObj "0x3023" 200 "(temp, w)"]
    by simp
  have phase_ok: "first_on T H pObj 0x3023 0x00 k (temp, w) \<and> k \<le> 200 \<longrightarrow>
      Focus_Constant_poll T H pObj 0 temp w =
        Inr (0x00, snd (poll_state T H pObj 0x3023 k (temp, w)))
      \<and> count_reads (log (snd (poll_state T H pObj 0x3023 k (temp, w)))) = count_reads (log w) + k"
    using Focus_Constant_poll_first_on [where n = 0 and T = T and H = H and pObj = pObj
            and temp = temp and w = w and k = k]
    by (simp add: poll_state_reads)
  have first_timeout: "none_within T H pObj 0x3023 0x00 200 ?c1 \<longrightarrow>
      OV5640_Focus_Constant T H pObj w = (OV5640_ERROR H, world_at_read T H pObj 0x3023 201 ?c1)
      \<and> count_reads (log (snd (OV5640_Focus_Constant T H pObj w))) = count_reads (log w) + 201"
    using world_at_read_reads [of T H pObj "0x3023" 200 ?c1]
    by (simp add: Focus_Constant_timeout Focus_Constant_start_reads)
  have second_timeout: "first_on T H pObj 0x3023 0x00 k ?c1 \<and> k \<le> 200
      \<and> none_within T H pObj 0x3023 0x00 200 ?c2 \<longrightarrow>
      OV5640_Focus_Constant T H pObj w = (OV5640_ERROR H, world_at_read T H pObj 0x3023 201 ?c2)
      \<and> count_reads (log (snd (OV5640_Focus_Constant T H pObj w))) = count_reads (log w) + k + 201"
  proof (intro impI, elim conjE)
    assume fo: "first_on T H pObj 0x3023 0x00 k ?c1" and k: "k \<le> 200"
      and nw: "none_within T H pObj 0x3023 0x00 200 ?c2"
    show "OV5640_Focus_Constant T H pObj w = (OV5640_ERROR H, world_at_read T H pObj 0x3023 201 ?c2)
      \<and> count_reads (log (snd (OV5640_Focus_Constant T H pObj w))) = count_reads (log w) + k + 201"
      using Focus_Constant_second_timeout [OF fo k nw]
        world_at_read_reads [of T H pObj "0x3023" 200 ?c2]
      by (simp add: Focus_Constant_start_reads Focus_Constant_restart_reads poll_state_reads)
  qed
  have both_ok: "first_on T H pObj 0x3023 0x00 k ?c1 \<and> k \<le> 200
      \<and> first_on T H pObj 0x3023 0x00 m ?c2 \<and> m \<le> 200 \<longrightarrow>
      OV5640_Focus_Constant T H pObj w = (OV5640_OK H, snd (poll_state T H pObj 0x3023 m ?c2))
      \<and> count_reads (log (snd (OV5640_Focus_Constant T H pObj w))) = count_reads (log w) + k + m"
  proof (intro impI, elim conjE)
    assume fo: "first_on T H pObj 0x3023 0x00 k ?c1" and k: "k \<le> 200"
      and fo2: "first_on T H pObj 0x3023 0x00 m ?c2" and m: "m \<le> 200"
    show "OV5640_Focus_Constant T H pObj w = (OV5640_OK H, snd (poll_state T H pObj 0x3023 m ?c2))
      \<and> count_reads (log (snd (OV5640_Focus_Constant T H pObj w))) = count_reads (log w) + k + m"
      using Focus_Constant_both_first_on [OF fo k fo2 m]
      by (simp add: Focus_Constant_start_reads Focus_Constant_restart_reads poll_state_reads)
  qed
  have cases: "none_within T H pObj reg sentinel n s \<or> (\<exists>j \<le> n. first_on T H pObj reg sentinel j s)"
    by (rule poll_run_cases)
  show ?thesis
    apply (intro conjI)
           apply (rule single_timeout)
          apply (rule single_ok)
         apply (rule phase_timeout)
        apply (rule phase_ok)
       apply (rule first_timeout)
      apply (rule second_timeout)
     apply (rule both_ok)
    apply (rule cases)
    done
qed

text \<open>
  The runs behind the theorem: a dead bus (every access fails, a read leaves the buffer
  untouched) under a scheduler that changes the bus state, where both calls and a lone
  phase give up after 201 reads; a register that shows 0x00 on the first read only, where
  \<^verbatim>\<open>OV5640_Focus_Constant\<close> passes its first phase and gives up in the second, after 202
  reads; a sentinel that first shows on the 199th read, where both calls succeed; a
  sentinel that first shows on the 201st read, where \<^verbatim>\<open>OV5640_Focus_Single\<close> succeeds
  and \<^verbatim>\<open>OV5640_Focus_Constant\<close> fails; and a sentinel that shows on the second read
  because the delay has moved the bus on, where \<^verbatim>\<open>OV5640_Focus_Single\<close> succeeds after
  two reads.
\<close>

theorem focus_polling_gives_up_after_201_reads_witness:
  "OV5640_OK example_h \<noteq> OV5640_ERROR example_h
   \<and> none_within busy_rtos example_h (fresh_handle dead_io) 0x3029 0x10 201
       (Focus_Single_start (fresh_handle dead_io) (world0 0))
   \<and> fst (OV5640_Focus_Single busy_rtos example_h (fresh_handle dead_io) (world0 0)) = OV5640_ERROR example_h
   \<and> count_reads (log (snd (OV5640_Focus_Single busy_rtos example_h (fresh_handle dead_io) (world0 0)))) = 201
   \<and> none_within busy_rtos example_h (fresh_handle dead_io) 0x3023 0x00 200
       (Focus_Constant_start (fresh_handle dead_io) (world0 0))
   \<and> fst (OV5640_Focus_Constant busy_rtos example_h (fresh_handle dead_io) (world0 0)) = OV5640_ERROR example_h
   \<and> count_reads (log (snd (OV5640_Focus_Constant busy_rtos example_h (fresh_handle dead_io) (world0 0)))) = 201
   \<and> none_within busy_rtos example_h (fresh_handle dead_io) 0x3023 0x00 200 (0x04, world0 0)
   \<and> Focus_Constant_poll busy_rtos example_h (fresh_handle dead_io) 0 0x04 (world0 0) =
       Inl (OV5640_ERROR example_h, world_at_read busy_rtos example_h (fresh_handle dead_io) 0x3023 201 (0x04, world0 0))
   \<and> count_reads (log (world_at_read busy_rtos example_h (fresh_handle dead_io) 0x3023 201 (0x04, world0 0))) = 201
   \<and> first_on idle_rtos example_h (fresh_handle (pulse_io 1 0x00 0xFF)) 0x3023 0x00 1
       (Focus_Constant_start (fresh_handle (pulse_io 1 0x00 0xFF)) (world0 0))
   \<and> none_within idle_rtos example_h (fresh_handle (pulse_io 1 0x00 0xFF)) 0x3023 0x00 200
       (Focus_Constant_restart (fresh_handle (pulse_io 1 0x00 0xFF))
          (snd (poll_state idle_rtos example_h (fresh_handle (pulse_io 1 0x00 0xFF)) 0x3023 1
                  (Focus_Constant_start (fresh_handle (pulse_io 1 0x00 0xFF)) (world0 0)))))
   \<and> fst (OV5640_Focus_Constant idle_rtos example_h (fresh_handle (pulse_io 1 0x00 0xFF)) (world0 0)) =
       OV5640_ERROR example_h
   \<and> count_reads (log (snd (OV5640_Focus_Constant idle_rtos example_h (fresh_handle (pulse_io 1 0x00 0xFF)) (world0 0)))) = 202
   \<and> first_on idle_rtos example_h (fresh_handle (status_io 199 0x10 0xFF)) 0x3029 0x10 199
       (Focus_Single_start (fresh_handle (status_io 199 0x10 0xFF)) (world0 0))
   \<and> fst (OV5640_Focus_Single idle_rtos example_h (fresh_handle (status_io 199 0x10 0xFF)) (world0 0)) =
       OV5640_OK example_h
   \<and> count_reads (log (snd (OV5640_Focus_Single idle_rtos example_h (fresh_handle (status_io 199 0x10 0xFF)) (world0 0)))) = 199
   \<and> first_on idle_rtos example_h (fresh_handle (status_io 201 0x10 0xFF)) 0x3029 0x10 201
       (Focus_Single_start (fresh_handle (status_io 201 0x10 0xFF)) (world0 0))
   \<and> fst (OV5640_Focus_Single idle_rtos example_h (fresh_handle (status_io 201 0x10 0xFF)) (world0 0)) =
       OV5640_OK example_h
   \<and> first_on idle_rtos example_h (fresh_handle (status_io 199 0x00 0xFF)) 0x3023 0x00 199 (0x08, world0 0)
   \<and> Focus_Constant_poll idle_rtos example_h (fresh_handle (status_io 199 0x00 0xFF)) 0 0x08 (world0 0) =
       Inr (0x00, snd (poll_state idle_rtos example_h (fresh_handle (status_io 199 0x00 0xFF)) 0x3023 199 (0x08, world0 0)))
   \<and> count_reads (log (snd (poll_state idle_rtos example_h (fresh_handle (status_io 199 0x00 0xFF)) 0x3023 199 (0x08, world0 0)))) = 199
   \<and> first_on idle_rtos example_h (fresh_handle (status_io 199 0x00 0xFF)) 0x3023 0x00 199
       (Focus_Constant_start (fresh_handle (status_io 199 0x00 0xFF)) (world0 0))
   \<and> first_on idle_rtos example_h (fresh_handle (status_io 199 0x00 0xFF)) 0x3023 0x00 1
       (Focus_Constant_restart (fresh_handle (status_io 199 0x00 0xFF))
          (snd (poll_state idle_rtos example_h (fresh_handle (status_io 199 0x00 0xFF)) 0x3023 199
                  (Focus_Constant_start (fresh_handle (status_io 199 0x00 0xFF)) (world0 0)))))
   \<and> fst (OV5640_Focus_Constant idle_rtos example_h (fresh_handle (status_io 199 0x00 0xFF)) (world0 0)) =
       OV5640_OK example_h
   \<and> count_reads (log (snd (OV5640_Focus_Constant idle_rtos example_h (fresh_handle (status_io 199 0x00 0xFF)) (world0 0)))) = 200
   \<and> none_within idle_rtos example_h (fresh_handle (status_io 201 0x00 0xFF)) 0x3023 0x00 200
       (Focus_Constant_start (fresh_handle (status_io 201 0x00 0xFF)) (world0 0))
   \<and> fst (OV5640_Focus_Constant idle_rtos example_h (fresh_handle (status_io 201 0x00 0xFF)) (world0 0)) =
       OV5640_ERROR example_h
   \<and> first_on busy_rtos example_h (fresh_handle (status_io 5002 0x10 0xFF)) 0x3029 0x10 2
       (Focus_Single_start (fresh_handle (status_io 5002 0x10 0xFF)) (world0 0))
   \<and> fst (OV5640_Focus_Single busy_rtos example_h (fresh_handle (status_io 5002 0x10 0xFF)) (world0 0)) =
       OV5640_OK example_h
   \<and> count_reads (log (snd (OV5640_Focus_Single busy_rtos example_h (fresh_handle (status_io 5002 0x10 0xFF)) (world0 0)))) = 2"
proof -
  let ?D = "fresh_handle dead_io"
  let ?P = "fresh_handle (pulse_io 1 0x00 0xFF)"
  let ?S = "fresh_handle (status_io 199 0x10 0xFF)"
  let ?S' = "fresh_handle (status_io 201 0x10 0xFF)"
  let ?C = "fresh_handle (status_io 199 0x00 0xFF)"
  let ?C' = "fresh_handle (status_io 201 0x00 0xFF)"
  have h0: "OV5640_OK example_h \<noteq> OV5640_ERROR example_h"
    by (simp add: example_h_simps)
  have d1: "none_within busy_rtos example_h ?D 0x3029 0x10 201 (Focus_Single_start ?D (world0 0))"
    by (rule dead_none_within) simp_all
  have d2: "none_within busy_rtos example_h ?D 0x3023 0x00 200 (Focus_Constant_start ?D (world0 0))"
    by (rule dead_none_within) simp_all
  have d3: "none_within busy_rtos example_h ?D 0x3023 0x00 200 (0x04, world0 0)"
    by (rule dead_none_within) simp_all
  have rd1: "fst (OV5640_Focus_Single busy_rtos example_h ?D (world0 0)) = OV5640_ERROR example_h
      \<and> count_reads (log (snd (OV5640_Focus_Single busy_rtos example_h ?D (world0 0)))) = 201"
  proof -
    note run = focus_polling_gives_up_after_201_reads
        [where T = busy_rtos and H = example_h and pObj = "fresh_handle dead_io" and w = "world0 0",
         THEN conjunct1, THEN mp, OF d1]
    from run [THEN conjunct1] have a: "fst (OV5640_Focus_Single busy_rtos example_h ?D (world0 0)) = OV5640_ERROR example_h" by simp
    from run [THEN conjunct2] have b: "count_reads (log (snd (OV5640_Focus_Single busy_rtos example_h ?D (world0 0)))) = 201" by simp
    from a b show ?thesis by (rule conjI)
  qed
  have rd2: "fst (OV5640_Focus_Constant busy_rtos example_h ?D (world0 0)) = OV5640_ERROR example_h
      \<and> count_reads (log (snd (OV5640_Focus_Constant busy_rtos example_h ?D (world0 0)))) = 201"
  proof -
    note run = focus_polling_gives_up_after_201_reads
        [where T = busy_rtos and H = example_h and pObj = "fresh_handle dead_io" and w = "world0 0",
         THEN conjunct2, THEN conjunct2, THEN conjunct2, THEN conjunct2, THEN conjunct1, THEN mp, OF d2]
    from run [THEN conjunct1] have a: "fst (OV5640_Focus_Constant busy_rtos example_h ?D (world0 0)) = OV5640_ERROR example_h" by simp
    from run [THEN conjunct2] have b: "count_reads (log (snd (OV5640_Focus_Constant busy_rtos example_h ?D (world0 0)))) = 201" by simp
    from a b show ?thesis by (rule conjI)
  qed
  have rd3: "Focus_Constant_poll busy_rtos example_h ?D 0 0x04 (world0 0) =
       Inl (OV5640_ERROR example_h, world_at_read busy_rtos example_h ?D 0x3023 201 (0x04, world0 0))
      \<and> count_reads (log (world_at_read busy_rtos example_h ?D 0x3023 201 (0x04, world0 0))) = 201"
  proof -
    note run = focus_polling_gives_up_after_201_reads
        [where T = busy_rtos and H = example_h and pObj = "fresh_handle dead_io" and w = "world0 0" and temp = "0x04",
         THEN conjunct2, THEN conjunct2, THEN conjunct1, THEN mp, OF d3]
    from run [THEN conjunct1] have a: "Focus_Constant_poll busy_rtos example_h ?D 0 0x04 (world0 0) =
       Inl (OV5640_ERROR example_h, world_at_read busy_rtos example_h ?D 0x3023 201 (0x04, world0 0))" by simp
    from run [THEN conjunct2] have b: "count_reads (log (world_at_read busy_rtos example_h ?D 0x3023 201 (0x04, world0 0))) = 201" by simp
    from a b show ?thesis by (rule conjI)
  qed
  have p1: "first_on idle_rtos example_h ?P 0x3023 0x00 1 (Focus_Constant_start ?P (world0 0))"
    using counting_first_on [OF fresh_pulse_io(1), where k = 0 and s = "Focus_Constant_start ?P (world0 0)"
            and sentinel = "0x00" and H = example_h and reg = "0x3023"]
    by (simp add: quiet_start_bus [OF fresh_pulse_io(2)])
  have p2: "none_within idle_rtos example_h ?P 0x3023 0x00 200
       (Focus_Constant_restart ?P (snd (poll_state idle_rtos example_h ?P 0x3023 1 (Focus_Constant_start ?P (world0 0)))))"
    by (rule counting_none_within [OF fresh_pulse_io(1)])
       (simp add: quiet_start_bus [OF fresh_pulse_io(2)] counting_poll_state_bus [OF fresh_pulse_io(1)])
  have k1: "(1 :: nat) \<le> 200" "(199 :: nat) \<le> 201" "(201 :: nat) \<le> 201" "(199 :: nat) \<le> 200"
    by simp_all
  have rp: "fst (OV5640_Focus_Constant idle_rtos example_h ?P (world0 0)) = OV5640_ERROR example_h
      \<and> count_reads (log (snd (OV5640_Focus_Constant idle_rtos example_h ?P (world0 0)))) = 202"
  proof -
    note run = focus_polling_gives_up_after_201_reads
        [where T = idle_rtos and H = example_h and pObj = "fresh_handle (pulse_io 1 0x00 0xFF)" and w = "world0 0" and k = 1,
         THEN conjunct2, THEN conjunct2, THEN conjunct2, THEN conjunct2, THEN conjunct2, THEN conjunct1, THEN mp, OF conjI [OF p1 conjI [OF k1(1) p2]]]
    from run [THEN conjunct1] have a: "fst (OV5640_Focus_Constant idle_rtos example_h ?P (world0 0)) = OV5640_ERROR example_h" by simp
    from run [THEN conjunct2] have b: "count_reads (log (snd (OV5640_Focus_Constant idle_rtos example_h ?P (world0 0)))) = 202" by simp
    from a b show ?thesis by (rule conjI)
  qed
  have s1: "first_on idle_rtos example_h ?S 0x3029 0x10 199 (Focus_Single_start ?S (world0 0))"
    using counting_first_on [OF fresh_status_io(1), where k = 198 and s = "Focus_Single_start ?S (world0 0)"
            and sentinel = "0x10" and H = example_h and reg = "0x3029"]
    by (simp add: quiet_start_bus [OF fresh_status_io(2)])
  have rs1: "fst (OV5640_Focus_Single idle_rtos example_h ?S (world0 0)) = OV5640_OK example_h
      \<and> count_reads (log (snd (OV5640_Focus_Single idle_rtos example_h ?S (world0 0)))) = 199"
  proof -
    note run = focus_polling_gives_up_after_201_reads
        [where T = idle_rtos and H = example_h and pObj = "fresh_handle (status_io 199 0x10 0xFF)" and w = "world0 0" and k = 199,
         THEN conjunct2, THEN conjunct1, THEN mp, OF conjI [OF s1 k1(2)]]
    from run [THEN conjunct1] have a: "fst (OV5640_Focus_Single idle_rtos example_h ?S (world0 0)) = OV5640_OK example_h" by simp
    from run [THEN conjunct2] have b: "count_reads (log (snd (OV5640_Focus_Single idle_rtos example_h ?S (world0 0)))) = 199" by simp
    from a b show ?thesis by (rule conjI)
  qed
  have s2: "first_on idle_rtos example_h ?S' 0x3029 0x10 201 (Focus_Single_start ?S' (world0 0))"
    using counting_first_on [OF fresh_status_io(1), where k = 200 and s = "Focus_Single_start ?S' (world0 0)"
            and sentinel = "0x10" and H = example_h and reg = "0x3029"]
    by (simp add: quiet_start_bus [OF fresh_status_io(2)])
  have rs2: "fst (OV5640_Focus_Single idle_rtos example_h ?S' (world0 0)) = OV5640_OK example_h"
  proof -
    note run = focus_polling_gives_up_after_201_reads
        [where T = idle_rtos and H = example_h and pObj = "fresh_handle (status_io 201 0x10 0xFF)" and w = "world0 0" and k = 201,
         THEN conjunct2, THEN conjunct1, THEN mp, OF conjI [OF s2 k1(3)]]
    from run [THEN conjunct1] show ?thesis by simp
  qed
  have c0: "first_on idle_rtos example_h ?C 0x3023 0x00 199 (0x08, world0 0)"
    using counting_first_on [OF fresh_status_io(1), where k = 198 and s = "(0x08, world0 0)"
            and sentinel = "0x00" and H = example_h and reg = "0x3023"]
    by simp
  have c1: "first_on idle_rtos example_h ?C 0x3023 0x00 199 (Focus_Constant_start ?C (world0 0))"
    using counting_first_on [OF fresh_status_io(1), where k = 198 and s = "Focus_Constant_start ?C (world0 0)"
            and sentinel = "0x00" and H = example_h and reg = "0x3023"]
    by (simp add: quiet_start_bus [OF fresh_status_io(2)])
  have cb: "bus (snd (poll_state idle_rtos example_h ?C 0x3023 199 (Focus_Constant_start ?C (world0 0)))) = 199"
    by (simp add: counting_poll_state_bus [OF fresh_status_io(1)] quiet_start_bus [OF fresh_status_io(2)])
  have c2: "first_on idle_rtos example_h ?C 0x3023 0x00 1
       (Focus_Constant_restart ?C (snd (poll_state idle_rtos example_h ?C 0x3023 199 (Focus_Constant_start ?C (world0 0)))))"
    using counting_first_on [OF fresh_status_io(1), where k = 0
            and s = "Focus_Constant_restart ?C (snd (poll_state idle_rtos example_h ?C 0x3023 199 (Focus_Constant_start ?C (world0 0))))"
            and sentinel = "0x00" and H = example_h and reg = "0x3023"]
    by (simp add: quiet_start_bus [OF fresh_status_io(2)] cb)
  have rc0: "Focus_Constant_poll idle_rtos example_h ?C 0 0x08 (world0 0) =
       Inr (0x00, snd (poll_state idle_rtos example_h ?C 0x3023 199 (0x08, world0 0)))
      \<and> count_reads (log (snd (poll_state idle_rtos example_h ?C 0x3023 199 (0x08, world0 0)))) = 199"
  proof -
    note run = focus_polling_gives_up_after_201_reads
        [where T = idle_rtos and H = example_h and pObj = "fresh_handle (status_io 199 0x00 0xFF)" and w = "world0 0" and k = 199 and temp = "0x08",
         THEN conjunct2, THEN conjunct2, THEN conjunct2, THEN conjunct1, THEN mp, OF conjI [OF c0 k1(4)]]
    from run [THEN conjunct1] have a: "Focus_Constant_poll idle_rtos example_h ?C 0 0x08 (world0 0) =
       Inr (0x00, snd (poll_state idle_rtos example_h ?C 0x3023 199 (0x08, world0 0)))" by simp
    from run [THEN conjunct2] have b: "count_reads (log (snd (poll_state idle_rtos example_h ?C 0x3023 199 (0x08, world0 0)))) = 199" by simp
    from a b show ?thesis by (rule conjI)
  qed
  have rc: "fst (OV5640_Focus_Constant idle_rtos example_h ?C (world0 0)) = OV5640_OK example_h
      \<and> count_reads (log (snd (OV5640_Focus_Constant idle_rtos example_h ?C (world0 0)))) = 200"
  proof -
    note run = focus_polling_gives_up_after_201_reads
        [where T = idle_rtos and H = example_h and pObj = "fresh_handle (status_io 199 0x00 0xFF)" and w = "world0 0" and k = 199 and m = 1,
         THEN conjunct2, THEN conjunct2, THEN conjunct2, THEN conjunct2, THEN conjunct2, THEN conjunct2, THEN conjunct1, THEN mp, OF conjI [OF c1 conjI [OF k1(4) conjI [OF c2 k1(1)]]]]
    from run [THEN conjunct1] have a: "fst (OV5640_Focus_Constant idle_rtos example_h ?C (world0 0)) = OV5640_OK example_h" by simp
    from run [THEN conjunct2] have b: "count_reads (log (snd (OV5640_Focus_Constant idle_rtos example_h ?C (world0 0)))) = 200" by simp
    from a b show ?thesis by (rule conjI)
  qed
  have c3: "none_within idle_rtos example_h ?C' 0x3023 0x00 200 (Focus_Constant_start ?C' (world0 0))"
    by (rule counting_none_within [OF fresh_status_io(1)])
       (simp add: quiet_start_bus [OF fresh_status_io(2)])
  have rc3: "fst (OV5640_Focus_Constant idle_rtos example_h ?C' (world0 0)) = OV5640_ERROR example_h"
  proof -
    note run = focus_polling_gives_up_after_201_reads
        [where T = idle_rtos and H = example_h and pObj = "fresh_handle (status_io 201 0x00 0xFF)" and w = "world0 0",
         THEN conjunct2, THEN conjunct2, THEN conjunct2, THEN conjunct2, THEN conjunct1, THEN mp, OF c3]
    from run [THEN conjunct1] show ?thesis by simp
  qed
  have kb: "(2 :: nat) \<le> 201" by simp
  have rb: "fst (OV5640_Focus_Single busy_rtos example_h (fresh_handle (status_io 5002 0x10 0xFF)) (world0 0)) = OV5640_OK example_h
      \<and> count_reads (log (snd (OV5640_Focus_Single busy_rtos example_h (fresh_handle (status_io 5002 0x10 0xFF)) (world0 0)))) = 2"
  proof -
    note run = focus_polling_gives_up_after_201_reads
        [where T = busy_rtos and H = example_h and pObj = "fresh_handle (status_io 5002 0x10 0xFF)" and w = "world0 0" and k = 2,
         THEN conjunct2, THEN conjunct1, THEN mp, OF conjI [OF busy_first_on kb]]
    from run [THEN conjunct1] have a: "fst (OV5640_Focus_Single busy_rtos example_h (fresh_handle (status_io 5002 0x10 0xFF)) (world0 0)) = OV5640_OK example_h" by simp
    from run [THEN conjunct2] have b: "count_reads (log (snd (OV5640_Focus_Single busy_rtos example_h (fresh_handle (status_io 5002 0x10 0xFF)) (world0 0)))) = 2" by simp
    from a b show ?thesis by (rule conjI)
  qed
  show ?thesis
    apply (intro conjI)
    apply (rule h0)
    apply (rule d1)
    apply (rule rd1 [THEN conjunct1])
    apply (rule rd1 [THEN conjunct2])
    apply (rule d2)
    apply (rule rd2 [THEN conjunct1])
    apply (rule rd2 [THEN conjunct2])
    apply (rule d3)
    apply (rule rd3 [THEN conjunct1])
    apply (rule rd3 [THEN conjunct2])
    apply (rule p1)
    apply (rule p2)
    apply (rule rp [THEN conjunct1])
    apply (rule rp [THEN conjunct2])
    apply (rule s1)
    apply (rule rs1 [THEN conjunct1])
    apply (rule rs1 [THEN conjunct2])
    apply (rule s2)
    apply (rule rs2)
    apply (rule c0)
    apply (rule rc0 [THEN conjunct1])
    apply (rule rc0 [THEN conjunct2])
    apply (rule c1)
    apply (rule c2)
    apply (rule rc [THEN conjunct1])
    apply (rule rc [THEN conjunct2])
    apply (rule c3)
    apply (rule rc3)
    apply (rule busy_first_on)
    apply (rule rb [THEN conjunct1])
    apply (rule rb [THEN conjunct2])
    done
qed

text \<open>
  The budget is not 200 reads: when the sentinel first shows on the 200th read both
  blocking calls succeed, and when it never shows they fail after 201 reads.
\<close>

theorem focus_polling_200_reads_counterexample:
  "OV5640_OK example_h \<noteq> OV5640_ERROR example_h
   \<and> fst (OV5640_Focus_Single idle_rtos example_h (fresh_handle (status_io 200 0x10 0xFF)) (world0 0)) =
       OV5640_OK example_h
   \<and> count_reads (log (snd (OV5640_Focus_Single idle_rtos example_h (fresh_handle (status_io 200 0x10 0xFF)) (world0 0)))) = 200
   \<and> fst (OV5640_Focus_Constant idle_rtos example_h (fresh_handle (status_io 200 0x00 0xFF)) (world0 0)) =
       OV5640_OK example_h
   \<and> fst (OV5640_Focus_Single idle_rtos example_h (fresh_handle (stub_io 0 0x55)) (world0 0)) =
       OV5640_ERROR example_h
   \<and> count_reads (log (snd (OV5640_Focus_Single idle_rtos example_h (fresh_handle (stub_io 0 0x55)) (world0 0)))) = 201
   \<and> fst (OV5640_Focus_Constant idle_rtos example_h (fresh_handle (stub_io 0 0x55)) (world0 0)) =
       OV5640_ERROR example_h
   \<and> count_reads (log (snd (OV5640_Focus_Constant idle_rtos example_h (fresh_handle (stub_io 0 0x55)) (world0 0)))) = 201"
  using Focus_Single_status [where pObj = "fresh_handle (status_io 200 0x10 0xFF)" and k = 200
          and other = "0xFF" and H = example_h]
        Focus_Constant_status [where pObj = "fresh_handle (status_io 200 0x00 0xFF)" and k = 200
          and other = "0xFF" and H = example_h]
        Focus_Single_never [OF stub_read_never(1), of idle_rtos example_h "world0 0"]
        Focus_Constant_never [OF stub_read_never(2), of idle_rtos example_h "world0 0"]
  by (simp add: world0_def example_h_simps)

section \<open>Autofocus initialisation\<close>

lemma AF_upload_log:
  "log (AF_upload pObj addr xs w) =
     log w @ map (\<lambda>i. BusWrite (Address (IO pObj)) (addr + of_nat i) (xs ! i)) [0 ..< length xs]"
proof (induction xs arbitrary: addr w)
  case Nil
  show ?case by simp
next
  case (Cons x xs)
  obtain r w1 where wr: "ov5640_write_reg pObj addr x w = (r, w1)"
    by (cases "ov5640_write_reg pObj addr x w") auto
  have l: "log w1 = log w @ [BusWrite (Address (IO pObj)) addr x]"
    using write_reg_logD [OF wr] .
  show ?case
    by (simp add: wr Cons.IH l map_upt_Suc add.assoc del: upt_Suc)
qed

lemma AF_Config_length: "length OV5640_AF_Config = 4077"
  by (simp add: OV5640_AF_Config_def OV5640_AF_Config_8000_def OV5640_AF_Config_8100_def
      OV5640_AF_Config_8200_def OV5640_AF_Config_8300_def OV5640_AF_Config_8400_def
      OV5640_AF_Config_8500_def OV5640_AF_Config_8600_def OV5640_AF_Config_8700_def
      OV5640_AF_Config_8800_def OV5640_AF_Config_8900_def OV5640_AF_Config_8a00_def
      OV5640_AF_Config_8b00_def OV5640_AF_Config_8c00_def OV5640_AF_Config_8d00_def
      OV5640_AF_Config_8e00_def OV5640_AF_Config_8f00_def)

lemma release_indices: "[0 ..< length Focus_Init_datas2] = [0, 1, 2, 3, 4, 5, 6, 7, 8]"
  by (simp add: Focus_Init_datas2_def upt_rec)

lemma Focus_Init_release_faults:
  "\<exists>w1. Focus_Init_release H pObj [0 ..< length Focus_Init_datas2] (ret, w) = Inl (OutOfBounds, w1)
        \<and> log w1 = log w @ [BusWrite (Address (IO pObj)) 0x3000 0x20]"
proof -
  obtain r w1 where wr: "ov5640_write_reg pObj 0x3000 0x20 w = (r, w1)"
    by (cases "ov5640_write_reg pObj 0x3000 0x20 w") auto
  show ?thesis
    using write_reg_logD [OF wr]
    by (simp add: release_indices subscript_def in_bounds_def Focus_Init_datas_def wr)
qed

text \<open>
  C6, on the code. For every bus, \<^verbatim>\<open>OV5640_Focus_Init\<close> first writes 0x20 to register 0x3000,
  then writes byte \<open>i\<close> of \<^verbatim>\<open>OV5640_AF_Config\<close> to address \<open>0x8000 + i\<close> for every \<open>i\<close> in
  order; but the loop that follows reads \<^verbatim>\<open>datas[index]\<close>, the one-row table of the halt
  command, and not the nine rows of \<^verbatim>\<open>datas2\<close>: it writes 0x20 to register 0x3000 once
  more and then subscripts \<^verbatim>\<open>datas\<close> out of bounds at \<^verbatim>\<open>index = 1\<close>. The release sequence
  of \<^verbatim>\<open>datas2\<close> is not written. The array has 4077 bytes, so the addresses of the upload run
  from 0x8000 to 0x8FEC without wrapping.
\<close>

theorem Focus_Init_release_reads_halt_table:
  "length OV5640_AF_Config = 4077
   \<and> (\<exists>w'. OV5640_Focus_Init T H pObj w = Inl (OutOfBounds, w')
        \<and> log w' =
            log w
            @ [BusWrite (Address (IO pObj)) 0x3000 0x20]
            @ map (\<lambda>i. BusWrite (Address (IO pObj)) (0x8000 + of_nat i) (OV5640_AF_Config ! i))
                [0 ..< length OV5640_AF_Config]
            @ [BusWrite (Address (IO pObj)) 0x3000 0x20])"
proof -
  obtain r w1 where wr: "ov5640_write_reg pObj 0x3000 0x20 w = (r, w1)"
    by (cases "ov5640_write_reg pObj 0x3000 0x20 w") auto
  have l1: "log w1 = log w @ [BusWrite (Address (IO pObj)) 0x3000 0x20]"
    using write_reg_logD [OF wr] .
  from Focus_Init_release_faults [of H pObj "OV5640_OK H" "AF_upload pObj 0x8000 OV5640_AF_Config w1"]
  obtain w3 where
    rel: "Focus_Init_release H pObj [0 ..< length Focus_Init_datas2]
            (OV5640_OK H, AF_upload pObj 0x8000 OV5640_AF_Config w1) = Inl (OutOfBounds, w3)"
    and l3: "log w3 = log (AF_upload pObj 0x8000 OV5640_AF_Config w1)
                        @ [BusWrite (Address (IO pObj)) 0x3000 0x20]"
    by blast
  have "OV5640_Focus_Init T H pObj w = Inl (OutOfBounds, w3)"
    by (simp add: OV5640_Focus_Init_def subscript_def in_bounds_def Focus_Init_datas_def wr rel)
  moreover have "log w3 =
            log w
            @ [BusWrite (Address (IO pObj)) 0x3000 0x20]
            @ map (\<lambda>i. BusWrite (Address (IO pObj)) (0x8000 + of_nat i) (OV5640_AF_Config ! i))
                [0 ..< length OV5640_AF_Config]
            @ [BusWrite (Address (IO pObj)) 0x3000 0x20]"
    by (simp add: l3 AF_upload_log l1)
  ultimately show ?thesis using AF_Config_length by blast
qed

section \<open>Initialisation: the guard and the flag\<close>

lemma count_writes_simps [simp]:
  "count_writes [] = 0"
  "count_writes (BusRead a r # l) = count_writes l"
  "count_writes (BusWrite a r v # l) = Suc (count_writes l)"
  "count_writes (l @ m) = count_writes l + count_writes m"
  by (simp_all add: count_writes_def)

lemma write_reg_count:
  "ov5640_write_reg pObj reg v w = (r, w1) \<Longrightarrow> count_writes (log w1) = Suc (count_writes (log w))"
  by (drule write_reg_logD) simp

lemma read_reg_count:
  "ov5640_read_reg pObj reg old w = (r, t, w1) \<Longrightarrow> count_writes (log w1) = count_writes (log w)"
  by (drule read_regD) simp

lemma write_tbl_guarded_mono:
  "count_writes (log w) \<le> count_writes (log (snd (write_tbl_guarded H pObj tbl (ret, w))))"
proof (induction tbl arbitrary: ret w)
  case Nil
  show ?case by simp
next
  case (Cons row rows)
  obtain r w1 where wr: "ov5640_write_reg pObj (fst row) (ucast (snd row)) w = (r, w1)"
    by (cases "ov5640_write_reg pObj (fst row) (ucast (snd row)) w") auto
  show ?case
    using Cons.IH [of w1 ret] Cons.IH [of w1 "OV5640_ERROR H"] Cons.IH [of w ret] write_reg_count [OF wr]
    by (auto simp: wr)
qed

lemma write_tbl_break_mono:
  "count_writes (log w) \<le> count_writes (log (snd (write_tbl_break H pObj tbl (ret, w))))"
proof (induction tbl arbitrary: ret w)
  case Nil
  show ?case by simp
next
  case (Cons row rows)
  obtain r w1 where wr: "ov5640_write_reg pObj (fst row) (ucast (snd row)) w = (r, w1)"
    by (cases "ov5640_write_reg pObj (fst row) (ucast (snd row)) w") auto
  show ?case
    using Cons.IH [of w1 ret] write_reg_count [OF wr]
    by (simp add: wr)
qed

lemma Delay_wait_log:
  assumes "Delay_wait pObj tickstart Delay w = Some w'"
  shows "log w' = log w"
  by (rule Delay_wait.raw_induct [where P = "\<lambda>pObj tickstart Delay w w'. log w' = log w", OF _ assms])
    (auto split: prod.splits if_splits)

lemma OV5640_Delay_log:
  "OV5640_Delay H pObj Delay w = Some (d, w') \<Longrightarrow> log w' = log w"
  by (auto simp: OV5640_Delay_def split: prod.splits option.splits dest!: Delay_wait_log)

lemma write_tbl_guarded_delay_mono:
  "write_tbl_guarded_delay H pObj tbl (ret, tmp, w) = Some (ret', tmp', w') \<Longrightarrow>
     count_writes (log w) \<le> count_writes (log w')"
proof (induction tbl arbitrary: ret tmp w)
  case Nil
  then show ?case by simp
next
  case (Cons row rows)
  obtain r w1 where wr: "ov5640_write_reg pObj (fst row) (ucast (snd row)) w = (r, w1)"
    by (cases "ov5640_write_reg pObj (fst row) (ucast (snd row)) w") auto
  note c = write_reg_count [OF wr]
  show ?case
  proof (cases "ret \<noteq> OV5640_ERROR H")
    case False
    with Cons.prems Cons.IH [of ret tmp w] show ?thesis by simp
  next
    case True
    show ?thesis
    proof (cases "r \<noteq> OV5640_OK H")
      case True
      with \<open>ret \<noteq> OV5640_ERROR H\<close> Cons.prems wr
      have "write_tbl_guarded_delay H pObj rows (OV5640_ERROR H, ucast (snd row), w1) = Some (ret', tmp', w')"
        by simp
      from Cons.IH [OF this] c show ?thesis by simp
    next
      case False
      with \<open>ret \<noteq> OV5640_ERROR H\<close> Cons.prems wr
      obtain d w2 where dl: "OV5640_Delay H pObj 1 w1 = Some (d, w2)"
        and rest: "write_tbl_guarded_delay H pObj rows (ret, ucast (snd row), w2) = Some (ret', tmp', w')"
        by (auto split: option.splits)
      from Cons.IH [OF rest] OV5640_Delay_log [OF dl] c show ?thesis by simp
    qed
  qed
qed

lemma jpeg_patches_mono:
  "count_writes (log w) \<le> count_writes (log (snd (jpeg_patches H pObj (ret, tmp, w))))"
  by (auto simp: jpeg_patches_def split: prod.splits dest!: write_reg_count read_reg_count)

lemma SetPixelFormat_mono:
  "OV5640_SetPixelFormat H pObj PixelFormat w = Some (r, w') \<Longrightarrow>
     count_writes (log w) \<le> count_writes (log w')"
  using jpeg_patches_mono [of w' H pObj]
  apply (auto simp: OV5640_SetPixelFormat_def split: if_splits option.splits prod.splits
      dest!: write_tbl_guarded_delay_mono)
  apply (metis jpeg_patches_mono le_trans snd_conv)+
  done

lemma SetResolution_mono:
  "count_writes (log w) \<le> count_writes (log (snd (OV5640_SetResolution H pObj Resolution w)))"
  by (simp add: OV5640_SetResolution_def write_tbl_guarded_mono)

lemma SetPolarities_mono:
  "count_writes (log w) \<le> count_writes (log (snd (OV5640_SetPolarities H pObj p h v w)))"
  by (auto simp: OV5640_SetPolarities_def Let_def split: option.splits prod.splits
      dest!: write_reg_count)

lemma SetMIPIVirtualChannel_mono:
  "count_writes (log w) \<le> count_writes (log (snd (OV5640_SetMIPIVirtualChannel H pObj vc w)))"
  by (auto simp: OV5640_SetMIPIVirtualChannel_def split: prod.splits
      dest!: write_reg_count read_reg_count)

lemma Init_interface_mono:
  "count_writes (log w) \<le> count_writes (log (snd (Init_interface H pObj (ret, w))))"
proof -
  have mipi: "count_writes (log w) \<le> count_writes (log (snd (OV5640_EnableMIPIMode H pObj w)))"
    by (simp add: OV5640_EnableMIPIMode_def write_tbl_break_mono)
  have dvp: "count_writes (log w) \<le> count_writes (log (snd (OV5640_EnableDVPMode H pObj w)))"
    by (simp add: OV5640_EnableDVPMode_def write_tbl_break_mono)
  have vc: "count_writes (log (snd (OV5640_EnableMIPIMode H pObj w)))
            \<le> count_writes (log (snd (OV5640_SetMIPIVirtualChannel H pObj (VirtualChannelID pObj)
                   (snd (OV5640_EnableMIPIMode H pObj w)))))"
    by (rule SetMIPIVirtualChannel_mono)
  show ?thesis
    using mipi dvp vc
    by (auto simp: Init_interface_def split: prod.splits)
qed

lemma Init_already_initialized:
  "IsInitialized pObj = 1 \<Longrightarrow> OV5640_Init H pObj Resolution PixelFormat w = Some (OV5640_OK H, pObj, w)"
  by (simp add: OV5640_Init_def)

lemma Init_rejects:
  assumes "IsInitialized pObj = 0"
      and "Resolution > OV5640_R800x480 H
           \<or> (PixelFormat \<noteq> OV5640_RGB565 H \<and> PixelFormat \<noteq> OV5640_YUV422 H
               \<and> PixelFormat \<noteq> OV5640_RGB888 H \<and> PixelFormat \<noteq> OV5640_Y8 H
               \<and> PixelFormat \<noteq> OV5640_JPEG H)"
  shows "OV5640_Init H pObj Resolution PixelFormat w = Some (OV5640_ERROR H, pObj, w)"
  using assms by (simp add: OV5640_Init_def)

lemma write_tbl_guarded_status:
  "fst (write_tbl_guarded H pObj tbl (ret, w)) = ret
   \<or> fst (write_tbl_guarded H pObj tbl (ret, w)) = OV5640_ERROR H"
proof (induction tbl arbitrary: ret w)
  case Nil
  show ?case by simp
next
  case (Cons row rows)
  obtain r w1 where wr: "ov5640_write_reg pObj (fst row) (ucast (snd row)) w = (r, w1)"
    by (cases "ov5640_write_reg pObj (fst row) (ucast (snd row)) w") auto
  show ?case
    using Cons.IH [of ret w1] Cons.IH [of "OV5640_ERROR H" w1] Cons.IH [of ret w]
    by (auto simp: wr)
qed

lemma Init_flag:
  assumes "OV5640_OK H \<noteq> OV5640_ERROR H"
      and "IsInitialized pObj = 0"
      and "OV5640_Init H pObj Resolution PixelFormat w = Some (ret, pObj', w')"
  shows "(IsInitialized pObj' = 1 \<longleftrightarrow> ret = OV5640_OK H)
         \<and> (ret \<noteq> OV5640_OK H \<longrightarrow> ret = OV5640_ERROR H \<and> pObj' = pObj)
         \<and> (ret = OV5640_OK H \<longrightarrow> pObj' = pObj\<lparr>IsInitialized := 1\<rparr>)"
proof -
  obtain ret2 w2 where i: "Init_interface H pObj (write_tbl_guarded H pObj (OV5640_Common H) (OV5640_OK H, w)) = (ret2, w2)"
    by (cases "Init_interface H pObj (write_tbl_guarded H pObj (OV5640_Common H) (OV5640_OK H, w))") auto
  have r2: "ret2 = OV5640_OK H \<or> ret2 = OV5640_ERROR H"
    using i write_tbl_guarded_status [of H pObj "OV5640_Common H" "OV5640_OK H" w]
    by (cases "write_tbl_guarded H pObj (OV5640_Common H) (OV5640_OK H, w)")
      (auto simp: Init_interface_def split: prod.splits if_splits)
  show ?thesis
    using assms r2
    by (auto simp: OV5640_Init_def i split: if_splits prod.splits option.splits)
qed

lemma Common_first_row:
  "\<exists>rest. OV5640_Common H = (REG H ''OV5640_SCCB_SYSTEM_CTRL1'', 0x11) # rest"
  by (simp add: OV5640_Common_def)

lemma Common_guarded_writes:
  "count_writes (log w) <
     count_writes (log (snd (write_tbl_guarded H pObj (OV5640_Common H) (OV5640_OK H, w))))
   \<or> OV5640_OK H = OV5640_ERROR H"
proof -
  obtain row rest where c: "OV5640_Common H = row # rest"
    using Common_first_row [of H] by blast
  obtain r w1 where wr: "ov5640_write_reg pObj (fst row) (ucast (snd row)) w = (r, w1)"
    by (cases "ov5640_write_reg pObj (fst row) (ucast (snd row)) w") auto
  show ?thesis
    using write_reg_count [OF wr] write_tbl_guarded_mono [of w1 H pObj rest "OV5640_OK H"]
      write_tbl_guarded_mono [of w1 H pObj rest "OV5640_ERROR H"]
    by (auto simp: c wr)
qed

lemma Init_first_call_writes:
  assumes ok: "OV5640_OK H \<noteq> OV5640_ERROR H"
      and flag: "IsInitialized pObj = 0"
      and init: "OV5640_Init H pObj Resolution PixelFormat w = Some (OV5640_OK H, pObj', w')"
  shows "count_writes (log w) < count_writes (log w')"
proof -
  let ?s1 = "write_tbl_guarded H pObj (OV5640_Common H) (OV5640_OK H, w)"
  obtain ret1 w1 where s1: "?s1 = (ret1, w1)" by (cases ?s1) auto
  obtain ret2 w2 where s2: "Init_interface H pObj (ret1, w1) = (ret2, w2)"
    by (cases "Init_interface H pObj (ret1, w1)") auto
  obtain r3 w3 where s3: "OV5640_SetResolution H pObj Resolution w2 = (r3, w3)"
    by (cases "OV5640_SetResolution H pObj Resolution w2") auto
  from init ok flag s1 s2 s3 obtain r4 w4 where
    s4: "OV5640_SetPixelFormat H pObj PixelFormat w3 = Some (r4, w4)"
    by (auto simp: OV5640_Init_def split: if_splits option.splits prod.splits)
  obtain r5 w5 where s5: "OV5640_SetPolarities H (Some pObj) (OV5640_POLARITY_PCLK_HIGH H)
       (OV5640_POLARITY_HREF_HIGH H) (OV5640_POLARITY_VSYNC_HIGH H) w4 = (r5, w5)"
    by (cases "OV5640_SetPolarities H (Some pObj) (OV5640_POLARITY_PCLK_HIGH H)
       (OV5640_POLARITY_HREF_HIGH H) (OV5640_POLARITY_VSYNC_HIGH H) w4") auto
  from init ok flag s1 s2 s3 s4 s5 have w': "w' = w5"
    by (auto simp: OV5640_Init_def split: if_splits)
  have "count_writes (log w) < count_writes (log w1)"
    using Common_guarded_writes [of w H pObj] ok s1 by simp
  also have "\<dots> \<le> count_writes (log w2)"
    using Init_interface_mono [of w1 H pObj ret1] s2 by simp
  also have "\<dots> \<le> count_writes (log w3)"
    using SetResolution_mono [of w2 H pObj Resolution] s3 by simp
  also have "\<dots> \<le> count_writes (log w4)"
    using SetPixelFormat_mono [OF s4] .
  also have "\<dots> \<le> count_writes (log w5)"
    using SetPolarities_mono [where w = w4 and H = H and pObj = "Some pObj"
        and p = "OV5640_POLARITY_PCLK_HIGH H" and h = "OV5640_POLARITY_HREF_HIGH H"
        and v = "OV5640_POLARITY_VSYNC_HIGH H"] s5 by simp
  finally show ?thesis by (simp add: w')
qed

subsection \<open>Init on the stub bus\<close>

lemma stub_write:
  "IO pObj = stub_io wret rbyte \<Longrightarrow>
     ov5640_write_reg pObj reg v w = (wret, \<lparr>bus = bus w, log = log w @ [BusWrite 0x78 reg v]\<rparr>)"
  by (simp add: ov5640_write_reg_def OV5640_WriteRegWrap_def stub_io_def)

lemma world_eta [simp]: "\<lparr>bus = bus w, log = log w\<rparr> = (w :: 'b world)"
  by simp

lemma stub_guarded_ok:
  assumes io: "IO pObj = stub_io (OV5640_OK H) rbyte" and ok: "OV5640_OK H \<noteq> OV5640_ERROR H"
  shows "write_tbl_guarded H pObj tbl (OV5640_OK H, w) =
           (OV5640_OK H, \<lparr>bus = bus w, log = log w @ table_writes 0x78 tbl\<rparr>)"
  by (induction tbl arbitrary: w) (simp_all add: table_writes_def stub_write [OF io] ok)

lemma stub_break_ok:
  assumes io: "IO pObj = stub_io (OV5640_OK H) rbyte"
  shows "write_tbl_break H pObj tbl (OV5640_OK H, w) =
           (OV5640_OK H, \<lparr>bus = bus w, log = log w @ table_writes 0x78 tbl\<rparr>)"
  by (induction tbl arbitrary: w) (simp_all add: table_writes_def stub_write [OF io])

lemma stub_Delay:
  assumes io: "IO pObj = stub_io wret rbyte"
  shows "OV5640_Delay H pObj 1 w = Some (OV5640_OK H, \<lparr>bus = Suc (Suc (bus w)), log = log w\<rparr>)"
proof -
  have "Delay_wait pObj (of_nat (bus w)) 1 (w\<lparr>bus := Suc (bus w)\<rparr>) =
          Some (w\<lparr>bus := Suc (Suc (bus w))\<rparr>)"
    by (subst Delay_wait.simps) (simp add: io stub_io_def)
  then show ?thesis
    by (simp add: OV5640_Delay_def io stub_io_def)
qed

lemma stub_guarded_delay_ok:
  assumes io: "IO pObj = stub_io (OV5640_OK H) rbyte" and ok: "OV5640_OK H \<noteq> OV5640_ERROR H"
  shows "\<exists>tmp'. write_tbl_guarded_delay H pObj tbl (OV5640_OK H, tmp, w) =
           Some (OV5640_OK H, tmp', \<lparr>bus = bus w + 2 * length tbl, log = log w @ table_writes 0x78 tbl\<rparr>)"
proof (induction tbl arbitrary: tmp w)
  case Nil
  show ?case by (simp add: table_writes_def)
next
  case (Cons row rows)
  let ?w2 = "\<lparr>bus = Suc (Suc (bus w)), log = log w @ [BusWrite 0x78 (fst row) (ucast (snd row))]\<rparr>"
  from Cons.IH [of "ucast (snd row)" ?w2] obtain tmp' where
    "write_tbl_guarded_delay H pObj rows (OV5640_OK H, ucast (snd row), ?w2) =
       Some (OV5640_OK H, tmp', \<lparr>bus = bus ?w2 + 2 * length rows, log = log ?w2 @ table_writes 0x78 rows\<rparr>)"
    by blast
  then show ?case
    by (simp add: stub_write [OF io] stub_Delay [OF io] ok table_writes_def)
qed

lemma Init_on_stub:
  "OV5640_Init example_h (fresh_handle (stub_io 0 0)) 4 0 (world0 0) =
     Some (0, fresh_handle (stub_io 0 0)\<lparr>IsInitialized := 1\<rparr>,
           \<lparr>bus = 4,
            log = table_writes 0x78 (OV5640_Common example_h)
                  @ table_writes 0x78 (EnableDVPMode_regs example_h)
                  @ table_writes 0x78 (OV5640_WVGA example_h)
                  @ table_writes 0x78 (OV5640_PF_RGB565 example_h)
                  @ [BusWrite 0x78 0x4740 0x23]\<rparr>)"
proof -
  let ?p = "fresh_handle (stub_io 0 0) :: nat OV5640_Object_t"
  have io: "IO ?p = stub_io (OV5640_OK example_h) 0"
    by (simp add: example_h_simps)
  have ok: "OV5640_OK example_h \<noteq> OV5640_ERROR example_h"
    by (simp add: example_h_simps)
  have len: "length (OV5640_PF_RGB565 example_h) = 2"
    by (simp add: OV5640_PF_RGB565_def)
  have hvals: "OV5640_R800x480 example_h = 4" "OV5640_RGB565 example_h = 0"
    "OV5640_R160x120 example_h = 0" "OV5640_R320x240 example_h = 1"
    "OV5640_R480x272 example_h = 2" "OV5640_R640x480 example_h = 3"
    "OV5640_YUV422 example_h = 2" "OV5640_RGB888 example_h = 1" "OV5640_Y8 example_h = 7"
    "OV5640_JPEG example_h = 8"
    "SERIAL_MODE example_h = 1" "Mode ?p = 0" "IsInitialized ?p = 0"
    by (simp_all add: example_h_def fresh_handle_def)
  have common: "write_tbl_guarded example_h ?p (OV5640_Common example_h) (OV5640_OK example_h, world0 0) =
      (OV5640_OK example_h, \<lparr>bus = 0, log = table_writes 0x78 (OV5640_Common example_h)\<rparr>)"
    using stub_guarded_ok [OF io ok, of "OV5640_Common example_h" "world0 0"]
    by (simp add: world0_def)
  have iface: "Init_interface example_h ?p
        (OV5640_OK example_h, \<lparr>bus = 0, log = table_writes 0x78 (OV5640_Common example_h)\<rparr>) =
      (OV5640_OK example_h,
       \<lparr>bus = 0, log = table_writes 0x78 (OV5640_Common example_h)
                        @ table_writes 0x78 (EnableDVPMode_regs example_h)\<rparr>)"
    by (simp add: Init_interface_def hvals OV5640_EnableDVPMode_def stub_break_ok [OF io])
  have res: "OV5640_SetResolution example_h ?p 4
        \<lparr>bus = 0, log = table_writes 0x78 (OV5640_Common example_h)
                        @ table_writes 0x78 (EnableDVPMode_regs example_h)\<rparr> =
      (OV5640_OK example_h,
       \<lparr>bus = 0, log = table_writes 0x78 (OV5640_Common example_h)
                        @ table_writes 0x78 (EnableDVPMode_regs example_h)
                        @ table_writes 0x78 (OV5640_WVGA example_h)\<rparr>)"
    by (simp add: OV5640_SetResolution_def hvals stub_guarded_ok [OF io ok])
  have pf: "OV5640_SetPixelFormat example_h ?p 0
        \<lparr>bus = 0, log = table_writes 0x78 (OV5640_Common example_h)
                        @ table_writes 0x78 (EnableDVPMode_regs example_h)
                        @ table_writes 0x78 (OV5640_WVGA example_h)\<rparr> =
      Some (OV5640_OK example_h,
       \<lparr>bus = 4, log = table_writes 0x78 (OV5640_Common example_h)
                        @ table_writes 0x78 (EnableDVPMode_regs example_h)
                        @ table_writes 0x78 (OV5640_WVGA example_h)
                        @ table_writes 0x78 (OV5640_PF_RGB565 example_h)\<rparr>)"
    using stub_guarded_delay_ok [OF io ok, of "OV5640_PF_RGB565 example_h" 0
        "\<lparr>bus = 0, log = table_writes 0x78 (OV5640_Common example_h)
                        @ table_writes 0x78 (EnableDVPMode_regs example_h)
                        @ table_writes 0x78 (OV5640_WVGA example_h)\<rparr>"]
    by (auto simp: OV5640_SetPixelFormat_def hvals len)
  have pol: "OV5640_SetPolarities example_h (Some ?p) (OV5640_POLARITY_PCLK_HIGH example_h)
        (OV5640_POLARITY_HREF_HIGH example_h) (OV5640_POLARITY_VSYNC_HIGH example_h)
        \<lparr>bus = 4, log = table_writes 0x78 (OV5640_Common example_h)
                        @ table_writes 0x78 (EnableDVPMode_regs example_h)
                        @ table_writes 0x78 (OV5640_WVGA example_h)
                        @ table_writes 0x78 (OV5640_PF_RGB565 example_h)\<rparr> =
      (OV5640_OK example_h,
       \<lparr>bus = 4, log = table_writes 0x78 (OV5640_Common example_h)
                        @ table_writes 0x78 (EnableDVPMode_regs example_h)
                        @ table_writes 0x78 (OV5640_WVGA example_h)
                        @ table_writes 0x78 (OV5640_PF_RGB565 example_h)
                        @ [BusWrite 0x78 0x4740 0x23]\<rparr>)"
    by (simp add: OV5640_SetPolarities_def example_h_simps example_regs_simps stub_write [OF io])
  have "OV5640_Init example_h ?p 4 0 (world0 0) =
     Some (OV5640_OK example_h, ?p\<lparr>IsInitialized := 1\<rparr>,
           \<lparr>bus = 4,
            log = table_writes 0x78 (OV5640_Common example_h)
                  @ table_writes 0x78 (EnableDVPMode_regs example_h)
                  @ table_writes 0x78 (OV5640_WVGA example_h)
                  @ table_writes 0x78 (OV5640_PF_RGB565 example_h)
                  @ [BusWrite 0x78 0x4740 0x23]\<rparr>)"
    by (simp add: OV5640_Init_def hvals common iface res pf pol)
  then show ?thesis
    by (simp add: example_h_simps)
qed

subsection \<open>Termination of the delays\<close>

lemma word_less_1_iff: "(x :: u32) < 1 \<longleftrightarrow> x = 0"
  by (simp add: word_less_nat_alt unat_eq_0)

lemma tick_after_Suc:
  "tick_after pObj (Suc n) b = tick_after pObj n (snd (GetTick (IO pObj) b))"
  by (simp only: tick_after_def funpow_Suc_right o_apply)

lemma Delay_wait_returns:
  "tick_after pObj n (bus w) \<noteq> tickstart \<Longrightarrow> \<exists>w'. Delay_wait pObj tickstart 1 w = Some w'"
proof (induction n arbitrary: w)
  case 0
  obtain t b where g: "GetTick (IO pObj) (bus w) = (t, b)"
    by (cases "GetTick (IO pObj) (bus w)") auto
  from 0 g have "t \<noteq> tickstart" by (simp add: tick_after_def)
  then show ?case
    by (subst Delay_wait.simps) (simp add: g word_less_1_iff)
next
  case (Suc n)
  obtain t b where g: "GetTick (IO pObj) (bus w) = (t, b)"
    by (cases "GetTick (IO pObj) (bus w)") auto
  from Suc.prems g have "tick_after pObj n (bus (w\<lparr>bus := b\<rparr>)) \<noteq> tickstart"
    by (simp add: tick_after_Suc)
  from Suc.IH [OF this] obtain w' where "Delay_wait pObj tickstart 1 (w\<lparr>bus := b\<rparr>) = Some w'"
    by blast
  then show ?case
    by (subst Delay_wait.simps) (simp add: g)
qed

lemma OV5640_Delay_returns:
  assumes "\<forall>b. \<exists>n. tick_after pObj (Suc n) b \<noteq> tick_after pObj 0 b"
  shows "\<exists>w'. OV5640_Delay H pObj 1 w = Some (OV5640_OK H, w')"
proof -
  obtain t b where g: "GetTick (IO pObj) (bus w) = (t, b)"
    by (cases "GetTick (IO pObj) (bus w)") auto
  from assms obtain n where "tick_after pObj (Suc n) (bus w) \<noteq> tick_after pObj 0 (bus w)"
    by blast
  with g have "tick_after pObj n (bus (w\<lparr>bus := b\<rparr>)) \<noteq> t"
    by (simp add: tick_after_Suc) (simp add: tick_after_def)
  from Delay_wait_returns [OF this] obtain w' where "Delay_wait pObj t 1 (w\<lparr>bus := b\<rparr>) = Some w'"
    by blast
  then show ?thesis
    by (simp add: OV5640_Delay_def g)
qed

lemma write_tbl_guarded_delay_returns:
  assumes "\<forall>b. \<exists>n. tick_after pObj (Suc n) b \<noteq> tick_after pObj 0 b"
  shows "\<exists>res. write_tbl_guarded_delay H pObj tbl (ret, tmp, w) = Some res"
proof (induction tbl arbitrary: ret tmp w)
  case Nil
  show ?case by simp
next
  case (Cons row rows)
  obtain r w1 where wr: "ov5640_write_reg pObj (fst row) (ucast (snd row)) w = (r, w1)"
    by (cases "ov5640_write_reg pObj (fst row) (ucast (snd row)) w") auto
  from OV5640_Delay_returns [OF assms, of H w1] obtain w2 where
    d: "OV5640_Delay H pObj 1 w1 = Some (OV5640_OK H, w2)" by blast
  show ?case
    using Cons.IH by (simp add: wr d)
qed

lemma SetPixelFormat_returns:
  assumes "\<forall>b. \<exists>n. tick_after pObj (Suc n) b \<noteq> tick_after pObj 0 b"
  shows "\<exists>res. OV5640_SetPixelFormat H pObj PixelFormat w = Some res"
proof -
  let ?tbl = "if PixelFormat = OV5640_YUV422 H then OV5640_PF_YUV422 H
                 else if PixelFormat = OV5640_RGB888 H then OV5640_PF_RGB888 H
                 else if PixelFormat = OV5640_Y8 H then OV5640_PF_Y8 H
                 else if PixelFormat = OV5640_JPEG H then OV5640_PF_JPEG H
                 else OV5640_PF_RGB565 H"
  from write_tbl_guarded_delay_returns [OF assms, of H ?tbl "OV5640_OK H" 0 w]
  obtain ret tmp w1 where "write_tbl_guarded_delay H pObj ?tbl (OV5640_OK H, 0, w) = Some (ret, tmp, w1)"
    by auto
  then show ?thesis
    unfolding OV5640_SetPixelFormat_def by simp
qed

lemma Init_returns:
  assumes "\<forall>b. \<exists>n. tick_after pObj (Suc n) b \<noteq> tick_after pObj 0 b"
  shows "\<exists>res. OV5640_Init H pObj Resolution PixelFormat w = Some res"
proof -
  obtain r2 w2 where s2: "Init_interface H pObj (write_tbl_guarded H pObj (OV5640_Common H) (OV5640_OK H, w)) = (r2, w2)"
    by (cases "Init_interface H pObj (write_tbl_guarded H pObj (OV5640_Common H) (OV5640_OK H, w))") auto
  obtain r3 w3 where s3: "OV5640_SetResolution H pObj Resolution w2 = (r3, w3)"
    by (cases "OV5640_SetResolution H pObj Resolution w2") auto
  from SetPixelFormat_returns [OF assms, of H PixelFormat w3]
  obtain r4 w4 where s4: "OV5640_SetPixelFormat H pObj PixelFormat w3 = Some (r4, w4)"
    by auto
  show ?thesis
    unfolding OV5640_Init_def by (simp add: s2 s3 s4 split: prod.splits)
qed

subsection \<open>Failures on a watched bus\<close>

lemma watch_write:
  assumes "IO pObj = watch ok io" and "ov5640_write_reg pObj reg v w = (r, w1)"
  shows "snd (bus w1) = (snd (bus w) \<or> r \<noteq> ok)"
  using assms
  by (auto simp add: ov5640_write_reg_def OV5640_WriteRegWrap_def watch_def split: prod.splits)

lemma watch_read:
  assumes "IO pObj = watch ok io" and "ov5640_read_reg pObj reg old w = (r, t, w1)"
  shows "snd (bus w1) = (snd (bus w) \<or> r \<noteq> ok)"
  using assms
  by (auto simp add: ov5640_read_reg_def OV5640_ReadRegWrap_def watch_def split: prod.splits)

lemma watch_Delay_wait:
  assumes io: "IO pObj = watch ok io" and ret: "Delay_wait pObj tickstart Delay w = Some w'"
  shows "snd (bus w') = snd (bus w)"
proof -
  have "pObj = pObj \<longrightarrow> snd (bus w') = snd (bus w)"
    by (rule Delay_wait.raw_induct
          [where P = "\<lambda>p ts d w w'. p = pObj \<longrightarrow> snd (bus w') = snd (bus w)", OF _ ret])
       (auto simp add: io watch_def split: prod.splits if_splits)
  then show ?thesis by simp
qed

lemma watch_Delay:
  assumes io: "IO pObj = watch ok io" and ret: "OV5640_Delay H pObj Delay w = Some (d, w')"
  shows "snd (bus w') = snd (bus w)"
proof -
  obtain t b where g: "GetTick (IO pObj) (bus w) = (t, b)"
    by (cases "GetTick (IO pObj) (bus w)") auto
  then have b: "snd b = snd (bus w)"
    by (auto simp add: io watch_def split: prod.splits)
  from ret g have "Delay_wait pObj t Delay (w\<lparr>bus := b\<rparr>) = Some w'"
    by (simp add: OV5640_Delay_def split: option.splits)
  from watch_Delay_wait [OF io this] b show ?thesis by simp
qed

lemma failure_tracked_simps:
  "failure_tracked H (ret, w) \<longleftrightarrow> (if snd (bus w) then ret = OV5640_ERROR H else ret = OV5640_OK H)"
  by (simp add: failure_tracked_def)

lemma watch_guarded:
  assumes io: "IO pObj = watch (OV5640_OK H) io" and ok: "OV5640_OK H \<noteq> OV5640_ERROR H"
  shows "failure_tracked H (ret, w) \<Longrightarrow> failure_tracked H (write_tbl_guarded H pObj tbl (ret, w))"
proof (induction tbl arbitrary: ret w)
  case Nil
  then show ?case by simp
next
  case (Cons row rows)
  obtain r w1 where wr: "ov5640_write_reg pObj (fst row) (ucast (snd row)) w = (r, w1)"
    by (cases "ov5640_write_reg pObj (fst row) (ucast (snd row)) w") auto
  note f = watch_write [OF io wr]
  show ?case
  proof (cases "ret = OV5640_ERROR H")
    case True
    with Cons.IH [OF Cons.prems] show ?thesis by simp
  next
    case False
    with Cons.prems have nf: "\<not> snd (bus w)" "ret = OV5640_OK H"
      by (simp_all add: failure_tracked_simps split: if_splits)
    show ?thesis
    proof (cases "r = OV5640_OK H")
      case True
      with f nf have "failure_tracked H (ret, w1)" by (simp add: failure_tracked_simps)
      from Cons.IH [OF this] True False show ?thesis by (simp add: wr)
    next
      case r: False
      with f have "failure_tracked H (OV5640_ERROR H, w1)" by (simp add: failure_tracked_simps)
      from Cons.IH [OF this] r False show ?thesis by (simp add: wr)
    qed
  qed
qed

lemma watch_break:
  assumes io: "IO pObj = watch (OV5640_OK H) io"
  shows "\<not> snd (bus w) \<Longrightarrow> failure_tracked H (write_tbl_break H pObj tbl (OV5640_OK H, w))"
proof (induction tbl arbitrary: w)
  case Nil
  then show ?case by (simp add: failure_tracked_simps)
next
  case (Cons row rows)
  obtain r w1 where wr: "ov5640_write_reg pObj (fst row) (ucast (snd row)) w = (r, w1)"
    by (cases "ov5640_write_reg pObj (fst row) (ucast (snd row)) w") auto
  note f = watch_write [OF io wr]
  show ?case
  proof (cases "r = OV5640_OK H")
    case True
    with f Cons.prems have "\<not> snd (bus w1)" by simp
    from Cons.IH [OF this] True show ?thesis by (simp add: wr)
  next
    case False
    with f show ?thesis by (simp add: wr failure_tracked_simps)
  qed
qed

lemma watch_guarded_delay:
  assumes io: "IO pObj = watch (OV5640_OK H) io" and ok: "OV5640_OK H \<noteq> OV5640_ERROR H"
  shows "failure_tracked H (ret, w) \<Longrightarrow>
         write_tbl_guarded_delay H pObj tbl (ret, tmp, w) = Some (ret', tmp', w') \<Longrightarrow>
         failure_tracked H (ret', w')"
proof (induction tbl arbitrary: ret tmp w)
  case Nil
  then show ?case by simp
next
  case (Cons row rows)
  obtain r w1 where wr: "ov5640_write_reg pObj (fst row) (ucast (snd row)) w = (r, w1)"
    by (cases "ov5640_write_reg pObj (fst row) (ucast (snd row)) w") auto
  note f = watch_write [OF io wr]
  show ?case
  proof (cases "ret = OV5640_ERROR H")
    case True
    with Cons.prems(2) have "write_tbl_guarded_delay H pObj rows (ret, tmp, w) = Some (ret', tmp', w')"
      by simp
    from Cons.IH [OF Cons.prems(1) this] show ?thesis .
  next
    case False
    with Cons.prems(1) have nf: "\<not> snd (bus w)" "ret = OV5640_OK H"
      by (simp_all add: failure_tracked_simps split: if_splits)
    show ?thesis
    proof (cases "r = OV5640_OK H")
      case r: False
      with f have t: "failure_tracked H (OV5640_ERROR H, w1)" by (simp add: failure_tracked_simps)
      from Cons.prems(2) False r
      have "write_tbl_guarded_delay H pObj rows (OV5640_ERROR H, ucast (snd row), w1) = Some (ret', tmp', w')"
        by (simp add: wr)
      from Cons.IH [OF t this] show ?thesis .
    next
      case True
      with Cons.prems(2) False obtain d w2 where dl: "OV5640_Delay H pObj 1 w1 = Some (d, w2)"
        and rest: "write_tbl_guarded_delay H pObj rows (ret, ucast (snd row), w2) = Some (ret', tmp', w')"
        by (auto simp add: wr split: option.splits)
      from watch_Delay [OF io dl] f True nf have "failure_tracked H (ret, w2)"
        by (simp add: failure_tracked_simps)
      from Cons.IH [OF this rest] show ?thesis .
    qed
  qed
qed

lemma watch_jpeg_patches:
  assumes io: "IO pObj = watch (OV5640_OK H) io"
  shows "failure_tracked H (ret, w) \<Longrightarrow> failure_tracked H (jpeg_patches H pObj (ret, tmp, w))"
  unfolding jpeg_patches_def failure_tracked_def
  by (auto split: prod.splits if_splits dest!: watch_write [OF io] watch_read [OF io])

lemma watch_SetPixelFormat:
  assumes io: "IO pObj = watch (OV5640_OK H) io" and ok: "OV5640_OK H \<noteq> OV5640_ERROR H"
      and nf: "\<not> snd (bus w)"
      and fmt: "PixelFormat = OV5640_RGB565 H \<or> PixelFormat = OV5640_YUV422 H
                \<or> PixelFormat = OV5640_RGB888 H \<or> PixelFormat = OV5640_Y8 H
                \<or> PixelFormat = OV5640_JPEG H"
      and ret: "OV5640_SetPixelFormat H pObj PixelFormat w = Some (r, w')"
  shows "failure_tracked H (r, w')"
proof -
  let ?tbl = "if PixelFormat = OV5640_YUV422 H then OV5640_PF_YUV422 H
                 else if PixelFormat = OV5640_RGB888 H then OV5640_PF_RGB888 H
                 else if PixelFormat = OV5640_Y8 H then OV5640_PF_Y8 H
                 else if PixelFormat = OV5640_JPEG H then OV5640_PF_JPEG H
                 else OV5640_PF_RGB565 H"
  have valid: "\<not> (PixelFormat \<noteq> OV5640_RGB565 H \<and> PixelFormat \<noteq> OV5640_YUV422 H
         \<and> PixelFormat \<noteq> OV5640_RGB888 H \<and> PixelFormat \<noteq> OV5640_Y8 H
         \<and> PixelFormat \<noteq> OV5640_JPEG H)"
    using fmt by blast
  from ret valid obtain r1 tmp w1 where
    t: "write_tbl_guarded_delay H pObj ?tbl (OV5640_OK H, 0, w) = Some (r1, tmp, w1)"
    and res: "(r, w') = (if PixelFormat = OV5640_JPEG H then jpeg_patches H pObj (r1, tmp, w1) else (r1, w1))"
    unfolding OV5640_SetPixelFormat_def
    by (simp only: valid if_False split: option.splits prod.splits if_splits) auto
  have "failure_tracked H (OV5640_OK H, w)"
    using nf by (simp add: failure_tracked_simps)
  from watch_guarded_delay [OF io ok this t] have k: "failure_tracked H (r1, w1)" .
  show ?thesis
  proof (cases "PixelFormat = OV5640_JPEG H")
    case True
    with res watch_jpeg_patches [OF io k, of tmp] show ?thesis by simp
  next
    case False
    with res k show ?thesis by simp
  qed
qed

lemma watch_SetResolution:
  assumes io: "IO pObj = watch (OV5640_OK H) io" and ok: "OV5640_OK H \<noteq> OV5640_ERROR H"
      and nf: "\<not> snd (bus w)"
  shows "snd (bus (snd (OV5640_SetResolution H pObj Resolution w))) \<longrightarrow>
           fst (OV5640_SetResolution H pObj Resolution w) = OV5640_ERROR H"
    and "Resolution \<le> OV5640_R800x480 H \<Longrightarrow>
         Resolution = OV5640_R160x120 H \<or> Resolution = OV5640_R320x240 H
         \<or> Resolution = OV5640_R480x272 H \<or> Resolution = OV5640_R640x480 H
         \<or> Resolution = OV5640_R800x480 H \<Longrightarrow>
         failure_tracked H (OV5640_SetResolution H pObj Resolution w)"
proof -
  have k: "failure_tracked H (write_tbl_guarded H pObj tbl (OV5640_OK H, w))" for tbl
    using nf by (intro watch_guarded [OF io ok]) (simp add: failure_tracked_simps)
  then have j: "snd (bus (snd (write_tbl_guarded H pObj tbl (OV5640_OK H, w)))) \<longrightarrow>
      fst (write_tbl_guarded H pObj tbl (OV5640_OK H, w)) = OV5640_ERROR H" for tbl
    by (simp add: failure_tracked_def)
  show "snd (bus (snd (OV5640_SetResolution H pObj Resolution w))) \<longrightarrow>
           fst (OV5640_SetResolution H pObj Resolution w) = OV5640_ERROR H"
    using nf j by (simp add: OV5640_SetResolution_def)
  show "failure_tracked H (OV5640_SetResolution H pObj Resolution w)"
    if "Resolution \<le> OV5640_R800x480 H"
      "Resolution = OV5640_R160x120 H \<or> Resolution = OV5640_R320x240 H
         \<or> Resolution = OV5640_R480x272 H \<or> Resolution = OV5640_R640x480 H
         \<or> Resolution = OV5640_R800x480 H"
  proof -
    from that(1) have le: "\<not> OV5640_R800x480 H < Resolution" by simp
    from that(2) k show ?thesis
      unfolding OV5640_SetResolution_def by (simp only: le if_False split: if_splits) auto
  qed
qed

lemma watch_SetPolarities:
  assumes io: "IO pObj = watch (OV5640_OK H) io" and nf: "\<not> snd (bus w)"
  shows "failure_tracked H (OV5640_SetPolarities H (Some pObj) (OV5640_POLARITY_PCLK_HIGH H)
           (OV5640_POLARITY_HREF_HIGH H) (OV5640_POLARITY_VSYNC_HIGH H) w)"
  using nf unfolding OV5640_SetPolarities_def failure_tracked_def
  by (auto simp add: Let_def split: prod.splits dest!: watch_write [OF io])

lemma watch_SetMIPIVirtualChannel:
  assumes io: "IO pObj = watch (OV5640_OK H) io" and nf: "\<not> snd (bus w)"
  shows "failure_tracked H (OV5640_SetMIPIVirtualChannel H pObj vc w)"
  using nf unfolding OV5640_SetMIPIVirtualChannel_def failure_tracked_def
  by (auto split: prod.splits dest!: watch_write [OF io] watch_read [OF io])

lemma watch_Init_interface:
  assumes io: "IO pObj = watch (OV5640_OK H) io" and ok: "OV5640_OK H \<noteq> OV5640_ERROR H"
      and k: "failure_tracked H (ret, w)"
  shows "failure_tracked H (Init_interface H pObj (ret, w))"
proof (cases "ret = OV5640_OK H")
  case False
  with k show ?thesis by (simp add: Init_interface_def)
next
  case True
  with k ok have nf: "\<not> snd (bus w)" by (simp add: failure_tracked_simps split: if_splits)
  show ?thesis
  proof (cases "Mode pObj = SERIAL_MODE H")
    case False
    obtain r1 w1 where e: "OV5640_EnableDVPMode H pObj w = (r1, w1)"
      by (cases "OV5640_EnableDVPMode H pObj w") auto
    from watch_break [OF io nf, of "EnableDVPMode_regs H"] e have "failure_tracked H (r1, w1)"
      by (simp add: OV5640_EnableDVPMode_def)
    then show ?thesis
      using True False ok by (auto simp add: Init_interface_def e failure_tracked_simps split: if_splits)
  next
    case serial: True
    obtain r1 w1 where e: "OV5640_EnableMIPIMode H pObj w = (r1, w1)"
      by (cases "OV5640_EnableMIPIMode H pObj w") auto
    from watch_break [OF io nf, of "EnableMIPIMode_regs H"] e have k1: "failure_tracked H (r1, w1)"
      by (simp add: OV5640_EnableMIPIMode_def)
    show ?thesis
    proof (cases "r1 = OV5640_OK H")
      case False
      with k1 show ?thesis
        using True serial by (auto simp add: Init_interface_def e failure_tracked_simps split: if_splits)
    next
      case r1: True
      with k1 ok have nf1: "\<not> snd (bus w1)" by (simp add: failure_tracked_simps split: if_splits)
      obtain r2 w2 where v: "OV5640_SetMIPIVirtualChannel H pObj (VirtualChannelID pObj) w1 = (r2, w2)"
        by (cases "OV5640_SetMIPIVirtualChannel H pObj (VirtualChannelID pObj) w1") auto
      from watch_SetMIPIVirtualChannel [OF io nf1, of "VirtualChannelID pObj"] v
      have "failure_tracked H (r2, w2)" by simp
      then show ?thesis
        using True serial r1 ok
        by (auto simp add: Init_interface_def e v failure_tracked_simps split: if_splits)
    qed
  qed
qed

lemma watch_Init:
  assumes io: "IO pObj = watch (OV5640_OK H) io" and ok: "OV5640_OK H \<noteq> OV5640_ERROR H"
      and flag: "IsInitialized pObj = 0" and nf: "\<not> snd (bus w)"
      and init: "OV5640_Init H pObj Resolution PixelFormat w = Some (ret, pObj', w')"
  shows "(snd (bus w') \<longrightarrow> ret = OV5640_ERROR H \<and> pObj' = pObj)
         \<and> (\<not> snd (bus w') \<and> Resolution \<le> OV5640_R800x480 H
              \<and> (Resolution = OV5640_R160x120 H \<or> Resolution = OV5640_R320x240 H
                   \<or> Resolution = OV5640_R480x272 H \<or> Resolution = OV5640_R640x480 H
                   \<or> Resolution = OV5640_R800x480 H)
              \<and> (PixelFormat = OV5640_RGB565 H \<or> PixelFormat = OV5640_YUV422 H
                   \<or> PixelFormat = OV5640_RGB888 H \<or> PixelFormat = OV5640_Y8 H
                   \<or> PixelFormat = OV5640_JPEG H)
            \<longrightarrow> ret = OV5640_OK H \<and> pObj' = pObj\<lparr>IsInitialized := 1\<rparr>)"
proof (cases "Resolution > OV5640_R800x480 H
            \<or> (PixelFormat \<noteq> OV5640_RGB565 H \<and> PixelFormat \<noteq> OV5640_YUV422 H
                \<and> PixelFormat \<noteq> OV5640_RGB888 H \<and> PixelFormat \<noteq> OV5640_Y8 H
                \<and> PixelFormat \<noteq> OV5640_JPEG H)")
  case True
  with init flag have "w' = w" by (simp add: OV5640_Init_def)
  with nf True show ?thesis by auto
next
  case valid: False
  then have fmt: "PixelFormat = OV5640_RGB565 H \<or> PixelFormat = OV5640_YUV422 H
                \<or> PixelFormat = OV5640_RGB888 H \<or> PixelFormat = OV5640_Y8 H
                \<or> PixelFormat = OV5640_JPEG H" by blast
  let ?s1 = "write_tbl_guarded H pObj (OV5640_Common H) (OV5640_OK H, w)"
  obtain ra wa where s1: "?s1 = (ra, wa)" by (cases ?s1) auto
  obtain rb wb where s2: "Init_interface H pObj (ra, wa) = (rb, wb)"
    by (cases "Init_interface H pObj (ra, wa)") auto
  have "failure_tracked H (OV5640_OK H, w)" using nf by (simp add: failure_tracked_simps)
  from watch_guarded [OF io ok this, of "OV5640_Common H"] s1
  have "failure_tracked H (ra, wa)" by simp
  from watch_Init_interface [OF io ok this] s2 have k2: "failure_tracked H (rb, wb)" by simp
  show ?thesis
  proof (cases "rb = OV5640_OK H")
    case False
    with init flag valid s1 s2 have "ret = rb" "pObj' = pObj" "w' = wb"
      by (simp_all add: OV5640_Init_def)
    with k2 False show ?thesis by (auto simp add: failure_tracked_simps split: if_splits)
  next
    case rb: True
    with k2 ok have nf2: "\<not> snd (bus wb)" by (simp add: failure_tracked_simps split: if_splits)
    obtain rc wc where s3: "OV5640_SetResolution H pObj Resolution wb = (rc, wc)"
      by (cases "OV5640_SetResolution H pObj Resolution wb") auto
    from watch_SetResolution(1) [OF io ok nf2, of Resolution] s3
    have j3: "snd (bus wc) \<longrightarrow> rc = OV5640_ERROR H" by simp
    show ?thesis
    proof (cases "rc = OV5640_OK H")
      case False
      with init flag valid s1 s2 s3 rb have e: "ret = OV5640_ERROR H" "pObj' = pObj" "w' = wc"
        by (simp_all add: OV5640_Init_def)
      have "snd (bus wc)"
        if "Resolution \<le> OV5640_R800x480 H"
          "Resolution = OV5640_R160x120 H \<or> Resolution = OV5640_R320x240 H
             \<or> Resolution = OV5640_R480x272 H \<or> Resolution = OV5640_R640x480 H
             \<or> Resolution = OV5640_R800x480 H"
        using watch_SetResolution(2) [OF io ok nf2 that] s3 False
        by (simp add: failure_tracked_simps split: if_splits)
      with e show ?thesis by auto
    next
      case rc: True
      with j3 ok have nf3: "\<not> snd (bus wc)" by auto
      from init flag valid s1 s2 s3 rb rc obtain rd wd where
        s4: "OV5640_SetPixelFormat H pObj PixelFormat wc = Some (rd, wd)"
        by (auto simp add: OV5640_Init_def split: option.splits)
      from watch_SetPixelFormat [OF io ok nf3 fmt s4] have k4: "failure_tracked H (rd, wd)" .
      show ?thesis
      proof (cases "rd = OV5640_OK H")
        case False
        with init flag valid s1 s2 s3 s4 rb rc have "ret = OV5640_ERROR H" "pObj' = pObj" "w' = wd"
          by (simp_all add: OV5640_Init_def)
        with k4 False show ?thesis by (auto simp add: failure_tracked_simps split: if_splits)
      next
        case rd: True
        with k4 ok have nf4: "\<not> snd (bus wd)" by (simp add: failure_tracked_simps split: if_splits)
        obtain re we where s5: "OV5640_SetPolarities H (Some pObj) (OV5640_POLARITY_PCLK_HIGH H)
           (OV5640_POLARITY_HREF_HIGH H) (OV5640_POLARITY_VSYNC_HIGH H) wd = (re, we)"
          by (cases "OV5640_SetPolarities H (Some pObj) (OV5640_POLARITY_PCLK_HIGH H)
           (OV5640_POLARITY_HREF_HIGH H) (OV5640_POLARITY_VSYNC_HIGH H) wd") auto
        from watch_SetPolarities [OF io nf4] s5 have k5: "failure_tracked H (re, we)" by simp
        show ?thesis
        proof (cases "re = OV5640_OK H")
          case False
          with init flag valid s1 s2 s3 s4 s5 rb rc rd
          have "ret = OV5640_ERROR H" "pObj' = pObj" "w' = we"
            by (simp_all add: OV5640_Init_def)
          with k5 False show ?thesis by (auto simp add: failure_tracked_simps split: if_splits)
        next
          case True
          with init flag valid s1 s2 s3 s4 s5 rb rc rd
          have "ret = OV5640_OK H" "pObj' = pObj\<lparr>IsInitialized := 1\<rparr>" "w' = we"
            by (simp_all add: OV5640_Init_def)
          with k5 True ok show ?thesis by (auto simp add: failure_tracked_simps split: if_splits)
        qed
      qed
    qed
  qed
qed

subsection \<open>The steps of the initialisation\<close>

lemma Init_steps:
  assumes flag: "IsInitialized pObj = 0"
      and valid: "\<not> (Resolution > OV5640_R800x480 H
            \<or> (PixelFormat \<noteq> OV5640_RGB565 H \<and> PixelFormat \<noteq> OV5640_YUV422 H
                \<and> PixelFormat \<noteq> OV5640_RGB888 H \<and> PixelFormat \<noteq> OV5640_Y8 H
                \<and> PixelFormat \<noteq> OV5640_JPEG H))"
  shows common_fails:
      "write_tbl_guarded H pObj (OV5640_Common H) (OV5640_OK H, w) = (ra, wa) \<Longrightarrow> ra \<noteq> OV5640_OK H \<Longrightarrow>
         OV5640_Init H pObj Resolution PixelFormat w = Some (OV5640_ERROR H, pObj, wa)"
    and interface_fails:
      "write_tbl_guarded H pObj (OV5640_Common H) (OV5640_OK H, w) = (OV5640_OK H, wa) \<Longrightarrow>
       Init_interface H pObj (OV5640_OK H, wa) = (rb, wb) \<Longrightarrow> rb \<noteq> OV5640_OK H \<Longrightarrow>
         OV5640_Init H pObj Resolution PixelFormat w = Some (OV5640_ERROR H, pObj, wb)"
    and resolution_fails:
      "Init_interface H pObj (write_tbl_guarded H pObj (OV5640_Common H) (OV5640_OK H, w)) = (OV5640_OK H, wb) \<Longrightarrow>
       OV5640_SetResolution H pObj Resolution wb = (rc, wc) \<Longrightarrow> rc \<noteq> OV5640_OK H \<Longrightarrow>
         OV5640_Init H pObj Resolution PixelFormat w = Some (OV5640_ERROR H, pObj, wc)"
    and format_fails:
      "Init_interface H pObj (write_tbl_guarded H pObj (OV5640_Common H) (OV5640_OK H, w)) = (OV5640_OK H, wb) \<Longrightarrow>
       OV5640_SetResolution H pObj Resolution wb = (OV5640_OK H, wc) \<Longrightarrow>
       OV5640_SetPixelFormat H pObj PixelFormat wc = Some (rd, wd) \<Longrightarrow> rd \<noteq> OV5640_OK H \<Longrightarrow>
         OV5640_Init H pObj Resolution PixelFormat w = Some (OV5640_ERROR H, pObj, wd)"
    and format_hangs:
      "Init_interface H pObj (write_tbl_guarded H pObj (OV5640_Common H) (OV5640_OK H, w)) = (OV5640_OK H, wb) \<Longrightarrow>
       OV5640_SetResolution H pObj Resolution wb = (OV5640_OK H, wc) \<Longrightarrow>
       OV5640_SetPixelFormat H pObj PixelFormat wc = None \<Longrightarrow>
         OV5640_Init H pObj Resolution PixelFormat w = None"
    and polarities_fail:
      "Init_interface H pObj (write_tbl_guarded H pObj (OV5640_Common H) (OV5640_OK H, w)) = (OV5640_OK H, wb) \<Longrightarrow>
       OV5640_SetResolution H pObj Resolution wb = (OV5640_OK H, wc) \<Longrightarrow>
       OV5640_SetPixelFormat H pObj PixelFormat wc = Some (OV5640_OK H, wd) \<Longrightarrow>
       OV5640_SetPolarities H (Some pObj) (OV5640_POLARITY_PCLK_HIGH H)
           (OV5640_POLARITY_HREF_HIGH H) (OV5640_POLARITY_VSYNC_HIGH H) wd = (re, we) \<Longrightarrow>
       re \<noteq> OV5640_OK H \<Longrightarrow>
         OV5640_Init H pObj Resolution PixelFormat w = Some (OV5640_ERROR H, pObj, we)"
    and all_pass:
      "Init_interface H pObj (write_tbl_guarded H pObj (OV5640_Common H) (OV5640_OK H, w)) = (OV5640_OK H, wb) \<Longrightarrow>
       OV5640_SetResolution H pObj Resolution wb = (OV5640_OK H, wc) \<Longrightarrow>
       OV5640_SetPixelFormat H pObj PixelFormat wc = Some (OV5640_OK H, wd) \<Longrightarrow>
       OV5640_SetPolarities H (Some pObj) (OV5640_POLARITY_PCLK_HIGH H)
           (OV5640_POLARITY_HREF_HIGH H) (OV5640_POLARITY_VSYNC_HIGH H) wd = (OV5640_OK H, we) \<Longrightarrow>
         OV5640_Init H pObj Resolution PixelFormat w = Some (OV5640_OK H, pObj\<lparr>IsInitialized := 1\<rparr>, we)"
proof -
  show "OV5640_Init H pObj Resolution PixelFormat w = Some (OV5640_ERROR H, pObj, wa)"
    if s: "write_tbl_guarded H pObj (OV5640_Common H) (OV5640_OK H, w) = (ra, wa)" and f: "ra \<noteq> OV5640_OK H"
  proof -
    from write_tbl_guarded_status [of H pObj "OV5640_Common H" "OV5640_OK H" w] s f
    have "ra = OV5640_ERROR H" by simp
    with flag valid s f show ?thesis
      by (auto simp add: OV5640_Init_def Init_interface_def)
  qed
  show "OV5640_Init H pObj Resolution PixelFormat w = Some (OV5640_ERROR H, pObj, wb)"
    if s: "write_tbl_guarded H pObj (OV5640_Common H) (OV5640_OK H, w) = (OV5640_OK H, wa)"
      and i: "Init_interface H pObj (OV5640_OK H, wa) = (rb, wb)" and f: "rb \<noteq> OV5640_OK H"
  proof -
    from i f have "rb = OV5640_ERROR H"
      by (auto simp add: Init_interface_def split: if_splits prod.splits)
    with flag valid s i f show ?thesis
      by (auto simp add: OV5640_Init_def)
  qed
  show "OV5640_Init H pObj Resolution PixelFormat w = Some (OV5640_ERROR H, pObj, wc)"
    if "Init_interface H pObj (write_tbl_guarded H pObj (OV5640_Common H) (OV5640_OK H, w)) = (OV5640_OK H, wb)"
      "OV5640_SetResolution H pObj Resolution wb = (rc, wc)" "rc \<noteq> OV5640_OK H"
    using flag valid that by (auto simp add: OV5640_Init_def)
  show "OV5640_Init H pObj Resolution PixelFormat w = Some (OV5640_ERROR H, pObj, wd)"
    if "Init_interface H pObj (write_tbl_guarded H pObj (OV5640_Common H) (OV5640_OK H, w)) = (OV5640_OK H, wb)"
      "OV5640_SetResolution H pObj Resolution wb = (OV5640_OK H, wc)"
      "OV5640_SetPixelFormat H pObj PixelFormat wc = Some (rd, wd)" "rd \<noteq> OV5640_OK H"
    using flag valid that by (auto simp add: OV5640_Init_def)
  show "OV5640_Init H pObj Resolution PixelFormat w = None"
    if "Init_interface H pObj (write_tbl_guarded H pObj (OV5640_Common H) (OV5640_OK H, w)) = (OV5640_OK H, wb)"
      "OV5640_SetResolution H pObj Resolution wb = (OV5640_OK H, wc)"
      "OV5640_SetPixelFormat H pObj PixelFormat wc = None"
    using flag valid that by (auto simp add: OV5640_Init_def)
  show "OV5640_Init H pObj Resolution PixelFormat w = Some (OV5640_ERROR H, pObj, we)"
    if "Init_interface H pObj (write_tbl_guarded H pObj (OV5640_Common H) (OV5640_OK H, w)) = (OV5640_OK H, wb)"
      "OV5640_SetResolution H pObj Resolution wb = (OV5640_OK H, wc)"
      "OV5640_SetPixelFormat H pObj PixelFormat wc = Some (OV5640_OK H, wd)"
      "OV5640_SetPolarities H (Some pObj) (OV5640_POLARITY_PCLK_HIGH H)
           (OV5640_POLARITY_HREF_HIGH H) (OV5640_POLARITY_VSYNC_HIGH H) wd = (re, we)"
      "re \<noteq> OV5640_OK H"
    using flag valid that by (auto simp add: OV5640_Init_def)
  show "OV5640_Init H pObj Resolution PixelFormat w = Some (OV5640_OK H, pObj\<lparr>IsInitialized := 1\<rparr>, we)"
    if "Init_interface H pObj (write_tbl_guarded H pObj (OV5640_Common H) (OV5640_OK H, w)) = (OV5640_OK H, wb)"
      "OV5640_SetResolution H pObj Resolution wb = (OV5640_OK H, wc)"
      "OV5640_SetPixelFormat H pObj PixelFormat wc = Some (OV5640_OK H, wd)"
      "OV5640_SetPolarities H (Some pObj) (OV5640_POLARITY_PCLK_HIGH H)
           (OV5640_POLARITY_HREF_HIGH H) (OV5640_POLARITY_VSYNC_HIGH H) wd = (OV5640_OK H, we)"
    using flag valid that by (auto simp add: OV5640_Init_def)
qed

subsection \<open>Init on a bus whose n-th write fails\<close>

lemma nf_write:
  assumes io: "IO pObj = watch ok (nth_fail_io ok bad n step)" and bad: "bad \<noteq> ok"
  shows "ov5640_write_reg pObj reg v \<lparr>bus = ((c, t), x), log = l\<rparr> =
           (if Suc c = n then bad else ok,
            \<lparr>bus = ((Suc c, t), x \<or> Suc c = n), log = l @ [BusWrite 0x78 reg v]\<rparr>)"
  using bad
  by (simp add: ov5640_write_reg_def OV5640_WriteRegWrap_def io watch_def nth_fail_io_def)

lemma nf_guarded_pass:
  assumes io: "IO pObj = watch (OV5640_OK H) (nth_fail_io (OV5640_OK H) bad n step)"
      and bad: "bad \<noteq> OV5640_OK H" and ok: "OV5640_OK H \<noteq> OV5640_ERROR H"
  shows "n \<le> c \<or> c + length tbl < n \<Longrightarrow>
         write_tbl_guarded H pObj tbl (OV5640_OK H, \<lparr>bus = ((c, t), x), log = l\<rparr>) =
           (OV5640_OK H, \<lparr>bus = ((c + length tbl, t), x), log = l @ table_writes 0x78 tbl\<rparr>)"
proof (induction tbl arbitrary: c l)
  case Nil
  show ?case by (simp add: table_writes_def)
next
  case (Cons row rows)
  from Cons.prems have ne: "Suc c \<noteq> n" and nx: "n \<le> Suc c \<or> Suc c + length rows < n" by auto
  show ?case
    using Cons.IH [OF nx, of "l @ [BusWrite 0x78 (fst row) (ucast (snd row))]"] ne ok
    by (simp add: nf_write [OF io bad] table_writes_def)
qed

lemma nf_guarded_fail:
  assumes io: "IO pObj = watch (OV5640_OK H) (nth_fail_io (OV5640_OK H) bad n step)"
      and bad: "bad \<noteq> OV5640_OK H" and ok: "OV5640_OK H \<noteq> OV5640_ERROR H"
  shows "c < n \<Longrightarrow> n \<le> c + length tbl \<Longrightarrow>
         write_tbl_guarded H pObj tbl (OV5640_OK H, \<lparr>bus = ((c, t), x), log = l\<rparr>) =
           (OV5640_ERROR H, \<lparr>bus = ((n, t), True), log = l @ table_writes 0x78 (take (n - c) tbl)\<rparr>)"
proof (induction tbl arbitrary: c l x)
  case Nil
  then show ?case by simp
next
  case (Cons row rows)
  have skip: "write_tbl_guarded H pObj rest (OV5640_ERROR H, w1) = (OV5640_ERROR H, w1)" for rest w1
    by (induction rest) simp_all
  show ?case
  proof (cases "Suc c = n")
    case True
    then have "n - c = Suc 0" by simp
    with True bad ok show ?thesis
      by (simp add: nf_write [OF io bad] table_writes_def skip)
  next
    case False
    with Cons.prems have lt: "Suc c < n" "n \<le> Suc c + length rows" by auto
    then have tk: "n - c = Suc (n - Suc c)" by simp
    show ?thesis
      using Cons.IH [OF lt, of x "l @ [BusWrite 0x78 (fst row) (ucast (snd row))]"] False ok
      by (simp add: nf_write [OF io bad] table_writes_def tk)
  qed
qed

lemma nf_break_pass:
  assumes io: "IO pObj = watch (OV5640_OK H) (nth_fail_io (OV5640_OK H) bad n step)"
      and bad: "bad \<noteq> OV5640_OK H"
  shows "n \<le> c \<or> c + length tbl < n \<Longrightarrow>
         write_tbl_break H pObj tbl (OV5640_OK H, \<lparr>bus = ((c, t), x), log = l\<rparr>) =
           (OV5640_OK H, \<lparr>bus = ((c + length tbl, t), x), log = l @ table_writes 0x78 tbl\<rparr>)"
proof (induction tbl arbitrary: c l)
  case Nil
  show ?case by (simp add: table_writes_def)
next
  case (Cons row rows)
  from Cons.prems have ne: "Suc c \<noteq> n" and nx: "n \<le> Suc c \<or> Suc c + length rows < n" by auto
  show ?case
    using Cons.IH [OF nx, of "l @ [BusWrite 0x78 (fst row) (ucast (snd row))]"] ne
    by (simp add: nf_write [OF io bad] table_writes_def)
qed

lemma nf_break_fail:
  assumes io: "IO pObj = watch (OV5640_OK H) (nth_fail_io (OV5640_OK H) bad n step)"
      and bad: "bad \<noteq> OV5640_OK H"
  shows "c < n \<Longrightarrow> n \<le> c + length tbl \<Longrightarrow>
         write_tbl_break H pObj tbl (OV5640_OK H, \<lparr>bus = ((c, t), x), log = l\<rparr>) =
           (OV5640_ERROR H, \<lparr>bus = ((n, t), True), log = l @ table_writes 0x78 (take (n - c) tbl)\<rparr>)"
proof (induction tbl arbitrary: c l x)
  case Nil
  then show ?case by simp
next
  case (Cons row rows)
  show ?case
  proof (cases "Suc c = n")
    case True
    then have "n - c = Suc 0" by simp
    with True bad show ?thesis
      by (simp add: nf_write [OF io bad] table_writes_def)
  next
    case False
    with Cons.prems have lt: "Suc c < n" "n \<le> Suc c + length rows" by auto
    then have tk: "n - c = Suc (n - Suc c)" by simp
    show ?thesis
      using Cons.IH [OF lt, of x "l @ [BusWrite 0x78 (fst row) (ucast (snd row))]"] False
      by (simp add: nf_write [OF io bad] table_writes_def tk)
  qed
qed

lemma nf_Delay:
  assumes io: "IO pObj = watch ok (nth_fail_io ok bad n True)"
  shows "OV5640_Delay H pObj 1 \<lparr>bus = ((c, t), x), log = l\<rparr> =
           Some (OV5640_OK H, \<lparr>bus = ((c, Suc (Suc t)), x), log = l\<rparr>)"
proof -
  have "Delay_wait pObj (of_nat t) 1 \<lparr>bus = ((c, Suc t), x), log = l\<rparr> =
          Some \<lparr>bus = ((c, Suc (Suc t)), x), log = l\<rparr>"
    by (subst Delay_wait.simps) (simp add: io watch_def nth_fail_io_def)
  then show ?thesis
    by (simp add: OV5640_Delay_def io watch_def nth_fail_io_def)
qed

lemma Delay_wait_stands:
  assumes inv: "\<And>b. I b \<Longrightarrow> fst (GetTick (IO pObj) b) = tickstart \<and> I (snd (GetTick (IO pObj) b))"
      and start: "I (bus w)"
      and ret: "Delay_wait pObj tickstart 1 w = Some w'"
  shows False
proof -
  have "\<not> (pObj = pObj \<and> tickstart = tickstart \<and> (1 :: u32) = 1 \<and> I (bus w))"
  proof (rule Delay_wait.raw_induct
      [where P = "\<lambda>p ts d w w'. \<not> (p = pObj \<and> ts = tickstart \<and> d = 1 \<and> I (bus w))", OF _ ret])
    fix f and p :: "'a OV5640_Object_t" and ts d :: u32 and w w' :: "'a world"
    assume IH: "\<And>p ts d w w'. f p ts d w = Some w' \<Longrightarrow>
                  \<not> (p = pObj \<and> ts = tickstart \<and> d = 1 \<and> I (bus w))"
      and step: "(case GetTick (IO p) (bus w) of
              (t, b) \<Rightarrow> if t - ts < d then f p ts d (w\<lparr>bus := b\<rparr>) else Some (w\<lparr>bus := b\<rparr>)) = Some w'"
    show "\<not> (p = pObj \<and> ts = tickstart \<and> d = 1 \<and> I (bus w))"
    proof
      assume e: "p = pObj \<and> ts = tickstart \<and> d = 1 \<and> I (bus w)"
      obtain t b where g: "GetTick (IO pObj) (bus w) = (t, b)"
        by (cases "GetTick (IO pObj) (bus w)") auto
      from inv [of "bus w"] e g have t: "t = tickstart" "I b" by simp_all
      from step e g t have "f pObj tickstart 1 (w\<lparr>bus := b\<rparr>) = Some w'"
        by (simp add: word_less_1_iff)
      from IH [OF this] t show False by simp
    qed
  qed
  with start show False by simp
qed

lemma nf_Delay_hangs:
  assumes io: "IO pObj = watch ok (nth_fail_io ok bad n False)"
  shows "OV5640_Delay H pObj 1 \<lparr>bus = ((c, t), x), log = l\<rparr> = None"
proof -
  have "Delay_wait pObj (of_nat t) 1 \<lparr>bus = ((c, t), x), log = l\<rparr> = None"
  proof (cases "Delay_wait pObj (of_nat t) 1 \<lparr>bus = ((c, t), x), log = l\<rparr>")
    case None
    then show ?thesis .
  next
    case (Some w')
    have False
      by (rule Delay_wait_stands [where I = "\<lambda>b. snd (fst b) = t", OF _ _ Some])
         (simp_all add: io watch_def nth_fail_io_def split: prod.splits)
    then show ?thesis ..
  qed
  then show ?thesis
    by (simp add: OV5640_Delay_def io watch_def nth_fail_io_def)
qed

subsection \<open>Init on a bus whose n-th write fails: the example header\<close>

lemma nf_handle:
  "IO (fresh_handle (watch 0 (nth_fail_io 0 (- 1) n s))) = watch (OV5640_OK example_h) (nth_fail_io (OV5640_OK example_h) (- 1) n s)"
  "(- 1 :: i32) \<noteq> OV5640_OK example_h" "OV5640_OK example_h \<noteq> OV5640_ERROR example_h" "OV5640_ERROR example_h \<noteq> OV5640_OK example_h"
  by (simp_all add: example_h_simps)

lemma nf_handle_fields:
  "IsInitialized (fresh_handle (watch 0 (nth_fail_io 0 (- 1) n s))) = 0" "Mode (fresh_handle (watch 0 (nth_fail_io 0 (- 1) n s))) \<noteq> SERIAL_MODE example_h"
  by (simp_all add: fresh_handle_def example_h_def)

lemma example_h_formats:
  "OV5640_R800x480 example_h = 4" "OV5640_RGB565 example_h = 0"
  "OV5640_R160x120 example_h = 0" "OV5640_R320x240 example_h = 1"
  "OV5640_R480x272 example_h = 2" "OV5640_R640x480 example_h = 3"
  "OV5640_YUV422 example_h = 2" "OV5640_RGB888 example_h = 1" "OV5640_Y8 example_h = 7"
  "OV5640_JPEG example_h = 8"
  by (simp_all add: example_h_def)

lemma table_lengths:
  "length (OV5640_Common H) = 246" "length (EnableDVPMode_regs H) = 10"
  "length (OV5640_WVGA H) = 4" "length (OV5640_PF_RGB565 H) = 2"
  by (simp_all add: OV5640_Common_def EnableDVPMode_regs_def OV5640_WVGA_def OV5640_PF_RGB565_def)

lemma nf_common:
  shows nf_common_pass: "n = 0 \<or> 246 < n \<Longrightarrow>
      write_tbl_guarded example_h (fresh_handle (watch 0 (nth_fail_io 0 (- 1) n s))) (OV5640_Common example_h) (OV5640_OK example_h, world0 ((0, 0), False)) =
        (OV5640_OK example_h, \<lparr>bus = ((246, 0), False), log = table_writes 0x78 (OV5640_Common example_h)\<rparr>)"
    and nf_common_fail: "0 < n \<Longrightarrow> n \<le> 246 \<Longrightarrow>
      write_tbl_guarded example_h (fresh_handle (watch 0 (nth_fail_io 0 (- 1) n s))) (OV5640_Common example_h) (OV5640_OK example_h, world0 ((0, 0), False)) =
        (OV5640_ERROR example_h, \<lparr>bus = ((n, 0), True), log = table_writes 0x78 (take n (OV5640_Common example_h))\<rparr>)"
  using nf_guarded_pass [OF nf_handle(1) [of n s] nf_handle(2,3), where c = 0 and t = 0 and x = False and l = "[]"
          and tbl = "OV5640_Common example_h"]
        nf_guarded_fail [OF nf_handle(1) [of n s] nf_handle(2,3), where c = 0 and t = 0 and x = False and l = "[]"
          and tbl = "OV5640_Common example_h"]
  by (auto simp add: table_lengths world0_def)

lemma nf_interface:
  shows nf_interface_pass: "n = 0 \<or> 256 < n \<Longrightarrow>
      Init_interface example_h (fresh_handle (watch 0 (nth_fail_io 0 (- 1) n s))) (OV5640_OK example_h, \<lparr>bus = ((246, 0), False), log = table_writes 0x78 (OV5640_Common example_h)\<rparr>) =
        (OV5640_OK example_h, \<lparr>bus = ((256, 0), False), log = table_writes 0x78 (OV5640_Common example_h)
                  @ table_writes 0x78 (EnableDVPMode_regs example_h)\<rparr>)"
    and nf_interface_fail: "246 < n \<Longrightarrow> n \<le> 256 \<Longrightarrow>
      Init_interface example_h (fresh_handle (watch 0 (nth_fail_io 0 (- 1) n s))) (OV5640_OK example_h, \<lparr>bus = ((246, 0), False), log = table_writes 0x78 (OV5640_Common example_h)\<rparr>) =
        (OV5640_ERROR example_h, \<lparr>bus = ((n, 0), True), log = table_writes 0x78 (OV5640_Common example_h)
                  @ table_writes 0x78 (take (n - 246) (EnableDVPMode_regs example_h))\<rparr>)"
  using nf_break_pass [OF nf_handle(1) [of n s] nf_handle(2), where c = 246 and t = 0 and x = False
          and l = "table_writes 0x78 (OV5640_Common example_h)"
          and tbl = "EnableDVPMode_regs example_h"]
        nf_break_fail [OF nf_handle(1) [of n s] nf_handle(2), where c = 246 and t = 0 and x = False
          and l = "table_writes 0x78 (OV5640_Common example_h)"
          and tbl = "EnableDVPMode_regs example_h"]
        nf_handle_fields(2) [of n s] nf_handle(4)
  by (auto simp add: table_lengths Init_interface_def OV5640_EnableDVPMode_def)

lemma nf_resolution:
  shows nf_resolution_pass: "n = 0 \<or> 260 < n \<Longrightarrow>
      OV5640_SetResolution example_h (fresh_handle (watch 0 (nth_fail_io 0 (- 1) n s))) 4
        \<lparr>bus = ((256, 0), False), log = table_writes 0x78 (OV5640_Common example_h)
                  @ table_writes 0x78 (EnableDVPMode_regs example_h)\<rparr> =
        (OV5640_OK example_h, \<lparr>bus = ((260, 0), False), log = table_writes 0x78 (OV5640_Common example_h)
                  @ table_writes 0x78 (EnableDVPMode_regs example_h)
                  @ table_writes 0x78 (OV5640_WVGA example_h)\<rparr>)"
    and nf_resolution_fail: "256 < n \<Longrightarrow> n \<le> 260 \<Longrightarrow>
      OV5640_SetResolution example_h (fresh_handle (watch 0 (nth_fail_io 0 (- 1) n s))) 4
        \<lparr>bus = ((256, 0), False), log = table_writes 0x78 (OV5640_Common example_h)
                  @ table_writes 0x78 (EnableDVPMode_regs example_h)\<rparr> =
        (OV5640_ERROR example_h, \<lparr>bus = ((n, 0), True), log = table_writes 0x78 (OV5640_Common example_h)
                  @ table_writes 0x78 (EnableDVPMode_regs example_h)
                  @ table_writes 0x78 (take (n - 256) (OV5640_WVGA example_h))\<rparr>)"
  using nf_guarded_pass [OF nf_handle(1) [of n s] nf_handle(2,3), where c = 256 and t = 0 and x = False
          and l = "table_writes 0x78 (OV5640_Common example_h)
                  @ table_writes 0x78 (EnableDVPMode_regs example_h)"
          and tbl = "OV5640_WVGA example_h"]
        nf_guarded_fail [OF nf_handle(1) [of n s] nf_handle(2,3), where c = 256 and t = 0 and x = False
          and l = "table_writes 0x78 (OV5640_Common example_h)
                  @ table_writes 0x78 (EnableDVPMode_regs example_h)"
          and tbl = "OV5640_WVGA example_h"]
  by (auto simp add: table_lengths OV5640_SetResolution_def example_h_formats)

lemma nf_format:
  shows nf_format_pass: "n = 0 \<or> 262 < n \<Longrightarrow>
      OV5640_SetPixelFormat example_h (fresh_handle (watch 0 (nth_fail_io 0 (- 1) n True))) 0
        \<lparr>bus = ((260, 0), False), log = table_writes 0x78 (OV5640_Common example_h)
                  @ table_writes 0x78 (EnableDVPMode_regs example_h)
                  @ table_writes 0x78 (OV5640_WVGA example_h)\<rparr> =
        Some (OV5640_OK example_h, \<lparr>bus = ((262, 4), False), log = table_writes 0x78 (OV5640_Common example_h)
                  @ table_writes 0x78 (EnableDVPMode_regs example_h)
                  @ table_writes 0x78 (OV5640_WVGA example_h)
                  @ table_writes 0x78 (OV5640_PF_RGB565 example_h)\<rparr>)"
    and nf_format_fail: "n = 261 \<Longrightarrow>
      OV5640_SetPixelFormat example_h (fresh_handle (watch 0 (nth_fail_io 0 (- 1) n True))) 0
        \<lparr>bus = ((260, 0), False), log = table_writes 0x78 (OV5640_Common example_h)
                  @ table_writes 0x78 (EnableDVPMode_regs example_h)
                  @ table_writes 0x78 (OV5640_WVGA example_h)\<rparr> =
        Some (OV5640_ERROR example_h, \<lparr>bus = ((261, 0), True), log = table_writes 0x78 (OV5640_Common example_h)
                  @ table_writes 0x78 (EnableDVPMode_regs example_h)
                  @ table_writes 0x78 (OV5640_WVGA example_h)
                  @ table_writes 0x78 (take 1 (OV5640_PF_RGB565 example_h))\<rparr>)"
    and nf_format_hangs: "n = 0 \<or> 261 < n \<Longrightarrow>
      OV5640_SetPixelFormat example_h (fresh_handle (watch 0 (nth_fail_io 0 (- 1) n False))) 0
        \<lparr>bus = ((260, 0), False), log = table_writes 0x78 (OV5640_Common example_h)
                  @ table_writes 0x78 (EnableDVPMode_regs example_h)
                  @ table_writes 0x78 (OV5640_WVGA example_h)\<rparr> = None"
proof -
  note w1 = nf_write [OF nf_handle(1) nf_handle(2)]
  note w0 = nf_write [OF nf_handle(1) nf_handle(2)]
  note d1 = nf_Delay [OF nf_handle(1), where H = example_h]
  note d0 = nf_Delay_hangs [OF nf_handle(1), where H = example_h]
  show "OV5640_SetPixelFormat example_h (fresh_handle (watch 0 (nth_fail_io 0 (- 1) n True))) 0
        \<lparr>bus = ((260, 0), False), log = table_writes 0x78 (OV5640_Common example_h)
                  @ table_writes 0x78 (EnableDVPMode_regs example_h)
                  @ table_writes 0x78 (OV5640_WVGA example_h)\<rparr> =
        Some (OV5640_OK example_h, \<lparr>bus = ((262, 4), False), log = table_writes 0x78 (OV5640_Common example_h)
                  @ table_writes 0x78 (EnableDVPMode_regs example_h)
                  @ table_writes 0x78 (OV5640_WVGA example_h)
                  @ table_writes 0x78 (OV5640_PF_RGB565 example_h)\<rparr>)"
    if "n = 0 \<or> 262 < n"
    using that nf_handle(3)
    by (auto simp add: OV5640_SetPixelFormat_def example_h_formats OV5640_PF_RGB565_def
          table_writes_def w1 d1)
  show "OV5640_SetPixelFormat example_h (fresh_handle (watch 0 (nth_fail_io 0 (- 1) n True))) 0
        \<lparr>bus = ((260, 0), False), log = table_writes 0x78 (OV5640_Common example_h)
                  @ table_writes 0x78 (EnableDVPMode_regs example_h)
                  @ table_writes 0x78 (OV5640_WVGA example_h)\<rparr> =
        Some (OV5640_ERROR example_h, \<lparr>bus = ((261, 0), True), log = table_writes 0x78 (OV5640_Common example_h)
                  @ table_writes 0x78 (EnableDVPMode_regs example_h)
                  @ table_writes 0x78 (OV5640_WVGA example_h)
                  @ table_writes 0x78 (take 1 (OV5640_PF_RGB565 example_h))\<rparr>)"
    if "n = 261"
    using that nf_handle(2,3,4)
    by (simp add: OV5640_SetPixelFormat_def example_h_formats OV5640_PF_RGB565_def
          table_writes_def w1 d1)
  show "OV5640_SetPixelFormat example_h (fresh_handle (watch 0 (nth_fail_io 0 (- 1) n False))) 0
        \<lparr>bus = ((260, 0), False), log = table_writes 0x78 (OV5640_Common example_h)
                  @ table_writes 0x78 (EnableDVPMode_regs example_h)
                  @ table_writes 0x78 (OV5640_WVGA example_h)\<rparr> = None"
    if "n = 0 \<or> 261 < n"
    using that nf_handle(3)
    by (auto simp add: OV5640_SetPixelFormat_def example_h_formats OV5640_PF_RGB565_def
          table_writes_def w0 d0)
qed

lemma nf_polarities:
  shows nf_polarities_pass: "n = 0 \<or> 263 < n \<Longrightarrow>
      OV5640_SetPolarities example_h (Some (fresh_handle (watch 0 (nth_fail_io 0 (- 1) n s)))) (OV5640_POLARITY_PCLK_HIGH example_h) (OV5640_POLARITY_HREF_HIGH example_h) (OV5640_POLARITY_VSYNC_HIGH example_h)
        \<lparr>bus = ((262, 4), False), log = table_writes 0x78 (OV5640_Common example_h)
                  @ table_writes 0x78 (EnableDVPMode_regs example_h)
                  @ table_writes 0x78 (OV5640_WVGA example_h)
                  @ table_writes 0x78 (OV5640_PF_RGB565 example_h)\<rparr> =
        (OV5640_OK example_h, \<lparr>bus = ((263, 4), False), log = table_writes 0x78 (OV5640_Common example_h)
                  @ table_writes 0x78 (EnableDVPMode_regs example_h)
                  @ table_writes 0x78 (OV5640_WVGA example_h)
                  @ table_writes 0x78 (OV5640_PF_RGB565 example_h)
                  @ [BusWrite 0x78 0x4740 0x23]\<rparr>)"
    and nf_polarities_fail: "n = 263 \<Longrightarrow>
      OV5640_SetPolarities example_h (Some (fresh_handle (watch 0 (nth_fail_io 0 (- 1) n s)))) (OV5640_POLARITY_PCLK_HIGH example_h) (OV5640_POLARITY_HREF_HIGH example_h) (OV5640_POLARITY_VSYNC_HIGH example_h)
        \<lparr>bus = ((262, 4), False), log = table_writes 0x78 (OV5640_Common example_h)
                  @ table_writes 0x78 (EnableDVPMode_regs example_h)
                  @ table_writes 0x78 (OV5640_WVGA example_h)
                  @ table_writes 0x78 (OV5640_PF_RGB565 example_h)\<rparr> =
        (OV5640_ERROR example_h, \<lparr>bus = ((263, 4), True), log = table_writes 0x78 (OV5640_Common example_h)
                  @ table_writes 0x78 (EnableDVPMode_regs example_h)
                  @ table_writes 0x78 (OV5640_WVGA example_h)
                  @ table_writes 0x78 (OV5640_PF_RGB565 example_h)
                  @ [BusWrite 0x78 0x4740 0x23]\<rparr>)"
  using nf_handle(2,4)
  by (auto simp add: OV5640_SetPolarities_def example_h_simps example_regs_simps
        nf_write [OF nf_handle(1) nf_handle(2), unfolded example_h_simps])

text \<open>
  C4. For a handle whose \<^verbatim>\<open>IsInitialized\<close> is 0:

  \<^item> When \<^verbatim>\<open>Resolution\<close> exceeds \<^verbatim>\<open>OV5640_R800x480\<close> or \<^verbatim>\<open>PixelFormat\<close> is none of RGB565,
    YUV422, RGB888, Y8 and JPEG, \<^verbatim>\<open>OV5640_Init\<close> returns \<^verbatim>\<open>OV5640_ERROR\<close> with the handle and
    the world (log included) as they were, so without any bus access.
  \<^item> \<^verbatim>\<open>OV5640_OK\<close> and \<^verbatim>\<open>OV5640_ERROR\<close> being different codes, whenever the call returns,
    the handle it leaves has \<^verbatim>\<open>IsInitialized = 1\<close> exactly when the status is \<^verbatim>\<open>OV5640_OK\<close>;
    otherwise the status is \<^verbatim>\<open>OV5640_ERROR\<close> and the handle is unchanged (the flag stays 0).
  \<^item> Step by step, for valid arguments. The steps are, in this order, the common table, the
    configuration of the interface, \<^verbatim>\<open>OV5640_SetResolution\<close>, \<^verbatim>\<open>OV5640_SetPixelFormat\<close> and
    \<^verbatim>\<open>OV5640_SetPolarities\<close>. When the steps before it have returned \<^verbatim>\<open>OV5640_OK\<close> and a
    step returns another status, \<^verbatim>\<open>OV5640_Init\<close> returns \<^verbatim>\<open>OV5640_ERROR\<close> with the handle
    unchanged and the world as that step left it: no later step runs and the flag stays
    0. When all five return \<^verbatim>\<open>OV5640_OK\<close>, it returns \<^verbatim>\<open>OV5640_OK\<close> with the flag set. When a
    delay of the pixel-format step never ends, the call does not return.
  \<^item> On a watched bus whose flag is down at the call: if the flag is up at the return (a
    register access of the call has failed), the status is \<^verbatim>\<open>OV5640_ERROR\<close> and the handle
    is unchanged; if it is still down, \<^verbatim>\<open>Resolution\<close> is one of the five resolutions of the
    header and \<^verbatim>\<open>PixelFormat\<close> one of the five formats, the status is \<^verbatim>\<open>OV5640_OK\<close> and the
    flag of the handle is set.
  \<^item> The call returns whenever the tick of the bus, read again and again from any state,
    eventually differs from its first value.
\<close>

theorem Init_validates_and_flags:
  "(IsInitialized pObj = 0
      \<and> (Resolution > OV5640_R800x480 H
           \<or> (PixelFormat \<noteq> OV5640_RGB565 H \<and> PixelFormat \<noteq> OV5640_YUV422 H
               \<and> PixelFormat \<noteq> OV5640_RGB888 H \<and> PixelFormat \<noteq> OV5640_Y8 H
               \<and> PixelFormat \<noteq> OV5640_JPEG H))
      \<longrightarrow> OV5640_Init H pObj Resolution PixelFormat w = Some (OV5640_ERROR H, pObj, w))
   \<and> (OV5640_OK H \<noteq> OV5640_ERROR H \<and> IsInitialized pObj = 0
        \<and> OV5640_Init H pObj Resolution PixelFormat w = Some (ret, pObj', w')
      \<longrightarrow> (IsInitialized pObj' = 1 \<longleftrightarrow> ret = OV5640_OK H)
          \<and> (ret \<noteq> OV5640_OK H \<longrightarrow> ret = OV5640_ERROR H \<and> pObj' = pObj)
          \<and> (ret = OV5640_OK H \<longrightarrow> pObj' = pObj\<lparr>IsInitialized := 1\<rparr>))
   \<and> (IsInitialized pObj = 0 \<and> Resolution \<le> OV5640_R800x480 H
        \<and> (PixelFormat = OV5640_RGB565 H \<or> PixelFormat = OV5640_YUV422 H
             \<or> PixelFormat = OV5640_RGB888 H \<or> PixelFormat = OV5640_Y8 H
             \<or> PixelFormat = OV5640_JPEG H)
      \<longrightarrow> (write_tbl_guarded H pObj (OV5640_Common H) (OV5640_OK H, w) = (ra, wa)
             \<and> ra \<noteq> OV5640_OK H
           \<longrightarrow> OV5640_Init H pObj Resolution PixelFormat w = Some (OV5640_ERROR H, pObj, wa))
        \<and> (write_tbl_guarded H pObj (OV5640_Common H) (OV5640_OK H, w) = (OV5640_OK H, wa)
             \<and> Init_interface H pObj (OV5640_OK H, wa) = (rb, wb) \<and> rb \<noteq> OV5640_OK H
           \<longrightarrow> OV5640_Init H pObj Resolution PixelFormat w = Some (OV5640_ERROR H, pObj, wb))
        \<and> (Init_interface H pObj (write_tbl_guarded H pObj (OV5640_Common H) (OV5640_OK H, w))
               = (OV5640_OK H, wb)
             \<and> OV5640_SetResolution H pObj Resolution wb = (rc, wc) \<and> rc \<noteq> OV5640_OK H
           \<longrightarrow> OV5640_Init H pObj Resolution PixelFormat w = Some (OV5640_ERROR H, pObj, wc))
        \<and> (Init_interface H pObj (write_tbl_guarded H pObj (OV5640_Common H) (OV5640_OK H, w))
               = (OV5640_OK H, wb)
             \<and> OV5640_SetResolution H pObj Resolution wb = (OV5640_OK H, wc)
             \<and> OV5640_SetPixelFormat H pObj PixelFormat wc = Some (rd, wd) \<and> rd \<noteq> OV5640_OK H
           \<longrightarrow> OV5640_Init H pObj Resolution PixelFormat w = Some (OV5640_ERROR H, pObj, wd))
        \<and> (Init_interface H pObj (write_tbl_guarded H pObj (OV5640_Common H) (OV5640_OK H, w))
               = (OV5640_OK H, wb)
             \<and> OV5640_SetResolution H pObj Resolution wb = (OV5640_OK H, wc)
             \<and> OV5640_SetPixelFormat H pObj PixelFormat wc = None
           \<longrightarrow> OV5640_Init H pObj Resolution PixelFormat w = None)
        \<and> (Init_interface H pObj (write_tbl_guarded H pObj (OV5640_Common H) (OV5640_OK H, w))
               = (OV5640_OK H, wb)
             \<and> OV5640_SetResolution H pObj Resolution wb = (OV5640_OK H, wc)
             \<and> OV5640_SetPixelFormat H pObj PixelFormat wc = Some (OV5640_OK H, wd)
             \<and> OV5640_SetPolarities H (Some pObj) (OV5640_POLARITY_PCLK_HIGH H)
                 (OV5640_POLARITY_HREF_HIGH H) (OV5640_POLARITY_VSYNC_HIGH H) wd = (re, we)
             \<and> re \<noteq> OV5640_OK H
           \<longrightarrow> OV5640_Init H pObj Resolution PixelFormat w = Some (OV5640_ERROR H, pObj, we))
        \<and> (Init_interface H pObj (write_tbl_guarded H pObj (OV5640_Common H) (OV5640_OK H, w))
               = (OV5640_OK H, wb)
             \<and> OV5640_SetResolution H pObj Resolution wb = (OV5640_OK H, wc)
             \<and> OV5640_SetPixelFormat H pObj PixelFormat wc = Some (OV5640_OK H, wd)
             \<and> OV5640_SetPolarities H (Some pObj) (OV5640_POLARITY_PCLK_HIGH H)
                 (OV5640_POLARITY_HREF_HIGH H) (OV5640_POLARITY_VSYNC_HIGH H) wd = (OV5640_OK H, we)
           \<longrightarrow> OV5640_Init H pObj Resolution PixelFormat w
                 = Some (OV5640_OK H, pObj\<lparr>IsInitialized := 1\<rparr>, we)))
   \<and> (OV5640_OK H \<noteq> OV5640_ERROR H \<and> IsInitialized pObjF = 0
        \<and> IO pObjF = watch (OV5640_OK H) io \<and> \<not> snd (bus wF)
        \<and> OV5640_Init H pObjF Resolution PixelFormat wF = Some (retF, pObjF', wF')
      \<longrightarrow> (snd (bus wF') \<longrightarrow> retF = OV5640_ERROR H \<and> pObjF' = pObjF)
          \<and> (\<not> snd (bus wF') \<and> Resolution \<le> OV5640_R800x480 H
               \<and> (Resolution = OV5640_R160x120 H \<or> Resolution = OV5640_R320x240 H
                    \<or> Resolution = OV5640_R480x272 H \<or> Resolution = OV5640_R640x480 H
                    \<or> Resolution = OV5640_R800x480 H)
               \<and> (PixelFormat = OV5640_RGB565 H \<or> PixelFormat = OV5640_YUV422 H
                    \<or> PixelFormat = OV5640_RGB888 H \<or> PixelFormat = OV5640_Y8 H
                    \<or> PixelFormat = OV5640_JPEG H)
             \<longrightarrow> retF = OV5640_OK H \<and> pObjF' = pObjF\<lparr>IsInitialized := 1\<rparr>))
   \<and> ((\<forall>b. \<exists>n. tick_after pObj (Suc n) b \<noteq> tick_after pObj 0 b)
      \<longrightarrow> (\<exists>res. OV5640_Init H pObj Resolution PixelFormat w = Some res))"
proof -
  have validation: "IsInitialized pObj = 0
      \<and> (Resolution > OV5640_R800x480 H
           \<or> (PixelFormat \<noteq> OV5640_RGB565 H \<and> PixelFormat \<noteq> OV5640_YUV422 H
               \<and> PixelFormat \<noteq> OV5640_RGB888 H \<and> PixelFormat \<noteq> OV5640_Y8 H
               \<and> PixelFormat \<noteq> OV5640_JPEG H))
      \<longrightarrow> OV5640_Init H pObj Resolution PixelFormat w = Some (OV5640_ERROR H, pObj, w)"
    using Init_rejects [where pObj = pObj and Resolution = Resolution and H = H
          and PixelFormat = PixelFormat and w = w]
    by blast
  have flagged: "OV5640_OK H \<noteq> OV5640_ERROR H \<and> IsInitialized pObj = 0
        \<and> OV5640_Init H pObj Resolution PixelFormat w = Some (ret, pObj', w')
      \<longrightarrow> (IsInitialized pObj' = 1 \<longleftrightarrow> ret = OV5640_OK H)
          \<and> (ret \<noteq> OV5640_OK H \<longrightarrow> ret = OV5640_ERROR H \<and> pObj' = pObj)
          \<and> (ret = OV5640_OK H \<longrightarrow> pObj' = pObj\<lparr>IsInitialized := 1\<rparr>)"
    using Init_flag [where pObj = pObj and Resolution = Resolution and H = H
          and PixelFormat = PixelFormat and w = w and ret = ret and pObj' = pObj' and w' = w']
    by blast
  have steps: "IsInitialized pObj = 0 \<and> Resolution \<le> OV5640_R800x480 H
        \<and> (PixelFormat = OV5640_RGB565 H \<or> PixelFormat = OV5640_YUV422 H
             \<or> PixelFormat = OV5640_RGB888 H \<or> PixelFormat = OV5640_Y8 H
             \<or> PixelFormat = OV5640_JPEG H)
      \<longrightarrow> (write_tbl_guarded H pObj (OV5640_Common H) (OV5640_OK H, w) = (ra, wa)
             \<and> ra \<noteq> OV5640_OK H
           \<longrightarrow> OV5640_Init H pObj Resolution PixelFormat w = Some (OV5640_ERROR H, pObj, wa))
        \<and> (write_tbl_guarded H pObj (OV5640_Common H) (OV5640_OK H, w) = (OV5640_OK H, wa)
             \<and> Init_interface H pObj (OV5640_OK H, wa) = (rb, wb) \<and> rb \<noteq> OV5640_OK H
           \<longrightarrow> OV5640_Init H pObj Resolution PixelFormat w = Some (OV5640_ERROR H, pObj, wb))
        \<and> (Init_interface H pObj (write_tbl_guarded H pObj (OV5640_Common H) (OV5640_OK H, w))
               = (OV5640_OK H, wb)
             \<and> OV5640_SetResolution H pObj Resolution wb = (rc, wc) \<and> rc \<noteq> OV5640_OK H
           \<longrightarrow> OV5640_Init H pObj Resolution PixelFormat w = Some (OV5640_ERROR H, pObj, wc))
        \<and> (Init_interface H pObj (write_tbl_guarded H pObj (OV5640_Common H) (OV5640_OK H, w))
               = (OV5640_OK H, wb)
             \<and> OV5640_SetResolution H pObj Resolution wb = (OV5640_OK H, wc)
             \<and> OV5640_SetPixelFormat H pObj PixelFormat wc = Some (rd, wd) \<and> rd \<noteq> OV5640_OK H
           \<longrightarrow> OV5640_Init H pObj Resolution PixelFormat w = Some (OV5640_ERROR H, pObj, wd))
        \<and> (Init_interface H pObj (write_tbl_guarded H pObj (OV5640_Common H) (OV5640_OK H, w))
               = (OV5640_OK H, wb)
             \<and> OV5640_SetResolution H pObj Resolution wb = (OV5640_OK H, wc)
             \<and> OV5640_SetPixelFormat H pObj PixelFormat wc = None
           \<longrightarrow> OV5640_Init H pObj Resolution PixelFormat w = None)
        \<and> (Init_interface H pObj (write_tbl_guarded H pObj (OV5640_Common H) (OV5640_OK H, w))
               = (OV5640_OK H, wb)
             \<and> OV5640_SetResolution H pObj Resolution wb = (OV5640_OK H, wc)
             \<and> OV5640_SetPixelFormat H pObj PixelFormat wc = Some (OV5640_OK H, wd)
             \<and> OV5640_SetPolarities H (Some pObj) (OV5640_POLARITY_PCLK_HIGH H)
                 (OV5640_POLARITY_HREF_HIGH H) (OV5640_POLARITY_VSYNC_HIGH H) wd = (re, we)
             \<and> re \<noteq> OV5640_OK H
           \<longrightarrow> OV5640_Init H pObj Resolution PixelFormat w = Some (OV5640_ERROR H, pObj, we))
        \<and> (Init_interface H pObj (write_tbl_guarded H pObj (OV5640_Common H) (OV5640_OK H, w))
               = (OV5640_OK H, wb)
             \<and> OV5640_SetResolution H pObj Resolution wb = (OV5640_OK H, wc)
             \<and> OV5640_SetPixelFormat H pObj PixelFormat wc = Some (OV5640_OK H, wd)
             \<and> OV5640_SetPolarities H (Some pObj) (OV5640_POLARITY_PCLK_HIGH H)
                 (OV5640_POLARITY_HREF_HIGH H) (OV5640_POLARITY_VSYNC_HIGH H) wd = (OV5640_OK H, we)
           \<longrightarrow> OV5640_Init H pObj Resolution PixelFormat w
                 = Some (OV5640_OK H, pObj\<lparr>IsInitialized := 1\<rparr>, we))"
  proof (intro impI, elim conjE)
    assume flag: "IsInitialized pObj = 0" and res: "Resolution \<le> OV5640_R800x480 H"
      and fmt: "PixelFormat = OV5640_RGB565 H \<or> PixelFormat = OV5640_YUV422 H
             \<or> PixelFormat = OV5640_RGB888 H \<or> PixelFormat = OV5640_Y8 H
             \<or> PixelFormat = OV5640_JPEG H"
    from res fmt have valid: "\<not> (Resolution > OV5640_R800x480 H
            \<or> (PixelFormat \<noteq> OV5640_RGB565 H \<and> PixelFormat \<noteq> OV5640_YUV422 H
                \<and> PixelFormat \<noteq> OV5640_RGB888 H \<and> PixelFormat \<noteq> OV5640_Y8 H
                \<and> PixelFormat \<noteq> OV5640_JPEG H))"
      by auto
    note st = Init_steps [OF flag valid]
    show "(write_tbl_guarded H pObj (OV5640_Common H) (OV5640_OK H, w) = (ra, wa)
             \<and> ra \<noteq> OV5640_OK H
           \<longrightarrow> OV5640_Init H pObj Resolution PixelFormat w = Some (OV5640_ERROR H, pObj, wa))
        \<and> (write_tbl_guarded H pObj (OV5640_Common H) (OV5640_OK H, w) = (OV5640_OK H, wa)
             \<and> Init_interface H pObj (OV5640_OK H, wa) = (rb, wb) \<and> rb \<noteq> OV5640_OK H
           \<longrightarrow> OV5640_Init H pObj Resolution PixelFormat w = Some (OV5640_ERROR H, pObj, wb))
        \<and> (Init_interface H pObj (write_tbl_guarded H pObj (OV5640_Common H) (OV5640_OK H, w))
               = (OV5640_OK H, wb)
             \<and> OV5640_SetResolution H pObj Resolution wb = (rc, wc) \<and> rc \<noteq> OV5640_OK H
           \<longrightarrow> OV5640_Init H pObj Resolution PixelFormat w = Some (OV5640_ERROR H, pObj, wc))
        \<and> (Init_interface H pObj (write_tbl_guarded H pObj (OV5640_Common H) (OV5640_OK H, w))
               = (OV5640_OK H, wb)
             \<and> OV5640_SetResolution H pObj Resolution wb = (OV5640_OK H, wc)
             \<and> OV5640_SetPixelFormat H pObj PixelFormat wc = Some (rd, wd) \<and> rd \<noteq> OV5640_OK H
           \<longrightarrow> OV5640_Init H pObj Resolution PixelFormat w = Some (OV5640_ERROR H, pObj, wd))
        \<and> (Init_interface H pObj (write_tbl_guarded H pObj (OV5640_Common H) (OV5640_OK H, w))
               = (OV5640_OK H, wb)
             \<and> OV5640_SetResolution H pObj Resolution wb = (OV5640_OK H, wc)
             \<and> OV5640_SetPixelFormat H pObj PixelFormat wc = None
           \<longrightarrow> OV5640_Init H pObj Resolution PixelFormat w = None)
        \<and> (Init_interface H pObj (write_tbl_guarded H pObj (OV5640_Common H) (OV5640_OK H, w))
               = (OV5640_OK H, wb)
             \<and> OV5640_SetResolution H pObj Resolution wb = (OV5640_OK H, wc)
             \<and> OV5640_SetPixelFormat H pObj PixelFormat wc = Some (OV5640_OK H, wd)
             \<and> OV5640_SetPolarities H (Some pObj) (OV5640_POLARITY_PCLK_HIGH H)
                 (OV5640_POLARITY_HREF_HIGH H) (OV5640_POLARITY_VSYNC_HIGH H) wd = (re, we)
             \<and> re \<noteq> OV5640_OK H
           \<longrightarrow> OV5640_Init H pObj Resolution PixelFormat w = Some (OV5640_ERROR H, pObj, we))
        \<and> (Init_interface H pObj (write_tbl_guarded H pObj (OV5640_Common H) (OV5640_OK H, w))
               = (OV5640_OK H, wb)
             \<and> OV5640_SetResolution H pObj Resolution wb = (OV5640_OK H, wc)
             \<and> OV5640_SetPixelFormat H pObj PixelFormat wc = Some (OV5640_OK H, wd)
             \<and> OV5640_SetPolarities H (Some pObj) (OV5640_POLARITY_PCLK_HIGH H)
                 (OV5640_POLARITY_HREF_HIGH H) (OV5640_POLARITY_VSYNC_HIGH H) wd = (OV5640_OK H, we)
           \<longrightarrow> OV5640_Init H pObj Resolution PixelFormat w
                 = Some (OV5640_OK H, pObj\<lparr>IsInitialized := 1\<rparr>, we))"
      apply (intro conjI impI; elim conjE)
            apply (erule (1) st(1))
           apply (erule (2) st(2))
          apply (erule (2) st(3))
         apply (erule (3) st(4))
        apply (erule (2) st(5))
       apply (erule (4) st(6))
      apply (erule (3) st(7))
      done
  qed
  have watched: "OV5640_OK H \<noteq> OV5640_ERROR H \<and> IsInitialized pObjF = 0
        \<and> IO pObjF = watch (OV5640_OK H) io \<and> \<not> snd (bus wF)
        \<and> OV5640_Init H pObjF Resolution PixelFormat wF = Some (retF, pObjF', wF')
      \<longrightarrow> (snd (bus wF') \<longrightarrow> retF = OV5640_ERROR H \<and> pObjF' = pObjF)
          \<and> (\<not> snd (bus wF') \<and> Resolution \<le> OV5640_R800x480 H
               \<and> (Resolution = OV5640_R160x120 H \<or> Resolution = OV5640_R320x240 H
                    \<or> Resolution = OV5640_R480x272 H \<or> Resolution = OV5640_R640x480 H
                    \<or> Resolution = OV5640_R800x480 H)
               \<and> (PixelFormat = OV5640_RGB565 H \<or> PixelFormat = OV5640_YUV422 H
                    \<or> PixelFormat = OV5640_RGB888 H \<or> PixelFormat = OV5640_Y8 H
                    \<or> PixelFormat = OV5640_JPEG H)
             \<longrightarrow> retF = OV5640_OK H \<and> pObjF' = pObjF\<lparr>IsInitialized := 1\<rparr>)"
  proof (intro impI, elim conjE)
    assume a: "OV5640_OK H \<noteq> OV5640_ERROR H" "IsInitialized pObjF = 0"
      "IO pObjF = watch (OV5640_OK H) io" "\<not> snd (bus wF)"
      "OV5640_Init H pObjF Resolution PixelFormat wF = Some (retF, pObjF', wF')"
    show "(snd (bus wF') \<longrightarrow> retF = OV5640_ERROR H \<and> pObjF' = pObjF)
          \<and> (\<not> snd (bus wF') \<and> Resolution \<le> OV5640_R800x480 H
               \<and> (Resolution = OV5640_R160x120 H \<or> Resolution = OV5640_R320x240 H
                    \<or> Resolution = OV5640_R480x272 H \<or> Resolution = OV5640_R640x480 H
                    \<or> Resolution = OV5640_R800x480 H)
               \<and> (PixelFormat = OV5640_RGB565 H \<or> PixelFormat = OV5640_YUV422 H
                    \<or> PixelFormat = OV5640_RGB888 H \<or> PixelFormat = OV5640_Y8 H
                    \<or> PixelFormat = OV5640_JPEG H)
             \<longrightarrow> retF = OV5640_OK H \<and> pObjF' = pObjF\<lparr>IsInitialized := 1\<rparr>)"
      by (rule watch_Init [OF a(3) a(1) a(2) a(4) a(5)])
  qed
  have returns: "(\<forall>b. \<exists>n. tick_after pObj (Suc n) b \<noteq> tick_after pObj 0 b)
      \<longrightarrow> (\<exists>res. OV5640_Init H pObj Resolution PixelFormat w = Some res)"
    using Init_returns [of pObj H Resolution PixelFormat w] by blast
  show ?thesis
    apply (intro conjI)
        apply (rule validation)
       apply (rule flagged)
      apply (rule steps)
     apply (rule watched)
    apply (rule returns)
    done
qed

text \<open>
  The runs behind the theorem, on the stub whose \<open>n\<close>-th write fails, for the resolution
  800x480 and RGB565 in parallel mode: a resolution out of range; a failure of the first
  write of the common table (\<open>n = 1\<close>), of the interface configuration (\<open>n = 247\<close>), of
  \<^verbatim>\<open>OV5640_SetResolution\<close> (\<open>n = 257\<close>), of \<^verbatim>\<open>OV5640_SetPixelFormat\<close> (\<open>n = 261\<close>) and of the
  write of \<^verbatim>\<open>OV5640_SetPolarities\<close> (\<open>n = 263\<close>, the last write of the call), each of which
  gives \<^verbatim>\<open>OV5640_ERROR\<close>, the handle unchanged and no write after the failed one; a tick
  that stands still, where the call does not return; and a bus without failure, where the
  call returns \<^verbatim>\<open>OV5640_OK\<close> after 263 writes with the flag set.
\<close>

theorem Init_validates_and_flags_witness:
  "OV5640_OK example_h \<noteq> OV5640_ERROR example_h
   \<and> IsInitialized (fresh_handle (watch 0 (nth_fail_io 0 (- 1) 0 True))) = 0
   \<and> (5 :: u32) > OV5640_R800x480 example_h
   \<and> OV5640_Init example_h (fresh_handle (watch 0 (nth_fail_io 0 (- 1) 0 True))) 5 0 (world0 ((0, 0), False)) =
       Some (OV5640_ERROR example_h, fresh_handle (watch 0 (nth_fail_io 0 (- 1) 0 True)), world0 ((0, 0), False))
   \<and> OV5640_Init example_h (fresh_handle (watch 0 (nth_fail_io 0 (- 1) 1 True))) 4 0 (world0 ((0, 0), False)) =
       Some (OV5640_ERROR example_h, fresh_handle (watch 0 (nth_fail_io 0 (- 1) 1 True)),
             \<lparr>bus = ((1, 0), True), log = table_writes 0x78 (take 1 (OV5640_Common example_h))\<rparr>)
   \<and> OV5640_Init example_h (fresh_handle (watch 0 (nth_fail_io 0 (- 1) 247 True))) 4 0 (world0 ((0, 0), False)) =
       Some (OV5640_ERROR example_h, fresh_handle (watch 0 (nth_fail_io 0 (- 1) 247 True)),
             \<lparr>bus = ((247, 0), True), log = table_writes 0x78 (OV5640_Common example_h)
                  @ table_writes 0x78 (take 1 (EnableDVPMode_regs example_h))\<rparr>)
   \<and> OV5640_Init example_h (fresh_handle (watch 0 (nth_fail_io 0 (- 1) 257 True))) 4 0 (world0 ((0, 0), False)) =
       Some (OV5640_ERROR example_h, fresh_handle (watch 0 (nth_fail_io 0 (- 1) 257 True)),
             \<lparr>bus = ((257, 0), True), log = table_writes 0x78 (OV5640_Common example_h)
                  @ table_writes 0x78 (EnableDVPMode_regs example_h)
                  @ table_writes 0x78 (take 1 (OV5640_WVGA example_h))\<rparr>)
   \<and> OV5640_Init example_h (fresh_handle (watch 0 (nth_fail_io 0 (- 1) 261 True))) 4 0 (world0 ((0, 0), False)) =
       Some (OV5640_ERROR example_h, fresh_handle (watch 0 (nth_fail_io 0 (- 1) 261 True)),
             \<lparr>bus = ((261, 0), True), log = table_writes 0x78 (OV5640_Common example_h)
                  @ table_writes 0x78 (EnableDVPMode_regs example_h)
                  @ table_writes 0x78 (OV5640_WVGA example_h)
                  @ table_writes 0x78 (take 1 (OV5640_PF_RGB565 example_h))\<rparr>)
   \<and> OV5640_Init example_h (fresh_handle (watch 0 (nth_fail_io 0 (- 1) 0 False))) 4 0 (world0 ((0, 0), False)) = None
   \<and> OV5640_SetPolarities example_h (Some (fresh_handle (watch 0 (nth_fail_io 0 (- 1) 263 True)))) (OV5640_POLARITY_PCLK_HIGH example_h) (OV5640_POLARITY_HREF_HIGH example_h) (OV5640_POLARITY_VSYNC_HIGH example_h)
        \<lparr>bus = ((262, 4), False), log = table_writes 0x78 (OV5640_Common example_h)
                  @ table_writes 0x78 (EnableDVPMode_regs example_h)
                  @ table_writes 0x78 (OV5640_WVGA example_h)
                  @ table_writes 0x78 (OV5640_PF_RGB565 example_h)\<rparr> =
       (OV5640_ERROR example_h, \<lparr>bus = ((263, 4), True), log = table_writes 0x78 (OV5640_Common example_h)
                  @ table_writes 0x78 (EnableDVPMode_regs example_h)
                  @ table_writes 0x78 (OV5640_WVGA example_h)
                  @ table_writes 0x78 (OV5640_PF_RGB565 example_h)
                  @ [BusWrite 0x78 0x4740 0x23]\<rparr>)
   \<and> OV5640_Init example_h (fresh_handle (watch 0 (nth_fail_io 0 (- 1) 263 True))) 4 0 (world0 ((0, 0), False)) =
       Some (OV5640_ERROR example_h, fresh_handle (watch 0 (nth_fail_io 0 (- 1) 263 True)),
             \<lparr>bus = ((263, 4), True), log = table_writes 0x78 (OV5640_Common example_h)
                  @ table_writes 0x78 (EnableDVPMode_regs example_h)
                  @ table_writes 0x78 (OV5640_WVGA example_h)
                  @ table_writes 0x78 (OV5640_PF_RGB565 example_h)
                  @ [BusWrite 0x78 0x4740 0x23]\<rparr>)
   \<and> OV5640_Init example_h (fresh_handle (watch 0 (nth_fail_io 0 (- 1) 0 True))) 4 0 (world0 ((0, 0), False)) =
       Some (OV5640_OK example_h, fresh_handle (watch 0 (nth_fail_io 0 (- 1) 0 True))\<lparr>IsInitialized := 1\<rparr>,
             \<lparr>bus = ((263, 4), False), log = table_writes 0x78 (OV5640_Common example_h)
                  @ table_writes 0x78 (EnableDVPMode_regs example_h)
                  @ table_writes 0x78 (OV5640_WVGA example_h)
                  @ table_writes 0x78 (OV5640_PF_RGB565 example_h)
                  @ [BusWrite 0x78 0x4740 0x23]\<rparr>)
   \<and> IsInitialized (fresh_handle (watch 0 (nth_fail_io 0 (- 1) 263 True))) \<noteq> 1
   \<and> IsInitialized (fresh_handle (watch 0 (nth_fail_io 0 (- 1) 0 True))\<lparr>IsInitialized := 1\<rparr>) = 1
   \<and> IO (fresh_handle (watch 0 (nth_fail_io 0 (- 1) 263 True))) = watch (OV5640_OK example_h) (nth_fail_io 0 (- 1) 263 True)
   \<and> \<not> snd (bus (world0 ((0, 0), False) :: ((nat \<times> nat) \<times> bool) world))
   \<and> snd (bus \<lparr>bus = ((263, 4), True), log = table_writes 0x78 (OV5640_Common example_h)
                  @ table_writes 0x78 (EnableDVPMode_regs example_h)
                  @ table_writes 0x78 (OV5640_WVGA example_h)
                  @ table_writes 0x78 (OV5640_PF_RGB565 example_h)
                  @ [BusWrite 0x78 0x4740 0x23]\<rparr>)
   \<and> \<not> snd (bus \<lparr>bus = ((263, 4), False), log = table_writes 0x78 (OV5640_Common example_h)
                  @ table_writes 0x78 (EnableDVPMode_regs example_h)
                  @ table_writes 0x78 (OV5640_WVGA example_h)
                  @ table_writes 0x78 (OV5640_PF_RGB565 example_h)
                  @ [BusWrite 0x78 0x4740 0x23]\<rparr>)
   \<and> (\<forall>b. \<exists>n. tick_after (fresh_handle (watch 0 (nth_fail_io 0 (- 1) 0 True))) (Suc n) b \<noteq> tick_after (fresh_handle (watch 0 (nth_fail_io 0 (- 1) 0 True))) 0 b)
   \<and> (\<exists>res. OV5640_Init example_h (fresh_handle (watch 0 (nth_fail_io 0 (- 1) 0 True))) 4 0 (world0 ((0, 0), False)) = Some res)"
proof -
  have okne: "OV5640_OK example_h \<noteq> OV5640_ERROR example_h" and ne: "OV5640_ERROR example_h \<noteq> OV5640_OK example_h"
    by (simp_all add: example_h_simps)
  have a1: "IsInitialized (fresh_handle (watch 0 (nth_fail_io 0 (- 1) 0 True))) = 0" by (simp add: fresh_handle_def)
  have a2: "(5 :: u32) > OV5640_R800x480 example_h" by (simp add: example_h_def)
  note a3 = Init_validates_and_flags
        [where H = example_h and pObj = "fresh_handle (watch 0 (nth_fail_io 0 (- 1) 0 True))" and Resolution = 5 and PixelFormat = 0
           and w = "world0 ((0, 0), False)",
         THEN conjunct1, THEN mp, OF conjI [OF a1 disjI1 [OF a2]]]
  have s1_fv: "IsInitialized (fresh_handle (watch 0 (nth_fail_io 0 (- 1) 1 True))) = 0 \<and> (4 :: u32) \<le> OV5640_R800x480 example_h
        \<and> ((0 :: u32) = OV5640_RGB565 example_h \<or> (0 :: u32) = OV5640_YUV422 example_h
             \<or> (0 :: u32) = OV5640_RGB888 example_h \<or> (0 :: u32) = OV5640_Y8 example_h
             \<or> (0 :: u32) = OV5640_JPEG example_h)"
    by (simp add: fresh_handle_def example_h_formats)
  have s1_common: "write_tbl_guarded example_h (fresh_handle (watch 0 (nth_fail_io 0 (- 1) 1 True))) (OV5640_Common example_h) (OV5640_OK example_h, world0 ((0, 0), False)) =
        (OV5640_ERROR example_h, \<lparr>bus = ((1, 0), True), log = table_writes 0x78 (take 1 (OV5640_Common example_h))\<rparr>)"
    using nf_common_fail [of 1 True] by simp
  note s1_init = Init_validates_and_flags
        [where H = example_h and pObj = "fresh_handle (watch 0 (nth_fail_io 0 (- 1) 1 True))" and Resolution = 4 and PixelFormat = 0
           and w = "world0 ((0, 0), False)",
         THEN conjunct2, THEN conjunct2, THEN conjunct1, THEN mp, OF s1_fv,
         THEN conjunct1, THEN mp, OF conjI [OF s1_common ne]]
  have s2_fv: "IsInitialized (fresh_handle (watch 0 (nth_fail_io 0 (- 1) 247 True))) = 0 \<and> (4 :: u32) \<le> OV5640_R800x480 example_h
        \<and> ((0 :: u32) = OV5640_RGB565 example_h \<or> (0 :: u32) = OV5640_YUV422 example_h
             \<or> (0 :: u32) = OV5640_RGB888 example_h \<or> (0 :: u32) = OV5640_Y8 example_h
             \<or> (0 :: u32) = OV5640_JPEG example_h)"
    by (simp add: fresh_handle_def example_h_formats)
  have s2_common: "write_tbl_guarded example_h (fresh_handle (watch 0 (nth_fail_io 0 (- 1) 247 True))) (OV5640_Common example_h) (OV5640_OK example_h, world0 ((0, 0), False)) =
        (OV5640_OK example_h, \<lparr>bus = ((246, 0), False), log = table_writes 0x78 (OV5640_Common example_h)\<rparr>)"
    by (rule nf_common_pass) simp_all
  have s2_iface: "Init_interface example_h (fresh_handle (watch 0 (nth_fail_io 0 (- 1) 247 True))) (OV5640_OK example_h, \<lparr>bus = ((246, 0), False), log = table_writes 0x78 (OV5640_Common example_h)\<rparr>) =
        (OV5640_ERROR example_h, \<lparr>bus = ((247, 0), True), log = table_writes 0x78 (OV5640_Common example_h)
                  @ table_writes 0x78 (take 1 (EnableDVPMode_regs example_h))\<rparr>)"
    using nf_interface_fail [of 247 True] by simp
  note s2_init = Init_validates_and_flags
        [where H = example_h and pObj = "fresh_handle (watch 0 (nth_fail_io 0 (- 1) 247 True))" and Resolution = 4 and PixelFormat = 0
           and w = "world0 ((0, 0), False)",
         THEN conjunct2, THEN conjunct2, THEN conjunct1, THEN mp, OF s2_fv,
         THEN conjunct2, THEN conjunct1, THEN mp, OF conjI [OF s2_common conjI [OF s2_iface ne]]]
  have s3_fv: "IsInitialized (fresh_handle (watch 0 (nth_fail_io 0 (- 1) 257 True))) = 0 \<and> (4 :: u32) \<le> OV5640_R800x480 example_h
        \<and> ((0 :: u32) = OV5640_RGB565 example_h \<or> (0 :: u32) = OV5640_YUV422 example_h
             \<or> (0 :: u32) = OV5640_RGB888 example_h \<or> (0 :: u32) = OV5640_Y8 example_h
             \<or> (0 :: u32) = OV5640_JPEG example_h)"
    by (simp add: fresh_handle_def example_h_formats)
  have s3_interface: "Init_interface example_h (fresh_handle (watch 0 (nth_fail_io 0 (- 1) 257 True)))
        (write_tbl_guarded example_h (fresh_handle (watch 0 (nth_fail_io 0 (- 1) 257 True))) (OV5640_Common example_h) (OV5640_OK example_h, world0 ((0, 0), False))) =
        (OV5640_OK example_h, \<lparr>bus = ((256, 0), False), log = table_writes 0x78 (OV5640_Common example_h)
                  @ table_writes 0x78 (EnableDVPMode_regs example_h)\<rparr>)"
    by (simp add: nf_common_pass nf_interface_pass)
  have s3_resolution: "OV5640_SetResolution example_h (fresh_handle (watch 0 (nth_fail_io 0 (- 1) 257 True))) 4
        \<lparr>bus = ((256, 0), False), log = table_writes 0x78 (OV5640_Common example_h)
                  @ table_writes 0x78 (EnableDVPMode_regs example_h)\<rparr> =
        (OV5640_ERROR example_h, \<lparr>bus = ((257, 0), True), log = table_writes 0x78 (OV5640_Common example_h)
                  @ table_writes 0x78 (EnableDVPMode_regs example_h)
                  @ table_writes 0x78 (take 1 (OV5640_WVGA example_h))\<rparr>)"
    using nf_resolution_fail [of 257 True] by simp
  note s3_init = Init_validates_and_flags
        [where H = example_h and pObj = "fresh_handle (watch 0 (nth_fail_io 0 (- 1) 257 True))" and Resolution = 4 and PixelFormat = 0
           and w = "world0 ((0, 0), False)",
         THEN conjunct2, THEN conjunct2, THEN conjunct1, THEN mp, OF s3_fv,
         THEN conjunct2, THEN conjunct2, THEN conjunct1, THEN mp, OF conjI [OF s3_interface conjI [OF s3_resolution ne]]]
  have s4_fv: "IsInitialized (fresh_handle (watch 0 (nth_fail_io 0 (- 1) 261 True))) = 0 \<and> (4 :: u32) \<le> OV5640_R800x480 example_h
        \<and> ((0 :: u32) = OV5640_RGB565 example_h \<or> (0 :: u32) = OV5640_YUV422 example_h
             \<or> (0 :: u32) = OV5640_RGB888 example_h \<or> (0 :: u32) = OV5640_Y8 example_h
             \<or> (0 :: u32) = OV5640_JPEG example_h)"
    by (simp add: fresh_handle_def example_h_formats)
  have s4_interface: "Init_interface example_h (fresh_handle (watch 0 (nth_fail_io 0 (- 1) 261 True)))
        (write_tbl_guarded example_h (fresh_handle (watch 0 (nth_fail_io 0 (- 1) 261 True))) (OV5640_Common example_h) (OV5640_OK example_h, world0 ((0, 0), False))) =
        (OV5640_OK example_h, \<lparr>bus = ((256, 0), False), log = table_writes 0x78 (OV5640_Common example_h)
                  @ table_writes 0x78 (EnableDVPMode_regs example_h)\<rparr>)"
    by (simp add: nf_common_pass nf_interface_pass)
  have s4_resolution: "OV5640_SetResolution example_h (fresh_handle (watch 0 (nth_fail_io 0 (- 1) 261 True))) 4
        \<lparr>bus = ((256, 0), False), log = table_writes 0x78 (OV5640_Common example_h)
                  @ table_writes 0x78 (EnableDVPMode_regs example_h)\<rparr> =
        (OV5640_OK example_h, \<lparr>bus = ((260, 0), False), log = table_writes 0x78 (OV5640_Common example_h)
                  @ table_writes 0x78 (EnableDVPMode_regs example_h)
                  @ table_writes 0x78 (OV5640_WVGA example_h)\<rparr>)"
    by (rule nf_resolution_pass) simp_all
  have s4_format: "OV5640_SetPixelFormat example_h (fresh_handle (watch 0 (nth_fail_io 0 (- 1) 261 True))) 0
        \<lparr>bus = ((260, 0), False), log = table_writes 0x78 (OV5640_Common example_h)
                  @ table_writes 0x78 (EnableDVPMode_regs example_h)
                  @ table_writes 0x78 (OV5640_WVGA example_h)\<rparr> =
        Some (OV5640_ERROR example_h, \<lparr>bus = ((261, 0), True), log = table_writes 0x78 (OV5640_Common example_h)
                  @ table_writes 0x78 (EnableDVPMode_regs example_h)
                  @ table_writes 0x78 (OV5640_WVGA example_h)
                  @ table_writes 0x78 (take 1 (OV5640_PF_RGB565 example_h))\<rparr>)"
    by (rule nf_format_fail) simp_all
  note s4_init = Init_validates_and_flags
        [where H = example_h and pObj = "fresh_handle (watch 0 (nth_fail_io 0 (- 1) 261 True))" and Resolution = 4 and PixelFormat = 0
           and w = "world0 ((0, 0), False)",
         THEN conjunct2, THEN conjunct2, THEN conjunct1, THEN mp, OF s4_fv,
         THEN conjunct2, THEN conjunct2, THEN conjunct2, THEN conjunct1, THEN mp, OF conjI [OF s4_interface conjI [OF s4_resolution conjI [OF s4_format ne]]]]
  have s5_fv: "IsInitialized (fresh_handle (watch 0 (nth_fail_io 0 (- 1) 0 False))) = 0 \<and> (4 :: u32) \<le> OV5640_R800x480 example_h
        \<and> ((0 :: u32) = OV5640_RGB565 example_h \<or> (0 :: u32) = OV5640_YUV422 example_h
             \<or> (0 :: u32) = OV5640_RGB888 example_h \<or> (0 :: u32) = OV5640_Y8 example_h
             \<or> (0 :: u32) = OV5640_JPEG example_h)"
    by (simp add: fresh_handle_def example_h_formats)
  have s5_interface: "Init_interface example_h (fresh_handle (watch 0 (nth_fail_io 0 (- 1) 0 False)))
        (write_tbl_guarded example_h (fresh_handle (watch 0 (nth_fail_io 0 (- 1) 0 False))) (OV5640_Common example_h) (OV5640_OK example_h, world0 ((0, 0), False))) =
        (OV5640_OK example_h, \<lparr>bus = ((256, 0), False), log = table_writes 0x78 (OV5640_Common example_h)
                  @ table_writes 0x78 (EnableDVPMode_regs example_h)\<rparr>)"
    by (simp add: nf_common_pass nf_interface_pass)
  have s5_resolution: "OV5640_SetResolution example_h (fresh_handle (watch 0 (nth_fail_io 0 (- 1) 0 False))) 4
        \<lparr>bus = ((256, 0), False), log = table_writes 0x78 (OV5640_Common example_h)
                  @ table_writes 0x78 (EnableDVPMode_regs example_h)\<rparr> =
        (OV5640_OK example_h, \<lparr>bus = ((260, 0), False), log = table_writes 0x78 (OV5640_Common example_h)
                  @ table_writes 0x78 (EnableDVPMode_regs example_h)
                  @ table_writes 0x78 (OV5640_WVGA example_h)\<rparr>)"
    by (rule nf_resolution_pass) simp_all
  have s5_format: "OV5640_SetPixelFormat example_h (fresh_handle (watch 0 (nth_fail_io 0 (- 1) 0 False))) 0
        \<lparr>bus = ((260, 0), False), log = table_writes 0x78 (OV5640_Common example_h)
                  @ table_writes 0x78 (EnableDVPMode_regs example_h)
                  @ table_writes 0x78 (OV5640_WVGA example_h)\<rparr> =
        None"
    by (rule nf_format_hangs) simp_all
  note s5_init = Init_validates_and_flags
        [where H = example_h and pObj = "fresh_handle (watch 0 (nth_fail_io 0 (- 1) 0 False))" and Resolution = 4 and PixelFormat = 0
           and w = "world0 ((0, 0), False)",
         THEN conjunct2, THEN conjunct2, THEN conjunct1, THEN mp, OF s5_fv,
         THEN conjunct2, THEN conjunct2, THEN conjunct2, THEN conjunct2, THEN conjunct1, THEN mp, OF conjI [OF s5_interface conjI [OF s5_resolution s5_format]]]
  have s6_fv: "IsInitialized (fresh_handle (watch 0 (nth_fail_io 0 (- 1) 263 True))) = 0 \<and> (4 :: u32) \<le> OV5640_R800x480 example_h
        \<and> ((0 :: u32) = OV5640_RGB565 example_h \<or> (0 :: u32) = OV5640_YUV422 example_h
             \<or> (0 :: u32) = OV5640_RGB888 example_h \<or> (0 :: u32) = OV5640_Y8 example_h
             \<or> (0 :: u32) = OV5640_JPEG example_h)"
    by (simp add: fresh_handle_def example_h_formats)
  have s6_interface: "Init_interface example_h (fresh_handle (watch 0 (nth_fail_io 0 (- 1) 263 True)))
        (write_tbl_guarded example_h (fresh_handle (watch 0 (nth_fail_io 0 (- 1) 263 True))) (OV5640_Common example_h) (OV5640_OK example_h, world0 ((0, 0), False))) =
        (OV5640_OK example_h, \<lparr>bus = ((256, 0), False), log = table_writes 0x78 (OV5640_Common example_h)
                  @ table_writes 0x78 (EnableDVPMode_regs example_h)\<rparr>)"
    by (simp add: nf_common_pass nf_interface_pass)
  have s6_resolution: "OV5640_SetResolution example_h (fresh_handle (watch 0 (nth_fail_io 0 (- 1) 263 True))) 4
        \<lparr>bus = ((256, 0), False), log = table_writes 0x78 (OV5640_Common example_h)
                  @ table_writes 0x78 (EnableDVPMode_regs example_h)\<rparr> =
        (OV5640_OK example_h, \<lparr>bus = ((260, 0), False), log = table_writes 0x78 (OV5640_Common example_h)
                  @ table_writes 0x78 (EnableDVPMode_regs example_h)
                  @ table_writes 0x78 (OV5640_WVGA example_h)\<rparr>)"
    by (rule nf_resolution_pass) simp_all
  have s6_format: "OV5640_SetPixelFormat example_h (fresh_handle (watch 0 (nth_fail_io 0 (- 1) 263 True))) 0
        \<lparr>bus = ((260, 0), False), log = table_writes 0x78 (OV5640_Common example_h)
                  @ table_writes 0x78 (EnableDVPMode_regs example_h)
                  @ table_writes 0x78 (OV5640_WVGA example_h)\<rparr> =
        Some (OV5640_OK example_h, \<lparr>bus = ((262, 4), False), log = table_writes 0x78 (OV5640_Common example_h)
                  @ table_writes 0x78 (EnableDVPMode_regs example_h)
                  @ table_writes 0x78 (OV5640_WVGA example_h)
                  @ table_writes 0x78 (OV5640_PF_RGB565 example_h)\<rparr>)"
    by (rule nf_format_pass) simp_all
  have s6_polarities: "OV5640_SetPolarities example_h (Some (fresh_handle (watch 0 (nth_fail_io 0 (- 1) 263 True)))) (OV5640_POLARITY_PCLK_HIGH example_h) (OV5640_POLARITY_HREF_HIGH example_h) (OV5640_POLARITY_VSYNC_HIGH example_h)
        \<lparr>bus = ((262, 4), False), log = table_writes 0x78 (OV5640_Common example_h)
                  @ table_writes 0x78 (EnableDVPMode_regs example_h)
                  @ table_writes 0x78 (OV5640_WVGA example_h)
                  @ table_writes 0x78 (OV5640_PF_RGB565 example_h)\<rparr> =
        (OV5640_ERROR example_h, \<lparr>bus = ((263, 4), True), log = table_writes 0x78 (OV5640_Common example_h)
                  @ table_writes 0x78 (EnableDVPMode_regs example_h)
                  @ table_writes 0x78 (OV5640_WVGA example_h)
                  @ table_writes 0x78 (OV5640_PF_RGB565 example_h)
                  @ [BusWrite 0x78 0x4740 0x23]\<rparr>)"
    by (rule nf_polarities_fail) simp_all
  note s6_init = Init_validates_and_flags
        [where H = example_h and pObj = "fresh_handle (watch 0 (nth_fail_io 0 (- 1) 263 True))" and Resolution = 4 and PixelFormat = 0
           and w = "world0 ((0, 0), False)",
         THEN conjunct2, THEN conjunct2, THEN conjunct1, THEN mp, OF s6_fv,
         THEN conjunct2, THEN conjunct2, THEN conjunct2, THEN conjunct2, THEN conjunct2, THEN conjunct1, THEN mp, OF conjI [OF s6_interface conjI [OF s6_resolution conjI [OF s6_format conjI [OF s6_polarities ne]]]]]
  have s7_fv: "IsInitialized (fresh_handle (watch 0 (nth_fail_io 0 (- 1) 0 True))) = 0 \<and> (4 :: u32) \<le> OV5640_R800x480 example_h
        \<and> ((0 :: u32) = OV5640_RGB565 example_h \<or> (0 :: u32) = OV5640_YUV422 example_h
             \<or> (0 :: u32) = OV5640_RGB888 example_h \<or> (0 :: u32) = OV5640_Y8 example_h
             \<or> (0 :: u32) = OV5640_JPEG example_h)"
    by (simp add: fresh_handle_def example_h_formats)
  have s7_interface: "Init_interface example_h (fresh_handle (watch 0 (nth_fail_io 0 (- 1) 0 True)))
        (write_tbl_guarded example_h (fresh_handle (watch 0 (nth_fail_io 0 (- 1) 0 True))) (OV5640_Common example_h) (OV5640_OK example_h, world0 ((0, 0), False))) =
        (OV5640_OK example_h, \<lparr>bus = ((256, 0), False), log = table_writes 0x78 (OV5640_Common example_h)
                  @ table_writes 0x78 (EnableDVPMode_regs example_h)\<rparr>)"
    by (simp add: nf_common_pass nf_interface_pass)
  have s7_resolution: "OV5640_SetResolution example_h (fresh_handle (watch 0 (nth_fail_io 0 (- 1) 0 True))) 4
        \<lparr>bus = ((256, 0), False), log = table_writes 0x78 (OV5640_Common example_h)
                  @ table_writes 0x78 (EnableDVPMode_regs example_h)\<rparr> =
        (OV5640_OK example_h, \<lparr>bus = ((260, 0), False), log = table_writes 0x78 (OV5640_Common example_h)
                  @ table_writes 0x78 (EnableDVPMode_regs example_h)
                  @ table_writes 0x78 (OV5640_WVGA example_h)\<rparr>)"
    by (rule nf_resolution_pass) simp_all
  have s7_format: "OV5640_SetPixelFormat example_h (fresh_handle (watch 0 (nth_fail_io 0 (- 1) 0 True))) 0
        \<lparr>bus = ((260, 0), False), log = table_writes 0x78 (OV5640_Common example_h)
                  @ table_writes 0x78 (EnableDVPMode_regs example_h)
                  @ table_writes 0x78 (OV5640_WVGA example_h)\<rparr> =
        Some (OV5640_OK example_h, \<lparr>bus = ((262, 4), False), log = table_writes 0x78 (OV5640_Common example_h)
                  @ table_writes 0x78 (EnableDVPMode_regs example_h)
                  @ table_writes 0x78 (OV5640_WVGA example_h)
                  @ table_writes 0x78 (OV5640_PF_RGB565 example_h)\<rparr>)"
    by (rule nf_format_pass) simp_all
  have s7_polarities: "OV5640_SetPolarities example_h (Some (fresh_handle (watch 0 (nth_fail_io 0 (- 1) 0 True)))) (OV5640_POLARITY_PCLK_HIGH example_h) (OV5640_POLARITY_HREF_HIGH example_h) (OV5640_POLARITY_VSYNC_HIGH example_h)
        \<lparr>bus = ((262, 4), False), log = table_writes 0x78 (OV5640_Common example_h)
                  @ table_writes 0x78 (EnableDVPMode_regs example_h)
                  @ table_writes 0x78 (OV5640_WVGA example_h)
                  @ table_writes 0x78 (OV5640_PF_RGB565 example_h)\<rparr> =
        (OV5640_OK example_h, \<lparr>bus = ((263, 4), False), log = table_writes 0x78 (OV5640_Common example_h)
                  @ table_writes 0x78 (EnableDVPMode_regs example_h)
                  @ table_writes 0x78 (OV5640_WVGA example_h)
                  @ table_writes 0x78 (OV5640_PF_RGB565 example_h)
                  @ [BusWrite 0x78 0x4740 0x23]\<rparr>)"
    by (rule nf_polarities_pass) simp_all
  note s7_init = Init_validates_and_flags
        [where H = example_h and pObj = "fresh_handle (watch 0 (nth_fail_io 0 (- 1) 0 True))" and Resolution = 4 and PixelFormat = 0
           and w = "world0 ((0, 0), False)",
         THEN conjunct2, THEN conjunct2, THEN conjunct1, THEN mp, OF s7_fv,
         THEN conjunct2, THEN conjunct2, THEN conjunct2, THEN conjunct2, THEN conjunct2, THEN conjunct2, THEN mp, OF conjI [OF s7_interface conjI [OF s7_resolution conjI [OF s7_format s7_polarities]]]]
  note b6 = Init_validates_and_flags
        [where H = example_h and pObj = "fresh_handle (watch 0 (nth_fail_io 0 (- 1) 263 True))" and Resolution = 4 and PixelFormat = 0
           and w = "world0 ((0, 0), False)" and ret = "OV5640_ERROR example_h" and pObj' = "fresh_handle (watch 0 (nth_fail_io 0 (- 1) 263 True))"
           and w' = "\<lparr>bus = ((263, 4), True), log = table_writes 0x78 (OV5640_Common example_h)
                  @ table_writes 0x78 (EnableDVPMode_regs example_h)
                  @ table_writes 0x78 (OV5640_WVGA example_h)
                  @ table_writes 0x78 (OV5640_PF_RGB565 example_h)
                  @ [BusWrite 0x78 0x4740 0x23]\<rparr>",
         THEN conjunct2, THEN conjunct1, THEN mp, OF conjI [OF okne conjI [OF s6_fv [THEN conjunct1] s6_init]]]
  from b6 [THEN conjunct1] ne have b6_flag: "IsInitialized (fresh_handle (watch 0 (nth_fail_io 0 (- 1) 263 True))) \<noteq> 1" by simp
  note b7 = Init_validates_and_flags
        [where H = example_h and pObj = "fresh_handle (watch 0 (nth_fail_io 0 (- 1) 0 True))" and Resolution = 4 and PixelFormat = 0
           and w = "world0 ((0, 0), False)" and ret = "OV5640_OK example_h" and pObj' = "fresh_handle (watch 0 (nth_fail_io 0 (- 1) 0 True))\<lparr>IsInitialized := 1\<rparr>"
           and w' = "\<lparr>bus = ((263, 4), False), log = table_writes 0x78 (OV5640_Common example_h)
                  @ table_writes 0x78 (EnableDVPMode_regs example_h)
                  @ table_writes 0x78 (OV5640_WVGA example_h)
                  @ table_writes 0x78 (OV5640_PF_RGB565 example_h)
                  @ [BusWrite 0x78 0x4740 0x23]\<rparr>",
         THEN conjunct2, THEN conjunct1, THEN mp, OF conjI [OF okne conjI [OF s7_fv [THEN conjunct1] s7_init]]]
  from b7 [THEN conjunct1] have b7_flag: "IsInitialized (fresh_handle (watch 0 (nth_fail_io 0 (- 1) 0 True))\<lparr>IsInitialized := 1\<rparr>) = 1" by simp
  have d_io: "IO (fresh_handle (watch 0 (nth_fail_io 0 (- 1) 263 True))) = watch (OV5640_OK example_h) (nth_fail_io 0 (- 1) 263 True)"
    by (simp add: example_h_simps)
  have d_start: "\<not> snd (bus (world0 ((0, 0), False) :: ((nat \<times> nat) \<times> bool) world))" by (simp add: world0_def)
  have d_raised: "snd (bus \<lparr>bus = ((263, 4), True), log = table_writes 0x78 (OV5640_Common example_h)
                  @ table_writes 0x78 (EnableDVPMode_regs example_h)
                  @ table_writes 0x78 (OV5640_WVGA example_h)
                  @ table_writes 0x78 (OV5640_PF_RGB565 example_h)
                  @ [BusWrite 0x78 0x4740 0x23]\<rparr>)" by simp
  note d6 = Init_validates_and_flags
        [where H = example_h and pObjF = "fresh_handle (watch 0 (nth_fail_io 0 (- 1) 263 True))" and Resolution = 4 and PixelFormat = 0
           and wF = "world0 ((0, 0), False)" and retF = "OV5640_ERROR example_h" and pObjF' = "fresh_handle (watch 0 (nth_fail_io 0 (- 1) 263 True))"
           and wF' = "\<lparr>bus = ((263, 4), True), log = table_writes 0x78 (OV5640_Common example_h)
                  @ table_writes 0x78 (EnableDVPMode_regs example_h)
                  @ table_writes 0x78 (OV5640_WVGA example_h)
                  @ table_writes 0x78 (OV5640_PF_RGB565 example_h)
                  @ [BusWrite 0x78 0x4740 0x23]\<rparr>",
         THEN conjunct2, THEN conjunct2, THEN conjunct2, THEN conjunct1, THEN mp,
         OF conjI [OF okne conjI [OF s6_fv [THEN conjunct1] conjI [OF d_io conjI [OF d_start s6_init]]]],
         THEN conjunct1, THEN mp, OF d_raised]
  from d6 s6_init have d6_init: "OV5640_Init example_h (fresh_handle (watch 0 (nth_fail_io 0 (- 1) 263 True))) 4 0 (world0 ((0, 0), False)) =
       Some (OV5640_ERROR example_h, fresh_handle (watch 0 (nth_fail_io 0 (- 1) 263 True)),
             \<lparr>bus = ((263, 4), True), log = table_writes 0x78 (OV5640_Common example_h)
                  @ table_writes 0x78 (EnableDVPMode_regs example_h)
                  @ table_writes 0x78 (OV5640_WVGA example_h)
                  @ table_writes 0x78 (OV5640_PF_RGB565 example_h)
                  @ [BusWrite 0x78 0x4740 0x23]\<rparr>)" by simp
  have d_io0: "IO (fresh_handle (watch 0 (nth_fail_io 0 (- 1) 0 True))) = watch (OV5640_OK example_h) (nth_fail_io 0 (- 1) 0 True)"
    by (simp add: example_h_simps)
  have d_clear: "\<not> snd (bus \<lparr>bus = ((263, 4), False), log = table_writes 0x78 (OV5640_Common example_h)
                  @ table_writes 0x78 (EnableDVPMode_regs example_h)
                  @ table_writes 0x78 (OV5640_WVGA example_h)
                  @ table_writes 0x78 (OV5640_PF_RGB565 example_h)
                  @ [BusWrite 0x78 0x4740 0x23]\<rparr>)
        \<and> (4 :: u32) \<le> OV5640_R800x480 example_h
        \<and> ((4 :: u32) = OV5640_R160x120 example_h \<or> (4 :: u32) = OV5640_R320x240 example_h
             \<or> (4 :: u32) = OV5640_R480x272 example_h \<or> (4 :: u32) = OV5640_R640x480 example_h
             \<or> (4 :: u32) = OV5640_R800x480 example_h)
        \<and> ((0 :: u32) = OV5640_RGB565 example_h \<or> (0 :: u32) = OV5640_YUV422 example_h
             \<or> (0 :: u32) = OV5640_RGB888 example_h \<or> (0 :: u32) = OV5640_Y8 example_h
             \<or> (0 :: u32) = OV5640_JPEG example_h)"
    by (simp add: example_h_formats)
  note d7 = Init_validates_and_flags
        [where H = example_h and pObjF = "fresh_handle (watch 0 (nth_fail_io 0 (- 1) 0 True))" and Resolution = 4 and PixelFormat = 0
           and wF = "world0 ((0, 0), False)" and retF = "OV5640_OK example_h" and pObjF' = "fresh_handle (watch 0 (nth_fail_io 0 (- 1) 0 True))\<lparr>IsInitialized := 1\<rparr>"
           and wF' = "\<lparr>bus = ((263, 4), False), log = table_writes 0x78 (OV5640_Common example_h)
                  @ table_writes 0x78 (EnableDVPMode_regs example_h)
                  @ table_writes 0x78 (OV5640_WVGA example_h)
                  @ table_writes 0x78 (OV5640_PF_RGB565 example_h)
                  @ [BusWrite 0x78 0x4740 0x23]\<rparr>",
         THEN conjunct2, THEN conjunct2, THEN conjunct2, THEN conjunct1, THEN mp,
         OF conjI [OF okne conjI [OF s7_fv [THEN conjunct1] conjI [OF d_io0 conjI [OF d_start s7_init]]]],
         THEN conjunct2, THEN mp, OF d_clear]
  from d7 s7_init have d7_init: "OV5640_Init example_h (fresh_handle (watch 0 (nth_fail_io 0 (- 1) 0 True))) 4 0 (world0 ((0, 0), False)) =
       Some (OV5640_OK example_h, fresh_handle (watch 0 (nth_fail_io 0 (- 1) 0 True))\<lparr>IsInitialized := 1\<rparr>,
             \<lparr>bus = ((263, 4), False), log = table_writes 0x78 (OV5640_Common example_h)
                  @ table_writes 0x78 (EnableDVPMode_regs example_h)
                  @ table_writes 0x78 (OV5640_WVGA example_h)
                  @ table_writes 0x78 (OV5640_PF_RGB565 example_h)
                  @ [BusWrite 0x78 0x4740 0x23]\<rparr>)" by simp
  have e_tick: "\<forall>b. \<exists>n. tick_after (fresh_handle (watch 0 (nth_fail_io 0 (- 1) 0 True))) (Suc n) b \<noteq> tick_after (fresh_handle (watch 0 (nth_fail_io 0 (- 1) 0 True))) 0 b"
    by (intro allI exI [of _ 0]) (simp add: tick_after_def watch_def nth_fail_io_def split: prod.splits)
  note e_ret = Init_validates_and_flags
        [where H = example_h and pObj = "fresh_handle (watch 0 (nth_fail_io 0 (- 1) 0 True))" and Resolution = 4 and PixelFormat = 0
           and w = "world0 ((0, 0), False)",
         THEN conjunct2, THEN conjunct2, THEN conjunct2, THEN conjunct2, THEN mp, OF e_tick]
  show ?thesis
    apply (intro conjI)
    apply (rule okne)
    apply (rule a1)
    apply (rule a2)
    apply (rule a3)
    apply (rule s1_init)
    apply (rule s2_init)
    apply (rule s3_init)
    apply (rule s4_init)
    apply (rule s5_init)
    apply (rule s6_polarities)
    apply (rule d6_init)
    apply (rule d7_init)
    apply (rule b6_flag)
    apply (rule b7_flag)
    apply (rule d_io)
    apply (rule d_start)
    apply (rule d_raised)
    apply (rule d_clear [THEN conjunct1])
    apply (rule e_tick)
    apply (rule e_ret)
    done
qed

text \<open>
  C3. When \<^verbatim>\<open>IsInitialized\<close> is 1 on entry, \<^verbatim>\<open>OV5640_Init\<close> returns \<^verbatim>\<open>OV5640_OK\<close> and leaves
  the handle and the world as they were: the log has no new read or write. A first call on
  a handle with \<^verbatim>\<open>IsInitialized = 0\<close> that returns \<^verbatim>\<open>OV5640_OK\<close> has written to the bus, and
  any call that follows it, with whatever arguments, finds the flag set and writes
  nothing (\<^verbatim>\<open>OV5640_OK\<close> and \<^verbatim>\<open>OV5640_ERROR\<close> being different codes).
\<close>

theorem Init_only_once:
  "(IsInitialized pObj = 1 \<longrightarrow>
      OV5640_Init H pObj Resolution PixelFormat w = Some (OV5640_OK H, pObj, w))
   \<and> (OV5640_OK H \<noteq> OV5640_ERROR H \<and> IsInitialized pObj = 0
        \<and> OV5640_Init H pObj Resolution PixelFormat w = Some (OV5640_OK H, pObj', w')
      \<longrightarrow> count_writes (log w) < count_writes (log w')
          \<and> OV5640_Init H pObj' ResolutionB PixelFormatB w' = Some (OV5640_OK H, pObj', w'))"
proof -
  have again: "OV5640_Init H pObj' ResolutionB PixelFormatB w' = Some (OV5640_OK H, pObj', w')"
    if "OV5640_OK H \<noteq> OV5640_ERROR H" "IsInitialized pObj = 0"
      "OV5640_Init H pObj Resolution PixelFormat w = Some (OV5640_OK H, pObj', w')"
  proof -
    from Init_flag [OF that] have "IsInitialized pObj' = 1" by simp
    then show ?thesis by (rule Init_already_initialized)
  qed
  show ?thesis
    using Init_already_initialized [where pObj = pObj and Resolution = Resolution and H = H
          and PixelFormat = PixelFormat and w = w]
      Init_first_call_writes [where pObj = pObj and Resolution = Resolution and H = H
          and PixelFormat = PixelFormat and w = w and pObj' = pObj' and w' = w'] again
    by blast
qed

theorem Init_only_once_witness:
  "IsInitialized (fresh_handle (stub_io 0 0)\<lparr>IsInitialized := 1\<rparr>) = 1
   \<and> OV5640_Init example_h (fresh_handle (stub_io 0 0)\<lparr>IsInitialized := 1\<rparr>) 4 0 (world0 7) =
       Some (OV5640_OK example_h, fresh_handle (stub_io 0 0)\<lparr>IsInitialized := 1\<rparr>, world0 7)
   \<and> OV5640_OK example_h \<noteq> OV5640_ERROR example_h
   \<and> IsInitialized (fresh_handle (stub_io 0 0)) = 0
   \<and> OV5640_Init example_h (fresh_handle (stub_io 0 0)) 4 0 (world0 0) =
       Some (OV5640_OK example_h, fresh_handle (stub_io 0 0)\<lparr>IsInitialized := 1\<rparr>,
             \<lparr>bus = 4,
              log = table_writes 0x78 (OV5640_Common example_h)
                    @ table_writes 0x78 (EnableDVPMode_regs example_h)
                    @ table_writes 0x78 (OV5640_WVGA example_h)
                    @ table_writes 0x78 (OV5640_PF_RGB565 example_h)
                    @ [BusWrite 0x78 0x4740 0x23]\<rparr>)
   \<and> OV5640_Init example_h (fresh_handle (stub_io 0 0)\<lparr>IsInitialized := 1\<rparr>) 4 0
         \<lparr>bus = 4,
          log = table_writes 0x78 (OV5640_Common example_h)
                @ table_writes 0x78 (EnableDVPMode_regs example_h)
                @ table_writes 0x78 (OV5640_WVGA example_h)
                @ table_writes 0x78 (OV5640_PF_RGB565 example_h)
                @ [BusWrite 0x78 0x4740 0x23]\<rparr> =
       Some (OV5640_OK example_h, fresh_handle (stub_io 0 0)\<lparr>IsInitialized := 1\<rparr>,
             \<lparr>bus = 4,
              log = table_writes 0x78 (OV5640_Common example_h)
                    @ table_writes 0x78 (EnableDVPMode_regs example_h)
                    @ table_writes 0x78 (OV5640_WVGA example_h)
                    @ table_writes 0x78 (OV5640_PF_RGB565 example_h)
                    @ [BusWrite 0x78 0x4740 0x23]\<rparr>)"
  using Init_only_once
          [where pObj = "fresh_handle (stub_io 0 0)\<lparr>IsInitialized := 1\<rparr>" and H = example_h
             and Resolution = 4 and PixelFormat = 0 and w = "world0 7"]
        Init_only_once
          [where pObj = "fresh_handle (stub_io 0 0)" and H = example_h
             and Resolution = 4 and PixelFormat = 0 and w = "world0 0"
             and ResolutionB = 4 and PixelFormatB = 0
             and pObj' = "fresh_handle (stub_io 0 0)\<lparr>IsInitialized := 1\<rparr>"
             and w' = "\<lparr>bus = 4,
              log = table_writes 0x78 (OV5640_Common example_h)
                    @ table_writes 0x78 (EnableDVPMode_regs example_h)
                    @ table_writes 0x78 (OV5640_WVGA example_h)
                    @ table_writes 0x78 (OV5640_PF_RGB565 example_h)
                    @ [BusWrite 0x78 0x4740 0x23]\<rparr>"]
        Init_on_stub
  by (simp add: example_h_simps fresh_handle_def)

section \<open>Register tables: what a failed write stops\<close>

lemma write_tbl_all_log:
  "log (snd (write_tbl_all H pObj tbl (ret, w))) = log w @ table_writes (Address (IO pObj)) tbl"
proof (induction tbl arbitrary: ret w)
  case Nil
  show ?case by (simp add: table_writes_def)
next
  case (Cons row rows)
  obtain r w1 where wr: "ov5640_write_reg pObj (fst row) (ucast (snd row)) w = (r, w1)"
    by (cases "ov5640_write_reg pObj (fst row) (ucast (snd row)) w") auto
  show ?case
    using Cons.IH [of ret w1] Cons.IH [of "OV5640_ERROR H" w1] write_reg_logD [OF wr]
    by (simp add: wr table_writes_def)
qed

lemma write_tbl_guarded_after_error:
  "write_tbl_guarded H pObj tbl (OV5640_ERROR H, w) = (OV5640_ERROR H, w)"
  by (induction tbl) simp_all

lemma write_tbl_guarded_prefix:
  "\<exists>n \<le> length tbl.
     log (snd (write_tbl_guarded H pObj tbl (ret, w))) =
       log w @ table_writes (Address (IO pObj)) (take n tbl)"
proof (induction tbl arbitrary: ret w)
  case Nil
  show ?case by (simp add: table_writes_def)
next
  case (Cons row rows)
  obtain r w1 where wr: "ov5640_write_reg pObj (fst row) (ucast (snd row)) w = (r, w1)"
    by (cases "ov5640_write_reg pObj (fst row) (ucast (snd row)) w") auto
  note l = write_reg_logD [OF wr]
  show ?case
  proof (cases "ret \<noteq> OV5640_ERROR H")
    case False
    then show ?thesis
      by (intro exI [of _ 0]) (simp add: write_tbl_guarded_after_error table_writes_def)
  next
    case True
    define ret' where "ret' = (if r \<noteq> OV5640_OK H then OV5640_ERROR H else ret)"
    from Cons.IH [of ret' w1] obtain n where n: "n \<le> length rows"
      "log (snd (write_tbl_guarded H pObj rows (ret', w1))) =
         log w1 @ table_writes (Address (IO pObj)) (take n rows)"
      by blast
    have "log (snd (write_tbl_guarded H pObj (row # rows) (ret, w))) =
            log w @ table_writes (Address (IO pObj)) (take (Suc n) (row # rows))"
      using True n(2) l by (auto simp: wr ret'_def table_writes_def)
    with n(1) show ?thesis
      by (intro exI [of _ "Suc n"]) simp
  qed
qed

lemma write_tbl_guarded_stops:
  assumes "OV5640_OK H \<noteq> OV5640_ERROR H"
      and "fst (ov5640_write_reg pObj (fst row) (ucast (snd row)) w) \<noteq> OV5640_OK H"
  shows "log (snd (write_tbl_guarded H pObj (row # rows) (OV5640_OK H, w))) =
           log w @ table_writes (Address (IO pObj)) [row]"
proof -
  obtain r w1 where wr: "ov5640_write_reg pObj (fst row) (ucast (snd row)) w = (r, w1)"
    by (cases "ov5640_write_reg pObj (fst row) (ucast (snd row)) w") auto
  show ?thesis
    using assms write_reg_logD [OF wr]
    by (simp add: wr write_tbl_guarded_after_error table_writes_def)
qed

lemma write_tbl_break_stops:
  assumes "fst (ov5640_write_reg pObj (fst row) (ucast (snd row)) w) \<noteq> OV5640_OK H"
  shows "log (snd (write_tbl_break H pObj (row # rows) (ret, w))) =
           log w @ table_writes (Address (IO pObj)) [row]"
proof -
  obtain r w1 where wr: "ov5640_write_reg pObj (fst row) (ucast (snd row)) w = (r, w1)"
    by (cases "ov5640_write_reg pObj (fst row) (ucast (snd row)) w") auto
  show ?thesis
    using assms write_reg_logD [OF wr]
    by (simp add: wr table_writes_def)
qed

text \<open>
  C2, on the code. The loops of the first and second kind write the rows in table order
  and nothing after the first failed write (\<open>write_tbl_guarded_prefix\<close>,
  \<open>write_tbl_guarded_stops\<close>, \<open>write_tbl_break_stops\<close>), but the loops of
  \<^verbatim>\<open>OV5640_OutSize_Set\<close>, \<^verbatim>\<open>OV5640_ImageWin_Set\<close>, \<^verbatim>\<open>OV5640_JPEG_Mode\<close> and
  \<^verbatim>\<open>OV5640_RGB565_Mode\<close> write every row whatever the status of the writes
  (\<open>write_tbl_all_log\<close>). On a bus whose every write fails, \<^verbatim>\<open>OV5640_OutSize_Set\<close> still
  issues its 11 writes and \<^verbatim>\<open>OV5640_JPEG_Mode\<close> its 41, where \<^verbatim>\<open>OV5640_SetResolution\<close> and
  \<^verbatim>\<open>OV5640_EnableDVPMode\<close> stop after the first.
\<close>

theorem OutSize_Set_writes_on_after_failure:
  "OV5640_OutSize_Set example_h (fresh_handle (stub_io (- 1) 0)) 4 0 800 480 (world0 0) =
     (OV5640_ERROR example_h,
      \<lparr>bus = 0,
       log = [BusWrite 0x78 0x3212 0x03,
              BusWrite 0x78 0x3808 0x03, BusWrite 0x78 0x3809 0x20,
              BusWrite 0x78 0x380A 0x01, BusWrite 0x78 0x380B 0xE0,
              BusWrite 0x78 0x3810 0x00, BusWrite 0x78 0x3811 0x04,
              BusWrite 0x78 0x3812 0x00, BusWrite 0x78 0x3813 0x00,
              BusWrite 0x78 0x3212 0x13, BusWrite 0x78 0x3212 0xA3]\<rparr>)
   \<and> count_writes (log (snd (OV5640_JPEG_Mode example_h (fresh_handle (stub_io (- 1) 0)) (world0 0)))) = 41
   \<and> OV5640_SetResolution example_h (fresh_handle (stub_io (- 1) 0)) 4 (world0 0) =
       (OV5640_ERROR example_h, \<lparr>bus = 0, log = [BusWrite 0x78 0x3808 0x03]\<rparr>)
   \<and> OV5640_EnableDVPMode example_h (fresh_handle (stub_io (- 1) 0)) (world0 0) =
       (OV5640_ERROR example_h, \<lparr>bus = 0, log = [BusWrite 0x78 0x3017 0xFF]\<rparr>)"
proof -
  let ?p = "fresh_handle (stub_io (- 1) 0) :: nat OV5640_Object_t"
  have io: "IO ?p = stub_io (- 1) 0" by simp
  have fail: "(- 1 :: i32) \<noteq> OV5640_OK example_h" and ok: "OV5640_OK example_h \<noteq> OV5640_ERROR example_h"
    by (simp_all add: example_h_simps)
  have a: "OV5640_OutSize_Set example_h ?p 4 0 800 480 (world0 0) =
     (OV5640_ERROR example_h,
      \<lparr>bus = 0,
       log = [BusWrite 0x78 0x3212 0x03,
              BusWrite 0x78 0x3808 0x03, BusWrite 0x78 0x3809 0x20,
              BusWrite 0x78 0x380A 0x01, BusWrite 0x78 0x380B 0xE0,
              BusWrite 0x78 0x3810 0x00, BusWrite 0x78 0x3811 0x04,
              BusWrite 0x78 0x3812 0x00, BusWrite 0x78 0x3813 0x00,
              BusWrite 0x78 0x3212 0x13, BusWrite 0x78 0x3212 0xA3]\<rparr>)"
    using fail
    by (simp add: OV5640_OutSize_Set_def OutSize_datas_def stub_write [OF io]
        world0_def drop_bit_eq_div)
  have "length OV5640_jpeg_reg_tbl = 41"
    by (simp add: OV5640_jpeg_reg_tbl_def)
  then have b: "count_writes (log (snd (OV5640_JPEG_Mode example_h ?p (world0 0)))) = 41"
    by (simp add: OV5640_JPEG_Mode_def write_tbl_all_log table_writes_def count_writes_def
        world0_def comp_def)
  have hvals: "OV5640_R800x480 example_h = 4" "OV5640_R160x120 example_h = 0"
    "OV5640_R320x240 example_h = 1" "OV5640_R480x272 example_h = 2" "OV5640_R640x480 example_h = 3"
    by (simp_all add: example_h_def)
  have wvga: "OV5640_WVGA example_h = [(0x3808, 0x03), (0x3809, 0x20), (0x380A, 0x01), (0x380B, 0xE0)]"
    by (simp add: OV5640_WVGA_def example_h_def example_regs_def)
  have c: "OV5640_SetResolution example_h ?p 4 (world0 0) =
       (OV5640_ERROR example_h, \<lparr>bus = 0, log = [BusWrite 0x78 0x3808 0x03]\<rparr>)"
    using fail ok
    by (simp add: OV5640_SetResolution_def hvals wvga stub_write [OF io]
        write_tbl_guarded_after_error world0_def)
  obtain rest where dvp: "EnableDVPMode_regs example_h = (0x3017, 0xFF) # rest"
    by (simp add: EnableDVPMode_regs_def example_h_def example_regs_def)
  have d: "OV5640_EnableDVPMode example_h ?p (world0 0) =
       (OV5640_ERROR example_h, \<lparr>bus = 0, log = [BusWrite 0x78 0x3017 0xFF]\<rparr>)"
    using fail by (simp add: OV5640_EnableDVPMode_def dvp stub_write [OF io] world0_def)
  from a b c d show ?thesis by blast
qed

section \<open>Non-blocking autofocus commands never report a failure\<close>

text \<open>
  C10. \<^verbatim>\<open>OV5640_Focus_Send_Single\<close>, \<^verbatim>\<open>OV5640_Focus_Send_Constant_IDLE\<close> and
  \<^verbatim>\<open>OV5640_Focus_Send_Constant_Focus\<close> return \<^verbatim>\<open>OV5640_OK\<close> whatever the bus (any handle, any
  bus state, any \<open>WriteReg\<close> function and so any status of the trigger writes).
\<close>

theorem Focus_Send_always_OK:
  "fst (OV5640_Focus_Send_Single H pObj w) = OV5640_OK H
   \<and> fst (OV5640_Focus_Send_Constant_IDLE H pObj w) = OV5640_OK H
   \<and> fst (OV5640_Focus_Send_Constant_Focus H pObj w) = OV5640_OK H"
  by (simp add: OV5640_Focus_Send_Single_def OV5640_Focus_Send_Constant_IDLE_def
      OV5640_Focus_Send_Constant_Focus_def split: prod.splits)

end
